(* ===== verification/C_Prelude.thy ===== *)
theory C_Prelude
  imports Complex_Main "HOL-Library.Word"
begin

text \<open>
  The part of C and of its standard library that the components share: machine words, results
  with undefined behaviour as a value, NUL-terminated strings and their comparison, number
  scanning (\<open>strtol\<close>, \<open>atoi\<close>), number printing (the \<open>printf\<close> conversions the sources use),
  and the idiom of a chain of \<open>snprintf\<close> calls into one bounded buffer.

  A C string is a \<^typ>\<open>string\<close> that holds the characters before the terminating NUL; a raw
  character buffer is a \<^typ>\<open>string\<close> of the buffer's size. The collections declared here
  carry the component proofs.
\<close>

unbundle bit_operations_syntax

named_theorems cstring_simps "equations of the C string functions"
named_theorems writer_simps "facts about snprintf chains"

section \<open>Machine types\<close>

type_synonym u8 = "8 word"
type_synonym u16 = "16 word"
type_synonym u32 = "32 word"
type_synonym u64 = "64 word"

text \<open>
  What a C function may do beyond returning: run into something the C standard leaves undefined, or
  wait for an event that never comes. Both are values of the model.
\<close>

datatype ub =
    Out_Of_Bounds
  | Null_Deref
  | Uninitialised
  | Bad_Cast

datatype 'a outcome = Done 'a | Undef ub | Blocked

definition bindC :: "'a outcome \<Rightarrow> ('a \<Rightarrow> 'b outcome) \<Rightarrow> 'b outcome" where
  "bindC m f = (case m of Done x \<Rightarrow> f x | Undef e \<Rightarrow> Undef e | Blocked \<Rightarrow> Blocked)"

lemma bindC_simps [simp]:
  "bindC (Done x) f = f x" "bindC (Undef e) f = Undef e" "bindC Blocked f = Blocked"
  by (simp_all add: bindC_def)

lemma bindC_Done_iff: "bindC m f = Done y \<longleftrightarrow> (\<exists>x. m = Done x \<and> f x = Done y)"
  by (cases m) simp_all

text \<open>
  A run is safe for a postcondition when it has no undefined behaviour and every value it returns
  satisfies the postcondition. A run that waits for ever is safe.
\<close>

definition safe :: "('a \<Rightarrow> bool) \<Rightarrow> 'a outcome \<Rightarrow> bool" where
  "safe Q m = (case m of Done x \<Rightarrow> Q x | Undef e \<Rightarrow> False | Blocked \<Rightarrow> True)"

lemma safe_simps [simp]: "safe Q (Done x) = Q x" "\<not> safe Q (Undef e)" "safe Q Blocked"
  by (simp_all add: safe_def)

lemma safe_iff: "safe Q m \<longleftrightarrow> (\<forall>u. m \<noteq> Undef u) \<and> (\<forall>x. m = Done x \<longrightarrow> Q x)"
  by (cases m) auto

lemma safe_bind: "safe (\<lambda>x. safe Q (f x)) m \<Longrightarrow> safe Q (bindC m f)"
  by (cases m) auto

lemma safe_mono: "safe P m \<Longrightarrow> (\<And>x. P x \<Longrightarrow> Q x) \<Longrightarrow> safe Q m"
  by (cases m) auto

lemma safe_bindI: "safe P m \<Longrightarrow> (\<And>x. P x \<Longrightarrow> safe Q (f x)) \<Longrightarrow> safe Q (bindC m f)"
  by (cases m) auto

text \<open>Signed division of C truncates towards zero.\<close>

definition c_div :: "int \<Rightarrow> int \<Rightarrow> int" where
  "c_div a b = sgn a * sgn b * (\<bar>a\<bar> div \<bar>b\<bar>)"

text \<open>Conversion of an unbounded value to a 32-bit \<open>int\<close> keeps the low 32 bits.\<close>

definition to_int32 :: "int \<Rightarrow> int" where
  "to_int32 v = sint (word_of_int v :: u32)"

lemma to_int32_id: "- (2 ^ 31) \<le> v \<Longrightarrow> v < 2 ^ 31 \<Longrightarrow> to_int32 v = v"
  by (simp add: to_int32_def int_word_sint signed_take_bit_int_eq_self)

lemma to_int32_range: "- (2 ^ 31) \<le> to_int32 v \<and> to_int32 v < 2 ^ 31"
  using sint_ge [of "word_of_int v :: u32"] sint_lt [of "word_of_int v :: u32"]
  by (simp add: to_int32_def)

section \<open>Characters and comparison\<close>

definition char_val :: "char \<Rightarrow> int" where
  "char_val c = of_char c"

lemma char_val_eq_iff [simp]: "char_val a = char_val b \<longleftrightarrow> a = b"
  by (simp add: char_val_def)

definition tolower_val :: "char \<Rightarrow> int" where
  "tolower_val c = (let v = char_val c in if 65 \<le> v \<and> v \<le> 90 then v + 32 else v)"

definition cstr :: "string \<Rightarrow> bool" where
  "cstr s \<longleftrightarrow> CHR 0x00 \<notin> set s"

lemma char_val_0_iff: "char_val c = 0 \<longleftrightarrow> c = CHR 0x00"
proof -
  have "char_val (CHR 0x00) = 0" by (simp add: char_val_def)
  then show ?thesis using char_val_eq_iff [of c "CHR 0x00"] by simp
qed

lemma tolower_val_0_iff: "tolower_val c = 0 \<longleftrightarrow> c = CHR 0x00"
  using char_val_0_iff [of c] by (auto simp: tolower_val_def Let_def)

text \<open>
  \<open>strncmp\<close> and \<open>strncasecmp\<close>: the difference of the first pair of characters that differ
  among the first \<open>n\<close>, a terminating NUL counting as the value 0.
\<close>

fun strn_diff :: "(char \<Rightarrow> int) \<Rightarrow> string \<Rightarrow> string \<Rightarrow> nat \<Rightarrow> int" where
  "strn_diff f s t 0 = 0"
| "strn_diff f [] [] (Suc n) = 0"
| "strn_diff f [] (b # t) (Suc n) = - f b"
| "strn_diff f (a # s) [] (Suc n) = f a"
| "strn_diff f (a # s) (b # t) (Suc n) = (if f a = f b then strn_diff f s t n else f a - f b)"

lemma strn_diff_numeral [simp]:
  "strn_diff f [] [] (numeral k) = 0"
  "strn_diff f [] (b # t) (numeral k) = - f b"
  "strn_diff f (a # s) [] (numeral k) = f a"
  "strn_diff f (a # s) (b # t) (numeral k) =
     (if f a = f b then strn_diff f s t (pred_numeral k) else f a - f b)"
  by (simp_all add: numeral_eq_Suc)

definition os_strncmp :: "string \<Rightarrow> string \<Rightarrow> nat \<Rightarrow> int" where
  "os_strncmp s t n = strn_diff char_val s t n"

definition os_strncasecmp :: "string \<Rightarrow> string \<Rightarrow> nat \<Rightarrow> int" where
  "os_strncasecmp s t n = strn_diff tolower_val s t n"

text \<open>The unbounded comparisons run to the end of the longer string.\<close>

definition os_strcmp :: "string \<Rightarrow> string \<Rightarrow> int" where
  "os_strcmp s t = strn_diff char_val s t (max (length s) (length t))"

definition os_strcasecmp :: "string \<Rightarrow> string \<Rightarrow> int" where
  "os_strcasecmp s t = strn_diff tolower_val s t (max (length s) (length t))"

lemma strn_diff_0_iff:
  assumes "\<And>c. f c = 0 \<longleftrightarrow> c = CHR 0x00" "cstr s" "cstr t"
  shows "strn_diff f s t n = 0 \<longleftrightarrow> map f (take n s) = map f (take n t)"
  using assms(2,3)
proof (induction n arbitrary: s t)
  case (Suc n)
  then show ?case
    by (cases s; cases t) (auto simp: cstr_def assms(1))
qed simp

lemma os_strncmp_0_iff [cstring_simps]:
  assumes "cstr s" "cstr t"
  shows "os_strncmp s t n = 0 \<longleftrightarrow> take n s = take n t"
proof -
  have "inj char_val" by (rule injI) simp
  then have "map char_val (take n s) = map char_val (take n t) \<longleftrightarrow> take n s = take n t"
    by (rule inj_map_eq_map)
  then show ?thesis
    using strn_diff_0_iff [of char_val s t n, OF char_val_0_iff assms]
    by (simp only: os_strncmp_def)
qed

lemma os_strncasecmp_0_iff [cstring_simps]:
  assumes "cstr s" "cstr t"
  shows "os_strncasecmp s t n = 0 \<longleftrightarrow> map tolower_val (take n s) = map tolower_val (take n t)"
  using strn_diff_0_iff [of tolower_val s t n, OF tolower_val_0_iff assms]
  by (simp only: os_strncasecmp_def)

lemma os_strcmp_0_iff [cstring_simps]:
  assumes "cstr s" "cstr t"
  shows "os_strcmp s t = 0 \<longleftrightarrow> s = t"
  using os_strncmp_0_iff [OF assms, of "max (length s) (length t)"]
  by (simp add: os_strncmp_def os_strcmp_def)

section \<open>Scanning numbers\<close>

definition isspace :: "char \<Rightarrow> bool" where
  "isspace c \<longleftrightarrow> (let v = char_val c in v = 32 \<or> (9 \<le> v \<and> v \<le> 13))"

fun skip_space :: "string \<Rightarrow> string" where
  "skip_space [] = []"
| "skip_space (c # s) = (if isspace c then skip_space s else c # s)"

definition digit_val :: "char \<Rightarrow> nat option" where
  "digit_val c = (let v = char_val c in
     if 48 \<le> v \<and> v \<le> 57 then Some (nat (v - 48))
     else if 97 \<le> v \<and> v \<le> 122 then Some (nat (v - 87))
     else if 65 \<le> v \<and> v \<le> 90 then Some (nat (v - 55))
     else None)"

definition is_digit_in :: "nat \<Rightarrow> char \<Rightarrow> bool" where
  "is_digit_in b c = (case digit_val c of None \<Rightarrow> False | Some d \<Rightarrow> d < b)"

text \<open>The longest run of digits, accumulated, and what follows it.\<close>

fun scan_digits :: "nat \<Rightarrow> nat \<Rightarrow> string \<Rightarrow> nat \<times> string" where
  "scan_digits b acc [] = (acc, [])"
| "scan_digits b acc (c # s) =
     (if is_digit_in b c then scan_digits b (acc * b + the (digit_val c)) s else (acc, c # s))"

fun scan_sign :: "string \<Rightarrow> bool \<times> string" where
  "scan_sign [] = (False, [])"
| "scan_sign (c # s) =
     (if c = CHR ''-'' then (True, s) else if c = CHR ''+'' then (False, s) else (False, c # s))"

text \<open>Base 0 reads the base from a \<open>0x\<close> or \<open>0\<close> prefix.\<close>

fun scan_base :: "nat \<Rightarrow> string \<Rightarrow> nat \<times> string" where
  "scan_base b s =
     (if b \<noteq> 0 then (b, s)
      else if take 1 s \<noteq> ''0'' then (10, s)
      else (case drop 1 s of
              x # d # r \<Rightarrow> if (x = CHR ''x'' \<or> x = CHR ''X'') \<and> is_digit_in 16 d then (16, d # r) else (8, s)
            | _ \<Rightarrow> (8, s)))"

definition clamp_long :: "nat \<Rightarrow> int \<Rightarrow> int" where
  "clamp_long bits v = max (- (2 ^ (bits - 1))) (min (2 ^ (bits - 1) - 1) v)"

text \<open>
  \<open>strtol(s, &endp, base)\<close>: the value, clamped to the range of a \<open>long\<close> of the given width, and
  the rest of the string that \<open>endp\<close> points at. With no digit, \<open>endp\<close> is \<open>s\<close> itself.
\<close>

definition strtol :: "nat \<Rightarrow> nat \<Rightarrow> string \<Rightarrow> int \<times> string" where
  "strtol bits base s =
     (let (neg, s1) = scan_sign (skip_space s);
          (b, s2) = scan_base base s1
      in case s2 of
           [] \<Rightarrow> (0, s)
         | c # _ \<Rightarrow>
             (if is_digit_in b c
              then (let (n, r) = scan_digits b 0 s2
                    in (clamp_long bits (if neg then - int n else int n), r))
              else (0, s)))"

text \<open>\<open>atoi(s)\<close> is \<open>(int)strtol(s, NULL, 10)\<close>.\<close>

definition atoi :: "nat \<Rightarrow> string \<Rightarrow> int" where
  "atoi bits s = to_int32 (fst (strtol bits 10 s))"

section \<open>Printing numbers\<close>

definition digit_char :: "bool \<Rightarrow> nat \<Rightarrow> char" where
  "digit_char up d = (if up then ''0123456789ABCDEF'' else ''0123456789abcdef'') ! d"

fun num_str :: "nat \<Rightarrow> bool \<Rightarrow> nat \<Rightarrow> string" where
  "num_str b up n =
     (if b < 2 \<or> n < b then [digit_char up n]
      else num_str b up (n div b) @ [digit_char up (n mod b)])"

declare num_str.simps [simp del]

definition pad0 :: "nat \<Rightarrow> string \<Rightarrow> string" where
  "pad0 w s = replicate (w - length s) CHR ''0'' @ s"

text \<open>The conversions \<open>%d\<close>, \<open>%u\<close> (and \<open>%llu\<close>), \<open>%02x\<close>, \<open>%02X\<close>, \<open>%08X\<close> and \<open>%.1f\<close>.\<close>

definition fmt_d :: "int \<Rightarrow> string" where
  "fmt_d v = (if v < 0 then CHR ''-'' # num_str 10 False (nat (- v)) else num_str 10 False (nat v))"

definition fmt_u :: "nat \<Rightarrow> string" where
  "fmt_u n = num_str 10 False n"

definition fmt_02x :: "u8 \<Rightarrow> string" where
  "fmt_02x w = pad0 2 (num_str 16 False (unat w))"

definition fmt_02X :: "u8 \<Rightarrow> string" where
  "fmt_02X w = pad0 2 (num_str 16 True (unat w))"

definition fmt_08X :: "u32 \<Rightarrow> string" where
  "fmt_08X w = pad0 8 (num_str 16 True (unat w))"

text \<open>\<open>%.1f\<close> rounds to the nearest tenth, ties to the even digit.\<close>

definition round_even :: "rat \<Rightarrow> int" where
  "round_even x = (let f = \<lfloor>x\<rfloor>; d = x - of_int f in
     if d < 1 / 2 then f else if d > 1 / 2 then f + 1 else if even f then f else f + 1)"

definition fmt_f1 :: "rat \<Rightarrow> string" where
  "fmt_f1 x = (let t = nat (round_even (\<bar>x\<bar> * 10)) in
     (if x < 0 then ''-'' else []) @ fmt_u (t div 10) @ ''.'' @ fmt_u (t mod 10))"

definition MACSTR :: "u8 list \<Rightarrow> string" where
  "MACSTR a = concat (map (\<lambda>i. (if i = 0 then [] else '':'') @ fmt_02x (a ! i)) [0..<6])"

subsection \<open>What is printed reads back\<close>

lemma digit_val_digit_char: "d < 16 \<Longrightarrow> digit_val (digit_char up d) = Some d"
proof -
  assume "d < 16"
  then have "d \<in> set [0..<16]" by simp
  moreover have "\<forall>d\<in>set [0..<16]. digit_val (digit_char True d) = Some d"
    and "\<forall>d\<in>set [0..<16]. digit_val (digit_char False d) = Some d"
    by code_simp+
  ultimately show ?thesis by (cases up) simp_all
qed

lemma is_digit_in_digit_char: "d < b \<Longrightarrow> b \<le> 16 \<Longrightarrow> is_digit_in b (digit_char up d)"
  by (simp add: is_digit_in_def digit_val_digit_char)

definition no_digit_first :: "nat \<Rightarrow> string \<Rightarrow> bool" where
  "no_digit_first b r = (case r of [] \<Rightarrow> True | c # _ \<Rightarrow> \<not> is_digit_in b c)"

lemma scan_digits_stop: "no_digit_first b r \<Longrightarrow> scan_digits b acc r = (acc, r)"
  by (cases r) (simp_all add: no_digit_first_def)

lemma scan_digits_num_str:
  assumes "2 \<le> b" "b \<le> 16"
  shows "scan_digits b acc (num_str b up n @ r) =
    scan_digits b (acc * b ^ length (num_str b up n) + n) r"
proof (induction n arbitrary: acc r rule: less_induct)
  case (less n)
  show ?case
  proof (cases "n < b")
    case True
    then have "num_str b up n = [digit_char up n]" by (simp add: num_str.simps)
    then show ?thesis
      using True assms by (simp add: is_digit_in_digit_char digit_val_digit_char)
  next
    case False
    then have eq: "num_str b up n = num_str b up (n div b) @ [digit_char up (n mod b)]"
      using assms by (simp add: num_str.simps)
    have lt: "n div b < n" "n mod b < b" using False assms by (simp_all add: div_less_dividend)
    then have "digit_val (digit_char up (n mod b)) = Some (n mod b)"
      using assms by (intro digit_val_digit_char) linarith
    moreover have "(acc * b ^ k + n div b) * b + n mod b = acc * b ^ Suc k + n" for k
      by (simp add: algebra_simps)
    ultimately show ?thesis
      using assms less [of "n div b"] lt by (simp add: eq is_digit_in_digit_char del: power_Suc)
  qed
qed

lemma num_str_hd_digit:
  assumes "2 \<le> b" "b \<le> 16"
  shows "\<exists>c s. num_str b up n = c # s \<and> is_digit_in b c"
proof (induction n rule: less_induct)
  case (less n)
  show ?case
  proof (cases "n < b")
    case True
    then show ?thesis using assms by (simp add: num_str.simps [of b up n] is_digit_in_digit_char)
  next
    case False
    then have "n div b < n" using assms by (simp add: div_less_dividend)
    then show ?thesis using less [of "n div b"] False assms by (auto simp: num_str.simps [of b up n])
  qed
qed

lemma digit_not_blank_or_sign:
  "is_digit_in b c \<Longrightarrow> \<not> isspace c \<and> c \<noteq> CHR ''-'' \<and> c \<noteq> CHR ''+''"
  by (auto simp: is_digit_in_def digit_val_def isspace_def Let_def char_val_def split: if_splits)

lemma strtol_num_str:
  assumes "2 \<le> b" "b \<le> 16" "no_digit_first b r"
  shows "strtol bits b (num_str b up n @ r) = (clamp_long bits (int n), r)"
    and "strtol bits b (CHR ''-'' # num_str b up n @ r) = (clamp_long bits (- int n), r)"
proof -
  have scan: "scan_digits b 0 (num_str b up n @ r) = (n, r)"
    using scan_digits_num_str [OF assms(1,2)] scan_digits_stop [OF assms(3)] by simp
  have minus: "\<not> isspace CHR ''-''" by (simp add: isspace_def char_val_def)
  obtain c s where cs: "num_str b up n = c # s" "is_digit_in b c"
    using num_str_hd_digit [OF assms(1,2)] by blast
  show "strtol bits b (num_str b up n @ r) = (clamp_long bits (int n), r)"
    using scan cs assms digit_not_blank_or_sign [OF cs(2)] by (simp add: strtol_def)
  show "strtol bits b (CHR ''-'' # num_str b up n @ r) = (clamp_long bits (- int n), r)"
    using scan cs minus assms by (simp add: strtol_def)
qed

lemma clamp_long_id:
  "1 \<le> k \<Longrightarrow> k \<le> bits \<Longrightarrow> - (2 ^ (k - 1)) \<le> v \<Longrightarrow> v < 2 ^ (k - 1) \<Longrightarrow> clamp_long bits v = v"
proof -
  assume a: "1 \<le> k" "k \<le> bits" "- (2 ^ (k - 1)) \<le> v" "v < 2 ^ (k - 1)"
  have "(2::int) ^ (k - 1) \<le> 2 ^ (bits - 1)"
    using a by (intro power_increasing) auto
  then have "- (2 ^ (bits - 1)) \<le> v" "v \<le> 2 ^ (bits - 1) - 1" using a by linarith+
  then show ?thesis by (simp only: clamp_long_def min_absorb2 max_absorb2)
qed

lemma atoi_fmt_d:
  assumes "- (2 ^ 31) \<le> v" "v < 2 ^ 31" "32 \<le> bits" "no_digit_first 10 r"
  shows "atoi bits (fmt_d v @ r) = v"
proof -
  have "fst (strtol bits 10 (fmt_d v @ r)) = clamp_long bits v"
    using strtol_num_str [of 10 r bits False "nat (- v)"] strtol_num_str [of 10 r bits False "nat v"]
      assms(4) by (auto simp: fmt_d_def)
  moreover have "clamp_long bits v = v"
    using clamp_long_id [of 32 bits v] assms by simp
  ultimately show ?thesis
    using assms by (simp add: atoi_def to_int32_id)
qed

lemma length_num_str: "2 \<le> b \<Longrightarrow> 1 \<le> k \<Longrightarrow> n < b ^ k \<Longrightarrow> length (num_str b up n) \<le> k"
proof (induction k arbitrary: n)
  case (Suc k)
  show ?case
  proof (cases "n < b")
    case True
    then show ?thesis by (simp add: num_str.simps)
  next
    case False
    with Suc.prems have "k \<noteq> 0" by (cases k) auto
    moreover have "n div b < b ^ k" using Suc.prems by (simp add: less_mult_imp_div_less mult.commute)
    ultimately have "length (num_str b up (n div b)) \<le> k" using Suc by simp
    then show ?thesis using False Suc.prems by (simp add: num_str.simps [of b up n])
  qed
qed simp

lemma length_pad0: "length s \<le> w \<Longrightarrow> length (pad0 w s) = w"
  by (simp add: pad0_def)

lemma length_fmt_02X [simp]: "length (fmt_02X w) = 2" and length_fmt_02x [simp]: "length (fmt_02x w) = 2"
  using unsigned_less [of w, where 'a = nat]
  by (simp_all add: fmt_02X_def fmt_02x_def length_pad0 length_num_str)

lemma length_fmt_08X [simp]: "length (fmt_08X w) = 8"
  using unsigned_less [of w, where 'a = nat] by (simp add: fmt_08X_def length_pad0 length_num_str)

lemma length_MACSTR [simp]: "length (MACSTR a) = 17"
  by (simp add: MACSTR_def upt_rec)

section \<open>Chains of snprintf calls\<close>

text \<open>
  \<open>snprintf(buf + off, room, ...)\<close> on the raw buffer: at most \<open>room - 1\<close> characters and a NUL are
  stored, and the length of the whole text is returned.
\<close>

definition write_at :: "'a list \<Rightarrow> nat \<Rightarrow> 'a list \<Rightarrow> 'a list" where
  "write_at buf off xs = take off buf @ xs @ drop (off + length xs) buf"

definition snprintf :: "string \<Rightarrow> nat \<Rightarrow> nat \<Rightarrow> string \<Rightarrow> string \<times> int" where
  "snprintf buf off room s =
     ((if room = 0 then buf else write_at buf off (take (room - 1) s @ [CHR 0x00])), int (length s))"

text \<open>
  The idiom \<open>ret = snprintf(pos, end - pos, ...); if (ret < 0 || ret >= end - pos) return ...;
  pos += ret;\<close> as one step, and a sequence of such steps. The flag says that every step went through.
\<close>

record writer =
  w_buf :: string
  w_pos :: nat

definition wr_chunk :: "nat \<Rightarrow> string \<Rightarrow> writer \<Rightarrow> bool \<times> writer" where
  "wr_chunk fin s w =
     (let (b, ret) = snprintf (w_buf w) (w_pos w) (fin - w_pos w) s
      in if ret < 0 \<or> int fin - int (w_pos w) \<le> ret then (False, w\<lparr>w_buf := b\<rparr>)
         else (True, w\<lparr>w_buf := b, w_pos := w_pos w + nat ret\<rparr>))"

fun wr_chunks :: "nat \<Rightarrow> string list \<Rightarrow> writer \<Rightarrow> bool \<times> writer" where
  "wr_chunks fin [] w = (True, w)"
| "wr_chunks fin (c # cs) w =
     (case wr_chunk fin c w of (ok, w') \<Rightarrow> if ok then wr_chunks fin cs w' else (False, w'))"

lemma length_write_at: "off + length xs \<le> length buf \<Longrightarrow> length (write_at buf off xs) = length buf"
  by (simp add: write_at_def)

lemma drop_write_at: "off + length xs \<le> k \<Longrightarrow> off \<le> length buf \<Longrightarrow> drop k (write_at buf off xs) = drop k buf"
  by (simp add: write_at_def)

lemma take_write_at: "k \<le> off \<Longrightarrow> off \<le> length buf \<Longrightarrow> take k (write_at buf off xs) = take k buf"
  by (simp add: write_at_def)

definition wr_inv :: "nat \<Rightarrow> writer \<Rightarrow> bool" where
  "wr_inv fin w \<longleftrightarrow> fin \<le> length (w_buf w) \<and> w_pos w \<le> fin"

lemma wr_chunk_ok:
  assumes "wr_inv fin w" "w_pos w + length s < fin"
  shows "wr_chunk fin s w = (True, \<lparr>w_buf = write_at (w_buf w) (w_pos w) (s @ [CHR 0x00]), w_pos = w_pos w + length s\<rparr>)"
  using assms by (cases w) (simp add: wr_chunk_def snprintf_def wr_inv_def)

lemma wr_chunk_full:
  assumes "wr_inv fin w" "fin \<le> w_pos w + length s"
  shows "fst (wr_chunk fin s w) = False" "w_pos (snd (wr_chunk fin s w)) = w_pos w"
  using assms by (simp_all add: wr_chunk_def snprintf_def wr_inv_def)

lemma wr_chunk_safe:
  assumes "wr_inv fin w" "wr_chunk fin s w = (ok, w')"
  shows "wr_inv fin w'" "length (w_buf w') = length (w_buf w)"
    "drop fin (w_buf w') = drop fin (w_buf w)" "take (w_pos w) (w_buf w') = take (w_pos w) (w_buf w)"
    "w_pos w \<le> w_pos w'"
  using assms
  by (auto simp: wr_chunk_def snprintf_def wr_inv_def length_write_at drop_write_at take_write_at
      split: if_splits)

lemma wr_chunks_safe:
  assumes "wr_inv fin w" "wr_chunks fin cs w = (ok, w')"
  shows "wr_inv fin w' \<and> length (w_buf w') = length (w_buf w) \<and>
    drop fin (w_buf w') = drop fin (w_buf w) \<and> w_pos w \<le> w_pos w'"
  using assms
proof (induction cs arbitrary: w)
  case (Cons c cs)
  obtain ok1 w1 where step: "wr_chunk fin c w = (ok1, w1)" by fastforce
  note safe = wr_chunk_safe [OF Cons.prems(1) step]
  show ?case
  proof (cases ok1)
    case True
    then have "wr_chunks fin cs w1 = (ok, w')" using Cons.prems(2) step by simp
    from Cons.IH [OF safe(1) this] show ?thesis using safe by simp
  next
    case False
    then show ?thesis using Cons.prems(2) step safe by simp
  qed
qed simp

lemma take_write_at_end:
  assumes "off + length s < length buf"
  shows "take (off + length s) (write_at buf off (s @ [c])) = take off buf @ s"
    and "write_at buf off (s @ [c]) ! (off + length s) = c"
  using assms by (simp_all add: write_at_def nth_append)

lemma wr_chunks_fits:
  assumes "wr_inv fin w" "w_pos w + length (concat cs) < fin"
  shows "\<exists>w'. wr_chunks fin cs w = (True, w') \<and> w_pos w' = w_pos w + length (concat cs) \<and>
    take (w_pos w') (w_buf w') = take (w_pos w) (w_buf w) @ concat cs \<and>
    (cs \<noteq> [] \<longrightarrow> w_buf w' ! w_pos w' = CHR 0x00)"
  using assms
proof (induction cs arbitrary: w)
  case (Cons c cs)
  let ?w1 = "\<lparr>w_buf = write_at (w_buf w) (w_pos w) (c @ [CHR 0x00]), w_pos = w_pos w + length c\<rparr>"
  have step: "wr_chunk fin c w = (True, ?w1)" using Cons.prems by (intro wr_chunk_ok) simp_all
  have inv: "wr_inv fin ?w1" using wr_chunk_safe(1) [OF Cons.prems(1) step] .
  have room: "w_pos w + length c < length (w_buf w)" using Cons.prems by (simp add: wr_inv_def)
  obtain w' where w': "wr_chunks fin cs ?w1 = (True, w')"
    "w_pos w' = w_pos w + length c + length (concat cs)"
    "take (w_pos w') (w_buf w') = take (w_pos w + length c) (w_buf ?w1) @ concat cs"
    "cs \<noteq> [] \<longrightarrow> w_buf w' ! w_pos w' = CHR 0x00"
    using Cons.IH [OF inv] Cons.prems(2) by auto
  have "w_buf w' ! w_pos w' = CHR 0x00"
    using w' take_write_at_end(2) [OF room] by (cases cs) auto
  then show ?case
    using w' step take_write_at_end(1) [OF room] by simp
qed simp

lemma wr_chunks_full:
  assumes "wr_inv fin w" "fin \<le> w_pos w + length (concat cs)" "cs \<noteq> []"
  shows "\<exists>k<length cs. fst (wr_chunks fin cs w) = False \<and>
    w_pos (snd (wr_chunks fin cs w)) = w_pos w + length (concat (take k cs)) \<and>
    fin \<le> w_pos w + length (concat (take (Suc k) cs))"
  using assms
proof (induction cs arbitrary: w)
  case (Cons c cs)
  show ?case
  proof (cases "w_pos w + length c < fin")
    case True
    let ?w1 = "\<lparr>w_buf = write_at (w_buf w) (w_pos w) (c @ [CHR 0x00]), w_pos = w_pos w + length c\<rparr>"
    have step: "wr_chunk fin c w = (True, ?w1)" using Cons.prems True by (intro wr_chunk_ok) simp_all
    have inv: "wr_inv fin ?w1" using wr_chunk_safe(1) [OF Cons.prems(1) step] .
    have ne: "cs \<noteq> []" using True Cons.prems(2) by auto
    obtain k where "k < length cs" "fst (wr_chunks fin cs ?w1) = False"
      "w_pos (snd (wr_chunks fin cs ?w1)) = w_pos w + length c + length (concat (take k cs))"
      "fin \<le> w_pos w + length c + length (concat (take (Suc k) cs))"
      using Cons.IH [OF inv _ ne] Cons.prems(2) by auto
    then show ?thesis using step by (intro exI [of _ "Suc k"]) simp
  next
    case False
    then show ?thesis
      using wr_chunk_full [OF Cons.prems(1), of c] by (intro exI [of _ 0]) (auto split: prod.splits)
  qed
qed simp

text \<open>
  A function that prints a report this way: the chunks it prints, and what it returns when a chunk
  does not fit (given the position reached). The facts below are proved once for all such printers.
\<close>

locale snprintf_report =
  fixes chunks :: "'a \<Rightarrow> string list"
    and on_full :: "nat \<Rightarrow> int"
    and report :: "'a \<Rightarrow> string \<Rightarrow> int \<times> string"
  assumes report_eq: "report x buf =
      (case wr_chunks (length buf) (chunks x) \<lparr>w_buf = buf, w_pos = 0\<rparr> of
         (ok, w) \<Rightarrow> (if ok then int (w_pos w) else on_full (w_pos w), w_buf w))"
    and chunks_ne: "chunks x \<noteq> []"
    and on_full_bounds: "0 \<le> on_full p \<and> on_full p \<le> int p"
begin

lemma start_inv: "wr_inv (length buf) \<lparr>w_buf = buf, w_pos = 0\<rparr>"
  by (simp add: wr_inv_def)

lemma report_length: "length (snd (report x buf)) = length buf"
  using wr_chunks_safe [OF start_inv] by (auto simp: report_eq split: prod.splits)

lemma report_fits:
  assumes "length (concat (chunks x)) < length buf"
  shows "fst (report x buf) = int (length (concat (chunks x)))"
    and "take (length (concat (chunks x))) (snd (report x buf)) = concat (chunks x)"
    and "snd (report x buf) ! length (concat (chunks x)) = CHR 0x00"
  using wr_chunks_fits [OF start_inv [of buf], of "chunks x"] assms chunks_ne
  by (auto simp: report_eq)

lemma report_full:
  assumes "length buf \<le> length (concat (chunks x))"
  shows "\<exists>k<length (chunks x). fst (report x buf) = on_full (length (concat (take k (chunks x)))) \<and>
    length buf \<le> length (concat (take (Suc k) (chunks x)))"
  using wr_chunks_full [OF start_inv [of buf], of "chunks x"] assms chunks_ne
  by (auto simp: report_eq split: prod.splits)

lemma report_bounds: "0 \<le> fst (report x buf) \<and> fst (report x buf) \<le> int (length buf)"
proof -
  obtain ok w where w: "wr_chunks (length buf) (chunks x) \<lparr>w_buf = buf, w_pos = 0\<rparr> = (ok, w)"
    by fastforce
  have "w_pos w \<le> length buf" using wr_chunks_safe [OF start_inv w] by (simp add: wr_inv_def)
  then show ?thesis using on_full_bounds [of "w_pos w"] w by (simp add: report_eq)
qed

end

lemma length_fmt_d: "- (10 ^ k) < v \<Longrightarrow> v < 10 ^ k \<Longrightarrow> 1 \<le> k \<Longrightarrow> length (fmt_d v) \<le> (if v < 0 then Suc k else k)"
proof -
  assume a: "- (10 ^ k) < v" "v < 10 ^ k" "1 \<le> k"
  have "nat \<bar>v\<bar> < 10 ^ k" using a by (simp add: nat_less_iff abs_less_iff)
  then show ?thesis
    using length_num_str [of 10 k "nat \<bar>v\<bar>" False] a by (auto simp: fmt_d_def abs_if)
qed

lemma fmt_d_ne: "fmt_d v \<noteq> []"
proof -
  have "num_str 10 up n \<noteq> []" for up n by (subst num_str.simps) simp
  then show ?thesis by (simp add: fmt_d_def)
qed

section \<open>Text lines\<close>

text \<open>The lines of a text; a last line without a line feed counts when it is not empty.\<close>

abbreviation (input) NL :: char where "NL \<equiv> CHR 0x0A"

fun lines_of :: "string \<Rightarrow> string list" where
  "lines_of [] = []"
| "lines_of (c # cs) =
     (if c = NL then [] # lines_of cs
      else case lines_of cs of [] \<Rightarrow> [[c]] | l # ls \<Rightarrow> (c # l) # ls)"

lemma lines_of_line: "NL \<notin> set l \<Longrightarrow> lines_of (l @ NL # r) = l # lines_of r"
  by (induction l) auto

lemma concat_lines:
  "list_all (\<lambda>l. NL \<notin> set l) ls \<Longrightarrow> lines_of (concat (map (\<lambda>l. l @ [NL]) ls)) = ls"
  by (induction ls) (simp_all add: lines_of_line)

end
