(* ===== verification/Mtk_Types.thy ===== *)
theory Mtk_Types
  imports C_Prelude
begin

text \<open>
  The data of the MediaTek nl80211 extension, from \<open>mediatek_driver_nl80211.h\<close>: the attribute and
  command enumerations, the statistics the driver reports, the parameter structures a test mode
  command carries, their C layout and the bytes they are sent as, and the build configuration
  (the \<open>CONFIG_\<close> and \<open>MTK_\<close> macros of the sources, the width of a pointer and of a \<open>long\<close>).
\<close>

named_theorems layout "evaluation of C structure layouts"

section \<open>Build configuration\<close>

text \<open>
  The sources are compiled with or without these macros (they are set outside the repository), for
  32-bit or 64-bit ARM.
\<close>

record config =
  CONFIG_MTK_TURNKEY_WLAN :: bool
  CONFIG_MEDIATEK_WIFI_BEAM :: bool
  CONFIG_MTK_POOR_LINK_DETECT :: bool
  CONFIG_MTK_LTE_COEX :: bool
  CONFIG_HOTSPOT_MGR_SUPPORT :: bool
  CONFIG_WAPI_SUPPORT :: bool
  CONFIG_MTK_P2P :: bool
  CONFIG_MTK_P2P_SIGMA :: bool
  CONFIG_MTK_P2P_5G :: bool
  CONFIG_MTK_WFD_SINK :: bool
  CONFIG_MTK_SCC_MCC :: bool
  CONFIG_MTK_STAGE_SCAN :: bool
  MTK_TC1_FEATURE :: bool
  ptr_bytes :: nat
  long_bits :: nat

definition abi_ok :: "config \<Rightarrow> bool" where
  "abi_ok cfg \<longleftrightarrow> (ptr_bytes cfg = 4 \<and> long_bits cfg = 32) \<or> (ptr_bytes cfg = 8 \<and> long_bits cfg = 64)"

abbreviation (input) ETH_ALEN :: nat where "ETH_ALEN \<equiv> 6"
abbreviation (input) IFNAMSIZ :: nat where "IFNAMSIZ \<equiv> 16"
abbreviation (input) TC_DATA_NUM :: nat where "TC_DATA_NUM \<equiv> 4"

section \<open>Enumerations\<close>

text \<open>The attributes of a station statistics reply, with their numbers.\<close>

datatype sta_statistics_attr =
    STA_STATISTICS_VERSION
  | STA_STATISTICS_MAC
  | STA_STATISTICS_LINK_SCORE
  | STA_STATISTICS_FLAG
  | STA_STATISTICS_PER
  | STA_STATISTICS_RSSI
  | STA_STATISTICS_PHY_MODE
  | STA_STATISTICS_TX_RATE
  | STA_STATISTICS_TOTAL_CNT
  | STA_STATISTICS_THRESHOLD_CNT
  | STA_STATISTICS_AVG_PROCESS_TIME
  | STA_STATISTICS_FAIL_CNT
  | STA_STATISTICS_TIMEOUT_CNT
  | STA_STATISTICS_AVG_AIR_TIME
  | STA_STATISTICS_TC_EMPTY_CNT_ARRAY
  | STA_STATISTICS_TC_QUE_LEN_ARRAY
  | STA_STATISTICS_TC_AVG_QUE_LEN_ARRAY
  | STA_STATISTICS_TC_CUR_QUE_LEN_ARRAY
  | STA_STATISTICS_RESERVED_ARRAY

definition sta_statistics_attrs :: "sta_statistics_attr list" where
  "sta_statistics_attrs =
    [STA_STATISTICS_VERSION, STA_STATISTICS_MAC, STA_STATISTICS_LINK_SCORE, STA_STATISTICS_FLAG,
     STA_STATISTICS_PER, STA_STATISTICS_RSSI, STA_STATISTICS_PHY_MODE, STA_STATISTICS_TX_RATE,
     STA_STATISTICS_TOTAL_CNT, STA_STATISTICS_THRESHOLD_CNT, STA_STATISTICS_AVG_PROCESS_TIME,
     STA_STATISTICS_FAIL_CNT, STA_STATISTICS_TIMEOUT_CNT, STA_STATISTICS_AVG_AIR_TIME,
     STA_STATISTICS_TC_EMPTY_CNT_ARRAY, STA_STATISTICS_TC_QUE_LEN_ARRAY,
     STA_STATISTICS_TC_AVG_QUE_LEN_ARRAY, STA_STATISTICS_TC_CUR_QUE_LEN_ARRAY,
     STA_STATISTICS_RESERVED_ARRAY]"

primrec sta_attr_id :: "sta_statistics_attr \<Rightarrow> nat" where
  "sta_attr_id STA_STATISTICS_VERSION = 1"
| "sta_attr_id STA_STATISTICS_MAC = 2"
| "sta_attr_id STA_STATISTICS_LINK_SCORE = 3"
| "sta_attr_id STA_STATISTICS_FLAG = 4"
| "sta_attr_id STA_STATISTICS_PER = 5"
| "sta_attr_id STA_STATISTICS_RSSI = 6"
| "sta_attr_id STA_STATISTICS_PHY_MODE = 7"
| "sta_attr_id STA_STATISTICS_TX_RATE = 8"
| "sta_attr_id STA_STATISTICS_TOTAL_CNT = 9"
| "sta_attr_id STA_STATISTICS_THRESHOLD_CNT = 10"
| "sta_attr_id STA_STATISTICS_AVG_PROCESS_TIME = 11"
| "sta_attr_id STA_STATISTICS_FAIL_CNT = 12"
| "sta_attr_id STA_STATISTICS_TIMEOUT_CNT = 13"
| "sta_attr_id STA_STATISTICS_AVG_AIR_TIME = 14"
| "sta_attr_id STA_STATISTICS_TC_EMPTY_CNT_ARRAY = 15"
| "sta_attr_id STA_STATISTICS_TC_QUE_LEN_ARRAY = 16"
| "sta_attr_id STA_STATISTICS_TC_AVG_QUE_LEN_ARRAY = 17"
| "sta_attr_id STA_STATISTICS_TC_CUR_QUE_LEN_ARRAY = 18"
| "sta_attr_id STA_STATISTICS_RESERVED_ARRAY = 19"

definition NL80211_TESTMODE_STA_STATISTICS_NUM :: nat where
  "NL80211_TESTMODE_STA_STATISTICS_NUM = 20"

datatype link_detect_attr =
    LINK_TX_FAIL_CNT
  | LINK_TX_RETRY_CNT
  | LINK_TX_MULTI_RETRY_CNT
  | LINK_ACK_FAIL_CNT
  | LINK_FCS_ERR_CNT
  | LINK_TX_CNT
  | LINK_TX_OK_CNT
  | LINK_TX_OS_CNT

definition link_detect_attrs :: "link_detect_attr list" where
  "link_detect_attrs =
    [LINK_TX_FAIL_CNT, LINK_TX_RETRY_CNT, LINK_TX_MULTI_RETRY_CNT, LINK_ACK_FAIL_CNT,
     LINK_FCS_ERR_CNT, LINK_TX_CNT, LINK_TX_OK_CNT, LINK_TX_OS_CNT]"

primrec link_attr_id :: "link_detect_attr \<Rightarrow> nat" where
  "link_attr_id LINK_TX_FAIL_CNT = 1"
| "link_attr_id LINK_TX_RETRY_CNT = 2"
| "link_attr_id LINK_TX_MULTI_RETRY_CNT = 3"
| "link_attr_id LINK_ACK_FAIL_CNT = 4"
| "link_attr_id LINK_FCS_ERR_CNT = 5"
| "link_attr_id LINK_TX_CNT = 6"
| "link_attr_id LINK_TX_OK_CNT = 7"
| "link_attr_id LINK_TX_OS_CNT = 8"

definition NL80211_TESTMODE_LINK_DETECT_NUM :: nat where
  "NL80211_TESTMODE_LINK_DETECT_NUM = 9"

datatype available_chan_attr =
    AVAILABLE_CHAN_2G_BASE_1
  | AVAILABLE_CHAN_5G_BASE_34
  | AVAILABLE_CHAN_5G_BASE_100
  | AVAILABLE_CHAN_5G_BASE_149
  | AVAILABLE_CHAN_5G_BASE_184

definition available_chan_attrs :: "available_chan_attr list" where
  "available_chan_attrs =
    [AVAILABLE_CHAN_2G_BASE_1, AVAILABLE_CHAN_5G_BASE_34, AVAILABLE_CHAN_5G_BASE_100,
     AVAILABLE_CHAN_5G_BASE_149, AVAILABLE_CHAN_5G_BASE_184]"

primrec chan_attr_id :: "available_chan_attr \<Rightarrow> nat" where
  "chan_attr_id AVAILABLE_CHAN_2G_BASE_1 = 1"
| "chan_attr_id AVAILABLE_CHAN_5G_BASE_34 = 2"
| "chan_attr_id AVAILABLE_CHAN_5G_BASE_100 = 3"
| "chan_attr_id AVAILABLE_CHAN_5G_BASE_149 = 4"
| "chan_attr_id AVAILABLE_CHAN_5G_BASE_184 = 5"

definition NL80211_TESTMODE_AVAILABLE_CHAN_NUM :: nat where
  "NL80211_TESTMODE_AVAILABLE_CHAN_NUM = 6"

text \<open>Each reply loop runs over the attribute numbers from 1 up to the bound of its array.\<close>

lemma attr_loops:
  "map sta_attr_id sta_statistics_attrs = [1..<NL80211_TESTMODE_STA_STATISTICS_NUM]"
  "map link_attr_id link_detect_attrs = [1..<NL80211_TESTMODE_LINK_DETECT_NUM]"
  "map chan_attr_id available_chan_attrs = [1..<NL80211_TESTMODE_AVAILABLE_CHAN_NUM]"
  by code_simp+

text \<open>Traffic classes; the first \<open>TC_DATA_NUM\<close> of them carry data, and the statistics count these.\<close>

datatype traffic_class = TC0_INDEX | TC1_INDEX | TC2_INDEX | TC3_INDEX | TC4_INDEX | TC5_INDEX

primrec tc_index :: "traffic_class \<Rightarrow> nat" where
  "tc_index TC0_INDEX = 0"
| "tc_index TC1_INDEX = 1"
| "tc_index TC2_INDEX = 2"
| "tc_index TC3_INDEX = 3"
| "tc_index TC4_INDEX = 4"
| "tc_index TC5_INDEX = 5"

text \<open>The test mode command numbers (\<open>enum nl80211_testmode_params\<close>).\<close>

definition NL80211_TESTMODE_SW_CMD :: u32 where "NL80211_TESTMODE_SW_CMD = 1"
definition NL80211_TESTMODE_WAPI :: u32 where "NL80211_TESTMODE_WAPI = 2"
definition NL80211_TESTMODE_HS20 :: u32 where "NL80211_TESTMODE_HS20 = 3"
definition NL80211_TESTMODE_STATISTICS :: u32 where "NL80211_TESTMODE_STATISTICS = 0x10"
definition NL80211_TESTMODE_LINK_DETECT :: u32 where "NL80211_TESTMODE_LINK_DETECT = 0x20"
definition NL80211_TESTMODE_SUSPEND :: u32 where "NL80211_TESTMODE_SUSPEND = 101"

lemmas testmode_ids =
  NL80211_TESTMODE_SW_CMD_def NL80211_TESTMODE_WAPI_def NL80211_TESTMODE_HS20_def
  NL80211_TESTMODE_STATISTICS_def NL80211_TESTMODE_LINK_DETECT_def NL80211_TESTMODE_SUSPEND_def

definition BIT :: "nat \<Rightarrow> u32" where
  "BIT x = push_bit x 1"

definition BITS :: "nat \<Rightarrow> nat \<Rightarrow> u32" where
  "BITS m n = NOT (BIT m - 1) AND ((BIT n - 1) OR BIT n)"

definition IW_ENCODE_SEQ_MAX_SIZE :: nat where "IW_ENCODE_SEQ_MAX_SIZE = 8"
definition IW_ENCODE_EXT_GROUP_KEY :: u32 where "IW_ENCODE_EXT_GROUP_KEY = 0x00000004"
definition IW_ENCODE_EXT_SET_TX_KEY :: u32 where "IW_ENCODE_EXT_SET_TX_KEY = 0x00000008"
definition IW_ENCODE_ALG_SMS4 :: u16 where "IW_ENCODE_ALG_SMS4 = 0x20"

section \<open>Structures\<close>

text \<open>
  \<open>struct wpa_driver_sta_statistics_s\<close>. The rate is a \<open>double\<close>; every value the program stores
  there is a 16-bit count halved, which a double holds exactly, so it is a rational here.
\<close>

record sta_statistics =
  ss_version :: u8
  ss_addr :: "u8 list"
  ss_flag :: u32
  ss_link_score :: u8
  ss_per :: u8
  ss_rssi :: int
  ss_phy_mode :: u32
  ss_tx_rate :: rat
  ss_tx_total_cnt :: u32
  ss_tx_exc_threshold_cnt :: u32
  ss_tx_avg_process_time :: u32
  ss_tx_fail_cnt :: u32
  ss_tx_timeout_cnt :: u32
  ss_tx_avg_air_time :: u32
  ss_tc_buf_full_cnt :: "u32 list"
  ss_tc_que_len :: "u32 list"
  ss_tc_avg_que_len :: "u32 list"
  ss_tc_cur_que_len :: "u32 list"
  ss_reserved :: "u8 list"

definition sta_statistics_wf :: "sta_statistics \<Rightarrow> bool" where
  "sta_statistics_wf st \<longleftrightarrow> length (ss_addr st) = ETH_ALEN \<and>
     length (ss_tc_buf_full_cnt st) = TC_DATA_NUM \<and> length (ss_tc_que_len st) = TC_DATA_NUM \<and>
     length (ss_tc_avg_que_len st) = TC_DATA_NUM \<and> length (ss_tc_cur_que_len st) = TC_DATA_NUM \<and>
     length (ss_reserved st) = 32"

record sta_link_detect =
  ld_tx_fail_cnt :: u64
  ld_tx_retry_cnt :: u64
  ld_tx_multi_retry_cnt :: u64
  ld_ack_fail_cnt :: u64
  ld_fcs_err_cnt :: u64
  ld_tx_cnt :: u64
  ld_tx_ok_cnt :: u64
  ld_tx_os_cnt :: u64

record available_chan =
  ac_ch_2g_base1 :: u32
  ac_ch_5g_base34 :: u32
  ac_ch_5g_base100 :: u32
  ac_ch_5g_base149 :: u32
  ac_ch_5g_base184 :: u32

record test_mode_info =
  tm_index :: u32
  tm_buflen :: u32

record sw_cmd_params =
  sw_hdr :: test_mode_info
  sw_set :: u8
  sw_adr :: u32
  sw_data :: u32

record hotspot_params =
  hs_hdr :: test_mode_info
  hs_blocked :: u8
  hs_bssid :: "u8 list"

record iw_encode_ext =
  ie_ext_flags :: u32
  ie_tx_seq :: "u8 list"
  ie_rx_seq :: "u8 list"
  ie_addr :: "u8 list"
  ie_alg :: u16
  ie_key_len :: u16
  ie_key :: "u8 list"

record wapi_key_params =
  wk_hdr :: test_mode_info
  wk_key_index :: u8
  wk_key_len :: u8
  wk_extparams :: iw_encode_ext

text \<open>In the two structures with a result pointer, the field is the address it holds.\<close>

record get_sta_statistics_params =
  gs_hdr :: test_mode_info
  gs_version :: u32
  gs_flag :: u32
  gs_addr :: "u8 list"
  gs_buf :: nat

record get_sta_link_detect_params =
  gl_hdr :: test_mode_info
  gl_buf :: nat

record get_available_channel_params =
  gc_hdr :: test_mode_info
  gc_buf :: nat

record p2p_sigma_params =
  sg_hdr :: test_mode_info
  sg_idx :: u32
  sg_value :: u32

record suspendmode_params =
  sp_hdr :: test_mode_info
  sp_suspend :: u8

record set_beamplus_params =
  bp_hdr :: test_mode_info
  bp_value :: u32

record driver_wfd_data =
  wd_hdr :: test_mode_info
  WfdCmdType :: u32
  WfdEnable :: u8
  WfdCoupleSinkStatus :: u8
  WfdSessionAvailable :: u8
  WfdSigmaMode :: u8
  WfdDevInfo :: u16
  WfdControlPort :: u16
  WfdMaximumTp :: u16
  WfdExtendCap :: u16
  WfdCoupleSinkAddress :: "u8 list"
  WfdAssociatedBssid :: "u8 list"
  WfdVideoIp :: "u8 list"
  WfdAudioIp :: "u8 list"
  WfdVideoPort :: u16
  WfdAudioPort :: u16
  WfdFlag :: u32
  WfdPolicy :: u32
  WfdState :: u32
  WfdSessionInformationIE :: "u8 list"
  WfdSessionInformationIELen :: u16
  Reverved1 :: "u8 list"
  WfdPrimarySinkMac :: "u8 list"
  WfdSecondarySinkMac :: "u8 list"
  WfdAdvancedFlag :: u32
  WfdLocalIp :: "u8 list"
  WfdLifetimeAc2 :: u16
  WfdLifetimeAc3 :: u16
  WfdCounterThreshold :: u16
  Reverved2 :: "u8 list"
  Reverved3 :: "u8 list"
  Reverved4 :: "u8 list"

section \<open>Wireless extensions\<close>

text \<open>A pointer is an address; \<open>struct sockaddr\<close> is the family and the bytes behind it.\<close>

record iw_point =
  ip_pointer :: nat
  ip_length :: u16
  ip_flags :: u16

record iw_param =
  ia_value :: u32
  ia_fixed :: u8
  ia_disabled :: u8
  ia_flags :: u16

record iw_freq =
  if_m :: u32
  if_e :: u16
  if_i :: u8
  if_flags :: u8

record iw_quality =
  iq_qual :: u8
  iq_level :: u8
  iq_noise :: u8
  iq_updated :: u8

record sockaddr =
  sa_family :: u16
  sa_data :: "u8 list"

text \<open>The union as the member that was last stored.\<close>

datatype iwreq_data =
    Iw_Name "u8 list"
  | Iw_Essid iw_point
  | Iw_Nwid iw_param
  | Iw_Freq iw_freq
  | Iw_Sens iw_param
  | Iw_Bitrate iw_param
  | Iw_Txpower iw_param
  | Iw_Rts iw_param
  | Iw_Frag iw_param
  | Iw_Mode u32
  | Iw_Retry iw_param
  | Iw_Encoding iw_point
  | Iw_Power iw_param
  | Iw_Qual iw_quality
  | Iw_Ap_Addr sockaddr
  | Iw_Addr sockaddr
  | Iw_Param iw_param
  | Iw_Data iw_point

record iwreq =
  ifr_name :: "u8 list"
  iw_u :: iwreq_data

section \<open>Structure layout\<close>

text \<open>
  Size and alignment of C types under the ARM ABIs: a scalar is aligned to its size, a structure to
  its most aligned member, and padding is inserted before each member and at the end. A union is as large and as
  aligned as its members demand.
\<close>

datatype ctype = CInt nat | CPtr | CBytes nat | CStruct "ctype list" | CUnion "ctype list"

definition round_up :: "nat \<Rightarrow> nat \<Rightarrow> nat" where
  "round_up off a = (off + (a - 1)) div a * a"

fun layout_end :: "nat \<Rightarrow> (nat \<times> nat) list \<Rightarrow> nat" where
  "layout_end off [] = off"
| "layout_end off ((a, n) # ms) = layout_end (round_up off a + n) ms"

fun calign :: "nat \<Rightarrow> ctype \<Rightarrow> nat" where
  "calign p (CInt n) = n"
| "calign p CPtr = p"
| "calign p (CBytes n) = 1"
| "calign p (CStruct ts) = foldr max (map (calign p) ts) 1"
| "calign p (CUnion ts) = foldr max (map (calign p) ts) 1"

fun csize :: "nat \<Rightarrow> ctype \<Rightarrow> nat" where
  "csize p (CInt n) = n"
| "csize p CPtr = p"
| "csize p (CBytes n) = n"
| "csize p (CStruct ts) =
     round_up (layout_end 0 (map (\<lambda>t. (calign p t, csize p t)) ts)) (calign p (CStruct ts))"
| "csize p (CUnion ts) = round_up (foldr max (map (csize p) ts) 0) (calign p (CUnion ts))"

declare round_up_def [layout]

definition T_hdr :: ctype where [layout]: "T_hdr = CStruct [CInt 4, CInt 4]"
definition T_sw_cmd :: ctype where [layout]: "T_sw_cmd = CStruct [T_hdr, CInt 1, CInt 4, CInt 4]"
definition T_hotspot :: ctype where [layout]: "T_hotspot = CStruct [T_hdr, CInt 1, CBytes 6]"
definition T_iw_encode_ext :: ctype where [layout]:
  "T_iw_encode_ext = CStruct [CInt 4, CBytes 8, CBytes 8, CBytes 6, CInt 2, CInt 2, CBytes 32]"
definition T_wapi_key :: ctype where [layout]:
  "T_wapi_key = CStruct [T_hdr, CInt 1, CInt 1, T_iw_encode_ext]"
definition T_get_sta_statistics :: ctype where [layout]:
  "T_get_sta_statistics = CStruct [T_hdr, CInt 4, CInt 4, CBytes 6, CPtr]"
definition T_get_sta_link_detect :: ctype where [layout]:
  "T_get_sta_link_detect = CStruct [T_hdr, CPtr]"
definition T_p2p_sigma :: ctype where [layout]: "T_p2p_sigma = CStruct [T_hdr, CInt 4, CInt 4]"
definition T_suspendmode :: ctype where [layout]: "T_suspendmode = CStruct [T_hdr, CInt 1]"
definition T_set_beamplus :: ctype where [layout]: "T_set_beamplus = CStruct [T_hdr, CInt 4]"
definition T_wfd_data :: ctype where [layout]:
  "T_wfd_data = CStruct [T_hdr, CInt 4, CInt 1, CInt 1, CInt 1, CInt 1, CInt 2, CInt 2, CInt 2, CInt 2,
     CBytes 6, CBytes 6, CBytes 4, CBytes 4, CInt 2, CInt 2, CInt 4, CInt 4, CInt 4, CBytes 192, CInt 2,
     CBytes 2, CBytes 6, CBytes 6, CInt 4, CBytes 4, CInt 2, CInt 2, CInt 2, CBytes 54, CBytes 64,
     CBytes 64]"

text \<open>The structures of the wireless extensions; \<open>struct sockaddr\<close> is a 16-bit family and fourteen bytes.\<close>

definition T_sockaddr :: ctype where [layout]: "T_sockaddr = CStruct [CInt 2, CBytes 14]"
definition T_iw_point :: ctype where [layout]: "T_iw_point = CStruct [CPtr, CInt 2, CInt 2]"
definition T_iw_param :: ctype where [layout]: "T_iw_param = CStruct [CInt 4, CInt 1, CInt 1, CInt 2]"
definition T_iw_freq :: ctype where [layout]: "T_iw_freq = CStruct [CInt 4, CInt 2, CInt 1, CInt 1]"
definition T_iw_quality :: ctype where [layout]: "T_iw_quality = CStruct [CInt 1, CInt 1, CInt 1, CInt 1]"
definition T_iwreq_data :: ctype where [layout]:
  "T_iwreq_data = CUnion [CBytes 16, T_iw_point, T_iw_param, T_iw_freq, T_iw_param, T_iw_param, T_iw_param, T_iw_param,
     T_iw_param, CInt 4, T_iw_param, T_iw_point, T_iw_param, T_iw_quality, T_sockaddr, T_sockaddr, T_iw_param, T_iw_point]"
definition T_iwreq :: ctype where [layout]: "T_iwreq = CStruct [CUnion [CBytes 16], T_iwreq_data]"

section \<open>Bytes of a structure\<close>

text \<open>
  A C value with its shape, and the little-endian bytes it occupies. Padding is zero: the program
  clears a parameter structure before it fills it in.
\<close>

datatype cval = VInt nat nat | VPtr nat | VBytes "u8 list" | VStruct "cval list"

fun le_bytes :: "nat \<Rightarrow> nat \<Rightarrow> u8 list" where
  "le_bytes 0 x = []"
| "le_bytes (Suc n) x = word_of_nat x # le_bytes n (x div 256)"

fun le_val :: "u8 list \<Rightarrow> nat" where
  "le_val [] = 0"
| "le_val (b # bs) = unat b + 256 * le_val bs"

fun ctype_of :: "cval \<Rightarrow> ctype" where
  "ctype_of (VInt w x) = CInt w"
| "ctype_of (VPtr x) = CPtr"
| "ctype_of (VBytes bs) = CBytes (length bs)"
| "ctype_of (VStruct vs) = CStruct (map ctype_of vs)"

fun enc_fields :: "nat \<Rightarrow> (nat \<times> u8 list) list \<Rightarrow> u8 list" where
  "enc_fields off [] = []"
| "enc_fields off ((a, bs) # ms) =
     replicate (round_up off a - off) 0 @ bs @ enc_fields (round_up off a + length bs) ms"

fun enc :: "nat \<Rightarrow> cval \<Rightarrow> u8 list" where
  "enc p (VInt w x) = le_bytes w x"
| "enc p (VPtr x) = le_bytes p x"
| "enc p (VBytes bs) = bs"
| "enc p (VStruct vs) =
     (let b = enc_fields 0 (map (\<lambda>v. (calign p (ctype_of v), enc p v)) vs)
      in b @ replicate (csize p (CStruct (map ctype_of vs)) - length b) 0)"

lemma length_le_bytes [simp]: "length (le_bytes n x) = n"
  by (induction n arbitrary: x) simp_all

lemma le_val_le_bytes: "le_val (le_bytes n x) = x mod 256 ^ n"
proof (induction n arbitrary: x)
  case (Suc n)
  have "x mod (256 * 256 ^ n) = 256 * (x div 256 mod 256 ^ n) + x mod 256"
    by (rule mod_mult2_eq)
  then show ?case using Suc by (simp add: unat_of_nat)
qed simp

lemma round_up_ge: "0 < a \<Longrightarrow> off \<le> round_up off a"
proof -
  assume "0 < a"
  define k where "k = off + (a - 1)"
  have "k div a * a + k mod a = k" "k mod a < a" "k + 1 = off + a"
    using \<open>0 < a\<close> by (simp_all add: k_def)
  then show ?thesis unfolding round_up_def k_def [symmetric] by linarith
qed

lemma round_up_dvd: "a dvd round_up off a"
  by (simp add: round_up_def)

fun cpos :: "ctype \<Rightarrow> bool" where
  "cpos (CInt n) \<longleftrightarrow> 0 < n"
| "cpos CPtr \<longleftrightarrow> True"
| "cpos (CBytes n) \<longleftrightarrow> True"
| "cpos (CStruct ts) \<longleftrightarrow> list_all cpos ts"
| "cpos (CUnion ts) \<longleftrightarrow> list_all cpos ts"

lemma foldr_max_pos: "0 < foldr max xs (Suc 0)"
  by (induction xs) auto

lemma calign_pos: "0 < p \<Longrightarrow> cpos t \<Longrightarrow> 0 < calign p t"
  by (cases t) (simp_all add: foldr_max_pos)

lemma length_enc_fields:
  "list_all (\<lambda>m. 0 < fst m) ms \<Longrightarrow>
    off + length (enc_fields off ms) = layout_end off (map (\<lambda>m. (fst m, length (snd m))) ms)"
proof (induction off ms rule: enc_fields.induct)
  case (2 off a bs ms)
  then show ?case using round_up_ge [of a off] by simp
qed simp

lemma length_enc:
  assumes "0 < p" "cpos (ctype_of v)"
  shows "length (enc p v) = csize p (ctype_of v)"
  using assms
proof (induction p v rule: enc.induct)
  case (4 p vs)
  let ?ms = "map (\<lambda>v. (calign p (ctype_of v), enc p v)) vs"
  have cp: "\<forall>v\<in>set vs. cpos (ctype_of v)" using 4 by (simp add: list_all_iff)
  have "list_all (\<lambda>m. 0 < fst m) ?ms" using cp 4 by (simp add: list_all_iff calign_pos)
  from length_enc_fields [OF this, of 0]
  have len: "length (enc_fields 0 ?ms) =
      layout_end 0 (map (\<lambda>v. (calign p (ctype_of v), csize p (ctype_of v))) vs)"
    using 4 cp by (simp add: comp_def cong: map_cong)
  have "length (enc_fields 0 ?ms) \<le> csize p (CStruct (map ctype_of vs))"
    unfolding len csize.simps map_map comp_def by (intro round_up_ge calign_pos) (use 4 in simp_all)
  then show ?case by (simp only: enc.simps Let_def length_append length_replicate ctype_of.simps le_add_diff_inverse)
qed simp_all

section \<open>Test mode payloads\<close>

text \<open>
  What \<open>wpa_driver_nl80211_testmode\<close> is handed: one of the parameter structures above, seen by the
  callee through their common initial member \<open>hdr\<close>.
\<close>

datatype testmode_data =
    Sw_Cmd sw_cmd_params
  | Hotspot hotspot_params
  | Wapi_Key wapi_key_params
  | Get_Sta_Statistics get_sta_statistics_params
  | Get_Sta_Link_Detect get_sta_link_detect_params
  | Get_Available_Channel get_available_channel_params
  | P2p_Sigma p2p_sigma_params
  | Suspendmode suspendmode_params "u8 list"
  | Set_Beamplus set_beamplus_params
  | Wfd_Data driver_wfd_data

primrec tmd_hdr :: "testmode_data \<Rightarrow> test_mode_info" where
  "tmd_hdr (Sw_Cmd d) = sw_hdr d"
| "tmd_hdr (Hotspot d) = hs_hdr d"
| "tmd_hdr (Wapi_Key d) = wk_hdr d"
| "tmd_hdr (Get_Sta_Statistics d) = gs_hdr d"
| "tmd_hdr (Get_Sta_Link_Detect d) = gl_hdr d"
| "tmd_hdr (Get_Available_Channel d) = gc_hdr d"
| "tmd_hdr (P2p_Sigma d) = sg_hdr d"
| "tmd_hdr (Suspendmode d pad) = sp_hdr d"
| "tmd_hdr (Set_Beamplus d) = bp_hdr d"
| "tmd_hdr (Wfd_Data d) = wd_hdr d"

definition V :: "nat \<Rightarrow> 'a::len word \<Rightarrow> cval" where
  "V n w = VInt n (unat w)"

definition hdr_val :: "test_mode_info \<Rightarrow> cval" where
  "hdr_val h = VStruct [V 4 (tm_index h), V 4 (tm_buflen h)]"

definition ext_val :: "iw_encode_ext \<Rightarrow> cval" where
  "ext_val e = VStruct [V 4 (ie_ext_flags e), VBytes (ie_tx_seq e), VBytes (ie_rx_seq e), VBytes (ie_addr e),
     V 2 (ie_alg e), V 2 (ie_key_len e), VBytes (ie_key e)]"

definition wfd_val :: "driver_wfd_data \<Rightarrow> cval" where
  "wfd_val d = VStruct [hdr_val (wd_hdr d), V 4 (WfdCmdType d), V 1 (WfdEnable d), V 1 (WfdCoupleSinkStatus d),
     V 1 (WfdSessionAvailable d), V 1 (WfdSigmaMode d), V 2 (WfdDevInfo d), V 2 (WfdControlPort d),
     V 2 (WfdMaximumTp d), V 2 (WfdExtendCap d), VBytes (WfdCoupleSinkAddress d),
     VBytes (WfdAssociatedBssid d), VBytes (WfdVideoIp d), VBytes (WfdAudioIp d), V 2 (WfdVideoPort d),
     V 2 (WfdAudioPort d), V 4 (WfdFlag d), V 4 (WfdPolicy d), V 4 (WfdState d),
     VBytes (WfdSessionInformationIE d), V 2 (WfdSessionInformationIELen d), VBytes (Reverved1 d),
     VBytes (WfdPrimarySinkMac d), VBytes (WfdSecondarySinkMac d), V 4 (WfdAdvancedFlag d),
     VBytes (WfdLocalIp d), V 2 (WfdLifetimeAc2 d), V 2 (WfdLifetimeAc3 d), V 2 (WfdCounterThreshold d),
     VBytes (Reverved2 d), VBytes (Reverved3 d), VBytes (Reverved4 d)]"

text \<open>The second component of \<^const>\<open>Suspendmode\<close> is the padding of a structure that is not cleared.\<close>

primrec tmd_val :: "testmode_data \<Rightarrow> cval" where
  "tmd_val (Sw_Cmd d) = VStruct [hdr_val (sw_hdr d), V 1 (sw_set d), V 4 (sw_adr d), V 4 (sw_data d)]"
| "tmd_val (Hotspot d) = VStruct [hdr_val (hs_hdr d), V 1 (hs_blocked d), VBytes (hs_bssid d)]"
| "tmd_val (Wapi_Key d) =
     VStruct [hdr_val (wk_hdr d), V 1 (wk_key_index d), V 1 (wk_key_len d), ext_val (wk_extparams d)]"
| "tmd_val (Get_Sta_Statistics d) =
     VStruct [hdr_val (gs_hdr d), V 4 (gs_version d), V 4 (gs_flag d), VBytes (gs_addr d), VPtr (gs_buf d)]"
| "tmd_val (Get_Sta_Link_Detect d) = VStruct [hdr_val (gl_hdr d), VPtr (gl_buf d)]"
| "tmd_val (Get_Available_Channel d) = VStruct [hdr_val (gc_hdr d), VPtr (gc_buf d)]"
| "tmd_val (P2p_Sigma d) = VStruct [hdr_val (sg_hdr d), V 4 (sg_idx d), V 4 (sg_value d)]"
| "tmd_val (Suspendmode d pad) = VStruct [hdr_val (sp_hdr d), V 1 (sp_suspend d), VBytes pad]"
| "tmd_val (Set_Beamplus d) = VStruct [hdr_val (bp_hdr d), V 4 (bp_value d)]"
| "tmd_val (Wfd_Data d) = wfd_val d"

definition tmd_bytes :: "config \<Rightarrow> testmode_data \<Rightarrow> u8 list" where
  "tmd_bytes cfg d = enc (ptr_bytes cfg) (tmd_val d)"

section \<open>Bytes of a wireless extension request\<close>

definition iw_point_val :: "iw_point \<Rightarrow> cval" where
  "iw_point_val d = VStruct [VPtr (ip_pointer d), V 2 (ip_length d), V 2 (ip_flags d)]"

definition iw_param_val :: "iw_param \<Rightarrow> cval" where
  "iw_param_val d = VStruct [V 4 (ia_value d), V 1 (ia_fixed d), V 1 (ia_disabled d), V 2 (ia_flags d)]"

definition sockaddr_val :: "sockaddr \<Rightarrow> cval" where
  "sockaddr_val d = VStruct [V 2 (sa_family d), VBytes (sa_data d)]"

primrec iwreq_data_val :: "iwreq_data \<Rightarrow> cval" where
  "iwreq_data_val (Iw_Name bs) = VBytes bs"
| "iwreq_data_val (Iw_Essid d) = iw_point_val d"
| "iwreq_data_val (Iw_Nwid d) = iw_param_val d"
| "iwreq_data_val (Iw_Freq d) = VStruct [V 4 (if_m d), V 2 (if_e d), V 1 (if_i d), V 1 (if_flags d)]"
| "iwreq_data_val (Iw_Sens d) = iw_param_val d"
| "iwreq_data_val (Iw_Bitrate d) = iw_param_val d"
| "iwreq_data_val (Iw_Txpower d) = iw_param_val d"
| "iwreq_data_val (Iw_Rts d) = iw_param_val d"
| "iwreq_data_val (Iw_Frag d) = iw_param_val d"
| "iwreq_data_val (Iw_Mode w) = V 4 w"
| "iwreq_data_val (Iw_Retry d) = iw_param_val d"
| "iwreq_data_val (Iw_Encoding d) = iw_point_val d"
| "iwreq_data_val (Iw_Power d) = iw_param_val d"
| "iwreq_data_val (Iw_Qual d) = VStruct [V 1 (iq_qual d), V 1 (iq_level d), V 1 (iq_noise d), V 1 (iq_updated d)]"
| "iwreq_data_val (Iw_Ap_Addr d) = sockaddr_val d"
| "iwreq_data_val (Iw_Addr d) = sockaddr_val d"
| "iwreq_data_val (Iw_Param d) = iw_param_val d"
| "iwreq_data_val (Iw_Data d) = iw_point_val d"

text \<open>The name, then the member stored in the union, the rest of the union as it was cleared.\<close>

definition iwreq_bytes :: "config \<Rightarrow> iwreq \<Rightarrow> u8 list" where
  "iwreq_bytes cfg r =
     (let u = enc (ptr_bytes cfg) (iwreq_data_val (iw_u r))
      in ifr_name r @ u @ replicate (csize (ptr_bytes cfg) T_iwreq_data - length u) 0)"

text \<open>The arrays of a request have their lengths.\<close>

definition iwreq_wf :: "iwreq \<Rightarrow> bool" where
  "iwreq_wf r \<longleftrightarrow> length (ifr_name r) = 16 \<and>
     (case iw_u r of Iw_Name bs \<Rightarrow> length bs = 16 | Iw_Ap_Addr d \<Rightarrow> length (sa_data d) = 14
      | Iw_Addr d \<Rightarrow> length (sa_data d) = 14 | _ \<Rightarrow> True)"

lemmas iw_vals = iw_point_val_def iw_param_val_def sockaddr_val_def V_def

lemma iwreq_union_member:
  "iwreq_wf r \<Longrightarrow> ctype_of (iwreq_data_val (iw_u r)) \<in> set [CBytes 16, T_iw_point, T_iw_param, T_iw_freq, T_iw_quality, CInt 4, T_sockaddr]"
  by (cases "iw_u r") (simp_all add: iwreq_wf_def iw_vals layout)

lemma iw_member_sizes:
  "csize p T_iw_param = 8" "csize p T_iw_freq = 8" "csize p T_iw_quality = 4" "csize p T_sockaddr = 16"
  "calign p T_iw_param = 4" "calign p T_iw_freq = 4" "calign p T_iw_quality = 1" "calign p T_sockaddr = 2"
  by (simp_all add: layout flip: numeral_2_eq_2)

lemma iw_point_size: "p = 4 \<or> p = 8 \<Longrightarrow> csize p T_iw_point = 2 * p \<and> calign p T_iw_point = p"
  by (auto simp: layout)

lemma iwreq_layout:
  assumes "p = 4 \<or> p = 8"
  shows "csize p T_iwreq_data = 16" "calign p T_iwreq_data = p" "csize p T_iwreq = 32"
proof -
  show u: "csize p T_iwreq_data = 16" "calign p T_iwreq_data = p"
    using assms iw_point_size [OF assms] by (auto simp: T_iwreq_data_def iw_member_sizes round_up_def)
  show "csize p T_iwreq = 32"
    using assms u by (auto simp: T_iwreq_def round_up_def)
qed

text \<open>Whatever member is stored, on either width of a pointer, a request is as many bytes as \<open>struct iwreq\<close>, the name
  in front and the member behind it.\<close>

lemma iwreq_bytes_size:
  assumes "iwreq_wf r" "ptr_bytes cfg = 4 \<or> ptr_bytes cfg = 8"
  shows "length (iwreq_bytes cfg r) = csize (ptr_bytes cfg) T_iwreq \<and> take 16 (iwreq_bytes cfg r) = ifr_name r"
proof -
  let ?t = "ctype_of (iwreq_data_val (iw_u r))"
  have "cpos ?t \<and> csize (ptr_bytes cfg) ?t \<le> 16"
    using iwreq_union_member [OF assms(1)] assms(2) by (auto simp: layout simp flip: numeral_2_eq_2)
  then have "length (enc (ptr_bytes cfg) (iwreq_data_val (iw_u r))) \<le> 16"
    using length_enc [of "ptr_bytes cfg" "iwreq_data_val (iw_u r)"] assms(2) by auto
  then show ?thesis
    using iwreq_layout [OF assms(2)] assms(1) by (simp add: iwreq_bytes_def iwreq_wf_def Let_def)
qed

section \<open>The header of a payload\<close>

text \<open>Whatever the structure, its first eight bytes are the header.\<close>

lemma tmd_val_hdr: "\<exists>vs. tmd_val d = VStruct (hdr_val (tmd_hdr d) # vs)"
  by (cases d) (simp_all add: wfd_val_def)

lemma tmd_bytes_hdr:
  "\<exists>r. tmd_bytes cfg d = le_bytes 4 (unat (tm_index (tmd_hdr d))) @ le_bytes 4 (unat (tm_buflen (tmd_hdr d))) @ r"
proof -
  obtain vs where "tmd_val d = VStruct (hdr_val (tmd_hdr d) # vs)" using tmd_val_hdr by blast
  then show ?thesis by (simp add: tmd_bytes_def hdr_val_def V_def round_up_def Let_def)
qed

lemma tmd_bytes_index:
  "le_val (take 4 (tmd_bytes cfg d)) = unat (tm_index (tmd_hdr d))"
  "le_val (take 4 (drop 4 (tmd_bytes cfg d))) = unat (tm_buflen (tmd_hdr d))"
  using tmd_bytes_hdr [of cfg d] unsigned_less [of "tm_index (tmd_hdr d)", where 'a = nat]
    unsigned_less [of "tm_buflen (tmd_hdr d)", where 'a = nat]
  by (auto simp: le_val_le_bytes)

end
