(* ===== verification/Netlink.thy ===== *)
theory Netlink
  imports Mtk_Types
begin

text \<open>
  The netlink transport of \<open>mediatek_driver_cmd_nl80211.c\<close>: the three callbacks and the
  receive loop of \<open>send_and_recv_msgs\<close>. libnl is outside the repository: what one call of it does (the callbacks
  \<open>nl_recvmsgs\<close> invokes, what \<open>nla_parse\<close> finds, what the accessors read) is a parameter.
\<close>

section \<open>libnl\<close>

datatype nla_type = NLA_UNSPEC | NLA_U8 | NLA_U16 | NLA_U32 | NLA_U64

text \<open>
  \<open>NL80211_ATTR_TESTDATA\<close> is the attribute number from the kernel's header;
  \<open>nl_parse\<close> gives the attribute table \<open>nla_parse\<close> leaves behind for the attribute stream of a
  message, \<open>nl_parse_nested\<close> the table for a nested attribute under a policy, or \<^const>\<open>None\<close> when it
  returns an error; the others read an attribute's payload.
\<close>

record libnl =
  NL80211_ATTR_TESTDATA :: nat
  nl_parse :: "u8 list \<Rightarrow> nat \<rightharpoonup> u8 list"
  nl_parse_nested :: "nat \<Rightarrow> (nat \<rightharpoonup> nla_type) \<Rightarrow> u8 list \<Rightarrow> (nat \<rightharpoonup> u8 list) option"
  nla_get_u8 :: "u8 list \<Rightarrow> u8"
  nla_get_u16 :: "u8 list \<Rightarrow> u16"
  nla_get_u32 :: "u8 list \<Rightarrow> u32"
  nla_get_u64 :: "u8 list \<Rightarrow> u64"
  nla_memcpy :: "u8 list \<Rightarrow> u8 list \<Rightarrow> nat \<Rightarrow> u8 list"

text \<open>
  The documented behaviour the handlers rely on: \<open>nla_memcpy\<close> copies the payload, at most the given
  number of bytes, over the front of its destination.
\<close>

definition memcpy_ok :: "libnl \<Rightarrow> bool" where
  "memcpy_ok L \<longleftrightarrow> (\<forall>dest src n. n \<le> length dest \<longrightarrow>
     nla_memcpy L dest src n = take n src @ drop (min n (length src)) dest)"

section \<open>Callbacks and the receive loop\<close>

datatype nl_action = NL_OK | NL_SKIP | NL_STOP

text \<open>What libnl reports to its callbacks. A valid message carries its attribute stream.\<close>

datatype cb_event = Ev_Valid "u8 list" | Ev_Ack | Ev_Finish | Ev_Error int

type_synonym 'd nl_handler = "u8 list \<Rightarrow> 'd \<Rightarrow> nl_action \<times> 'd"

definition ack_handler :: "int \<Rightarrow> nl_action \<times> int" where
  "ack_handler err = (NL_STOP, 0)"

definition finish_handler :: "int \<Rightarrow> nl_action \<times> int" where
  "finish_handler ret = (NL_SKIP, 0)"

definition error_handler :: "int \<Rightarrow> int \<Rightarrow> nl_action \<times> int" where
  "error_handler e ret = (NL_SKIP, e)"

text \<open>
  One callback invocation, on the variable \<open>err\<close> of \<open>send_and_recv_msgs\<close> and the object
  \<open>valid_data\<close> points at. Without a handler for valid messages they leave both alone.
\<close>

fun nl_event :: "'d nl_handler option \<Rightarrow> cb_event \<Rightarrow> int \<times> 'd \<Rightarrow> int \<times> 'd" where
  "nl_event h (Ev_Valid m) (err, d) = (err, case h of None \<Rightarrow> d | Some f \<Rightarrow> snd (f m d))"
| "nl_event h Ev_Ack (err, d) = (snd (ack_handler err), d)"
| "nl_event h Ev_Finish (err, d) = (snd (finish_handler err), d)"
| "nl_event h (Ev_Error e) (err, d) = (snd (error_handler e err), d)"

text \<open>
  \<open>while (err > 0) nl_recvmsgs(...)\<close>. Each element of the list is one call: the callbacks it invokes
  and the value it returns, which the loop only logs. When the list ends with \<open>err\<close> still positive, the
  next call waits for ever.
\<close>

fun recv_loop :: "'d nl_handler option \<Rightarrow> (cb_event list \<times> int) list \<Rightarrow> int \<times> 'd \<Rightarrow> (int \<times> 'd) outcome" where
  "recv_loop h [] s = (if 0 < fst s then Blocked else Done s)"
| "recv_loop h ((evs, res) # bs) s =
     (if 0 < fst s then recv_loop h bs (fold (nl_event h) evs s) else Done s)"

text \<open>What the calls into libnl do to the message and the callback set.\<close>

datatype nl_eff =
    Msg_Alloc
  | Cb_Clone
  | Msg_Send nat "u8 list"
  | Cb_Put
  | Msg_Free

record nl_env =
  ne_clone_ok :: bool
  ne_send_ret :: int
  ne_recv :: "(cb_event list \<times> int) list"

definition ENOMEM :: int where "ENOMEM = 12"
definition ENOBUFS :: int where "ENOBUFS = 105"

text \<open>
  The payload and the interface index are the two attributes the caller put into the message.
  \<open>nl_cb_put\<close> accepts the NULL that a failed clone leaves.
\<close>

definition send_and_recv_msgs ::
  "nl_env \<Rightarrow> nat \<times> u8 list \<Rightarrow> 'd nl_handler option \<Rightarrow> 'd \<Rightarrow> (int \<times> 'd \<times> nl_eff list) outcome" where
  "send_and_recv_msgs env msg valid_handler valid_data =
     (if \<not> ne_clone_ok env then Done (- ENOMEM, valid_data, [Cb_Put, Msg_Free])
      else if ne_send_ret env < 0 then
        Done (ne_send_ret env, valid_data, [Cb_Clone, Msg_Send (fst msg) (snd msg), Cb_Put, Msg_Free])
      else bindC (recv_loop valid_handler (ne_recv env) (1, valid_data))
        (\<lambda>(err, d). Done (err, d, [Cb_Clone, Msg_Send (fst msg) (snd msg), Cb_Put, Msg_Free])))"

subsection \<open>When the loop ends, and with what\<close>

primrec final_event :: "cb_event \<Rightarrow> bool" where
  "final_event (Ev_Valid m) = False"
| "final_event Ev_Ack = True"
| "final_event Ev_Finish = True"
| "final_event (Ev_Error e) = (e \<le> 0)"

text \<open>The kernel reports errors as negative numbers, and 0 for an acknowledgement.\<close>

primrec kernel_event :: "cb_event \<Rightarrow> bool" where
  "kernel_event (Ev_Valid m) = True"
| "kernel_event Ev_Ack = True"
| "kernel_event Ev_Finish = True"
| "kernel_event (Ev_Error e) = (e \<le> 0)"

lemma recv_loop_Done_nonpos: "recv_loop h bs s = Done (r, d) \<Longrightarrow> r \<le> 0"
  by (induction h bs s rule: recv_loop.induct) (auto split: if_splits)

lemma fold_nl_event_Cons:
  "fold (nl_event h) (e # es) s = fold (nl_event h) es (nl_event h e s)"
  by simp

lemma nl_event_err:
  "kernel_event e \<Longrightarrow> fst s \<le> 0 \<Longrightarrow> fst (nl_event h e s) \<le> 0"
  "kernel_event e \<Longrightarrow> 0 < fst (nl_event h e s) \<longleftrightarrow> 0 < fst s \<and> \<not> final_event e"
  by (cases e; cases s; simp add: ack_handler_def finish_handler_def error_handler_def)+

lemma fold_nl_event_pos:
  "list_all kernel_event es \<Longrightarrow>
    0 < fst (fold (nl_event h) es s) \<longleftrightarrow> 0 < fst s \<and> \<not> list_ex final_event es"
  by (induction es arbitrary: s) (auto simp: nl_event_err(2))

text \<open>The loop is blocked exactly when no message of the reply stream ends the request.\<close>

lemma recv_loop_Blocked_iff:
  assumes "list_all (\<lambda>b. list_all kernel_event (fst b)) bs"
  shows "recv_loop h bs s = Blocked \<longleftrightarrow> 0 < fst s \<and> \<not> list_ex (\<lambda>b. list_ex final_event (fst b)) bs"
  using assms
proof (induction h bs s rule: recv_loop.induct)
  case (2 h evs res bs s)
  then show ?case by (auto simp: fold_nl_event_pos)
qed simp

lemma recv_loop_not_Undef: "recv_loop h bs s \<noteq> Undef u"
  by (induction h bs s rule: recv_loop.induct) auto

lemma recv_loop_skip:
  "list_all (\<lambda>b. list_all (\<lambda>e. \<exists>m. e = Ev_Valid m) (fst b)) bs \<Longrightarrow> 0 < fst s \<Longrightarrow>
    recv_loop h (bs @ rest) s = recv_loop h rest (fold (\<lambda>b. fold (nl_event h) (fst b)) bs s)"
proof (induction bs arbitrary: s)
  case (Cons b bs)
  obtain evs res where [simp]: "b = (evs, res)" by (cases b)
  have "list_all kernel_event evs" "\<not> list_ex final_event evs"
    using Cons.prems by (auto simp: list_all_iff list_ex_iff)
  then have "0 < fst (fold (nl_event h) evs s)" using Cons.prems by (simp add: fold_nl_event_pos)
  then show ?case using Cons by simp
qed simp

lemma fold_nl_event_valid:
  "fold (nl_event h) (map Ev_Valid ms) (err, d) =
    (err, fold (\<lambda>m d. case h of None \<Rightarrow> d | Some f \<Rightarrow> snd (f m d)) ms d)"
  by (induction ms arbitrary: d) simp_all

lemma fold_nl_event_batches:
  "fold (\<lambda>b. fold (nl_event h) (fst b)) (map (\<lambda>ms. (map Ev_Valid ms, 0 :: int)) mss) (err, d) =
    (err, fold (\<lambda>m d. case h of None \<Rightarrow> d | Some f \<Rightarrow> snd (f m d)) (concat mss) d)"
  by (induction mss arbitrary: d) (simp_all add: fold_nl_event_valid)

section \<open>A concrete attribute format\<close>

text \<open>
  Attributes as type, length and value, a byte each for the first two: an instance of the libnl
  parameters on which the examples below run.
\<close>

fun tlv :: "u8 list \<Rightarrow> nat \<rightharpoonup> u8 list" where
  "tlv (t # n # r) = (tlv (drop (unat n) r)) (unat t \<mapsto> take (unat n) r)"
| "tlv _ = Map.empty"

definition tlv_libnl :: libnl where
  "tlv_libnl = \<lparr>NL80211_ATTR_TESTDATA = 69, nl_parse = tlv, nl_parse_nested = (\<lambda>mx pol td. Some (tlv td)),
     nla_get_u8 = (\<lambda>p. word_of_nat (le_val p)), nla_get_u16 = (\<lambda>p. word_of_nat (le_val p)),
     nla_get_u32 = (\<lambda>p. word_of_nat (le_val p)), nla_get_u64 = (\<lambda>p. word_of_nat (le_val p)),
     nla_memcpy = (\<lambda>dest src n. take n src @ drop (min n (length src)) dest)\<rparr>"

lemma tlv_libnl_memcpy_ok: "memcpy_ok tlv_libnl"
  by (simp add: memcpy_ok_def tlv_libnl_def)

section \<open>What an exchange returns\<close>

primrec ev_status :: "cb_event \<Rightarrow> int" where
  "ev_status (Ev_Valid m) = 1"
| "ev_status Ev_Ack = 0"
| "ev_status Ev_Finish = 0"
| "ev_status (Ev_Error e) = e"

lemma nl_event_final:
  "final_event fin \<Longrightarrow> nl_event h fin (err, d) = (ev_status fin, d)"
  by (cases fin) (simp_all add: ack_handler_def finish_handler_def error_handler_def)

lemma ev_status_final: "final_event fin \<Longrightarrow> ev_status fin \<le> 0"
  by (cases fin) simp_all

lemma send_and_recv_result:
  assumes "ne_clone_ok env" "0 \<le> ne_send_ret env" "final_event fin"
    and "ne_recv env = map (\<lambda>ms. (map Ev_Valid ms, 0)) mss @ (map Ev_Valid ms @ [fin], res) # rest"
  shows "send_and_recv_msgs env msg h d =
    Done (ev_status fin, fold (\<lambda>m d. case h of None \<Rightarrow> d | Some f \<Rightarrow> snd (f m d)) (concat mss @ ms) d,
      [Cb_Clone, Msg_Send (fst msg) (snd msg), Cb_Put, Msg_Free])"
proof -
  have skip: "recv_loop h (ne_recv env) (1, d) = recv_loop h ((map Ev_Valid ms @ [fin], res) # rest)
      (1, fold (\<lambda>m d. case h of None \<Rightarrow> d | Some f \<Rightarrow> snd (f m d)) (concat mss) d)"
    using assms(4) by (subst assms(4), subst recv_loop_skip) (auto simp: list_all_iff fold_nl_event_batches)
  have stop: "recv_loop h rest (ev_status fin, d') = Done (ev_status fin, d')" for d'
    using ev_status_final [OF assms(3)] by (cases "(h, rest, (ev_status fin, d'))" rule: recv_loop.cases) auto
  show ?thesis
    using assms(1-3) by (simp add: send_and_recv_msgs_def skip fold_nl_event_valid nl_event_final stop)
qed

text \<open>C3. When the request is sent and the reply stream carries valid messages, in any grouping, up to the
  first acknowledgement, end of dump or error, \<open>send_and_recv_msgs\<close> returns the status of that last event,
  hands every valid message to the handler once and in order, and puts the callback set and frees the message.\<close>

theorem send_and_recv_reply:
  assumes "ne_clone_ok env" "0 \<le> ne_send_ret env" "final_event fin"
    and "ne_recv env = map (\<lambda>ms. (map Ev_Valid ms, 0)) mss @ (map Ev_Valid ms @ [fin], res) # rest"
  shows "send_and_recv_msgs env msg h d =
    Done (ev_status fin, fold (\<lambda>m d. case h of None \<Rightarrow> d | Some f \<Rightarrow> snd (f m d)) (concat mss @ ms) d,
      [Cb_Clone, Msg_Send (fst msg) (snd msg), Cb_Put, Msg_Free])"
  using assms by (rule send_and_recv_result)

theorem send_and_recv_reply_witness:
  "let env = \<lparr>ne_clone_ok = True, ne_send_ret = 8, ne_recv = [([Ev_Valid [1]], 0), ([Ev_Valid [2], Ev_Ack], 0)]\<rparr>
   in final_event Ev_Ack \<and>
      send_and_recv_msgs env (3, [7]) (Some (\<lambda>m d. (NL_SKIP, d @ m))) [] =
        Done (0, [1, 2], [Cb_Clone, Msg_Send 3 [7], Cb_Put, Msg_Free])"
  using send_and_recv_reply [of "\<lparr>ne_clone_ok = True, ne_send_ret = 8,
      ne_recv = [([Ev_Valid [1]], 0), ([Ev_Valid [2], Ev_Ack], 0)]\<rparr>" Ev_Ack "[[[1]]]" "[[2]]" 0 "[]"
      "(3, [7])" "Some (\<lambda>m d. (NL_SKIP, d @ m))" "[]"]
  by simp

text \<open>C27. Whatever the reply stream, an exchange that returns has sent the message at most once, and has ended
  by putting the callback set and freeing the message, each exactly once; the status it returns is not
  positive, or is the error of the send.\<close>

theorem send_and_recv_releases:
  assumes "send_and_recv_msgs env msg h d = Done (r, d', e)"
  shows "r \<le> 0 \<and> count_list e Cb_Put = 1 \<and> count_list e Msg_Free = 1 \<and> last e = Msg_Free \<and>
    count_list e (Msg_Send (fst msg) (snd msg)) \<le> 1 \<and> (d' \<noteq> d \<longrightarrow> Msg_Send (fst msg) (snd msg) \<in> set e)"
  using assms recv_loop_Done_nonpos [of h "ne_recv env" "(1, d)"]
  by (auto simp: send_and_recv_msgs_def bindC_Done_iff ENOMEM_def split: if_splits)

theorem send_and_recv_releases_witness:
  "send_and_recv_msgs \<lparr>ne_clone_ok = True, ne_send_ret = - 5, ne_recv = []\<rparr> (3, [7]) None () =
     Done (- 5, (), [Cb_Clone, Msg_Send 3 [7], Cb_Put, Msg_Free]) \<and>
   count_list [Cb_Clone, Msg_Send 3 [7], Cb_Put, Msg_Free] Msg_Free = 1"
  using send_and_recv_releases [of "\<lparr>ne_clone_ok = True, ne_send_ret = - 5, ne_recv = []\<rparr>" "(3, [7])" None "()"
      "- 5" "()" "[Cb_Clone, Msg_Send 3 [7], Cb_Put, Msg_Free]"]
  by (simp add: send_and_recv_msgs_def)

text \<open>C26. With the status values the kernel sends, \<open>send_and_recv_msgs\<close> waits for ever exactly when the
  request was sent and no acknowledgement, end of dump or error ever arrives; otherwise it returns.\<close>

theorem send_and_recv_blocks_iff:
  assumes "list_all (\<lambda>b. list_all kernel_event (fst b)) (ne_recv env)"
  shows "(if ne_clone_ok env \<and> 0 \<le> ne_send_ret env \<and> \<not> list_ex (\<lambda>b. list_ex final_event (fst b)) (ne_recv env)
     then send_and_recv_msgs env msg h d = Blocked
     else \<exists>r d' e. send_and_recv_msgs env msg h d = Done (r, d', e))"
  using recv_loop_Blocked_iff [OF assms, of h "(1, d)"] recv_loop_not_Undef [of h "ne_recv env" "(1, d)"]
  by (cases "recv_loop h (ne_recv env) (1, d)") (auto simp: send_and_recv_msgs_def)

theorem send_and_recv_blocks_iff_witness:
  "send_and_recv_msgs \<lparr>ne_clone_ok = True, ne_send_ret = 0, ne_recv = [([Ev_Valid [1]], 0)]\<rparr> (3, [7]) None () = Blocked"
  using send_and_recv_blocks_iff [of "\<lparr>ne_clone_ok = True, ne_send_ret = 0, ne_recv = [([Ev_Valid [1]], 0)]\<rparr>"
      "(3, [7])" None "()"]
  by simp

end
