(* ===== verification/Reply_Handlers.thy ===== *)
theory Reply_Handlers
  imports Netlink
begin

text \<open>
  The reply handlers of \<open>mediatek_driver_cmd_nl80211.c\<close>: each parses the test data of a valid
  message under its policy and copies the attributes that are present into the structure its
  argument points at. The reference functions at the end of each section say the same field by field.
\<close>

section \<open>Shared parsing\<close>

text \<open>
  Every handler begins with \<open>nla_parse\<close> (its result ignored), a test for the test data attribute and
  \<open>nla_parse_nested\<close>; it gives up, leaving the structure alone, when either is missing.
\<close>

definition parse_testdata :: "libnl \<Rightarrow> nat \<Rightarrow> (nat \<rightharpoonup> nla_type) \<Rightarrow> u8 list \<Rightarrow> (nat \<rightharpoonup> u8 list) option" where
  "parse_testdata L maxtype policy msg =
     (case nl_parse L msg (NL80211_ATTR_TESTDATA L) of
        None \<Rightarrow> None
      | Some td \<Rightarrow> nl_parse_nested L maxtype policy td)"

fun words_of_bytes :: "u8 list \<Rightarrow> u32 list" where
  "words_of_bytes (a # b # c # d # r) = word_of_nat (le_val [a, b, c, d]) # words_of_bytes r"
| "words_of_bytes _ = []"

definition bytes_of_words :: "u32 list \<Rightarrow> u8 list" where
  "bytes_of_words ws = concat (map (\<lambda>w. le_bytes 4 (unat w)) ws)"

text \<open>\<open>nla_memcpy\<close> into an array of 32-bit words.\<close>

definition memcpy_words :: "libnl \<Rightarrow> u32 list \<Rightarrow> u8 list \<Rightarrow> u32 list" where
  "memcpy_words L ws p = words_of_bytes (nla_memcpy L (bytes_of_words ws) p (4 * length ws))"

text \<open>The value a field gets: from the payload when the attribute is present, the old one otherwise.\<close>

definition pick :: "'p option \<Rightarrow> ('p \<Rightarrow> 'v) \<Rightarrow> 'v \<Rightarrow> 'v" where
  "pick a f old = (case a of None \<Rightarrow> old | Some p \<Rightarrow> f p)"

lemma pick_simps [simp]: "pick None f v = v" "pick (Some p) f v = f p"
  by (simp_all add: pick_def)

section \<open>Station statistics\<close>

primrec sta_statistics_policy :: "sta_statistics_attr \<Rightarrow> nla_type" where
  "sta_statistics_policy STA_STATISTICS_VERSION = NLA_U8"
| "sta_statistics_policy STA_STATISTICS_MAC = NLA_UNSPEC"
| "sta_statistics_policy STA_STATISTICS_LINK_SCORE = NLA_U8"
| "sta_statistics_policy STA_STATISTICS_FLAG = NLA_U32"
| "sta_statistics_policy STA_STATISTICS_PER = NLA_U8"
| "sta_statistics_policy STA_STATISTICS_RSSI = NLA_U8"
| "sta_statistics_policy STA_STATISTICS_PHY_MODE = NLA_U32"
| "sta_statistics_policy STA_STATISTICS_TX_RATE = NLA_U16"
| "sta_statistics_policy STA_STATISTICS_FAIL_CNT = NLA_U32"
| "sta_statistics_policy STA_STATISTICS_TIMEOUT_CNT = NLA_U32"
| "sta_statistics_policy STA_STATISTICS_AVG_AIR_TIME = NLA_U32"
| "sta_statistics_policy STA_STATISTICS_TOTAL_CNT = NLA_U32"
| "sta_statistics_policy STA_STATISTICS_THRESHOLD_CNT = NLA_U32"
| "sta_statistics_policy STA_STATISTICS_AVG_PROCESS_TIME = NLA_U32"
| "sta_statistics_policy STA_STATISTICS_TC_EMPTY_CNT_ARRAY = NLA_UNSPEC"
| "sta_statistics_policy STA_STATISTICS_TC_QUE_LEN_ARRAY = NLA_UNSPEC"
| "sta_statistics_policy STA_STATISTICS_TC_AVG_QUE_LEN_ARRAY = NLA_UNSPEC"
| "sta_statistics_policy STA_STATISTICS_TC_CUR_QUE_LEN_ARRAY = NLA_UNSPEC"
| "sta_statistics_policy STA_STATISTICS_RESERVED_ARRAY = NLA_UNSPEC"

definition policy_of :: "('a \<Rightarrow> nat) \<Rightarrow> ('a \<Rightarrow> nla_type) \<Rightarrow> 'a list \<Rightarrow> nat \<rightharpoonup> nla_type" where
  "policy_of num ty as = map_of (map (\<lambda>a. (num a, ty a)) as)"

primrec sta_case :: "libnl \<Rightarrow> sta_statistics_attr \<Rightarrow> u8 list \<Rightarrow> sta_statistics \<Rightarrow> sta_statistics" where
  "sta_case L STA_STATISTICS_VERSION p st = st\<lparr>ss_version := nla_get_u8 L p\<rparr>"
| "sta_case L STA_STATISTICS_MAC p st = st\<lparr>ss_addr := nla_memcpy L (ss_addr st) p ETH_ALEN\<rparr>"
| "sta_case L STA_STATISTICS_LINK_SCORE p st = st\<lparr>ss_link_score := nla_get_u8 L p\<rparr>"
| "sta_case L STA_STATISTICS_FLAG p st = st\<lparr>ss_flag := nla_get_u32 L p\<rparr>"
| "sta_case L STA_STATISTICS_PER p st = st\<lparr>ss_per := nla_get_u8 L p\<rparr>"
| "sta_case L STA_STATISTICS_RSSI p st = st\<lparr>ss_rssi := c_div (int (unat (nla_get_u8 L p)) - 220) 2\<rparr>"
| "sta_case L STA_STATISTICS_PHY_MODE p st = st\<lparr>ss_phy_mode := nla_get_u32 L p\<rparr>"
| "sta_case L STA_STATISTICS_TX_RATE p st = st\<lparr>ss_tx_rate := of_nat (unat (nla_get_u16 L p)) / 2\<rparr>"
| "sta_case L STA_STATISTICS_FAIL_CNT p st = st\<lparr>ss_tx_fail_cnt := nla_get_u32 L p\<rparr>"
| "sta_case L STA_STATISTICS_TIMEOUT_CNT p st = st\<lparr>ss_tx_timeout_cnt := nla_get_u32 L p\<rparr>"
| "sta_case L STA_STATISTICS_AVG_AIR_TIME p st = st\<lparr>ss_tx_avg_air_time := nla_get_u32 L p\<rparr>"
| "sta_case L STA_STATISTICS_TOTAL_CNT p st = st\<lparr>ss_tx_total_cnt := nla_get_u32 L p\<rparr>"
| "sta_case L STA_STATISTICS_THRESHOLD_CNT p st = st\<lparr>ss_tx_exc_threshold_cnt := nla_get_u32 L p\<rparr>"
| "sta_case L STA_STATISTICS_AVG_PROCESS_TIME p st = st\<lparr>ss_tx_avg_process_time := nla_get_u32 L p\<rparr>"
| "sta_case L STA_STATISTICS_TC_EMPTY_CNT_ARRAY p st =
     st\<lparr>ss_tc_buf_full_cnt := memcpy_words L (ss_tc_buf_full_cnt st) p\<rparr>"
| "sta_case L STA_STATISTICS_TC_QUE_LEN_ARRAY p st =
     st\<lparr>ss_tc_que_len := memcpy_words L (ss_tc_que_len st) p\<rparr>"
| "sta_case L STA_STATISTICS_TC_AVG_QUE_LEN_ARRAY p st =
     st\<lparr>ss_tc_avg_que_len := memcpy_words L (ss_tc_avg_que_len st) p\<rparr>"
| "sta_case L STA_STATISTICS_TC_CUR_QUE_LEN_ARRAY p st =
     st\<lparr>ss_tc_cur_que_len := memcpy_words L (ss_tc_cur_que_len st) p\<rparr>"
| "sta_case L STA_STATISTICS_RESERVED_ARRAY p st =
     st\<lparr>ss_reserved := nla_memcpy L (ss_reserved st) p 32\<rparr>"

text \<open>The body of the loop, and the loop over the attribute numbers in increasing order.\<close>

definition sta_step :: "libnl \<Rightarrow> (nat \<rightharpoonup> u8 list) \<Rightarrow> sta_statistics_attr \<Rightarrow> sta_statistics \<Rightarrow> sta_statistics" where
  "sta_step L sinfo a st = (case sinfo (sta_attr_id a) of None \<Rightarrow> st | Some p \<Rightarrow> sta_case L a p st)"

definition testmode_sta_statistics_handler :: "libnl \<Rightarrow> sta_statistics nl_handler" where
  "testmode_sta_statistics_handler L msg st =
     (case parse_testdata L (NL80211_TESTMODE_STA_STATISTICS_NUM - 1)
        (policy_of sta_attr_id sta_statistics_policy sta_statistics_attrs) msg of
        None \<Rightarrow> (NL_SKIP, st)
      | Some sinfo \<Rightarrow> (NL_SKIP, fold (sta_step L sinfo) sta_statistics_attrs st))"

text \<open>The same, one field at a time.\<close>

definition sta_statistics_of :: "libnl \<Rightarrow> (nat \<rightharpoonup> u8 list) \<Rightarrow> sta_statistics \<Rightarrow> sta_statistics" where
  "sta_statistics_of L sinfo st = (let att = (\<lambda>a. sinfo (sta_attr_id a)) in
     \<lparr>ss_version = pick (att STA_STATISTICS_VERSION) (nla_get_u8 L) (ss_version st),
      ss_addr = pick (att STA_STATISTICS_MAC) (\<lambda>p. nla_memcpy L (ss_addr st) p ETH_ALEN) (ss_addr st),
      ss_flag = pick (att STA_STATISTICS_FLAG) (nla_get_u32 L) (ss_flag st),
      ss_link_score = pick (att STA_STATISTICS_LINK_SCORE) (nla_get_u8 L) (ss_link_score st),
      ss_per = pick (att STA_STATISTICS_PER) (nla_get_u8 L) (ss_per st),
      ss_rssi = pick (att STA_STATISTICS_RSSI) (\<lambda>p. c_div (int (unat (nla_get_u8 L p)) - 220) 2) (ss_rssi st),
      ss_phy_mode = pick (att STA_STATISTICS_PHY_MODE) (nla_get_u32 L) (ss_phy_mode st),
      ss_tx_rate = pick (att STA_STATISTICS_TX_RATE) (\<lambda>p. of_nat (unat (nla_get_u16 L p)) / 2) (ss_tx_rate st),
      ss_tx_total_cnt = pick (att STA_STATISTICS_TOTAL_CNT) (nla_get_u32 L) (ss_tx_total_cnt st),
      ss_tx_exc_threshold_cnt = pick (att STA_STATISTICS_THRESHOLD_CNT) (nla_get_u32 L) (ss_tx_exc_threshold_cnt st),
      ss_tx_avg_process_time = pick (att STA_STATISTICS_AVG_PROCESS_TIME) (nla_get_u32 L) (ss_tx_avg_process_time st),
      ss_tx_fail_cnt = pick (att STA_STATISTICS_FAIL_CNT) (nla_get_u32 L) (ss_tx_fail_cnt st),
      ss_tx_timeout_cnt = pick (att STA_STATISTICS_TIMEOUT_CNT) (nla_get_u32 L) (ss_tx_timeout_cnt st),
      ss_tx_avg_air_time = pick (att STA_STATISTICS_AVG_AIR_TIME) (nla_get_u32 L) (ss_tx_avg_air_time st),
      ss_tc_buf_full_cnt = pick (att STA_STATISTICS_TC_EMPTY_CNT_ARRAY)
        (memcpy_words L (ss_tc_buf_full_cnt st)) (ss_tc_buf_full_cnt st),
      ss_tc_que_len = pick (att STA_STATISTICS_TC_QUE_LEN_ARRAY)
        (memcpy_words L (ss_tc_que_len st)) (ss_tc_que_len st),
      ss_tc_avg_que_len = pick (att STA_STATISTICS_TC_AVG_QUE_LEN_ARRAY)
        (memcpy_words L (ss_tc_avg_que_len st)) (ss_tc_avg_que_len st),
      ss_tc_cur_que_len = pick (att STA_STATISTICS_TC_CUR_QUE_LEN_ARRAY)
        (memcpy_words L (ss_tc_cur_que_len st)) (ss_tc_cur_que_len st),
      ss_reserved = pick (att STA_STATISTICS_RESERVED_ARRAY)
        (\<lambda>p. nla_memcpy L (ss_reserved st) p 32) (ss_reserved st)\<rparr>)"

text \<open>A step is an update of its own field, whether or not the attribute is there.\<close>

lemma sta_step_eqs:
  "sta_step L s STA_STATISTICS_VERSION st = st\<lparr>ss_version := pick (s 1) (nla_get_u8 L) (ss_version st)\<rparr>"
  "sta_step L s STA_STATISTICS_MAC st = st\<lparr>ss_addr := pick (s 2) (\<lambda>p. nla_memcpy L (ss_addr st) p ETH_ALEN) (ss_addr st)\<rparr>"
  "sta_step L s STA_STATISTICS_LINK_SCORE st = st\<lparr>ss_link_score := pick (s 3) (nla_get_u8 L) (ss_link_score st)\<rparr>"
  "sta_step L s STA_STATISTICS_FLAG st = st\<lparr>ss_flag := pick (s 4) (nla_get_u32 L) (ss_flag st)\<rparr>"
  "sta_step L s STA_STATISTICS_PER st = st\<lparr>ss_per := pick (s 5) (nla_get_u8 L) (ss_per st)\<rparr>"
  "sta_step L s STA_STATISTICS_RSSI st =
     st\<lparr>ss_rssi := pick (s 6) (\<lambda>p. c_div (int (unat (nla_get_u8 L p)) - 220) 2) (ss_rssi st)\<rparr>"
  "sta_step L s STA_STATISTICS_PHY_MODE st = st\<lparr>ss_phy_mode := pick (s 7) (nla_get_u32 L) (ss_phy_mode st)\<rparr>"
  "sta_step L s STA_STATISTICS_TX_RATE st =
     st\<lparr>ss_tx_rate := pick (s 8) (\<lambda>p. of_nat (unat (nla_get_u16 L p)) / 2) (ss_tx_rate st)\<rparr>"
  by (simp_all add: sta_step_def pick_def split: option.split)

lemma sta_step_counters:
  "sta_step L s STA_STATISTICS_TOTAL_CNT st = st\<lparr>ss_tx_total_cnt := pick (s 9) (nla_get_u32 L) (ss_tx_total_cnt st)\<rparr>"
  "sta_step L s STA_STATISTICS_THRESHOLD_CNT st =
     st\<lparr>ss_tx_exc_threshold_cnt := pick (s 10) (nla_get_u32 L) (ss_tx_exc_threshold_cnt st)\<rparr>"
  "sta_step L s STA_STATISTICS_AVG_PROCESS_TIME st =
     st\<lparr>ss_tx_avg_process_time := pick (s 11) (nla_get_u32 L) (ss_tx_avg_process_time st)\<rparr>"
  "sta_step L s STA_STATISTICS_FAIL_CNT st = st\<lparr>ss_tx_fail_cnt := pick (s 12) (nla_get_u32 L) (ss_tx_fail_cnt st)\<rparr>"
  "sta_step L s STA_STATISTICS_TIMEOUT_CNT st =
     st\<lparr>ss_tx_timeout_cnt := pick (s 13) (nla_get_u32 L) (ss_tx_timeout_cnt st)\<rparr>"
  "sta_step L s STA_STATISTICS_AVG_AIR_TIME st =
     st\<lparr>ss_tx_avg_air_time := pick (s 14) (nla_get_u32 L) (ss_tx_avg_air_time st)\<rparr>"
  by (simp_all add: sta_step_def pick_def split: option.split)

lemma sta_step_arrays:
  "sta_step L s STA_STATISTICS_TC_EMPTY_CNT_ARRAY st =
     st\<lparr>ss_tc_buf_full_cnt := pick (s 15) (memcpy_words L (ss_tc_buf_full_cnt st)) (ss_tc_buf_full_cnt st)\<rparr>"
  "sta_step L s STA_STATISTICS_TC_QUE_LEN_ARRAY st =
     st\<lparr>ss_tc_que_len := pick (s 16) (memcpy_words L (ss_tc_que_len st)) (ss_tc_que_len st)\<rparr>"
  "sta_step L s STA_STATISTICS_TC_AVG_QUE_LEN_ARRAY st =
     st\<lparr>ss_tc_avg_que_len := pick (s 17) (memcpy_words L (ss_tc_avg_que_len st)) (ss_tc_avg_que_len st)\<rparr>"
  "sta_step L s STA_STATISTICS_TC_CUR_QUE_LEN_ARRAY st =
     st\<lparr>ss_tc_cur_que_len := pick (s 18) (memcpy_words L (ss_tc_cur_que_len st)) (ss_tc_cur_que_len st)\<rparr>"
  "sta_step L s STA_STATISTICS_RESERVED_ARRAY st =
     st\<lparr>ss_reserved := pick (s 19) (\<lambda>p. nla_memcpy L (ss_reserved st) p 32) (ss_reserved st)\<rparr>"
  by (simp_all add: sta_step_def pick_def split: option.split)

lemma fold_sta_step: "fold (sta_step L sinfo) sta_statistics_attrs st = sta_statistics_of L sinfo st"
  by (simp add: sta_statistics_attrs_def sta_step_eqs sta_step_counters sta_step_arrays sta_statistics_of_def
      Let_def)

section \<open>Beam+ group owner state\<close>

text \<open>The only attribute, \<open>NL80211_TESTMODE_GO_READY_STATE\<close>, has its number outside the repository.\<close>

definition testmode_beamplus_go_ready_handler :: "libnl \<Rightarrow> nat \<Rightarrow> u32 nl_handler" where
  "testmode_beamplus_go_ready_handler L GO_READY_STATE msg go_ready =
     (case parse_testdata L GO_READY_STATE [GO_READY_STATE \<mapsto> NLA_U32] msg of
        None \<Rightarrow> (NL_SKIP, go_ready)
      | Some sinfo \<Rightarrow> (NL_SKIP, pick (sinfo GO_READY_STATE) (nla_get_u32 L) go_ready))"

section \<open>Link detection counters\<close>

text \<open>\<open>ack_cnt\<close> is read as a signed value and its magnitude is stored.\<close>

definition ack_magnitude :: "u64 \<Rightarrow> u64" where
  "ack_magnitude ack_cnt = (if sint ack_cnt < 0 then - ack_cnt else ack_cnt)"

primrec link_case :: "libnl \<Rightarrow> link_detect_attr \<Rightarrow> u8 list \<Rightarrow> sta_link_detect \<Rightarrow> sta_link_detect" where
  "link_case L LINK_TX_FAIL_CNT p d = d\<lparr>ld_tx_fail_cnt := nla_get_u64 L p\<rparr>"
| "link_case L LINK_TX_RETRY_CNT p d = d\<lparr>ld_tx_retry_cnt := nla_get_u64 L p\<rparr>"
| "link_case L LINK_TX_MULTI_RETRY_CNT p d = d\<lparr>ld_tx_multi_retry_cnt := nla_get_u64 L p\<rparr>"
| "link_case L LINK_ACK_FAIL_CNT p d = d\<lparr>ld_ack_fail_cnt := ack_magnitude (nla_get_u64 L p)\<rparr>"
| "link_case L LINK_FCS_ERR_CNT p d = d\<lparr>ld_fcs_err_cnt := nla_get_u64 L p\<rparr>"
| "link_case L LINK_TX_CNT p d = d\<lparr>ld_tx_cnt := nla_get_u64 L p\<rparr>"
| "link_case L LINK_TX_OK_CNT p d = d\<lparr>ld_tx_ok_cnt := nla_get_u64 L p\<rparr>"
| "link_case L LINK_TX_OS_CNT p d = d\<lparr>ld_tx_os_cnt := nla_get_u64 L p\<rparr>"

definition link_step :: "libnl \<Rightarrow> (nat \<rightharpoonup> u8 list) \<Rightarrow> link_detect_attr \<Rightarrow> sta_link_detect \<Rightarrow> sta_link_detect" where
  "link_step L sinfo a d = (case sinfo (link_attr_id a) of None \<Rightarrow> d | Some p \<Rightarrow> link_case L a p d)"

definition testmode_sta_link_detect_handler :: "libnl \<Rightarrow> sta_link_detect nl_handler" where
  "testmode_sta_link_detect_handler L msg d =
     (case parse_testdata L (NL80211_TESTMODE_LINK_DETECT_NUM - 1)
        (policy_of link_attr_id (\<lambda>a. NLA_U64) link_detect_attrs) msg of
        None \<Rightarrow> (NL_SKIP, d)
      | Some sinfo \<Rightarrow> (NL_SKIP, fold (link_step L sinfo) link_detect_attrs d))"

definition sta_link_detect_of :: "libnl \<Rightarrow> (nat \<rightharpoonup> u8 list) \<Rightarrow> sta_link_detect \<Rightarrow> sta_link_detect" where
  "sta_link_detect_of L sinfo d =
     \<lparr>ld_tx_fail_cnt = pick (sinfo 1) (nla_get_u64 L) (ld_tx_fail_cnt d),
      ld_tx_retry_cnt = pick (sinfo 2) (nla_get_u64 L) (ld_tx_retry_cnt d),
      ld_tx_multi_retry_cnt = pick (sinfo 3) (nla_get_u64 L) (ld_tx_multi_retry_cnt d),
      ld_ack_fail_cnt = pick (sinfo 4) (\<lambda>p. ack_magnitude (nla_get_u64 L p)) (ld_ack_fail_cnt d),
      ld_fcs_err_cnt = pick (sinfo 5) (nla_get_u64 L) (ld_fcs_err_cnt d),
      ld_tx_cnt = pick (sinfo 6) (nla_get_u64 L) (ld_tx_cnt d),
      ld_tx_ok_cnt = pick (sinfo 7) (nla_get_u64 L) (ld_tx_ok_cnt d),
      ld_tx_os_cnt = pick (sinfo 8) (nla_get_u64 L) (ld_tx_os_cnt d)\<rparr>"

lemma link_step_eqs:
  "link_step L s LINK_TX_FAIL_CNT d = d\<lparr>ld_tx_fail_cnt := pick (s 1) (nla_get_u64 L) (ld_tx_fail_cnt d)\<rparr>"
  "link_step L s LINK_TX_RETRY_CNT d = d\<lparr>ld_tx_retry_cnt := pick (s 2) (nla_get_u64 L) (ld_tx_retry_cnt d)\<rparr>"
  "link_step L s LINK_TX_MULTI_RETRY_CNT d =
     d\<lparr>ld_tx_multi_retry_cnt := pick (s 3) (nla_get_u64 L) (ld_tx_multi_retry_cnt d)\<rparr>"
  "link_step L s LINK_ACK_FAIL_CNT d =
     d\<lparr>ld_ack_fail_cnt := pick (s 4) (\<lambda>p. ack_magnitude (nla_get_u64 L p)) (ld_ack_fail_cnt d)\<rparr>"
  "link_step L s LINK_FCS_ERR_CNT d = d\<lparr>ld_fcs_err_cnt := pick (s 5) (nla_get_u64 L) (ld_fcs_err_cnt d)\<rparr>"
  "link_step L s LINK_TX_CNT d = d\<lparr>ld_tx_cnt := pick (s 6) (nla_get_u64 L) (ld_tx_cnt d)\<rparr>"
  "link_step L s LINK_TX_OK_CNT d = d\<lparr>ld_tx_ok_cnt := pick (s 7) (nla_get_u64 L) (ld_tx_ok_cnt d)\<rparr>"
  "link_step L s LINK_TX_OS_CNT d = d\<lparr>ld_tx_os_cnt := pick (s 8) (nla_get_u64 L) (ld_tx_os_cnt d)\<rparr>"
  by (simp_all add: link_step_def pick_def split: option.split)

lemma fold_link_step: "fold (link_step L sinfo) link_detect_attrs d = sta_link_detect_of L sinfo d"
  by (simp add: link_detect_attrs_def link_step_eqs sta_link_detect_of_def)

lemma uint_word_of_nonneg:
  assumes "0 \<le> k" "k < 2 ^ 64"
  shows "uint (word_of_int k :: u64) = k"
  using assms by (simp add: uint_word_of_int)

lemma uint_ack_magnitude: "uint (ack_magnitude w) = \<bar>sint w\<bar>"
proof -
  have "- (2 ^ 63) \<le> sint w" "sint w < 2 ^ 63" using sint_ge [of w] sint_lt [of w] by simp_all
  moreover have "ack_magnitude w = word_of_int \<bar>sint w\<bar>"
    by (simp add: ack_magnitude_def)
  ultimately show ?thesis by (simp add: uint_word_of_nonneg)
qed

section \<open>Available channels\<close>

primrec chan_case :: "libnl \<Rightarrow> available_chan_attr \<Rightarrow> u8 list \<Rightarrow> available_chan \<Rightarrow> available_chan" where
  "chan_case L AVAILABLE_CHAN_2G_BASE_1 p c = c\<lparr>ac_ch_2g_base1 := nla_get_u32 L p\<rparr>"
| "chan_case L AVAILABLE_CHAN_5G_BASE_34 p c = c\<lparr>ac_ch_5g_base34 := nla_get_u32 L p\<rparr>"
| "chan_case L AVAILABLE_CHAN_5G_BASE_100 p c = c\<lparr>ac_ch_5g_base100 := nla_get_u32 L p\<rparr>"
| "chan_case L AVAILABLE_CHAN_5G_BASE_149 p c = c\<lparr>ac_ch_5g_base149 := nla_get_u32 L p\<rparr>"
| "chan_case L AVAILABLE_CHAN_5G_BASE_184 p c = c\<lparr>ac_ch_5g_base184 := nla_get_u32 L p\<rparr>"

definition chan_step :: "libnl \<Rightarrow> (nat \<rightharpoonup> u8 list) \<Rightarrow> available_chan_attr \<Rightarrow> available_chan \<Rightarrow> available_chan" where
  "chan_step L sinfo a c = (case sinfo (chan_attr_id a) of None \<Rightarrow> c | Some p \<Rightarrow> chan_case L a p c)"

definition testmode_available_channel_handler :: "libnl \<Rightarrow> available_chan nl_handler" where
  "testmode_available_channel_handler L msg c =
     (case parse_testdata L (NL80211_TESTMODE_AVAILABLE_CHAN_NUM - 1)
        (policy_of chan_attr_id (\<lambda>a. NLA_U32) available_chan_attrs) msg of
        None \<Rightarrow> (NL_SKIP, c)
      | Some sinfo \<Rightarrow> (NL_SKIP, fold (chan_step L sinfo) available_chan_attrs c))"

definition available_chan_of :: "libnl \<Rightarrow> (nat \<rightharpoonup> u8 list) \<Rightarrow> available_chan \<Rightarrow> available_chan" where
  "available_chan_of L sinfo c =
     \<lparr>ac_ch_2g_base1 = pick (sinfo 1) (nla_get_u32 L) (ac_ch_2g_base1 c),
      ac_ch_5g_base34 = pick (sinfo 2) (nla_get_u32 L) (ac_ch_5g_base34 c),
      ac_ch_5g_base100 = pick (sinfo 3) (nla_get_u32 L) (ac_ch_5g_base100 c),
      ac_ch_5g_base149 = pick (sinfo 4) (nla_get_u32 L) (ac_ch_5g_base149 c),
      ac_ch_5g_base184 = pick (sinfo 5) (nla_get_u32 L) (ac_ch_5g_base184 c)\<rparr>"

lemma fold_chan_step: "fold (chan_step L sinfo) available_chan_attrs c = available_chan_of L sinfo c"
  by (simp add: available_chan_attrs_def chan_step_def available_chan_of_def split: option.split)

section \<open>The received statistics are well formed\<close>

lemma rssi_range: "- 110 \<le> c_div (int (unat (b :: u8)) - 220) 2 \<and> c_div (int (unat b) - 220) 2 \<le> 17"
proof -
  have "- 110 \<le> c_div (v - 220) 2 \<and> c_div (v - 220) 2 \<le> 17" if "0 \<le> v" "v < 256" for v :: int
    using that by (auto simp: c_div_def sgn_if)
  moreover have "int (unat b) < 256" using unsigned_less [of b, where 'a = int] by simp
  ultimately show ?thesis by (metis of_nat_0_le_iff)
qed

lemma length_bytes_of_words [simp]: "length (bytes_of_words ws) = 4 * length ws"
  by (induction ws) (simp_all add: bytes_of_words_def)

lemma length_words_of_bytes: "length (words_of_bytes bs) = length bs div 4"
  by (induction bs rule: words_of_bytes.induct) simp_all

lemma words_of_bytes_of_words [simp]: "words_of_bytes (bytes_of_words ws @ r) = ws @ words_of_bytes r"
proof (induction ws)
  case (Cons w ws)
  have "word_of_nat (le_val (le_bytes 4 (unat w))) = w"
    using unsigned_less [of w, where 'a = nat] by (simp add: le_val_le_bytes)
  moreover obtain a b c d where "le_bytes 4 (unat w) = [a, b, c, d]"
    using length_le_bytes [of 4 "unat w"] by (auto simp: numeral_eq_Suc length_Suc_conv simp del: length_le_bytes le_bytes.simps)
  ultimately show ?case using Cons by (simp add: bytes_of_words_def)
qed (simp add: bytes_of_words_def)

lemma length_nla_memcpy:
  "memcpy_ok L \<Longrightarrow> n \<le> length dest \<Longrightarrow> length (nla_memcpy L dest src n) = length dest"
  by (simp add: memcpy_ok_def)

lemma length_memcpy_words: "memcpy_ok L \<Longrightarrow> length (memcpy_words L ws p) = length ws"
  by (simp add: memcpy_words_def length_words_of_bytes length_nla_memcpy)

lemma sta_statistics_of_wf:
  assumes "memcpy_ok L" "sta_statistics_wf st"
  shows "sta_statistics_wf (sta_statistics_of L sinfo st)"
  using assms
  by (simp add: sta_statistics_wf_def sta_statistics_of_def Let_def pick_def length_nla_memcpy
      length_memcpy_words split: option.split)

section \<open>The handlers are their reference functions\<close>

text \<open>C17. The statistics handler never fails the exchange, leaves the structure alone when the test data is
  missing or does not parse, and otherwise its loop over the attribute numbers sets each of the nineteen
  fields from its own attribute and keeps the fields whose attribute is absent.\<close>

theorem sta_statistics_handler_eq:
  "testmode_sta_statistics_handler L msg st = (NL_SKIP,
     case parse_testdata L 19 (policy_of sta_attr_id sta_statistics_policy sta_statistics_attrs) msg of
       None \<Rightarrow> st
     | Some sinfo \<Rightarrow> sta_statistics_of L sinfo st)"
  by (simp add: testmode_sta_statistics_handler_def fold_sta_step NL80211_TESTMODE_STA_STATISTICS_NUM_def
      split: option.split)

text \<open>C37. The statistics handler keeps the arrays of the structure at their declared lengths, and a signal
  strength it reads from the one-byte attribute lies between -110 and 17 dBm.\<close>

theorem sta_statistics_handler_wf:
  assumes "memcpy_ok L" "sta_statistics_wf st" "- 110 \<le> ss_rssi st \<and> ss_rssi st \<le> 17"
    and "testmode_sta_statistics_handler L msg st = (act, st')"
  shows "sta_statistics_wf st' \<and> - 110 \<le> ss_rssi st' \<and> ss_rssi st' \<le> 17"
proof -
  have "- 110 \<le> ss_rssi (sta_statistics_of L sinfo st) \<and> ss_rssi (sta_statistics_of L sinfo st) \<le> 17" for sinfo
    using assms(3) rssi_range by (simp add: sta_statistics_of_def Let_def pick_def split: option.split)
  then show ?thesis
    using assms sta_statistics_of_wf [OF assms(1,2)]
    by (auto simp: testmode_sta_statistics_handler_def fold_sta_step split: option.splits)
qed

text \<open>A reply with a signal strength byte of 100 and a link score of 7.\<close>

definition sample_stats_msg :: "u8 list" where
  "sample_stats_msg = [69, 6, 6, 1, 100, 3, 1, 7]"

definition sta_statistics_zero :: sta_statistics where
  "sta_statistics_zero = \<lparr>ss_version = 0, ss_addr = replicate 6 0, ss_flag = 0, ss_link_score = 0, ss_per = 0,
     ss_rssi = 0, ss_phy_mode = 0, ss_tx_rate = 0, ss_tx_total_cnt = 0, ss_tx_exc_threshold_cnt = 0,
     ss_tx_avg_process_time = 0, ss_tx_fail_cnt = 0, ss_tx_timeout_cnt = 0, ss_tx_avg_air_time = 0,
     ss_tc_buf_full_cnt = replicate 4 0, ss_tc_que_len = replicate 4 0, ss_tc_avg_que_len = replicate 4 0,
     ss_tc_cur_que_len = replicate 4 0, ss_reserved = replicate 32 0\<rparr>"

lemma sample_stats_parse:
  "parse_testdata tlv_libnl mx pol sample_stats_msg = Some [3 \<mapsto> [7], 6 \<mapsto> [100]]"
  by (simp add: parse_testdata_def tlv_libnl_def sample_stats_msg_def)

lemma sample_stats_reply:
  "snd (testmode_sta_statistics_handler tlv_libnl sample_stats_msg sta_statistics_zero) =
     sta_statistics_zero\<lparr>ss_link_score := 7, ss_rssi := - 60\<rparr>"
  by (simp add: testmode_sta_statistics_handler_def sample_stats_parse fold_sta_step sta_statistics_of_def
      sta_statistics_zero_def Let_def) (simp add: tlv_libnl_def c_div_def)

theorem sta_statistics_handler_wf_witness:
  "let st' = snd (testmode_sta_statistics_handler tlv_libnl sample_stats_msg sta_statistics_zero)
   in sta_statistics_wf st' \<and> ss_rssi st' = - 60 \<and> - 110 \<le> ss_rssi st'"
  using sta_statistics_handler_wf [OF tlv_libnl_memcpy_ok, of sta_statistics_zero sample_stats_msg
      "fst (testmode_sta_statistics_handler tlv_libnl sample_stats_msg sta_statistics_zero)"
      "snd (testmode_sta_statistics_handler tlv_libnl sample_stats_msg sta_statistics_zero)"]
  by (simp add: sample_stats_reply) (simp add: sta_statistics_zero_def sta_statistics_wf_def)


definition sta_link_detect_zero :: sta_link_detect where
  "sta_link_detect_zero = \<lparr>ld_tx_fail_cnt = 0, ld_tx_retry_cnt = 0, ld_tx_multi_retry_cnt = 0,
     ld_ack_fail_cnt = 0, ld_fcs_err_cnt = 0, ld_tx_cnt = 0, ld_tx_ok_cnt = 0, ld_tx_os_cnt = 0\<rparr>"


text \<open>The available channel handler sets each of the five channel masks from its own attribute and keeps
  those whose attribute is absent.\<close>

theorem available_channel_handler_eq:
  "testmode_available_channel_handler L msg c = (NL_SKIP,
     case parse_testdata L 5 (policy_of chan_attr_id (\<lambda>a. NLA_U32) available_chan_attrs) msg of
       None \<Rightarrow> c
     | Some sinfo \<Rightarrow> available_chan_of L sinfo c)"
  by (simp add: testmode_available_channel_handler_def fold_chan_step NL80211_TESTMODE_AVAILABLE_CHAN_NUM_def
      split: option.split)

end
