(* ===== verification/Testmode.thy ===== *)
theory Testmode
  imports Reply_Handlers
begin

text \<open>
  \<open>wpa_driver_nl80211_testmode\<close> and the functions of \<open>mediatek_driver_cmd_nl80211.c\<close> that fill in
  a parameter structure and send it: software commands, hotspot block list, WAPI keys, Wi-Fi Display
  data, Beam+, statistics, link detection and P2P sigma tests. These functions take the transport as an
  argument; the locale states what they rely on, and is interpreted on \<open>wpa_driver_nl80211_testmode\<close>.
\<close>

section \<open>Sending a test mode command\<close>

text \<open>
  The object that the pointer in the parameters, if there is one, points at. The caller passes it
  along and gets it back updated.
\<close>

datatype out_obj =
    No_Obj
  | Stats_Obj sta_statistics
  | Link_Obj sta_link_detect
  | Chan_Obj available_chan

type_synonym testmode_fn =
  "testmode_data \<Rightarrow> out_obj \<Rightarrow> (int \<times> testmode_data \<times> out_obj \<times> nl_eff list) outcome"

record tm_env =
  te_alloc_ok :: bool
  te_put_ok :: bool
  te_ifindex :: nat
  te_nl :: nl_env
  te_libnl :: libnl
  te_go_ready_attr :: nat

text \<open>
  The parameters are read through their header, then cast to the type the index stands for; a cast
  to another type than that of the object is undefined. When \<open>NLA_PUT\<close> runs out of room the function
  returns without releasing the message.
\<close>

definition wpa_driver_nl80211_testmode :: "config \<Rightarrow> tm_env \<Rightarrow> testmode_fn" where
  "wpa_driver_nl80211_testmode cfg env data obj =
     (if \<not> CONFIG_MTK_TURNKEY_WLAN cfg then Done (0, data, obj, [])
      else if \<not> te_alloc_ok env then Done (- 1, data, obj, [])
      else if \<not> te_put_ok env then Done (- ENOBUFS, data, obj, [Msg_Alloc])
      else
        (let msg = (te_ifindex env, tmd_bytes cfg data);
             L = te_libnl env;
             index = tm_index (tmd_hdr data) AND BITS 0 23
         in if index = 0x10 then
              (case (data, obj) of
                 (Get_Sta_Statistics sta_params, Stats_Obj st) \<Rightarrow>
                   bindC (send_and_recv_msgs (te_nl env) msg (Some (testmode_sta_statistics_handler L)) st)
                     (\<lambda>(ret, st', e). Done (ret, data, Stats_Obj st', Msg_Alloc # e))
               | _ \<Rightarrow> Undef Bad_Cast)
            else if index = 0x12 \<and> CONFIG_MEDIATEK_WIFI_BEAM cfg then
              (case data of
                 Set_Beamplus sta_params \<Rightarrow>
                   bindC (send_and_recv_msgs (te_nl env) msg
                       (Some (testmode_beamplus_go_ready_handler L (te_go_ready_attr env))) (bp_value sta_params))
                     (\<lambda>(ret, v, e). Done (ret, Set_Beamplus (sta_params\<lparr>bp_value := v\<rparr>), obj, Msg_Alloc # e))
               | _ \<Rightarrow> Undef Bad_Cast)
            else if index = 0x20 \<and> CONFIG_MTK_POOR_LINK_DETECT cfg then
              (case (data, obj) of
                 (Get_Sta_Link_Detect sta_params, Link_Obj d) \<Rightarrow>
                   bindC (send_and_recv_msgs (te_nl env) msg (Some (testmode_sta_link_detect_handler L)) d)
                     (\<lambda>(ret, d', e). Done (ret, data, Link_Obj d', Msg_Alloc # e))
               | _ \<Rightarrow> Undef Bad_Cast)
            else if index = 0x30 \<and> CONFIG_MTK_LTE_COEX cfg then
              (case (data, obj) of
                 (Get_Available_Channel chan_params, Chan_Obj c) \<Rightarrow>
                   bindC (send_and_recv_msgs (te_nl env) msg (Some (testmode_available_channel_handler L)) c)
                     (\<lambda>(ret, c', e). Done (ret, data, Chan_Obj c', Msg_Alloc # e))
               | _ \<Rightarrow> Undef Bad_Cast)
            else
              bindC (send_and_recv_msgs (te_nl env) msg None ())
                (\<lambda>(ret, u, e). Done (ret, data, obj, Msg_Alloc # e))))"

section \<open>Filling in the parameters\<close>

text \<open>The version byte 1 goes above the 24 bits of the command number.\<close>

definition mk_hdr :: "u32 \<Rightarrow> nat \<Rightarrow> test_mode_info" where
  "mk_hdr idx len = \<lparr>tm_index = idx OR push_bit 24 1, tm_buflen = word_of_nat len\<rparr>"

abbreviation (input) sizeof :: "config \<Rightarrow> ctype \<Rightarrow> nat" where
  "sizeof cfg t \<equiv> csize (ptr_bytes cfg) t"

subsection \<open>Software commands\<close>

definition wpa_driver_nl80211_driver_sw_cmd ::
  "config \<Rightarrow> testmode_fn \<Rightarrow> int \<Rightarrow> u32 \<Rightarrow> u32 \<Rightarrow> (int \<times> nl_eff list) outcome" where
  "wpa_driver_nl80211_driver_sw_cmd cfg tm sets adr dat =
     (let params = \<lparr>sw_hdr = mk_hdr NL80211_TESTMODE_SW_CMD (sizeof cfg T_sw_cmd),
                    sw_set = (if sets \<noteq> 0 then 1 else 0), sw_adr = adr, sw_data = dat\<rparr>
      in bindC (tm (Sw_Cmd params) No_Obj) (\<lambda>(ret, d, ob, e). Done (0, e)))"

subsection \<open>Hotspot block list\<close>

definition wpa_driver_hotspot_block_list_update ::
  "config \<Rightarrow> testmode_fn \<Rightarrow> u8 list option \<Rightarrow> int \<Rightarrow> (int \<times> nl_eff list) outcome" where
  "wpa_driver_hotspot_block_list_update cfg tm bssid blocked =
     (let params = \<lparr>hs_hdr = mk_hdr NL80211_TESTMODE_HS20 (sizeof cfg T_hotspot),
                    hs_blocked = word_of_int blocked,
                    hs_bssid = (case bssid of None \<Rightarrow> replicate ETH_ALEN 0 | Some b \<Rightarrow> take ETH_ALEN b)\<rparr>
      in bindC (tm (Hotspot params) No_Obj) (\<lambda>(ret, d, ob, e). Done (ret, e)))"

text \<open>
  \<open>hwaddr_aton\<close> of wpa\_supplicant reads the six bytes of a colon-separated address from the front
  of a string, or fails.
\<close>

definition wpa_driver_sta_block ::
  "config \<Rightarrow> testmode_fn \<Rightarrow> (string \<Rightarrow> u8 list option) \<Rightarrow> string \<Rightarrow> (int \<times> nl_eff list) outcome" where
  "wpa_driver_sta_block cfg tm hwaddr_aton cmd =
     (case hwaddr_aton cmd of
        None \<Rightarrow> Done (- 1, [])
      | Some bssid \<Rightarrow> wpa_driver_hotspot_block_list_update cfg tm (Some bssid) 1)"

definition wpa_driver_sta_unblock ::
  "config \<Rightarrow> testmode_fn \<Rightarrow> (string \<Rightarrow> u8 list option) \<Rightarrow> string \<Rightarrow> (int \<times> nl_eff list) outcome" where
  "wpa_driver_sta_unblock cfg tm hwaddr_aton cmd =
     (case hwaddr_aton cmd of
        None \<Rightarrow> Done (- 1, [])
      | Some bssid \<Rightarrow> wpa_driver_hotspot_block_list_update cfg tm (Some bssid) 0)"

subsection \<open>WAPI keys\<close>

text \<open>
  \<open>memcpy\<close> of the first \<open>n\<close> bytes of one array over the front of another: undefined when either is
  too short.
\<close>

definition memcpy_arr :: "u8 list \<Rightarrow> u8 list \<Rightarrow> nat \<Rightarrow> u8 list outcome" where
  "memcpy_arr dst src n =
     (if length dst < n \<or> length src < n then Undef Out_Of_Bounds else Done (take n src @ drop n dst))"

text \<open>
  \<open>struct wapi_key_param_type\<close>, the arguments of the command. The copy of the sequence number starts
  at \<open>tx_seq\<close> and may run on into the adjacent \<open>rx_seq\<close>, which the length check allows for.
\<close>

record wapi_key_param =
  wp_addr :: "u8 list option"
  wp_key_idx :: int
  wp_set_tx :: int
  wp_seq :: "u8 list option"
  wp_seq_len :: nat
  wp_key :: "u8 list option"
  wp_key_len :: nat

definition wapi_seq_bytes :: "wapi_key_param \<Rightarrow> u8 list outcome" where
  "wapi_seq_bytes k =
     (case wp_seq k of
        Some seq \<Rightarrow> if wp_seq_len k = 0 then Done (replicate 16 0)
          else memcpy_arr (replicate 16 0) seq (wp_seq_len k)
      | None \<Rightarrow> Done (replicate 16 0))"

definition wapi_key_bytes :: "wapi_key_param \<Rightarrow> (u8 list \<times> u16) outcome" where
  "wapi_key_bytes k =
     (case wp_key k of
        Some key \<Rightarrow> if wp_key_len k = 0 then Done (replicate 32 0, 0)
          else bindC (memcpy_arr (replicate 32 0) key (wp_key_len k))
                 (\<lambda>b. Done (b, word_of_nat (wp_key_len k)))
      | None \<Rightarrow> Done (replicate 32 0, 0))"

definition wapi_ext_flags :: "wapi_key_param \<Rightarrow> u32" where
  "wapi_ext_flags k =
     (if wp_addr k = None \<or> map_option (take ETH_ALEN) (wp_addr k) = Some (replicate ETH_ALEN 0xff)
      then IW_ENCODE_EXT_GROUP_KEY else 0) OR
     (if wp_set_tx k \<noteq> 0 then IW_ENCODE_EXT_SET_TX_KEY else 0)"

definition wpa_driver_nl80211_set_wapi_key ::
  "config \<Rightarrow> testmode_fn \<Rightarrow> wapi_key_param \<Rightarrow> (int \<times> nl_eff list) outcome" where
  "wpa_driver_nl80211_set_wapi_key cfg tm k =
     (if IW_ENCODE_SEQ_MAX_SIZE * 2 < wp_seq_len k then Done (- 1, [])
      else bindC (wapi_key_bytes k) (\<lambda>(key, klen).
           bindC (wapi_seq_bytes k) (\<lambda>seq.
           let ext = \<lparr>ie_ext_flags = wapi_ext_flags k, ie_tx_seq = take 8 seq, ie_rx_seq = drop 8 seq,
                      ie_addr = (case wp_addr k of Some a \<Rightarrow> take ETH_ALEN a | None \<Rightarrow> replicate ETH_ALEN 0xff),
                      ie_alg = IW_ENCODE_ALG_SMS4, ie_key_len = klen, ie_key = key\<rparr>;
               params = \<lparr>wk_hdr = mk_hdr NL80211_TESTMODE_WAPI (sizeof cfg T_wapi_key),
                         wk_key_index = word_of_int (wp_key_idx k + 1),
                         wk_key_len = word_of_nat (wp_key_len k), wk_extparams = ext\<rparr>
           in bindC (tm (Wapi_Key params) No_Obj) (\<lambda>(ret, d, ob, e). Done (0, e)))))"

definition wpa_driver_nl80211_send_msg :: "int \<Rightarrow> int" where
  "wpa_driver_nl80211_send_msg msg_in_len = (if 1024 < msg_in_len then - 1 else 0)"

subsection \<open>Wi-Fi Display data\<close>

text \<open>
  \<open>struct wfd_data_s\<close> is declared outside the repository: its size is a parameter, and its members are
  taken to have the types of their namesakes in \<open>struct wpa_driver_wfd_data_s\<close>. The copy of the session
  information trusts the length in the source.
\<close>

definition wfd_zero :: driver_wfd_data where
  "wfd_zero = \<lparr>wd_hdr = \<lparr>tm_index = 0, tm_buflen = 0\<rparr>, WfdCmdType = 0, WfdEnable = 0, WfdCoupleSinkStatus = 0,
     WfdSessionAvailable = 0, WfdSigmaMode = 0, WfdDevInfo = 0, WfdControlPort = 0, WfdMaximumTp = 0,
     WfdExtendCap = 0, WfdCoupleSinkAddress = replicate 6 0, WfdAssociatedBssid = replicate 6 0,
     WfdVideoIp = replicate 4 0, WfdAudioIp = replicate 4 0, WfdVideoPort = 0, WfdAudioPort = 0, WfdFlag = 0,
     WfdPolicy = 0, WfdState = 0, WfdSessionInformationIE = replicate 192 0, WfdSessionInformationIELen = 0,
     Reverved1 = replicate 2 0, WfdPrimarySinkMac = replicate 6 0, WfdSecondarySinkMac = replicate 6 0,
     WfdAdvancedFlag = 0, WfdLocalIp = replicate 4 0, WfdLifetimeAc2 = 0, WfdLifetimeAc3 = 0,
     WfdCounterThreshold = 0, Reverved2 = replicate 54 0, Reverved3 = replicate 64 0,
     Reverved4 = replicate 64 0\<rparr>"

definition wpas_wfd_data_update ::
  "config \<Rightarrow> testmode_fn \<Rightarrow> nat \<Rightarrow> driver_wfd_data \<Rightarrow> (int \<times> nl_eff list) outcome" where
  "wpas_wfd_data_update cfg tm sizeof_wfd_data_s w =
     bindC (memcpy_arr (replicate 6 0) (WfdCoupleSinkAddress w) ETH_ALEN) (\<lambda>sink_addr.
     bindC (memcpy_arr (replicate 6 0) (WfdAssociatedBssid w) ETH_ALEN) (\<lambda>bssid.
     bindC (memcpy_arr (replicate 4 0) (WfdVideoIp w) (length (WfdVideoIp w))) (\<lambda>video_ip.
     bindC (memcpy_arr (replicate 4 0) (WfdAudioIp w) (length (WfdAudioIp w))) (\<lambda>audio_ip.
     bindC (memcpy_arr (replicate 192 0) (WfdSessionInformationIE w) (unat (WfdSessionInformationIELen w))) (\<lambda>ie.
     bindC (memcpy_arr (replicate 6 0) (WfdPrimarySinkMac w) ETH_ALEN) (\<lambda>prim_mac.
     bindC (memcpy_arr (replicate 6 0) (WfdSecondarySinkMac w) ETH_ALEN) (\<lambda>sec_mac.
     bindC (memcpy_arr (replicate 4 0) (WfdLocalIp w) (length (WfdLocalIp w))) (\<lambda>local_ip.
     let params = wfd_zero\<lparr>wd_hdr := mk_hdr 2 sizeof_wfd_data_s,
           WfdCmdType := WfdCmdType w, WfdEnable := WfdEnable w, WfdCoupleSinkStatus := WfdCoupleSinkStatus w,
           WfdDevInfo := WfdDevInfo w, WfdControlPort := WfdControlPort w, WfdMaximumTp := WfdMaximumTp w,
           WfdExtendCap := WfdExtendCap w, WfdCoupleSinkAddress := sink_addr, WfdAssociatedBssid := bssid,
           WfdVideoIp := video_ip, WfdAudioIp := audio_ip, WfdVideoPort := WfdVideoPort w,
           WfdAudioPort := WfdAudioPort w, WfdFlag := WfdFlag w, WfdPolicy := WfdPolicy w, WfdState := WfdState w,
           WfdSessionInformationIELen := WfdSessionInformationIELen w, WfdSessionInformationIE := ie,
           WfdPrimarySinkMac := prim_mac, WfdSecondarySinkMac := sec_mac, WfdAdvancedFlag := WfdAdvancedFlag w,
           WfdSessionAvailable := WfdSessionAvailable w, WfdSigmaMode := WfdSigmaMode w,
           WfdLocalIp := local_ip\<rparr>
     in bindC (tm (Wfd_Data params) No_Obj) (\<lambda>(ret, d, ob, e). Done (ret, e))))))))))"

subsection \<open>Beam+\<close>

text \<open>The reply to the query is written into the parameters, and read from there afterwards.\<close>

definition wpas_driver_get_beamplus_go_ready ::
  "config \<Rightarrow> testmode_fn \<Rightarrow> (u32 \<times> nl_eff list) outcome" where
  "wpas_driver_get_beamplus_go_ready cfg tm =
     bindC (tm (Set_Beamplus \<lparr>bp_hdr = mk_hdr 0x12 (sizeof cfg T_set_beamplus), bp_value = 0\<rparr>) No_Obj)
       (\<lambda>(ret, d, ob, e).
          case d of Set_Beamplus params \<Rightarrow> Done (bp_value params, e) | _ \<Rightarrow> Undef Bad_Cast)"

definition wpas_driver_set_beamplus ::
  "config \<Rightarrow> testmode_fn \<Rightarrow> u32 \<Rightarrow> (int \<times> nl_eff list) outcome" where
  "wpas_driver_set_beamplus cfg tm val =
     bindC (tm (Set_Beamplus \<lparr>bp_hdr = mk_hdr 0x11 (sizeof cfg T_set_beamplus), bp_value = val\<rparr>) No_Obj)
       (\<lambda>(ret, d, ob, e). Done (ret, e))"

subsection \<open>Statistics, link detection, sigma tests\<close>

definition wpas_get_sta_statistics ::
  "config \<Rightarrow> testmode_fn \<Rightarrow> u8 list option \<Rightarrow> nat \<Rightarrow> sta_statistics \<Rightarrow>
    (int \<times> sta_statistics \<times> nl_eff list) outcome" where
  "wpas_get_sta_statistics cfg tm sta_addr buf st =
     (let params = \<lparr>gs_hdr = mk_hdr NL80211_TESTMODE_STATISTICS (sizeof cfg T_get_sta_statistics),
                    gs_version = 0, gs_flag = 0,
                    gs_addr = (case sta_addr of None \<Rightarrow> replicate ETH_ALEN 0 | Some a \<Rightarrow> take ETH_ALEN a),
                    gs_buf = buf\<rparr>
      in bindC (tm (Get_Sta_Statistics params) (Stats_Obj st))
           (\<lambda>(ret, d, ob, e). case ob of Stats_Obj st' \<Rightarrow> Done (ret, st', e) | _ \<Rightarrow> Undef Bad_Cast))"

definition wpas_get_sta_link_detect ::
  "config \<Rightarrow> testmode_fn \<Rightarrow> nat \<Rightarrow> sta_link_detect \<Rightarrow> (int \<times> sta_link_detect \<times> nl_eff list) outcome" where
  "wpas_get_sta_link_detect cfg tm buf ld =
     (let params = \<lparr>gl_hdr = mk_hdr NL80211_TESTMODE_LINK_DETECT (sizeof cfg T_get_sta_link_detect), gl_buf = buf\<rparr>
      in bindC (tm (Get_Sta_Link_Detect params) (Link_Obj ld))
           (\<lambda>(ret, d, ob, e). case ob of Link_Obj ld' \<Rightarrow> Done (ret, ld', e) | _ \<Rightarrow> Undef Bad_Cast))"

definition wpas_p2p_sigma_test_mode ::
  "config \<Rightarrow> testmode_fn \<Rightarrow> int \<Rightarrow> int \<Rightarrow> (int \<times> nl_eff list) outcome" where
  "wpas_p2p_sigma_test_mode cfg tm idx val =
     (let params = \<lparr>sg_hdr = mk_hdr 1 (sizeof cfg T_p2p_sigma), sg_idx = word_of_int idx, sg_value = word_of_int val\<rparr>
      in bindC (tm (P2p_Sigma params) No_Obj) (\<lambda>(ret, d, ob, e). Done (ret, e)))"

section \<open>What the callers rely on\<close>

text \<open>The object behind the parameters has the type the index will have it cast to.\<close>

definition cast_ok :: "testmode_data \<Rightarrow> out_obj \<Rightarrow> bool" where
  "cast_ok d ob \<longleftrightarrow> (let index = tm_index (tmd_hdr d) AND BITS 0 23 in
     (index = 0x10 \<longrightarrow> (\<exists>p st. d = Get_Sta_Statistics p \<and> ob = Stats_Obj st)) \<and>
     (index = 0x12 \<longrightarrow> (\<exists>p. d = Set_Beamplus p)) \<and>
     (index = 0x20 \<longrightarrow> (\<exists>p l. d = Get_Sta_Link_Detect p \<and> ob = Link_Obj l)) \<and>
     (index = 0x30 \<longrightarrow> (\<exists>p c. d = Get_Available_Channel p \<and> ob = Chan_Obj c)))"

fun same_kind :: "out_obj \<Rightarrow> out_obj \<Rightarrow> bool" where
  "same_kind No_Obj No_Obj = True"
| "same_kind (Stats_Obj a) (Stats_Obj b) = True"
| "same_kind (Link_Obj a) (Link_Obj b) = True"
| "same_kind (Chan_Obj a) (Chan_Obj b) = True"
| "same_kind _ _ = False"

fun_cases same_kindE: "same_kind a b"

definition same_data :: "testmode_data \<Rightarrow> testmode_data \<Rightarrow> bool" where
  "same_data d d' \<longleftrightarrow> d' = d \<or> (\<exists>p v. d = Set_Beamplus p \<and> d' = Set_Beamplus (p\<lparr>bp_value := v\<rparr>))"

definition sends_only :: "u8 list \<Rightarrow> nl_eff list \<Rightarrow> bool" where
  "sends_only b e \<longleftrightarrow> (\<forall>i c. Msg_Send i c \<in> set e \<longrightarrow> c = b)"

text \<open>
  A transport: given parameters that match their index it runs without undefined behaviour, hands the
  parameters and the object back with their types, and sends the bytes of the parameters and nothing else.
\<close>

locale testmode_transport =
  fixes tm :: testmode_fn
    and bytes :: "testmode_data \<Rightarrow> u8 list"
  assumes tm_safe: "cast_ok d ob \<Longrightarrow>
    safe (\<lambda>(r, d', ob', e). same_kind ob ob' \<and> same_data d d' \<and> sends_only (bytes d) e) (tm d ob)"
begin

lemmas tm_bind = safe_bindI [OF tm_safe]

end

lemma recv_loop_safe: "safe (\<lambda>(r, d). r \<le> 0) (recv_loop h bs s)"
  by (auto simp: safe_iff recv_loop_not_Undef recv_loop_Done_nonpos)

lemma send_and_recv_safe:
  "safe (\<lambda>(r, d', e). sends_only (snd msg) (Msg_Alloc # e)) (send_and_recv_msgs env msg h d)"
  by (auto simp: send_and_recv_msgs_def sends_only_def intro!: safe_bindI [OF recv_loop_safe])

lemma sends_only_no_send [simp]: "sends_only b []" "sends_only b [Msg_Alloc]"
  by (simp_all add: sends_only_def)

lemma same_kind_refl [simp]: "same_kind ob ob"
  by (cases ob) simp_all

lemma same_data_refl [simp]: "same_data d d" "same_data (Set_Beamplus p) (Set_Beamplus (p\<lparr>bp_value := v\<rparr>))"
  by (simp_all only: same_data_def) blast+

interpretation nl: testmode_transport "wpa_driver_nl80211_testmode cfg env" "tmd_bytes cfg"
proof
  fix d ob
  define index where "index = tm_index (tmd_hdr d) AND BITS 0 23"
  assume "cast_ok d ob"
  then show "safe (\<lambda>(r, d', ob', e). same_kind ob ob' \<and> same_data d d' \<and> sends_only (tmd_bytes cfg d) e)
      (wpa_driver_nl80211_testmode cfg env d ob)"
    unfolding wpa_driver_nl80211_testmode_def cast_ok_def Let_def index_def [symmetric]
    by (auto intro!: safe_bindI [OF send_and_recv_safe])
qed

subsection \<open>The callers, over any transport\<close>

lemma mk_hdr_index: "tm_index (mk_hdr i n) AND BITS 0 23 = i AND BITS 0 23"
  by (simp add: mk_hdr_def BITS_def BIT_def bit.conj_disj_distrib2)

lemma mk_hdr_fields [simp]:
  "tm_index (mk_hdr i n) = i OR push_bit 24 1" "tm_buflen (mk_hdr i n) = word_of_nat n"
  by (simp_all add: mk_hdr_def)

lemma cast_ok_builders:
  "sw_hdr s = mk_hdr NL80211_TESTMODE_SW_CMD n \<Longrightarrow> cast_ok (Sw_Cmd s) ob"
  "hs_hdr h = mk_hdr NL80211_TESTMODE_HS20 n \<Longrightarrow> cast_ok (Hotspot h) ob"
  "wk_hdr k = mk_hdr NL80211_TESTMODE_WAPI n \<Longrightarrow> cast_ok (Wapi_Key k) ob"
  "wd_hdr w = mk_hdr 2 n \<Longrightarrow> cast_ok (Wfd_Data w) ob"
  "sg_hdr g = mk_hdr 1 n \<Longrightarrow> cast_ok (P2p_Sigma g) ob"
  "sp_hdr p = mk_hdr NL80211_TESTMODE_SUSPEND n \<Longrightarrow> cast_ok (Suspendmode p pad) ob"
  "bp_hdr b = mk_hdr 0x11 n \<Longrightarrow> cast_ok (Set_Beamplus b) ob"
  "bp_hdr b = mk_hdr 0x12 n \<Longrightarrow> cast_ok (Set_Beamplus b) ob"
  "gs_hdr t = mk_hdr NL80211_TESTMODE_STATISTICS n \<Longrightarrow> cast_ok (Get_Sta_Statistics t) (Stats_Obj st)"
  "gl_hdr l = mk_hdr NL80211_TESTMODE_LINK_DETECT n \<Longrightarrow> cast_ok (Get_Sta_Link_Detect l) (Link_Obj ld)"
  by (simp_all add: cast_ok_def Let_def mk_hdr_index testmode_ids BITS_def BIT_def)

definition wapi_key_fits :: "wapi_key_param \<Rightarrow> bool" where
  "wapi_key_fits k \<longleftrightarrow> wp_key k = None \<or> wp_key_len k \<le> 32 \<and> wp_key_len k \<le> length (the (wp_key k))"

definition wapi_seq_fits :: "wapi_key_param \<Rightarrow> bool" where
  "wapi_seq_fits k \<longleftrightarrow> wp_seq k = None \<or> wp_seq_len k \<le> 16 \<and> wp_seq_len k \<le> length (the (wp_seq k))"

lemma wapi_key_bytes_cases:
  "wapi_key_bytes k = (if wapi_key_fits k then
     (case wp_key k of Some key \<Rightarrow>
        Done (take (wp_key_len k) key @ replicate (32 - wp_key_len k) 0, word_of_nat (wp_key_len k))
      | None \<Rightarrow> Done (replicate 32 0, 0)) else Undef Out_Of_Bounds)"
  by (auto simp: wapi_key_bytes_def wapi_key_fits_def memcpy_arr_def split: option.splits)

lemma wapi_seq_bytes_cases:
  "wapi_seq_bytes k = (if wapi_seq_fits k then
     (case wp_seq k of Some seq \<Rightarrow> Done (take (wp_seq_len k) seq @ replicate (16 - wp_seq_len k) 0)
      | None \<Rightarrow> Done (replicate 16 0)) else Undef Out_Of_Bounds)"
  by (auto simp: wapi_seq_bytes_def wapi_seq_fits_def memcpy_arr_def split: option.splits)

context testmode_transport
begin

lemma sw_cmd_safe:
  "safe (\<lambda>(r, e). r = 0 \<and> sends_only (bytes (Sw_Cmd
       \<lparr>sw_hdr = mk_hdr NL80211_TESTMODE_SW_CMD (csize (ptr_bytes cfg) T_sw_cmd),
        sw_set = (if s \<noteq> 0 then 1 else 0), sw_adr = a, sw_data = v\<rparr>)) e)
     (wpa_driver_nl80211_driver_sw_cmd cfg tm s a v)"
  unfolding wpa_driver_nl80211_driver_sw_cmd_def Let_def by (rule tm_bind) (auto intro: cast_ok_builders)

lemma hotspot_safe:
  "safe (\<lambda>(r, e). sends_only (bytes (Hotspot
       \<lparr>hs_hdr = mk_hdr NL80211_TESTMODE_HS20 (csize (ptr_bytes cfg) T_hotspot), hs_blocked = word_of_int bl,
        hs_bssid = (case b of None \<Rightarrow> replicate ETH_ALEN 0 | Some x \<Rightarrow> take ETH_ALEN x)\<rparr>)) e)
     (wpa_driver_hotspot_block_list_update cfg tm b bl)"
  unfolding wpa_driver_hotspot_block_list_update_def Let_def by (rule tm_bind) (auto intro: cast_ok_builders)

lemma block_safe:
  "safe (\<lambda>_. True) (wpa_driver_sta_block cfg tm aton c)"
  "safe (\<lambda>_. True) (wpa_driver_sta_unblock cfg tm aton c)"
  by (auto simp: wpa_driver_sta_block_def wpa_driver_sta_unblock_def split: option.split
      intro: safe_mono [OF hotspot_safe])

lemma get_beamplus_safe: "safe (\<lambda>_. True) (wpas_driver_get_beamplus_go_ready cfg tm)"
  unfolding wpas_driver_get_beamplus_go_ready_def
  by (rule tm_bind) (auto intro: cast_ok_builders simp: same_data_def)

lemma set_beamplus_safe: "safe (\<lambda>_. True) (wpas_driver_set_beamplus cfg tm v)"
  unfolding wpas_driver_set_beamplus_def by (rule tm_bind) (auto intro: cast_ok_builders)

lemma statistics_safe: "safe (\<lambda>_. True) (wpas_get_sta_statistics cfg tm a b st)"
  unfolding wpas_get_sta_statistics_def Let_def
  by (rule tm_bind) (auto intro: cast_ok_builders elim: same_kindE)

lemma link_detect_safe: "safe (\<lambda>_. True) (wpas_get_sta_link_detect cfg tm b ld)"
  unfolding wpas_get_sta_link_detect_def Let_def
  by (rule tm_bind) (auto intro: cast_ok_builders elim: same_kindE)

lemma sigma_safe: "safe (\<lambda>_. True) (wpas_p2p_sigma_test_mode cfg tm i v)"
  unfolding wpas_p2p_sigma_test_mode_def Let_def by (rule tm_bind) (auto intro: cast_ok_builders)

text \<open>A WAPI key is installed without undefined behaviour exactly when its buffers hold what is copied.\<close>

lemma wapi_send_safe:
  "wk_hdr p = mk_hdr NL80211_TESTMODE_WAPI n \<Longrightarrow>
    safe (\<lambda>(r, e). r = 0) (bindC (tm (Wapi_Key p) No_Obj) (\<lambda>(ret, d, ob, e). Done (0 :: int, e)))"
  by (rule tm_bind) (auto intro: cast_ok_builders)

lemma wapi_key_safe:
  assumes "wapi_key_fits k" "wapi_seq_fits k"
  shows "safe (\<lambda>(r, e). r = (if 16 < wp_seq_len k then - 1 else 0)) (wpa_driver_nl80211_set_wapi_key cfg tm k)"
proof -
  obtain key klen seq where "wapi_key_bytes k = Done (key, klen)" "wapi_seq_bytes k = Done seq"
    using assms by (cases "wp_key k"; cases "wp_seq k") (auto simp: wapi_key_bytes_cases wapi_seq_bytes_cases)
  then show ?thesis
    by (simp add: wpa_driver_nl80211_set_wapi_key_def IW_ENCODE_SEQ_MAX_SIZE_def Let_def wapi_send_safe)
qed

lemma wapi_key_unsafe:
  assumes "wp_seq_len k \<le> 16" "\<not> (wapi_key_fits k \<and> wapi_seq_fits k)"
  shows "wpa_driver_nl80211_set_wapi_key cfg tm k = Undef Out_Of_Bounds"
proof (cases "wapi_key_bytes k")
  case (Done x)
  then have "wapi_seq_bytes k = Undef Out_Of_Bounds"
    using assms by (auto simp: wapi_key_bytes_cases wapi_seq_bytes_cases split: if_splits)
  with Done assms show ?thesis
    by (cases x) (simp add: wpa_driver_nl80211_set_wapi_key_def IW_ENCODE_SEQ_MAX_SIZE_def)
qed (use assms in \<open>auto simp: wpa_driver_nl80211_set_wapi_key_def IW_ENCODE_SEQ_MAX_SIZE_def
    wapi_key_bytes_cases split: if_splits option.splits\<close>)

end

section \<open>The frames that reach the driver\<close>

text \<open>The driver reads the length of a command from its second word.\<close>

definition framed :: "u8 list \<Rightarrow> bool" where
  "framed b \<longleftrightarrow> le_val (take 4 (drop 4 b)) = length b"

definition frames_ok :: "nl_eff list \<Rightarrow> bool" where
  "frames_ok e \<longleftrightarrow> list_all (\<lambda>x. case x of Msg_Send i b \<Rightarrow> framed b | _ \<Rightarrow> True) e"

lemma sends_only_frames_ok: "framed b \<Longrightarrow> sends_only b e \<Longrightarrow> frames_ok e"
  by (auto simp: sends_only_def frames_ok_def list_all_iff split: nl_eff.splits)

lemma framed_iff: "framed (tmd_bytes cfg d) \<longleftrightarrow> unat (tm_buflen (tmd_hdr d)) = length (tmd_bytes cfg d)"
  by (simp add: framed_def tmd_bytes_index)

lemma length_tmd_bytes:
  "0 < ptr_bytes cfg \<Longrightarrow> cpos (ctype_of (tmd_val d)) \<Longrightarrow>
    length (tmd_bytes cfg d) = csize (ptr_bytes cfg) (ctype_of (tmd_val d))"
  by (simp add: tmd_bytes_def length_enc)

lemma abi_ptr: "abi_ok cfg \<Longrightarrow> ptr_bytes cfg = 4 \<or> ptr_bytes cfg = 8"
  by (auto simp: abi_ok_def)

lemmas payload_layout = V_def hdr_val_def ext_val_def wfd_val_def layout

lemma framed_payloads:
  assumes "abi_ok cfg"
  shows "sw_hdr p1 = mk_hdr i (csize (ptr_bytes cfg) T_sw_cmd) \<Longrightarrow> framed (tmd_bytes cfg (Sw_Cmd p1))"
    and "hs_hdr p2 = mk_hdr i (csize (ptr_bytes cfg) T_hotspot) \<Longrightarrow> length (hs_bssid p2) = 6 \<Longrightarrow>
      framed (tmd_bytes cfg (Hotspot p2))"
    and "gs_hdr p3 = mk_hdr i (csize (ptr_bytes cfg) T_get_sta_statistics) \<Longrightarrow> length (gs_addr p3) = 6 \<Longrightarrow>
      framed (tmd_bytes cfg (Get_Sta_Statistics p3))"
    and "gl_hdr p4 = mk_hdr i (csize (ptr_bytes cfg) T_get_sta_link_detect) \<Longrightarrow>
      framed (tmd_bytes cfg (Get_Sta_Link_Detect p4))"
    and "sg_hdr p5 = mk_hdr i (csize (ptr_bytes cfg) T_p2p_sigma) \<Longrightarrow> framed (tmd_bytes cfg (P2p_Sigma p5))"
    and "bp_hdr p6 = mk_hdr i (csize (ptr_bytes cfg) T_set_beamplus) \<Longrightarrow> framed (tmd_bytes cfg (Set_Beamplus p6))"
  using abi_ptr [OF assms] by (auto simp: framed_iff length_tmd_bytes payload_layout)

lemma framed_wapi:
  assumes "abi_ok cfg" "wk_hdr p = mk_hdr i (csize (ptr_bytes cfg) T_wapi_key)"
    and "length (ie_tx_seq (wk_extparams p)) = 8" "length (ie_rx_seq (wk_extparams p)) = 8"
    and "length (ie_addr (wk_extparams p)) = 6" "length (ie_key (wk_extparams p)) = 32"
  shows "framed (tmd_bytes cfg (Wapi_Key p))"
  using abi_ptr [OF assms(1)] assms(2-) by (auto simp: framed_iff length_tmd_bytes payload_layout)

lemma frames_by_payload:
  "cast_ok d ob \<Longrightarrow> framed (tmd_bytes cfg d) \<Longrightarrow> (\<And>r d' ob' e. same_kind ob ob' \<Longrightarrow> same_data d d' \<Longrightarrow>
      frames_ok e \<Longrightarrow> safe Q (f (r, d', ob', e))) \<Longrightarrow>
    safe Q (bindC (wpa_driver_nl80211_testmode cfg env d ob) f)"
  by (rule nl.tm_bind) (auto dest: sends_only_frames_ok)


text \<open>A 32-bit build with every option on, and a kernel that answers the first message and acknowledges.\<close>

definition sample_config :: config where
  "sample_config = \<lparr>CONFIG_MTK_TURNKEY_WLAN = True, CONFIG_MEDIATEK_WIFI_BEAM = True,
     CONFIG_MTK_POOR_LINK_DETECT = True, CONFIG_MTK_LTE_COEX = True, CONFIG_HOTSPOT_MGR_SUPPORT = True,
     CONFIG_WAPI_SUPPORT = True, CONFIG_MTK_P2P = True, CONFIG_MTK_P2P_SIGMA = True, CONFIG_MTK_P2P_5G = True,
     CONFIG_MTK_WFD_SINK = True, CONFIG_MTK_SCC_MCC = True, CONFIG_MTK_STAGE_SCAN = True, MTK_TC1_FEATURE = True,
     ptr_bytes = 4, long_bits = 32\<rparr>"

definition sample_env :: "u8 list list \<Rightarrow> tm_env" where
  "sample_env ms = \<lparr>te_alloc_ok = True, te_put_ok = True, te_ifindex = 3,
     te_nl = \<lparr>ne_clone_ok = True, ne_send_ret = 28, ne_recv = [(map Ev_Valid ms @ [Ev_Ack], 0)]\<rparr>,
     te_libnl = tlv_libnl, te_go_ready_attr = 1\<rparr>"

lemma sample_abi_ok: "abi_ok sample_config"
  by (simp add: abi_ok_def sample_config_def)


section \<open>Keys, Wi-Fi Display data and replies\<close>

text \<open>Installing a WAPI key over \<open>wpa_driver_nl80211_testmode\<close> is free of undefined behaviour exactly when
  the sequence number is refused as longer than 16 bytes, or the key fits the 32 bytes of the driver structure
  and both buffers hold as many bytes as their lengths say; it then returns -1 for the refused length and 0
  otherwise. The key length itself is never checked by the code.\<close>

theorem set_wapi_key_safe_iff:
  "safe (\<lambda>(r, e). r = (if 16 < wp_seq_len k then - 1 else 0))
     (wpa_driver_nl80211_set_wapi_key cfg (wpa_driver_nl80211_testmode cfg env) k) \<longleftrightarrow>
   16 < wp_seq_len k \<or> wapi_key_fits k \<and> wapi_seq_fits k"
proof (cases "16 < wp_seq_len k")
  case True
  then show ?thesis by (simp add: wpa_driver_nl80211_set_wapi_key_def IW_ENCODE_SEQ_MAX_SIZE_def)
next
  case False
  then show ?thesis
    by (cases "wapi_key_fits k \<and> wapi_seq_fits k")
      (use nl.wapi_key_safe [of k] in force, simp add: nl.wapi_key_unsafe)
qed

text \<open>The arrays of \<open>struct wfd_data_s\<close> have the lengths of their namesakes.\<close>

definition wfd_src_wf :: "driver_wfd_data \<Rightarrow> bool" where
  "wfd_src_wf w \<longleftrightarrow> length (WfdCoupleSinkAddress w) = 6 \<and> length (WfdAssociatedBssid w) = 6 \<and>
     length (WfdVideoIp w) = 4 \<and> length (WfdAudioIp w) = 4 \<and> length (WfdSessionInformationIE w) = 192 \<and>
     length (WfdPrimarySinkMac w) = 6 \<and> length (WfdSecondarySinkMac w) = 6 \<and> length (WfdLocalIp w) = 4"

text \<open>What the driver gets: the source, with the members the code does not copy cleared.\<close>

definition wfd_params :: "nat \<Rightarrow> driver_wfd_data \<Rightarrow> driver_wfd_data" where
  "wfd_params n w = w\<lparr>wd_hdr := mk_hdr 2 n,
     WfdSessionInformationIE := take (unat (WfdSessionInformationIELen w)) (WfdSessionInformationIE w) @
       replicate (192 - unat (WfdSessionInformationIELen w)) 0,
     Reverved1 := replicate 2 0, WfdLifetimeAc2 := 0, WfdLifetimeAc3 := 0, WfdCounterThreshold := 0,
     Reverved2 := replicate 54 0, Reverved3 := replicate 64 0, Reverved4 := replicate 64 0\<rparr>"

lemma wfd_update_eq:
  assumes "wfd_src_wf w"
  shows "wpas_wfd_data_update cfg tm n w =
    (if unat (WfdSessionInformationIELen w) \<le> 192
     then bindC (tm (Wfd_Data (wfd_params n w)) No_Obj) (\<lambda>(ret, d, ob, e). Done (ret, e))
     else Undef Out_Of_Bounds)"
  using assms
  by (cases w) (simp add: wpas_wfd_data_update_def wfd_src_wf_def memcpy_arr_def wfd_params_def wfd_zero_def Let_def)

lemma wfd_params_length:
  assumes "abi_ok cfg" "wfd_src_wf w" "unat (WfdSessionInformationIELen w) \<le> 192"
  shows "length (tmd_bytes cfg (Wfd_Data (wfd_params n w))) = 464"
  using abi_ptr [OF assms(1)] assms(2,3)
  by (auto simp: length_tmd_bytes payload_layout wfd_params_def wfd_src_wf_def)

text \<open>C16. Passing Wi-Fi Display data on is free of undefined behaviour exactly when the session information
  length is at most 192, the room there is for it; the driver is then sent the 464 bytes of the data with the
  members that are not copied cleared. The frame announces the size of the source structure instead of its
  own, so it is well framed only if that size is 464.\<close>

theorem wfd_data_update_frame:
  assumes "abi_ok cfg" "wfd_src_wf w" "n < 2 ^ 32"
  shows "(safe (\<lambda>_. True) (wpas_wfd_data_update cfg (wpa_driver_nl80211_testmode cfg env) n w) \<longleftrightarrow>
      unat (WfdSessionInformationIELen w) \<le> 192) \<and>
    (unat (WfdSessionInformationIELen w) \<le> 192 \<longrightarrow>
      safe (\<lambda>(r, e). sends_only (tmd_bytes cfg (Wfd_Data (wfd_params n w))) e)
        (wpas_wfd_data_update cfg (wpa_driver_nl80211_testmode cfg env) n w) \<and>
      length (tmd_bytes cfg (Wfd_Data (wfd_params n w))) = 464 \<and>
      (framed (tmd_bytes cfg (Wfd_Data (wfd_params n w))) \<longleftrightarrow> n = 464))"
proof -
  let ?d = "Wfd_Data (wfd_params n w)"
  have "cast_ok ?d No_Obj" by (rule cast_ok_builders) (simp add: wfd_params_def)
  then have run: "safe (\<lambda>(r, e). sends_only (tmd_bytes cfg ?d) e)
      (bindC (wpa_driver_nl80211_testmode cfg env ?d No_Obj) (\<lambda>(ret, d, ob, e). Done (ret, e)))"
    by (rule nl.tm_bind) auto
  have "framed (tmd_bytes cfg ?d) \<longleftrightarrow> n = 464" if "unat (WfdSessionInformationIELen w) \<le> 192"
    using wfd_params_length [OF assms(1,2) that, of n] assms(3)
    by (simp add: framed_iff wfd_params_def unat_of_nat)
  then show ?thesis
    using run safe_mono [OF run, of "\<lambda>_. True"] wfd_params_length [OF assms(1,2)] by (simp add: wfd_update_eq [OF assms(2)])
qed

theorem wfd_data_update_frame_witness:
  "safe (\<lambda>_. True) (wpas_wfd_data_update sample_config
     (wpa_driver_nl80211_testmode sample_config (sample_env [])) 456 wfd_zero) \<and>
   \<not> framed (tmd_bytes sample_config (Wfd_Data (wfd_params 456 wfd_zero)))"
  using wfd_data_update_frame [OF sample_abi_ok, of wfd_zero 456 "sample_env []"]
  by (simp add: wfd_src_wf_def wfd_zero_def)

lemma send_and_recv_balance:
  "send_and_recv_msgs env m h x = Done (ret, x', es) \<Longrightarrow> count_list es Msg_Free = 1 \<and> count_list es Msg_Alloc = 0"
  by (auto simp: send_and_recv_msgs_def bindC_Done_iff split: if_splits)

text \<open>C19. \<open>wpa_driver_nl80211_testmode\<close> releases the message it allocates on every path that returns, except when
  a message was allocated and \<open>NLA_PUT\<close> finds no room: that path keeps one message.\<close>

theorem testmode_message_balance:
  assumes "wpa_driver_nl80211_testmode cfg env d ob = Done (r, d', ob', e)"
  shows "int (count_list e Msg_Alloc) - int (count_list e Msg_Free) =
    (if CONFIG_MTK_TURNKEY_WLAN cfg \<and> te_alloc_ok env \<and> \<not> te_put_ok env then 1 else 0)"
proof -
  show ?thesis using assms
    by (auto simp: wpa_driver_nl80211_testmode_def Let_def bindC_Done_iff send_and_recv_balance split: if_splits testmode_data.splits out_obj.splits)
qed

theorem testmode_message_balance_witness:
  "let env = (sample_env [])\<lparr>te_put_ok := False\<rparr>; d = Set_Beamplus \<lparr>bp_hdr = mk_hdr 0x11 12, bp_value = 1\<rparr>
   in wpa_driver_nl80211_testmode sample_config env d No_Obj = Done (- 105, d, No_Obj, [Msg_Alloc]) \<and>
      int (count_list [Msg_Alloc] Msg_Alloc) - int (count_list [Msg_Alloc] Msg_Free) = 1"
  using testmode_message_balance [of sample_config "(sample_env [])\<lparr>te_put_ok := False\<rparr>"
      "Set_Beamplus \<lparr>bp_hdr = mk_hdr 0x11 12, bp_value = 1\<rparr>" No_Obj "- 105"
      "Set_Beamplus \<lparr>bp_hdr = mk_hdr 0x11 12, bp_value = 1\<rparr>" No_Obj "[Msg_Alloc]"]
  by (simp add: wpa_driver_nl80211_testmode_def sample_config_def sample_env_def ENOBUFS_def)

section \<open>Queries, from the request to the caller's structure\<close>

text \<open>The request goes out and the valid messages of the reply are \<open>ms\<close>, in any grouping, up to the event \<open>fin\<close>.\<close>

definition replies :: "tm_env \<Rightarrow> u8 list list \<Rightarrow> cb_event \<Rightarrow> bool" where
  "replies env ms fin \<longleftrightarrow> te_alloc_ok env \<and> te_put_ok env \<and> ne_clone_ok (te_nl env) \<and>
     0 \<le> ne_send_ret (te_nl env) \<and> final_event fin \<and>
     (\<exists>mss ms' res rest. ms = concat mss @ ms' \<and>
        ne_recv (te_nl env) = map (\<lambda>ms. (map Ev_Valid ms, 0)) mss @ (map Ev_Valid ms' @ [fin], res) # rest)"

abbreviation (input) exchange :: "tm_env \<Rightarrow> u8 list \<Rightarrow> nl_eff list" where
  "exchange env b \<equiv> [Msg_Alloc, Cb_Clone, Msg_Send (te_ifindex env) b, Cb_Put, Msg_Free]"

lemma replies_run:
  "replies env ms fin \<Longrightarrow> send_and_recv_msgs (te_nl env) msg h d =
    Done (ev_status fin, fold (\<lambda>m d. case h of None \<Rightarrow> d | Some f \<Rightarrow> snd (f m d)) ms d,
      [Cb_Clone, Msg_Send (fst msg) (snd msg), Cb_Put, Msg_Free])"
  unfolding replies_def by (elim conjE exE) (simp add: send_and_recv_result)

lemma replies_ok: "replies env ms fin \<Longrightarrow> te_alloc_ok env \<and> te_put_ok env"
  by (simp add: replies_def)

lemma sample_replies: "replies (sample_env ms) ms Ev_Ack"
  by (simp add: replies_def sample_env_def, rule exI [of _ "[]"], simp)

text \<open>C8. When the kernel answers a statistics query with one message whose test data parses, the caller's
  structure ends up as that message says, field by field, with the status of the exchange, after one frame.\<close>

theorem get_sta_statistics_reply:
  assumes "CONFIG_MTK_TURNKEY_WLAN cfg" "replies env [m] fin"
    and "parse_testdata (te_libnl env) 19 (policy_of sta_attr_id sta_statistics_policy sta_statistics_attrs) m = Some sinfo"
  shows "\<exists>b. wpas_get_sta_statistics cfg (wpa_driver_nl80211_testmode cfg env) addr buf st =
    Done (ev_status fin, sta_statistics_of (te_libnl env) sinfo st, exchange env b)"
  using assms(1,3) replies_ok [OF assms(2)]
  by (simp add: wpas_get_sta_statistics_def wpa_driver_nl80211_testmode_def mk_hdr_index testmode_ids BITS_def BIT_def
      Let_def replies_run [OF assms(2)] testmode_sta_statistics_handler_def fold_sta_step
      NL80211_TESTMODE_STA_STATISTICS_NUM_def)

theorem get_sta_statistics_reply_witness:
  "\<exists>b. wpas_get_sta_statistics sample_config
      (wpa_driver_nl80211_testmode sample_config (sample_env [sample_stats_msg])) None 0 sta_statistics_zero =
    Done (0, sta_statistics_zero\<lparr>ss_link_score := 7, ss_rssi := - 60\<rparr>,
      [Msg_Alloc, Cb_Clone, Msg_Send 3 b, Cb_Put, Msg_Free])"
proof -
  have "sta_statistics_of tlv_libnl [3 \<mapsto> [7], 6 \<mapsto> [100]] sta_statistics_zero =
      sta_statistics_zero\<lparr>ss_link_score := 7, ss_rssi := - 60\<rparr>"
    using sample_stats_reply by (simp add: testmode_sta_statistics_handler_def sample_stats_parse fold_sta_step)
  then show ?thesis
    using get_sta_statistics_reply [OF _ sample_replies [of "[sample_stats_msg]"], of sample_config
        "[3 \<mapsto> [7], 6 \<mapsto> [100]]" None 0 sta_statistics_zero]
    by (simp add: sample_env_def sample_stats_parse) (simp add: sample_config_def)
qed

lemma sw_cmd_result:
  assumes "abi_ok cfg" "CONFIG_MTK_TURNKEY_WLAN cfg" "replies env [] fin"
  shows "wpa_driver_nl80211_driver_sw_cmd cfg (wpa_driver_nl80211_testmode cfg env) sets adr dat =
    Done (0, [Msg_Alloc, Cb_Clone, Msg_Send (te_ifindex env)
      (le_bytes 4 0x1000001 @ le_bytes 4 20 @ [if sets \<noteq> 0 then 1 else 0, 0, 0, 0] @
       le_bytes 4 (unat adr) @ le_bytes 4 (unat dat)), Cb_Put, Msg_Free])"
proof -
  have rep: "replicate 3 (0 :: u8) = [0, 0, 0]" by (simp add: numeral_3_eq_3)
  have idx: "tm_index (mk_hdr NL80211_TESTMODE_SW_CMD n) AND BITS 0 23 = 1" for n
    by (simp only: mk_hdr_index) (simp add: testmode_ids BITS_def BIT_def)
  have bytes: "tmd_bytes cfg (Sw_Cmd \<lparr>sw_hdr = mk_hdr NL80211_TESTMODE_SW_CMD (sizeof cfg T_sw_cmd), sw_set = s,
      sw_adr = adr, sw_data = dat\<rparr>) = le_bytes 4 0x1000001 @ le_bytes 4 20 @ le_bytes 1 (unat s) @ [0, 0, 0] @
      le_bytes 4 (unat adr) @ le_bytes 4 (unat dat)" for s
    using abi_ptr [OF assms(1)]
    by (auto simp: tmd_bytes_def payload_layout testmode_ids rep)
  show ?thesis
    using assms(2) replies_ok [OF assms(3)]
    by (simp add: wpa_driver_nl80211_driver_sw_cmd_def wpa_driver_nl80211_testmode_def idx
        Let_def replies_run [OF assms(3)] bytes del: mk_hdr_fields)
qed

text \<open>A software command that the kernel acknowledges is one frame of twenty bytes: the command number with
  version 1 in its top byte, the length, the set flag with three bytes of padding, the address and the data,
  each little-endian; the function reports success.\<close>

theorem sw_cmd_frame:
  assumes "abi_ok cfg" "CONFIG_MTK_TURNKEY_WLAN cfg" "replies env [] fin"
  shows "wpa_driver_nl80211_driver_sw_cmd cfg (wpa_driver_nl80211_testmode cfg env) sets adr dat =
    Done (0, [Msg_Alloc, Cb_Clone, Msg_Send (te_ifindex env)
      (le_bytes 4 0x1000001 @ le_bytes 4 20 @ [if sets \<noteq> 0 then 1 else 0, 0, 0, 0] @
       le_bytes 4 (unat adr) @ le_bytes 4 (unat dat)), Cb_Put, Msg_Free])"
  using assms by (rule sw_cmd_result)

theorem sw_cmd_frame_witness:
  "wpa_driver_nl80211_driver_sw_cmd sample_config
     (wpa_driver_nl80211_testmode sample_config (sample_env [])) 1 0x10 2 =
    Done (0, [Msg_Alloc, Cb_Clone, Msg_Send 3
      (le_bytes 4 0x1000001 @ le_bytes 4 20 @ [1, 0, 0, 0] @ le_bytes 4 16 @ le_bytes 4 2), Cb_Put, Msg_Free])"
  using sw_cmd_frame [OF sample_abi_ok _ sample_replies [of "[]"], of 1 "0x10" 2]
  by (simp add: sample_env_def) (simp add: sample_config_def)

end
