(* ===== verification/Sta_Report.thy ===== *)
theory Sta_Report
  imports Testmode
begin

text \<open>
  The text replies of \<open>DRIVER GET_STA_STATISTICS\<close> and \<open>DRIVER GET_STA_LINK_DETECT\<close>:
  \<open>print_sta_statistics\<close>, \<open>wpa_driver_get_sta_statistics\<close> and \<open>wpa_driver_get_sta_link_detect\<close>. Both
  printers are chains of \<open>snprintf\<close> calls and instances of the locale \<open>snprintf_report\<close> of the prelude.
\<close>

section \<open>Station statistics\<close>


definition fmt_tc :: "u32 list \<Rightarrow> string" where
  "fmt_tc a = fmt_d (sint (a ! tc_index TC0_INDEX)) @ '':'' @ fmt_d (sint (a ! tc_index TC1_INDEX)) @ '':'' @
     fmt_d (sint (a ! tc_index TC2_INDEX)) @ '':'' @ fmt_d (sint (a ! tc_index TC3_INDEX))"

text \<open>The body of the two loops over \<open>reserved\<close>: a blank follows every fourth byte.\<close>

definition reserved_chunks :: "sta_statistics \<Rightarrow> nat \<Rightarrow> nat \<Rightarrow> string list" where
  "reserved_chunks st a b =
     concat (map (\<lambda>i. fmt_02X (ss_reserved st ! i) # (if (i + 1) mod 4 = 0 then ['' ''] else [])) [a..<b])"

text \<open>What is printed before the newline that ends the second line of reserved bytes, and from there on.\<close>

definition sta_chunks_head :: "sta_statistics \<Rightarrow> string list" where
  "sta_chunks_head st =
     [''sta_addr='' @ MACSTR (ss_addr st) @ [NL],
      ''link_score='' @ fmt_d (int (unat (ss_link_score st))) @ [NL],
      ''per='' @ fmt_d (int (unat (ss_per st))) @ [NL],
      ''rssi='' @ fmt_d (ss_rssi st) @ [NL],
      ''phy=0x'' @ fmt_08X (ss_phy_mode st) @ [NL],
      ''rate='' @ fmt_f1 (ss_tx_rate st) @ [NL],
      ''total_cnt='' @ fmt_d (sint (ss_tx_total_cnt st)) @ [NL],
      ''threshold_cnt='' @ fmt_d (sint (ss_tx_exc_threshold_cnt st)) @ [NL],
      ''fail_cnt='' @ fmt_d (sint (ss_tx_fail_cnt st)) @ [NL],
      ''timeout_cnt='' @ fmt_d (sint (ss_tx_timeout_cnt st)) @ [NL],
      ''apt='' @ fmt_d (sint (ss_tx_avg_process_time st)) @ [NL],
      ''aat='' @ fmt_d (sint (ss_tx_avg_air_time st)) @ [NL],
      ''TC_buf_full_cnt='' @ fmt_tc (ss_tc_buf_full_cnt st) @ [NL],
      ''TC_sta_que_len='' @ fmt_tc (ss_tc_que_len st) @ [NL],
      ''TC_avg_que_len='' @ fmt_tc (ss_tc_avg_que_len st) @ [NL],
      ''TC_cur_que_len='' @ fmt_tc (ss_tc_cur_que_len st) @ [NL],
      ''flag=0x'' @ fmt_08X (ss_flag st) @ [NL],
      ''reserved0=''] @ reserved_chunks st 0 16 @ [[NL], ''reserved1=''] @ reserved_chunks st 16 32"

definition sta_chunks_tail :: "string list" where
  "sta_chunks_tail = [[NL], ''===='' @ [NL]]"

text \<open>
  The newline after the second loop is printed with the unused argument \<open>reserved[32]\<close>, one past the
  array. \<open>past\<close> is what that read gives: \<^term>\<open>Undef Out_Of_Bounds\<close> by the language, a byte on a machine
  where the memory behind the structure can be read. The buffer is a list of its \<open>buflen\<close> bytes.
\<close>

definition print_sta_statistics :: "u8 outcome \<Rightarrow> sta_statistics \<Rightarrow> string \<Rightarrow> (int \<times> string) outcome" where
  "print_sta_statistics past st buf =
     (case wr_chunks (length buf) (sta_chunks_head st) \<lparr>w_buf = buf, w_pos = 0\<rparr> of
        (ok, w) \<Rightarrow>
          if \<not> ok then Done (0, w_buf w)
          else bindC past (\<lambda>b.
            case wr_chunks (length buf) sta_chunks_tail w of
              (ok', w') \<Rightarrow> Done (if ok' then int (w_pos w') else 0, w_buf w')))"

text \<open>
  The local \<open>sta_statistics\<close> is not initialised: it starts as whatever is on the stack, at address \<open>sp\<close>.
\<close>

definition wpa_driver_get_sta_statistics ::
  "config \<Rightarrow> testmode_fn \<Rightarrow> (string \<Rightarrow> u8 list option) \<Rightarrow> u8 outcome \<Rightarrow> nat \<Rightarrow> sta_statistics \<Rightarrow> string \<Rightarrow> string \<Rightarrow>
    (int \<times> string \<times> nl_eff list) outcome" where
  "wpa_driver_get_sta_statistics cfg tm hwaddr_aton past sp stack addr buf =
     (case hwaddr_aton addr of
        None \<Rightarrow> Done (- 1, buf, [])
      | Some sta_addr \<Rightarrow>
          bindC (wpas_get_sta_statistics cfg tm (Some sta_addr) sp stack) (\<lambda>(ret, st, e).
            if ret < 0 then Done (- 1, buf, e)
            else bindC (print_sta_statistics past st buf) (\<lambda>(len, b). Done (len, b, e))))"

section \<open>Link detection\<close>

definition link_chunks :: "sta_link_detect \<Rightarrow> string list" where
  "link_chunks d =
     [''rFailedCount='' @ fmt_u (unat (ld_tx_fail_cnt d)) @ [NL],
      ''rRetryCount='' @ fmt_u (unat (ld_tx_retry_cnt d)) @ [NL],
      ''rMultipleRetryCount='' @ fmt_u (unat (ld_tx_multi_retry_cnt d)) @ [NL],
      ''rACKFailureCount='' @ fmt_u (unat (ld_ack_fail_cnt d)) @ [NL],
      ''rFCSErrorCount='' @ fmt_u (unat (ld_fcs_err_cnt d)) @ [NL],
      ''tx_total='' @ fmt_u (unat (ld_tx_cnt d)) @ [NL],
      ''tx_ok='' @ fmt_u (unat (ld_tx_ok_cnt d)) @ [NL],
      ''tx_os='' @ fmt_u (unat (ld_tx_os_cnt d)) @ [NL]]"

definition print_link_detect :: "sta_link_detect \<Rightarrow> string \<Rightarrow> int \<times> string" where
  "print_link_detect d buf =
     (case wr_chunks (length buf) (link_chunks d) \<lparr>w_buf = buf, w_pos = 0\<rparr> of
        (ok, w) \<Rightarrow> (int (w_pos w), w_buf w))"

definition wpa_driver_get_sta_link_detect ::
  "config \<Rightarrow> testmode_fn \<Rightarrow> nat \<Rightarrow> sta_link_detect \<Rightarrow> string \<Rightarrow> (int \<times> string \<times> nl_eff list) outcome" where
  "wpa_driver_get_sta_link_detect cfg tm sp stack buf =
     bindC (wpas_get_sta_link_detect cfg tm sp stack) (\<lambda>(ret, d, e).
       if ret < 0 then Done (- 1, buf, e)
       else case print_link_detect d buf of (len, b) \<Rightarrow> Done (len, b, e))"

section \<open>The printers as reports\<close>

definition sta_chunks :: "sta_statistics \<Rightarrow> string list" where
  "sta_chunks st = sta_chunks_head st @ sta_chunks_tail"

text \<open>The printer on a machine where the stray read gives a byte.\<close>

definition sta_report :: "sta_statistics \<Rightarrow> string \<Rightarrow> int \<times> string" where
  "sta_report st buf =
     (case print_sta_statistics (Done 0) st buf of Done r \<Rightarrow> r | _ \<Rightarrow> (0, buf))"

lemma wr_chunks_append:
  "wr_chunks fin (xs @ ys) w = (case wr_chunks fin xs w of (ok, w') \<Rightarrow> if ok then wr_chunks fin ys w' else (False, w'))"
  by (induction xs arbitrary: w) (auto split: prod.splits)

lemma print_sta_statistics_report: "print_sta_statistics (Done b) st buf = Done (sta_report st buf)"
  by (simp add: sta_report_def print_sta_statistics_def split: prod.splits)

interpretation sta: snprintf_report sta_chunks "\<lambda>_. 0" sta_report
  by unfold_locales
    (auto simp: sta_report_def print_sta_statistics_def sta_chunks_def sta_chunks_tail_def wr_chunks_append
      split: prod.splits)

interpretation link: snprintf_report link_chunks int print_link_detect
  by unfold_locales (auto simp: print_link_detect_def link_chunks_def split: prod.splits)

section \<open>Reading a report back\<close>

definition value_part :: "string \<Rightarrow> string" where
  "value_part l = drop 1 (dropWhile (\<lambda>c. c \<noteq> CHR ''='') l)"

lemma set_num_str: "2 \<le> b \<Longrightarrow> b \<le> 16 \<Longrightarrow> c \<in> set (num_str b up n) \<Longrightarrow> is_digit_in 16 c"
proof (induction n rule: less_induct)
  case (less n)
  show ?case
  proof (cases "n < b")
    case True
    then show ?thesis using less.prems by (simp add: num_str.simps [of b up n] is_digit_in_digit_char)
  next
    case False
    then have "n div b < n" "n mod b < 16" using less.prems mod_less_divisor [of b n] by (simp add: div_less_dividend, linarith)
    then show ?thesis
      using less.IH [OF \<open>n div b < n\<close>] less.prems False
      by (auto simp: num_str.simps [of b up n] is_digit_in_digit_char)
  qed
qed

lemma NL_not_digit: "\<not> is_digit_in 16 NL"
  by (simp add: is_digit_in_def digit_val_def char_val_def Let_def)

lemma no_NL_num [simp]: "2 \<le> b \<Longrightarrow> b \<le> 16 \<Longrightarrow> NL \<notin> set (num_str b up n)"
  using set_num_str NL_not_digit by blast

lemma no_NL_pad0 [simp]: "NL \<in> set (pad0 w t) \<longleftrightarrow> NL \<in> set t"
  by (simp add: pad0_def)

lemma no_NL_fmt [simp]:
  "NL \<notin> set (fmt_d v)" "NL \<notin> set (fmt_u n)" "NL \<notin> set (fmt_08X w)" "NL \<notin> set (fmt_02X x)" "NL \<notin> set (fmt_02x x)"
  "NL \<notin> set (fmt_f1 q)" "NL \<notin> set (fmt_tc a)" "NL \<notin> set (MACSTR m)"
  by (simp_all add: fmt_d_def fmt_u_def fmt_08X_def fmt_02X_def fmt_02x_def fmt_f1_def Let_def fmt_tc_def MACSTR_def)

lemma no_NL_reserved [simp]: "NL \<notin> set (concat (reserved_chunks st a b))"
  by (auto simp: reserved_chunks_def)

lemma scan_fmt_u: "fst (scan_digits 10 0 (fmt_u n)) = n"
  using scan_digits_num_str [of 10 0 False n "[]"] by (simp add: fmt_u_def)

text \<open>The lines of the two reports.\<close>

definition sta_lines :: "sta_statistics \<Rightarrow> string list" where
  "sta_lines st =
     [''sta_addr='' @ MACSTR (ss_addr st), ''link_score='' @ fmt_d (int (unat (ss_link_score st))),
      ''per='' @ fmt_d (int (unat (ss_per st))), ''rssi='' @ fmt_d (ss_rssi st),
      ''phy=0x'' @ fmt_08X (ss_phy_mode st), ''rate='' @ fmt_f1 (ss_tx_rate st),
      ''total_cnt='' @ fmt_d (sint (ss_tx_total_cnt st)),
      ''threshold_cnt='' @ fmt_d (sint (ss_tx_exc_threshold_cnt st)),
      ''fail_cnt='' @ fmt_d (sint (ss_tx_fail_cnt st)), ''timeout_cnt='' @ fmt_d (sint (ss_tx_timeout_cnt st)),
      ''apt='' @ fmt_d (sint (ss_tx_avg_process_time st)), ''aat='' @ fmt_d (sint (ss_tx_avg_air_time st)),
      ''TC_buf_full_cnt='' @ fmt_tc (ss_tc_buf_full_cnt st), ''TC_sta_que_len='' @ fmt_tc (ss_tc_que_len st),
      ''TC_avg_que_len='' @ fmt_tc (ss_tc_avg_que_len st), ''TC_cur_que_len='' @ fmt_tc (ss_tc_cur_que_len st),
      ''flag=0x'' @ fmt_08X (ss_flag st), ''reserved0='' @ concat (reserved_chunks st 0 16),
      ''reserved1='' @ concat (reserved_chunks st 16 32), ''====''] "

lemma sta_chunks_lines: "concat (sta_chunks st) = concat (map (\<lambda>l. l @ [NL]) (sta_lines st))"
  by (simp add: sta_chunks_def sta_chunks_head_def sta_chunks_tail_def sta_lines_def)

lemma lines_of_sta: "lines_of (concat (sta_chunks st)) = sta_lines st"
  unfolding sta_chunks_lines by (rule concat_lines) (simp add: sta_lines_def del: set_concat)

lemma lines_of_link:
  "map (\<lambda>l. fst (scan_digits 10 0 (value_part l))) (lines_of (concat (link_chunks d))) =
    map unat [ld_tx_fail_cnt d, ld_tx_retry_cnt d, ld_tx_multi_retry_cnt d, ld_ack_fail_cnt d, ld_fcs_err_cnt d,
      ld_tx_cnt d, ld_tx_ok_cnt d, ld_tx_os_cnt d]"
proof -
  have "concat (link_chunks d) = concat (map (\<lambda>l. l @ [NL]) (map butlast (link_chunks d)))"
    by (simp add: link_chunks_def butlast_append)
  moreover have "list_all (\<lambda>l. NL \<notin> set l) (map butlast (link_chunks d))"
    by (simp add: link_chunks_def butlast_append)
  ultimately have "lines_of (concat (link_chunks d)) = map butlast (link_chunks d)"
    by (simp only: concat_lines)
  then show ?thesis by (simp add: link_chunks_def butlast_append value_part_def scan_fmt_u)
qed

lemma atoi_value_sint: "32 \<le> bits \<Longrightarrow> atoi bits (fmt_d (sint (w :: u32))) = sint w"
  using atoi_fmt_d [of "sint w" bits "[]"] sint_ge [of w] sint_lt [of w] by (simp add: no_digit_first_def)

lemma u8_induct:
  assumes "\<And>v. 0 \<le> v \<Longrightarrow> v < 256 \<Longrightarrow> P v"
  shows "P (int (unat (w :: u8)))"
proof (rule assms)
  show "int (unat w) < 256" using unsigned_less [of w, where 'a = int] by simp
qed (rule of_nat_0_le_iff)

lemma atoi_value_u8: "32 \<le> bits \<Longrightarrow> atoi bits (fmt_d (int (unat (w :: u8)))) = int (unat w)"
  by (rule u8_induct) (simp add: atoi_fmt_d [of _ _ "[]", simplified] no_digit_first_def)

section \<open>How long a report gets\<close>

lemma length_fmt_u: "n < 10 ^ k \<Longrightarrow> 1 \<le> k \<Longrightarrow> length (fmt_u n) \<le> k"
  by (simp add: fmt_u_def length_num_str)

lemma length_fmt_u32: "length (fmt_d (sint (w :: u32))) \<le> 11"
  using length_fmt_d [of 10 "sint w"] sint_ge [of w] sint_lt [of w] by (simp split: if_splits)

lemma length_fmt_u8: "length (fmt_d (int (unat (w :: u8)))) \<le> 3"
proof (rule u8_induct)
  show "length (fmt_d v) \<le> 3" if "0 \<le> v" "v < 256" for v
    using that length_fmt_d [of 3 v] by simp
qed

lemma length_fmt_rssi: "- 110 \<le> v \<Longrightarrow> v \<le> 17 \<Longrightarrow> length (fmt_d v) \<le> 4"
  using length_fmt_d [of 3 v] by (simp split: if_splits)

lemma length_fmt_tc: "length (fmt_tc a) \<le> 47"
  using length_fmt_u32 [of "a ! 0"] length_fmt_u32 [of "a ! 1"] length_fmt_u32 [of "a ! 2"] length_fmt_u32 [of "a ! 3"]
  by (simp add: fmt_tc_def)

lemma length_fmt_rate: "n < 2 ^ 16 \<Longrightarrow> length (fmt_f1 (of_nat n / 2)) \<le> 7"
proof -
  assume n: "n < 2 ^ 16"
  have "round_even (\<bar>of_nat n / 2\<bar> * 10) = int (5 * n)"
    using floor_of_int [of "int (5 * n)", where 'a = rat] by (simp add: round_even_def Let_def)
  moreover have "5 * n div 10 < 10 ^ 5" "5 * n mod 10 < 10 ^ 1" using n by simp_all
  ultimately show ?thesis
    using length_fmt_u [of "5 * n div 10" 5] length_fmt_u [of "5 * n mod 10" 1] by (simp add: fmt_f1_def Let_def nat_mult_distrib)
qed

lemma length_reserved: "length (concat (reserved_chunks st 0 16)) = 36" "length (concat (reserved_chunks st 16 32)) = 36"
  by (simp_all add: reserved_chunks_def upt_rec)

definition sta_report_ok :: "sta_statistics \<Rightarrow> bool" where
  "sta_report_ok st \<longleftrightarrow> - 110 \<le> ss_rssi st \<and> ss_rssi st \<le> 17 \<and> (\<exists>n<65536. ss_tx_rate st = of_nat n / 2)"

lemma length_sta_report:
  assumes "sta_report_ok st"
  shows "length (concat (sta_chunks st)) \<le> 581"
proof -
  obtain n where n: "n < 2 ^ 16" "ss_tx_rate st = of_nat n / 2" using assms by (auto simp: sta_report_ok_def)
  have "length (fmt_d (ss_rssi st)) \<le> 4" using assms length_fmt_rssi by (simp add: sta_report_ok_def)
  moreover have "length (fmt_f1 (ss_tx_rate st)) \<le> 7" unfolding n(2) by (rule length_fmt_rate [OF n(1)])
  ultimately show ?thesis
    using length_fmt_u8 [of "ss_link_score st"] length_fmt_u8 [of "ss_per st"] length_fmt_u32 [of "ss_tx_total_cnt st"]
      length_fmt_u32 [of "ss_tx_exc_threshold_cnt st"] length_fmt_u32 [of "ss_tx_fail_cnt st"]
      length_fmt_u32 [of "ss_tx_timeout_cnt st"] length_fmt_u32 [of "ss_tx_avg_process_time st"]
      length_fmt_u32 [of "ss_tx_avg_air_time st"] length_fmt_tc [of "ss_tc_buf_full_cnt st"]
      length_fmt_tc [of "ss_tc_que_len st"] length_fmt_tc [of "ss_tc_avg_que_len st"] length_fmt_tc [of "ss_tc_cur_que_len st"]
    by (simp add: sta_chunks_def sta_chunks_head_def sta_chunks_tail_def length_reserved del: length_concat)
qed

lemma length_fmt_u64: "length (fmt_u (unat (w :: u64))) \<le> 20"
  using length_fmt_u [of "unat w" 20] unsigned_less [of w, where 'a = nat] by simp

lemma length_link_report: "length (concat (link_chunks d)) \<le> 266"
  using length_fmt_u64 [of "ld_tx_fail_cnt d"] length_fmt_u64 [of "ld_tx_retry_cnt d"]
    length_fmt_u64 [of "ld_tx_multi_retry_cnt d"] length_fmt_u64 [of "ld_ack_fail_cnt d"]
    length_fmt_u64 [of "ld_fcs_err_cnt d"] length_fmt_u64 [of "ld_tx_cnt d"] length_fmt_u64 [of "ld_tx_ok_cnt d"]
    length_fmt_u64 [of "ld_tx_os_cnt d"]
  by (simp add: link_chunks_def)

section \<open>What the replies say\<close>


lemma sta_zero_report_ok: "sta_report_ok sta_statistics_zero"
  by (simp add: sta_report_ok_def sta_statistics_zero_def)


text \<open>C29. Reading the values of the numeric lines of a statistics report with \<open>atoi\<close> gives back the link score, the
  error rate and the signal strength, and each 32-bit counter as a signed number: a counter of
  2147483648 or more is reported, and read back, as negative.\<close>

theorem sta_statistics_lines_roundtrip:
  assumes "32 \<le> bits" "- (2 ^ 31) \<le> ss_rssi st" "ss_rssi st < 2 ^ 31"
  shows "map (\<lambda>i. atoi bits (value_part (lines_of (concat (sta_chunks st)) ! i))) [1, 2, 3, 6, 7, 8, 9, 10, 11] =
    [int (unat (ss_link_score st)), int (unat (ss_per st)), ss_rssi st, sint (ss_tx_total_cnt st),
     sint (ss_tx_exc_threshold_cnt st), sint (ss_tx_fail_cnt st), sint (ss_tx_timeout_cnt st),
     sint (ss_tx_avg_process_time st), sint (ss_tx_avg_air_time st)]"
  using assms atoi_fmt_d [of "ss_rssi st" bits "[]"] atoi_value_u8 [OF assms(1)] atoi_value_sint [OF assms(1)]
  by (simp add: lines_of_sta sta_lines_def value_part_def no_digit_first_def)

theorem sta_statistics_lines_roundtrip_witness:
  "let st = sta_statistics_zero\<lparr>ss_rssi := - 60, ss_tx_total_cnt := 0xFFFFFFFF\<rparr>
   in map (\<lambda>i. atoi 32 (value_part (lines_of (concat (sta_chunks st)) ! i))) [1, 2, 3, 6, 7, 8, 9, 10, 11] =
      [0, 0, - 60, - 1, 0, 0, 0, 0, 0]"
  using sta_statistics_lines_roundtrip [of 32 "sta_statistics_zero\<lparr>ss_rssi := - 60, ss_tx_total_cnt := 0xFFFFFFFF\<rparr>"]
  by (simp add: sta_statistics_zero_def)

text \<open>By the rules of C, printing statistics is undefined exactly when everything up to the last reserved byte
  fits: the newline printed next has \<open>reserved[32]\<close> as an argument. When it does not fit, 0 is returned.\<close>

theorem print_sta_statistics_stray_read:
  "print_sta_statistics (Undef Out_Of_Bounds) st buf =
     (if length (concat (sta_chunks_head st)) < length buf then Undef Out_Of_Bounds
      else Done (0, w_buf (snd (wr_chunks (length buf) (sta_chunks_head st) \<lparr>w_buf = buf, w_pos = 0\<rparr>))))"
proof -
  have ne: "sta_chunks_head st \<noteq> []" by (simp add: sta_chunks_head_def)
  show ?thesis
    using wr_chunks_fits [OF sta.start_inv [of buf], of "sta_chunks_head st"]
      wr_chunks_full [OF sta.start_inv [of buf] _ ne]
    by (cases "length (concat (sta_chunks_head st)) < length buf")
      (auto simp: print_sta_statistics_def split: prod.splits)
qed

text \<open>C30. Whatever the size of the buffer, the printers write nothing past its end and return a position within it;
  a statistics report that does not fit is reported as empty, a link report is cut after a whole line.\<close>

theorem report_printers_bounds:
  "(\<exists>len buf'. print_sta_statistics (Done b) st buf = Done (len, buf') \<and> length buf' = length buf \<and>
      0 \<le> len \<and> len \<le> int (length buf) \<and>
      (length buf \<le> length (concat (sta_chunks st)) \<longleftrightarrow> len = 0)) \<and>
   length (snd (print_link_detect d buf)) = length buf \<and>
   (\<exists>k\<le>8. fst (print_link_detect d buf) = int (length (concat (take k (link_chunks d)))) \<and>
      (k = 8 \<longleftrightarrow> length (concat (link_chunks d)) < length buf))"
proof (intro conjI)
  have pos: "0 < length (concat (sta_chunks st))" by (simp add: sta_chunks_def sta_chunks_head_def)
  have "length buf \<le> length (concat (sta_chunks st)) \<longleftrightarrow> fst (sta_report st buf) = 0"
    using sta.report_fits(1) [of st buf] sta.report_full [of buf st] pos by (cases "length (concat (sta_chunks st)) < length buf") auto
  then show "\<exists>len buf'. print_sta_statistics (Done b) st buf = Done (len, buf') \<and> length buf' = length buf \<and>
      0 \<le> len \<and> len \<le> int (length buf) \<and> (length buf \<le> length (concat (sta_chunks st)) \<longleftrightarrow> len = 0)"
    using sta.report_bounds [of st buf] sta.report_length [of st buf] print_sta_statistics_report [of b st buf]
    by (metis prod.collapse)
  show "length (snd (print_link_detect d buf)) = length buf" by (rule link.report_length)
  have eight: "length (link_chunks d) = 8" by (simp add: link_chunks_def)
  show "\<exists>k\<le>8. fst (print_link_detect d buf) = int (length (concat (take k (link_chunks d)))) \<and>
      (k = 8 \<longleftrightarrow> length (concat (link_chunks d)) < length buf)"
  proof (cases "length (concat (link_chunks d)) < length buf")
    case True
    then show ?thesis using link.report_fits(1) [OF True] eight by (intro exI [of _ 8]) simp
  next
    case False
    then obtain k where "k < length (link_chunks d)"
      "fst (print_link_detect d buf) = int (length (concat (take k (link_chunks d))))"
      using link.report_full [of buf d] by auto
    then show ?thesis using False eight by (intro exI [of _ k]) auto
  qed
qed

text \<open>A link detection query that the kernel answers is turned into a text whose eight values, read back as
  decimal numbers, are the counters of the reply, with the eight counters' 64 bits intact; 267 bytes of buffer
  always suffice.\<close>

lemma link_detect_reply_roundtrip:
  assumes "CONFIG_MTK_TURNKEY_WLAN cfg" "CONFIG_MTK_POOR_LINK_DETECT cfg" "replies env [m] fin" "ev_status fin = 0"
    and "parse_testdata (te_libnl env) 8 (policy_of link_attr_id (\<lambda>a. NLA_U64) link_detect_attrs) m = Some sinfo"
    and "266 < length buf"
  shows "\<exists>len buf' b. wpa_driver_get_sta_link_detect cfg (wpa_driver_nl80211_testmode cfg env) sp stack buf =
      Done (int len, buf', exchange env b) \<and>
    map (\<lambda>l. fst (scan_digits 10 0 (value_part l))) (lines_of (take len buf')) =
      (let d = sta_link_detect_of (te_libnl env) sinfo stack in map unat
        [ld_tx_fail_cnt d, ld_tx_retry_cnt d, ld_tx_multi_retry_cnt d, ld_ack_fail_cnt d, ld_fcs_err_cnt d,
         ld_tx_cnt d, ld_tx_ok_cnt d, ld_tx_os_cnt d])"
proof -
  let ?d = "sta_link_detect_of (te_libnl env) sinfo stack"
  have "\<exists>b. wpas_get_sta_link_detect cfg (wpa_driver_nl80211_testmode cfg env) sp stack = Done (0, ?d, exchange env b)"
    using assms replies_ok [OF assms(3)]
    by (simp add: wpas_get_sta_link_detect_def wpa_driver_nl80211_testmode_def mk_hdr_index testmode_ids BITS_def BIT_def
        Let_def replies_run [OF assms(3)] testmode_sta_link_detect_handler_def fold_link_step
        NL80211_TESTMODE_LINK_DETECT_NUM_def)
  then obtain b where q: "wpas_get_sta_link_detect cfg (wpa_driver_nl80211_testmode cfg env) sp stack = Done (0, ?d, exchange env b)" ..
  have fits: "length (concat (link_chunks ?d)) < length buf" using length_link_report [of ?d] assms(6) by linarith
  obtain len buf' where "print_link_detect ?d buf = (len, buf')" by fastforce
  then show ?thesis
    using link.report_fits [OF fits] lines_of_link [of ?d]
    by (intro exI [of _ "length (concat (link_chunks ?d))"] exI [of _ buf'] exI [of _ b])
      (simp add: wpa_driver_get_sta_link_detect_def q Let_def)
qed

text \<open>An answer that carries one counter, for examples.\<close>

lemma sample_link_reply:
  "parse_testdata tlv_libnl 8 (policy_of link_attr_id (\<lambda>a. NLA_U64) link_detect_attrs) [69, 3, 1, 1, 5] = Some [1 \<mapsto> [5]]"
  "sta_link_detect_of tlv_libnl [1 \<mapsto> [5]] sta_link_detect_zero = sta_link_detect_zero\<lparr>ld_tx_fail_cnt := 5\<rparr>"
  by (simp_all add: parse_testdata_def sta_link_detect_of_def sta_link_detect_zero_def tlv_libnl_def)

text \<open>C38. When the kernel's answer to a statistics query carries no reserved array, the reply the caller gets shows,
  in its \<open>reserved0\<close> and \<open>reserved1\<close> lines, the 32 bytes the stack held before the query: the structure is not
  initialised.\<close>

theorem get_sta_statistics_shows_stack:
  assumes "CONFIG_MTK_TURNKEY_WLAN cfg" "replies env [m] fin" "ev_status fin = 0"
    and "parse_testdata (te_libnl env) 19 (policy_of sta_attr_id sta_statistics_policy sta_statistics_attrs) m = Some sinfo"
    and "sinfo 19 = None" "hwaddr_aton addr = Some a"
    and "length (concat (sta_chunks (sta_statistics_of (te_libnl env) sinfo stack))) < length buf"
  shows "\<exists>len buf' e. wpa_driver_get_sta_statistics cfg (wpa_driver_nl80211_testmode cfg env) hwaddr_aton (Done b) sp stack
      addr buf = Done (int len, buf', e) \<and>
    lines_of (take len buf') ! 17 = ''reserved0='' @ concat (reserved_chunks stack 0 16) \<and>
    lines_of (take len buf') ! 18 = ''reserved1='' @ concat (reserved_chunks stack 16 32)"
proof -
  let ?st = "sta_statistics_of (te_libnl env) sinfo stack"
  have "\<exists>b. wpas_get_sta_statistics cfg (wpa_driver_nl80211_testmode cfg env) (Some a) sp stack = Done (0, ?st, exchange env b)"
    using assms replies_ok [OF assms(2)]
    by (simp add: wpas_get_sta_statistics_def wpa_driver_nl80211_testmode_def mk_hdr_index testmode_ids BITS_def BIT_def
        Let_def replies_run [OF assms(2)] testmode_sta_statistics_handler_def fold_sta_step
        NL80211_TESTMODE_STA_STATISTICS_NUM_def)
  then obtain c where q: "wpas_get_sta_statistics cfg (wpa_driver_nl80211_testmode cfg env) (Some a) sp stack = Done (0, ?st, exchange env c)" ..
  have res: "ss_reserved ?st = ss_reserved stack" using assms(5) by (simp add: sta_statistics_of_def Let_def)
  obtain len buf' where "sta_report ?st buf = (len, buf')" by fastforce
  then show ?thesis
    using sta.report_fits [OF assms(7)] lines_of_sta [of ?st] assms(6) res
    by (intro exI [of _ "length (concat (sta_chunks ?st))"] exI [of _ buf'] exI [of _ "exchange env c"])
      (simp add: wpa_driver_get_sta_statistics_def q print_sta_statistics_report sta_lines_def reserved_chunks_def)
qed

theorem get_sta_statistics_shows_stack_witness:
  "\<exists>len buf' e. wpa_driver_get_sta_statistics sample_config
      (wpa_driver_nl80211_testmode sample_config (sample_env [sample_stats_msg])) (\<lambda>s. Some (replicate 6 1)) (Done 0) 0
      (sta_statistics_zero\<lparr>ss_reserved := replicate 32 0xAB\<rparr>) ''01:01:01:01:01:01'' (replicate 600 CHR ''x'') =
        Done (int len, buf', e) \<and>
    lines_of (take len buf') ! 17 =
      ''reserved0='' @ concat (reserved_chunks (sta_statistics_zero\<lparr>ss_reserved := replicate 32 0xAB\<rparr>) 0 16)"
proof -
  let ?stack = "sta_statistics_zero\<lparr>ss_reserved := replicate 32 0xAB\<rparr>"
  have "sta_report_ok (sta_statistics_of tlv_libnl [3 \<mapsto> [7], 6 \<mapsto> [100]] ?stack)"
    by (simp add: sta_report_ok_def sta_statistics_of_def sta_statistics_zero_def Let_def) (simp add: tlv_libnl_def c_div_def)
  from length_sta_report [OF this] show ?thesis
    using get_sta_statistics_shows_stack [OF _ sample_replies [of "[sample_stats_msg]"], of sample_config
        "[3 \<mapsto> [7], 6 \<mapsto> [100]]" "\<lambda>s. Some (replicate 6 1)" "''01:01:01:01:01:01''" "replicate 6 1" ?stack
        "replicate 600 CHR ''x''" 0 0]
    by (simp add: sample_env_def sample_stats_parse del: length_concat) (auto simp: sample_config_def)
qed

end
