(* ===== verification/P2p.thy ===== *)
theory P2p
  imports Testmode
begin

text \<open>
  The Wi-Fi Direct part of \<open>mediatek_driver_cmd_nl80211.c\<close>: device capability, the map from frequency to
  operating class and channel, the switch between single and multi channel concurrency, and the sigma
  test commands. \<open>struct p2p_data\<close> and the configuration are declared in wpa\_supplicant; only the
  members this code touches are kept.
\<close>

section \<open>State\<close>

record p2p_reg_class =
  rc_reg_class :: u8
  rc_channel :: "u8 list"
  rc_channels :: nat

record p2p_channels =
  pc_reg_class :: "p2p_reg_class list"
  pc_reg_classes :: nat

record p2p_cfg =
  cf_cfg_op_channel :: int
  cf_channels :: p2p_channels
  cf_concurrent_operations :: int

record p2p_data =
  p2_dev_capab :: u8
  p2_op_reg_class :: u8
  p2_op_channel :: u8
  p2_channels :: p2p_channels
  p2_use_mcc :: u8
  p2_cfg :: "p2p_cfg option"

text \<open>The operating class and channel of \<open>wpa_s->conf\<close>.\<close>

record wpa_conf =
  wc_p2p_oper_reg_class :: int
  wc_p2p_oper_channel :: int

text \<open>
  The channels a device offers: the first \<open>channels\<close> entries of each of the first \<open>reg_classes\<close> classes.
\<close>

definition offered :: "p2p_channels \<Rightarrow> (u8 \<times> u8) list" where
  "offered pc = concat (map (\<lambda>r. map (\<lambda>c. (rc_reg_class r, c)) (take (rc_channels r) (rc_channel r)))
     (take (pc_reg_classes pc) (pc_reg_class pc)))"

section \<open>Device capability\<close>

definition P2P_DEV_CAPA :: string where "P2P_DEV_CAPA = ''p2p_dev_capa''"
definition P2P_GROUP_CAPA :: string where "P2P_GROUP_CAPA = ''p2p_group_capa''"

definition p2p_get_capability :: "p2p_data \<Rightarrow> string \<Rightarrow> string \<Rightarrow> int \<times> string" where
  "p2p_get_capability p2p cmd buf =
     (if os_strncmp cmd P2P_DEV_CAPA (length P2P_DEV_CAPA) = 0 then
        (case snprintf buf 0 (length buf) (''p2p_dev_capa='' @ fmt_d (int (unat (p2_dev_capab p2p))) @ [CHR 0x0A]) of
           (b, ret) \<Rightarrow> (ret, b))
      else if os_strncmp cmd P2P_GROUP_CAPA (length P2P_GROUP_CAPA) = 0 then (- 1, buf)
      else (0, buf))"

definition p2p_set_capability :: "nat \<Rightarrow> p2p_data \<Rightarrow> string \<Rightarrow> int \<times> p2p_data" where
  "p2p_set_capability bits p2p cmd =
     (let dev = P2P_DEV_CAPA @ '' ''; grp = P2P_GROUP_CAPA @ '' '' in
      if os_strncmp cmd dev (length dev) = 0 then
        (0, p2p\<lparr>p2_dev_capab := word_of_int (atoi bits (drop (length dev) cmd))\<rparr>)
      else if os_strncmp cmd grp (length grp) = 0 then (- 1, p2p)
      else (0, p2p))"

section \<open>Frequencies\<close>

text \<open>\<^const>\<open>None\<close> is the result -1, on which the two output parameters are left alone.\<close>

definition priv_p2p_freq_to_channel :: "config \<Rightarrow> nat \<Rightarrow> (u8 \<times> u8) option" where
  "priv_p2p_freq_to_channel cfg freq =
     (if 2412 \<le> freq \<and> freq \<le> 2472 then
        (if (freq - 2407) mod 5 \<noteq> 0 then None else Some (81, word_of_nat ((freq - 2407) div 5)))
      else if freq = 2484 then Some (82, 14)
      else if 5180 \<le> freq \<and> freq \<le> 5240 then
        (if (freq - 5000) mod 5 \<noteq> 0 then None else Some (115, word_of_nat ((freq - 5000) div 5)))
      else if CONFIG_MTK_P2P_5G cfg \<and> 5260 \<le> freq \<and> freq \<le> 5320 then
        Some (118, word_of_nat ((freq - 5000) div 5))
      else if CONFIG_MTK_P2P_5G cfg \<and> 5500 \<le> freq \<and> freq \<le> 5700 then
        Some (121, word_of_nat ((freq - 5000) div 5))
      else if 5745 \<le> freq \<and> freq \<le> 5805 then
        (if (freq - 5000) mod 5 \<noteq> 0 then None else Some (124, word_of_nat ((freq - 5000) div 5)))
      else if CONFIG_MTK_P2P_5G cfg \<and> 5825 \<le> freq \<and> freq \<le> 5845 then
        Some (125, word_of_nat ((freq - 5000) div 5))
      else None)"

section \<open>Single and multi channel concurrency\<close>

text \<open>\<open>channels.reg_class[0]\<close> with one channel.\<close>

definition set_only_channel :: "u8 \<Rightarrow> u8 \<Rightarrow> p2p_channels \<Rightarrow> p2p_channels outcome" where
  "set_only_channel cls ch pc =
     (case pc_reg_class pc of
        [] \<Rightarrow> Undef Out_Of_Bounds
      | r # rs \<Rightarrow>
          (case rc_channel r of
             [] \<Rightarrow> Undef Out_Of_Bounds
           | c # cs \<Rightarrow> Done \<lparr>pc_reg_class = \<lparr>rc_reg_class = cls, rc_channel = ch # cs, rc_channels = 1\<rparr> # rs,
                             pc_reg_classes = 1\<rparr>))"

text \<open>
  The result of \<open>priv_p2p_freq_to_channel\<close> is not looked at: for an unknown frequency the operating
  class and channel are read uninitialised. \<open>r\<close> is the random number drawn.
\<close>

definition p2p_wfd_sink_config_scc ::
  "config \<Rightarrow> wpa_conf \<Rightarrow> u32 \<Rightarrow> p2p_data option \<Rightarrow> bool \<Rightarrow> u32 \<Rightarrow> p2p_data option outcome" where
  "p2p_wfd_sink_config_scc cfg conf r p2p_opt scc oper_freq =
     (case p2p_opt of
        None \<Rightarrow> Done None
      | Some p2p \<Rightarrow>
          if scc \<and> oper_freq \<noteq> 0 then
            (case priv_p2p_freq_to_channel cfg (unat oper_freq) of
               None \<Rightarrow> Undef Uninitialised
             | Some (cls, ch) \<Rightarrow>
                 bindC (set_only_channel cls ch (p2_channels p2p)) (\<lambda>pc.
                   Done (Some (p2p\<lparr>p2_op_channel := ch, p2_op_reg_class := cls, p2_channels := pc\<rparr>))))
          else
            (case p2_cfg p2p of
               None \<Rightarrow> Undef Null_Deref
             | Some c \<Rightarrow>
                 let configured = wc_p2p_oper_reg_class conf \<noteq> 0 \<and> wc_p2p_oper_channel conf \<noteq> 0 in
                 Done (Some (p2p\<lparr>
                   p2_op_reg_class := (if configured then word_of_int (wc_p2p_oper_reg_class conf) else 81),
                   p2_op_channel := (if configured then word_of_int (wc_p2p_oper_channel conf)
                                     else 1 + word_of_nat (unat r mod 3) * 5),
                   p2_cfg := Some (c\<lparr>cf_cfg_op_channel := (if configured then 1 else 0)\<rparr>),
                   p2_channels := cf_channels c\<rparr>))))"

section \<open>Sigma test commands\<close>

definition os_strchr :: "string \<Rightarrow> char \<Rightarrow> string option" where
  "os_strchr s c = (case dropWhile (\<lambda>x. x \<noteq> c) s of [] \<Rightarrow> None | r \<Rightarrow> Some r)"

text \<open>\<open>str = os_strchr(s, ' '); *str++ = '\0';\<close> leaves \<open>s\<close> cut at the blank and \<open>str\<close> behind it.\<close>

definition cut_at_blank :: "string \<Rightarrow> string outcome" where
  "cut_at_blank s = (case os_strchr s CHR '' '' of None \<Rightarrow> Undef Null_Deref | Some r \<Rightarrow> Done (tl r))"

text \<open>\<open>wpa_config_parse_string\<close> reads the SSID only to log it.\<close>

definition p2p_ctrl_iface_set_opps ::
  "config \<Rightarrow> testmode_fn \<Rightarrow> (string \<Rightarrow> u8 list option) \<Rightarrow> string \<Rightarrow> (int \<times> nl_eff list) outcome" where
  "p2p_ctrl_iface_set_opps cfg tm hwaddr_aton cmd =
     (let CTWin = atoi (long_bits cfg) cmd in
      bindC (cut_at_blank cmd) (\<lambda>str.
        case hwaddr_aton str of
          None \<Rightarrow> Done (- 1, [])
        | Some addr \<Rightarrow>
            bindC (cut_at_blank str) (\<lambda>ssid.
              bindC (wpas_p2p_sigma_test_mode cfg tm 107 CTWin) (\<lambda>(r, e). Done (0, e)))))"

definition p2p_ctrl_iface_set_power_save ::
  "config \<Rightarrow> testmode_fn \<Rightarrow> string \<Rightarrow> (int \<times> nl_eff list) outcome" where
  "p2p_ctrl_iface_set_power_save cfg tm cmd =
     bindC (wpas_p2p_sigma_test_mode cfg tm 108 (atoi (long_bits cfg) cmd)) (\<lambda>(r, e). Done (0, e))"

definition p2p_ctrl_iface_set_sleep ::
  "config \<Rightarrow> testmode_fn \<Rightarrow> (string \<Rightarrow> u8 list option) \<Rightarrow> string \<Rightarrow> (int \<times> nl_eff list) outcome" where
  "p2p_ctrl_iface_set_sleep cfg tm hwaddr_aton cmd =
     (case hwaddr_aton cmd of
        None \<Rightarrow> Done (- 1, [])
      | Some addr \<Rightarrow>
          bindC (cut_at_blank cmd) (\<lambda>ssid.
            bindC (wpas_p2p_sigma_test_mode cfg tm 106 0) (\<lambda>(r, e). Done (0, e))))"

section \<open>Properties\<close>

lemma unat_u8: "k < 256 \<Longrightarrow> unat (word_of_nat k :: u8) = k"
  by (simp add: unat_of_nat)

text \<open>
  The operating classes the comments of the source name, with the frequency their channels count from and the
  first and last channel.
\<close>

definition channel_plan :: "config \<Rightarrow> (u8 \<times> nat \<times> nat \<times> nat) list" where
  "channel_plan cfg =
     [(81, 2407, 1, 13), (115, 5000, 36, 48), (124, 5000, 149, 161)] @
     (if CONFIG_MTK_P2P_5G cfg then [(118, 5000, 52, 64), (121, 5000, 100, 140), (125, 5000, 165, 169)] else [])"

lemma div5: "a \<le> freq \<Longrightarrow> (freq - a) mod 5 = 0 \<Longrightarrow> freq = a + 5 * ((freq - a) div 5)" for a freq :: nat
  by (metis add.right_neutral le_add_diff_inverse mult_div_mod_eq)

definition in_channel :: "bool \<Rightarrow> nat \<Rightarrow> nat \<times> nat \<times> nat \<Rightarrow> nat \<Rightarrow> bool" where
  "in_channel exact freq band ch = (case band of (base, lo, hi) \<Rightarrow>
     lo \<le> ch \<and> ch \<le> hi \<and> base + 5 * ch \<le> freq \<and> freq < base + 5 * ch + 5 \<and> (exact \<longrightarrow> freq = base + 5 * ch))"

lemma in_channelI:
  assumes "base + 5 * lo \<le> freq" "freq \<le> base + 5 * hi" "hi < 256" "exact \<longrightarrow> (freq - base) mod 5 = 0"
  shows "in_channel exact freq (base, lo, hi) (unat (word_of_nat ((freq - base) div 5) :: u8))"
proof -
  let ?k = "(freq - base) div 5"
  have "lo \<le> ?k" "?k \<le> hi" "base + 5 * ?k \<le> freq" "freq < base + 5 * ?k + 5" using assms(1,2) by linarith+
  moreover have "exact \<longrightarrow> freq = base + 5 * ?k" using assms(1,4) div5 [of base freq] by auto
  ultimately show ?thesis using assms(3) by (simp add: in_channel_def unat_u8)
qed

lemma freq_to_channel_sound:
  assumes "priv_p2p_freq_to_channel cfg freq = Some (cls, ch)"
  shows "(freq = 2484 \<and> cls = 82 \<and> ch = 14) \<or>
    (\<exists>band. (cls, band) \<in> set (channel_plan cfg) \<and> in_channel (\<not> CONFIG_MTK_P2P_5G cfg) freq band (unat ch))"
proof -
  note I = in_channelI [where exact = "\<not> CONFIG_MTK_P2P_5G cfg"]
  show ?thesis
    using assms I [of 2407 1 freq 13] I [of 5000 36 freq 48] I [of 5000 52 freq 64] I [of 5000 100 freq 140]
      I [of 5000 149 freq 161] I [of 5000 165 freq 169]
    unfolding priv_p2p_freq_to_channel_def channel_plan_def by (simp split: if_split_asm)
qed

lemma freq_to_channel_complete:
  "priv_p2p_freq_to_channel cfg 2484 = Some (82, 14) \<and>
   list_all (\<lambda>(cls, base, lo, hi).
       list_all (\<lambda>ch. priv_p2p_freq_to_channel cfg (base + 5 * ch) = Some (cls, word_of_nat ch)) [lo..<Suc hi])
     (channel_plan cfg)"
proof -
  have upto: "list_all P [lo..<Suc hi] \<longleftrightarrow> (\<forall>ch. lo \<le> ch \<and> ch \<le> hi \<longrightarrow> P ch)" for P lo hi
    by (auto simp: list_all_iff simp del: upt_Suc)
  show ?thesis
    by (auto simp: upto channel_plan_def priv_p2p_freq_to_channel_def simp del: upt_rec_numeral upt_Suc)
qed



text \<open>With the 5 GHz extension, frequencies between two channels are accepted and rounded down, where the comment
  of the function promises -1 for an unknown frequency: 5261 MHz is reported as channel 52, and so is every
  frequency up to 5264 MHz; the same offsets are refused in the bands without the extension.\<close>

theorem freq_to_channel_accepts_unknown:
  assumes "CONFIG_MTK_P2P_5G cfg" "d < 5"
  shows "priv_p2p_freq_to_channel cfg (5260 + d) = Some (118, 52) \<and>
    (d \<noteq> 0 \<longrightarrow> priv_p2p_freq_to_channel cfg (5180 + d) = None \<and> priv_p2p_freq_to_channel cfg (2412 + d) = None)"
proof -
  have "d = 0 \<or> d = 1 \<or> d = 2 \<or> d = 3 \<or> d = 4" using assms(2) by linarith
  then show ?thesis using assms(1) by (elim disjE) (simp_all add: priv_p2p_freq_to_channel_def)
qed

theorem freq_to_channel_accepts_unknown_witness:
  "priv_p2p_freq_to_channel sample_config 5261 = Some (118, 52) \<and> priv_p2p_freq_to_channel sample_config 5181 = None"
  using freq_to_channel_accepts_unknown [of sample_config 1] by (simp add: sample_config_def)

lemma config_scc_result:
  assumes "freq \<noteq> 0" "priv_p2p_freq_to_channel cfg (unat freq) = Some (cls, ch)"
    and "p2p_wfd_sink_config_scc cfg conf r (Some p2p) True freq = Done (Some p2p')"
  shows "offered (p2_channels p2p') = [(cls, ch)]" "p2_op_reg_class p2p' = cls" "p2_op_channel p2p' = ch" "p2_cfg p2p' = p2_cfg p2p"
  using assms
  by (auto simp: p2p_wfd_sink_config_scc_def set_only_channel_def bindC_Done_iff offered_def split: list.splits)

lemma config_mcc_result:
  assumes "p2_cfg p2p = Some c"
  shows "\<exists>q. p2p_wfd_sink_config_scc cfg conf r (Some p2p) False freq = Done (Some q) \<and> p2_channels q = cf_channels c \<and>
    (if wc_p2p_oper_reg_class conf \<noteq> 0 \<and> wc_p2p_oper_channel conf \<noteq> 0
     then p2_op_reg_class q = word_of_int (wc_p2p_oper_reg_class conf) \<and> p2_op_channel q = word_of_int (wc_p2p_oper_channel conf)
     else p2_op_reg_class q = 81 \<and> p2_op_channel q = 1 + word_of_nat (unat r mod 3) * 5)"
  using assms by (simp add: p2p_wfd_sink_config_scc_def Let_def)

text \<open>C10. Single channel concurrency at a frequency leaves exactly one channel on offer, the operating channel, which
  is the one of that frequency; going back to multi channel concurrency offers the configured channels again
  and operates on the configured channel, or on 1, 6 or 11 of class 81 when none is configured.\<close>

theorem config_scc_then_mcc:
  assumes "freq \<noteq> 0" "priv_p2p_freq_to_channel cfg (unat freq) = Some (cls, ch)" "p2_cfg p2p = Some c"
    and "p2p_wfd_sink_config_scc cfg conf r (Some p2p) True freq = Done (Some p2p')"
  shows "offered (p2_channels p2p') = [(cls, ch)] \<and> (p2_op_reg_class p2p', p2_op_channel p2p') = (cls, ch) \<and>
    (\<exists>p2p''. p2p_wfd_sink_config_scc cfg conf r' (Some p2p') False 0 = Done (Some p2p'') \<and>
       offered (p2_channels p2p'') = offered (cf_channels c) \<and>
       (if wc_p2p_oper_reg_class conf \<noteq> 0 \<and> wc_p2p_oper_channel conf \<noteq> 0
        then p2_op_reg_class p2p'' = word_of_int (wc_p2p_oper_reg_class conf) \<and>
          p2_op_channel p2p'' = word_of_int (wc_p2p_oper_channel conf)
        else p2_op_reg_class p2p'' = 81 \<and> p2_op_channel p2p'' \<in> {1, 6, 11}))"
proof -
  have "unat r' mod 3 = 0 \<or> unat r' mod 3 = 1 \<or> unat r' mod 3 = 2" by linarith
  then have "1 + word_of_nat (unat r' mod 3) * 5 \<in> {1, 6, 11 :: u8}" by (elim disjE) simp_all
  then show ?thesis
    using config_scc_result [OF assms(1,2,4)] assms(3) config_mcc_result [of p2p' c cfg conf r' 0] by metis
qed

definition sample_channels :: p2p_channels where
  "sample_channels = \<lparr>pc_reg_class = [\<lparr>rc_reg_class = 81, rc_channel = [1, 6, 11], rc_channels = 3\<rparr>], pc_reg_classes = 1\<rparr>"

definition sample_p2p :: p2p_data where
  "sample_p2p = \<lparr>p2_dev_capab = 0, p2_op_reg_class = 81, p2_op_channel = 6, p2_channels = sample_channels, p2_use_mcc = 0,
     p2_cfg = Some \<lparr>cf_cfg_op_channel = 0, cf_channels = sample_channels, cf_concurrent_operations = 0\<rparr>\<rparr>"

theorem config_scc_then_mcc_witness:
  "\<exists>p2p'. p2p_wfd_sink_config_scc sample_config \<lparr>wc_p2p_oper_reg_class = 0, wc_p2p_oper_channel = 0\<rparr> 5 (Some sample_p2p) True 2437 =
      Done (Some p2p') \<and> offered (p2_channels p2p') = [(81, 6)]"
proof -
  let ?c = "\<lparr>wc_p2p_oper_reg_class = 0, wc_p2p_oper_channel = 0\<rparr>"
  obtain p2p' where run: "p2p_wfd_sink_config_scc sample_config ?c 5 (Some sample_p2p) True 2437 = Done (Some p2p')"
    by (simp add: p2p_wfd_sink_config_scc_def priv_p2p_freq_to_channel_def sample_p2p_def sample_channels_def set_only_channel_def)
  show ?thesis
    using config_scc_then_mcc [OF _ _ _ run, of 81 6] run
    by (simp add: priv_p2p_freq_to_channel_def sample_p2p_def)
qed

text \<open>Configuring single channel concurrency is free of undefined behaviour exactly when the frequency is known
  and there is room for one channel; an unknown frequency makes it use an operating class and channel that
  were never set.\<close>

theorem config_scc_defined_iff:
  "freq \<noteq> 0 \<Longrightarrow>
   safe (\<lambda>_. True) (p2p_wfd_sink_config_scc cfg conf r (Some p2p) True freq) \<longleftrightarrow>
     priv_p2p_freq_to_channel cfg (unat freq) \<noteq> None \<and>
     pc_reg_class (p2_channels p2p) \<noteq> [] \<and> rc_channel (hd (pc_reg_class (p2_channels p2p))) \<noteq> []"
  by (auto simp: p2p_wfd_sink_config_scc_def set_only_channel_def split: option.splits list.splits)

theorem config_scc_defined_iff_witness:
  "\<not> safe (\<lambda>_. True) (p2p_wfd_sink_config_scc sample_config \<lparr>wc_p2p_oper_reg_class = 0, wc_p2p_oper_channel = 0\<rparr> 5
     (Some sample_p2p) True 2400)"
  using config_scc_defined_iff [of 2400 sample_config "\<lparr>wc_p2p_oper_reg_class = 0, wc_p2p_oper_channel = 0\<rparr>" 5 sample_p2p]
  by (simp add: priv_p2p_freq_to_channel_def)

lemma snprintf_front: "length t < length buf \<Longrightarrow> take (length t) (fst (snprintf buf 0 (length buf) t)) = t"
  by (cases buf) (simp_all add: snprintf_def write_at_def)

text \<open>C22. A device capability that is set is read back modulo 256: setting the number that \<open>v\<close> prints as and asking for
  it yields a reply whose value is the low byte of \<open>v\<close>, if the buffer has room for it.\<close>

theorem capability_roundtrip:
  assumes "- (2 ^ 31) \<le> v" "v < 2 ^ 31" "32 \<le> bits" "17 < length buf"
    and "p2p_set_capability bits p2p (''p2p_dev_capa '' @ fmt_d v) = (r, p2p')"
  shows "r = 0 \<and>
    (let text = ''p2p_dev_capa='' @ fmt_d (v mod 256) @ [CHR 0x0A] in
     fst (p2p_get_capability p2p' ''p2p_dev_capa'' buf) = int (length text) \<and>
     take (length text) (snd (p2p_get_capability p2p' ''p2p_dev_capa'' buf)) = text)"
proof -
  have "atoi bits (fmt_d v) = v" using atoi_fmt_d [of v bits "[]"] assms by (simp add: no_digit_first_def)
  then have p: "r = 0" "p2p' = p2p\<lparr>p2_dev_capab := word_of_int v\<rparr>"
    using assms(5) by (auto simp: p2p_set_capability_def P2P_DEV_CAPA_def os_strncmp_def Let_def)
  let ?t = "''p2p_dev_capa='' @ fmt_d (v mod 256) @ [CHR 0x0A]"
  have u: "uint (word_of_int v :: u8) = v mod 256" by (simp add: uint_word_of_int)
  have len: "length (fmt_d (v mod 256)) \<le> 3"
  proof -
    have "length (num_str 10 False (nat (v mod 256))) \<le> 3" by (rule length_num_str) (simp_all add: nat_less_iff)
    moreover have "\<not> v mod 256 < 0" by (simp add: not_less)
    ultimately show ?thesis by (simp add: fmt_d_def)
  qed
  have "p2p_get_capability p2p' ''p2p_dev_capa'' buf = (int (length ?t), fst (snprintf buf 0 (length buf) ?t))"
    by (simp add: p(2) p2p_get_capability_def P2P_DEV_CAPA_def os_strncmp_def snprintf_def u)
  moreover have "length ?t < length buf" using len assms(4) by simp
  ultimately show ?thesis using p(1) snprintf_front [of ?t buf] unfolding Let_def by (metis fst_conv snd_conv)
qed

theorem capability_roundtrip_witness:
  "let p2p' = snd (p2p_set_capability 32 sample_p2p ''p2p_dev_capa 300''); text = ''p2p_dev_capa=44'' @ [CHR 0x0A]
   in take (length text) (snd (p2p_get_capability p2p' ''p2p_dev_capa'' (replicate 32 CHR ''x''))) = text"
proof -
  have d: "fmt_d 300 = ''300''" "fmt_d 44 = ''44''" by code_simp+
  show ?thesis
    using capability_roundtrip [of 300 32 "replicate 32 CHR ''x''" sample_p2p 0 "snd (p2p_set_capability 32 sample_p2p ''p2p_dev_capa 300'')"]
    by (simp add: d Let_def) (simp add: p2p_set_capability_def P2P_DEV_CAPA_def os_strncmp_def Let_def)
qed

lemma cut_at_blank_none: "CHR '' '' \<notin> set s \<Longrightarrow> cut_at_blank s = Undef Null_Deref"
proof -
  assume "CHR '' '' \<notin> set s"
  then have "dropWhile (\<lambda>x. x \<noteq> CHR '' '') s = []" by (auto simp: dropWhile_eq_Nil_conv)
  then show ?thesis by (simp only: cut_at_blank_def os_strchr_def list.case option.case)
qed

lemma cut_at_blank_some: "CHR '' '' \<notin> set a \<Longrightarrow> cut_at_blank (a @ CHR '' '' # str) = Done str"
proof -
  assume "CHR '' '' \<notin> set a"
  then have "dropWhile (\<lambda>x. x \<noteq> CHR '' '') (a @ CHR '' '' # str) = CHR '' '' # str"
    by (subst dropWhile_append2) auto
  then show ?thesis by (simp add: cut_at_blank_def os_strchr_def)
qed

lemma cut_at_blank_safe: "CHR '' '' \<in> set s \<longleftrightarrow> (\<exists>r. cut_at_blank s = Done r)"
  by (metis cut_at_blank_none cut_at_blank_some outcome.distinct(1) split_list_first)

lemma first_blank:
  "CHR '' '' \<notin> set a \<Longrightarrow> CHR '' '' \<notin> set a' \<Longrightarrow> a @ CHR '' '' # r = a' @ CHR '' '' # r' \<longleftrightarrow> a = a' \<and> r = r'"
proof (induction a arbitrary: a')
  case Nil
  then show ?case by (cases a') auto
next
  case (Cons x a)
  then show ?case by (cases a') auto
qed

lemma set_opps_after_cut:
  assumes "CHR '' '' \<notin> set a"
  shows "safe (\<lambda>_. True) (p2p_ctrl_iface_set_opps cfg (wpa_driver_nl80211_testmode cfg env) hwaddr_aton (a @ CHR '' '' # str)) \<longleftrightarrow>
    (hwaddr_aton str \<noteq> None \<longrightarrow> CHR '' '' \<in> set str)"
proof -
  have run: "safe (\<lambda>_. True) (bindC (wpas_p2p_sigma_test_mode cfg (wpa_driver_nl80211_testmode cfg env) 107 v) (\<lambda>(r, e). Done (0 :: int, e)))" for v
    by (rule safe_bindI [OF nl.sigma_safe]) auto
  show ?thesis
  proof (cases "CHR '' '' \<in> set str")
    case True
    then obtain r where "cut_at_blank str = Done r" using cut_at_blank_safe by blast
    then show ?thesis
      using True run by (simp add: p2p_ctrl_iface_set_opps_def Let_def cut_at_blank_some [OF assms] split: option.split)
  next
    case False
    then show ?thesis
      by (simp add: p2p_ctrl_iface_set_opps_def Let_def cut_at_blank_some [OF assms] cut_at_blank_none split: option.split)
  qed
qed

text \<open>The sigma command for opportunistic power save is free of undefined behaviour exactly when its argument has
  a blank, and has a second one unless what follows the first is no hardware address; the code writes through
  the result of \<open>strchr\<close> unchecked.\<close>

theorem set_opps_defined_iff:
  "safe (\<lambda>_. True) (p2p_ctrl_iface_set_opps cfg (wpa_driver_nl80211_testmode cfg env) hwaddr_aton cmd) \<longleftrightarrow>
   (\<exists>a str. cmd = a @ CHR '' '' # str \<and> CHR '' '' \<notin> set a \<and> (hwaddr_aton str \<noteq> None \<longrightarrow> CHR '' '' \<in> set str))"
proof (cases "CHR '' '' \<in> set cmd")
  case False
  then show ?thesis by (auto simp: p2p_ctrl_iface_set_opps_def Let_def cut_at_blank_none)
next
  case True
  then obtain a str where "cmd = a @ CHR '' '' # str" "CHR '' '' \<notin> set a" using split_list_first by fastforce
  then show ?thesis using set_opps_after_cut [of a cfg env hwaddr_aton str] first_blank by metis
qed

theorem set_opps_defined_iff_witness:
  "\<not> safe (\<lambda>_. True) (p2p_ctrl_iface_set_opps sample_config (wpa_driver_nl80211_testmode sample_config (sample_env []))
     (\<lambda>s. None) ''10'')"
  using set_opps_defined_iff [of sample_config "sample_env []" "\<lambda>s. None" "''10''"]
  by (auto simp: Cons_eq_append_conv)

end
