(* ===== verification/Driver_Cmd.thy ===== *)
theory Driver_Cmd
  imports Sta_Report P2p
begin

text \<open>
  \<open>wpa_driver_nl80211_driver_cmd\<close>: the text commands that the supplicant passes to the driver library, the
  country code, the private ioctl for everything the library does not handle itself, and the counter of
  consecutive failures. What wpa\_supplicant and the kernel answer is in the environment record; what the
  commands change is in the state record.
\<close>

section \<open>State, environment, effects\<close>

record wpa_iface =
  wi_num_multichan_concurrent :: nat
  wi_drv_flags :: u64

text \<open>
  \<open>drv_errors\<close>; \<open>wpa_s->global->p2p\<close> and \<open>->ifaces\<close>; \<open>p2p_scan_res_cache\<close>; whether the cache file exists; and
  the pending scan loading timeouts, in seconds.
\<close>

record drv_state =
  st_drv_errors :: int
  st_p2p :: "p2p_data option"
  st_ifaces :: "wpa_iface list"
  st_p2p_scan_res_cache :: int
  st_cache_file :: bool
  st_scan_timers :: "nat list"

text \<open>
  \<open>de_ioctl\<close> is the private ioctl of the kernel driver on an interface and the command buffer: its result, the
  buffer afterwards and \<open>used_len\<close>. \<open>de_wapi\<close>, \<open>de_wapi_msg_len\<close> and \<open>de_wfd\<close> read the structures a caller may
  pass in the buffer. \<open>de_max_errors\<close> and \<open>de_p2p_concurrent\<close> are constants of wpa\_supplicant.
\<close>

record drv_env =
  de_drv_ok :: bool
  de_ctx_ok :: bool
  de_conf_ok :: bool
  de_drv_priv_ok :: bool
  de_ifname :: string
  de_first_ifname :: string
  de_tm :: testmode_fn
  de_hwaddr_aton :: "string \<Rightarrow> u8 list option"
  de_past :: "u8 outcome"
  de_sp :: nat
  de_stats_stack :: sta_statistics
  de_link_stack :: sta_link_detect
  de_pad :: "u8 list"
  de_own_addr :: "u8 list"
  de_socket :: int
  de_siwpriv :: "iwreq \<Rightarrow> string \<Rightarrow> int"
  de_country_buf :: nat
  de_set_flags :: "string \<Rightarrow> bool \<Rightarrow> int"
  de_associated :: bool
  de_shared_freq :: int
  de_random :: u32
  de_conf :: wpa_conf
  de_open_ok :: bool
  de_remove_ok :: bool
  de_wapi :: "string \<Rightarrow> wapi_key_param"
  de_wapi_msg_len :: "string \<Rightarrow> int"
  de_wfd :: "string \<Rightarrow> driver_wfd_data"
  de_sizeof_wfd :: nat
  de_ioctl :: "string \<Rightarrow> string \<Rightarrow> int \<times> string \<times> int"
  de_max_errors :: int
  de_p2p_concurrent :: u64

datatype drv_eff =
    Nl "nl_eff list"
  | Set_Flags string bool
  | Deauthenticate
  | Wpa_Msg string
  | Socket_Open
  | Siwpriv iwreq string
  | Socket_Close
  | Private_Ioctl string string
  | Channel_List_Changed

text \<open>The variables \<open>ret\<close>, \<open>handled\<close>, \<open>cmd\<close> and \<open>buf\<close> of the function, with the state and the effects so far.\<close>

record drv_run =
  ru_ret :: int
  ru_handled :: bool
  ru_cmd :: string
  ru_buf :: string
  ru_st :: drv_state
  ru_eff :: "drv_eff list"

section \<open>Helpers\<close>

definition wpa_driver_send_hang_msg :: "int \<Rightarrow> int \<Rightarrow> int" where
  "wpa_driver_send_hang_msg max_errors drv_errors =
     (let e = drv_errors + 1 in if max_errors < e then 0 else e)"

definition wpa_driver_nl80211_scan_loading_timeout :: "drv_state \<Rightarrow> drv_state \<times> drv_eff list" where
  "wpa_driver_nl80211_scan_loading_timeout st =
     (st\<lparr>st_scan_timers := tl (st_scan_timers st)\<rparr>, [Channel_List_Changed])"

definition byte_char :: "u8 \<Rightarrow> char" where
  "byte_char b = char_of (unat b)"

definition char_byte :: "char \<Rightarrow> u8" where
  "char_byte c = word_of_nat (of_char c)"

text \<open>The request: cleared, then the interface by \<open>os_strlcpy\<close>, the address of the local buffer and the text's length.\<close>

definition country_iwreq :: "nat \<Rightarrow> string \<Rightarrow> string \<Rightarrow> iwreq" where
  "country_iwreq addr ifname text =
     (let n = map char_byte (take (IFNAMSIZ - 1) ifname)
      in \<lparr>ifr_name = n @ replicate (IFNAMSIZ - length n) 0,
          iw_u = Iw_Data \<lparr>ip_pointer = addr, ip_length = word_of_nat (length text), ip_flags = 0\<rparr>\<rparr>)"

text \<open>
  The buffer of \<open>sprintf(buf, "COUNTRY %s", alpha2_arg)\<close> has eleven bytes. \<open>de_siwpriv\<close> is the ioctl on the request and
  the text it points to.
\<close>

definition wpa_driver_mediatek_set_country :: "config \<Rightarrow> drv_env \<Rightarrow> string \<Rightarrow> (int \<times> drv_eff list) outcome" where
  "wpa_driver_mediatek_set_country cfg env alpha2_arg =
     (if de_socket env < 0 then Done (- 1, [])
      else
        let ifname = (if MTK_TC1_FEATURE cfg \<and> os_strncmp (de_first_ifname env) ''p2p0'' 4 = 0
                      then ''wlan0'' else de_first_ifname env);
            text = ''COUNTRY '' @ alpha2_arg;
            iwr = country_iwreq (de_country_buf env) ifname text
        in if 11 < length text + 1 then Undef Out_Of_Bounds
           else
             let ret = de_siwpriv env iwr text
             in Done (if ret < 0 then ret else 0, [Socket_Open, Siwpriv iwr text, Socket_Close]))"

fun os_strstr :: "string \<Rightarrow> string \<Rightarrow> string option" where
  "os_strstr [] pat = (if pat = [] then Some [] else None)"
| "os_strstr (c # s) pat = (if take (length pat) (c # s) = pat then Some (c # s) else os_strstr s pat)"

text \<open>
  \<open>if (*cp != '\0') { idx = (u32)strtol(cp, &endp, 0); if (endp != cp) ... }\<close>: the number, if there is one.
\<close>

definition strtol_arg :: "config \<Rightarrow> string \<Rightarrow> u32 option" where
  "strtol_arg cfg cp =
     (if cp = [] then None
      else case strtol (long_bits cfg) 0 cp of (v, endp) \<Rightarrow> if endp \<noteq> cp then Some (word_of_int v) else None)"

text \<open>A command that uses \<open>wpa_s\<close>, which is not set on the interface \<open>ap0\<close>.\<close>

definition with_wpa_s :: "drv_env \<Rightarrow> 'a outcome \<Rightarrow> 'a outcome" where
  "with_wpa_s env m = (if os_strcmp (de_ifname env) ''ap0'' = 0 then Undef Uninitialised else m)"

definition returning :: "drv_run \<Rightarrow> (int \<times> nl_eff list) outcome \<Rightarrow> drv_run outcome" where
  "returning r m = bindC m (\<lambda>(ret, e). Done (r\<lparr>ru_ret := ret, ru_eff := ru_eff r @ [Nl e]\<rparr>))"

definition sw_cmd :: "config \<Rightarrow> drv_env \<Rightarrow> drv_run \<Rightarrow> u32 \<Rightarrow> u32 \<Rightarrow> drv_run outcome" where
  "sw_cmd cfg env r adr dat = returning r (wpa_driver_nl80211_driver_sw_cmd cfg (de_tm env) 1 adr dat)"

definition sw_cmd_arg :: "config \<Rightarrow> drv_env \<Rightarrow> drv_run \<Rightarrow> nat \<Rightarrow> u32 \<Rightarrow> u32 \<Rightarrow> drv_run outcome" where
  "sw_cmd_arg cfg env r n adr off =
     (case strtol_arg cfg (drop n (ru_cmd r)) of
        None \<Rightarrow> Done r
      | Some idx \<Rightarrow> sw_cmd cfg env r adr (idx + off))"

text \<open>\<open>p2p_wfd_sink_config_scc\<close> on the state.\<close>

definition config_scc :: "config \<Rightarrow> drv_env \<Rightarrow> bool \<Rightarrow> u32 \<Rightarrow> drv_state \<Rightarrow> drv_state outcome" where
  "config_scc cfg env scc freq st =
     bindC (p2p_wfd_sink_config_scc cfg (de_conf env) (de_random env) (st_p2p st) scc freq)
       (\<lambda>p. Done (st\<lparr>st_p2p := p\<rparr>))"

definition on_state :: "drv_run \<Rightarrow> drv_state outcome \<Rightarrow> (drv_run \<Rightarrow> drv_run outcome) \<Rightarrow> drv_run outcome" where
  "on_state r m f = bindC m (\<lambda>st. f (r\<lparr>ru_st := st\<rparr>))"

section \<open>Recognising a command\<close>

datatype drv_cmd =
    POWERMODE | GET_STA_STATISTICS | GET_STA_LINK_DETECT | MACADDR | COUNTRY | START | STOP | GETPOWER
  | GET_RTS_THRESHOLD | SET_RTS_THRESHOLD | RXFILTER_ADD | RXFILTER_REMOVE | RXFILTER_STOP | RXFILTER_START
  | BTCOEXSCAN_START | BTCOEXSCAN_STOP | BTCOEXMODE | SMT_RATE | SMT_TEST_ON | SMT_TEST_OFF | STA_BLOCK | STA_UNBLOCK
  | SET_WAPI_KEY | WAPI_MSG_SEND | P2P_GET_CAP | P2P_SET_CAP | MIRACAST | P2P_USE_MCC | MCC | P2P_SET_OPPS
  | P2P_SET_POWER_SAVE | P2P_SET_SLEEP_ARG | P2P_SET_SLEEP | SET_P2P_SCAN_CACHE | WFD_DATA_UPDATE
  | GET_BEAMPLUS_GO_READY | SET_BEAMPLUS | SET_BAND_DUAL | SET_BAND_2G4 | SET_BAND_5G | SET_SCAN_LOADING
  | SETSUSPENDMODE | UNSUPPORTED

text \<open>
  The tests of the if-chain: \<open>os_strncmp\<close> and \<open>os_strncasecmp\<close> over a number of characters, and
  \<open>os_strcasecmp\<close>.
\<close>

datatype cmd_test = Ncmp string nat | Ncase string nat | Case_Eq string

primrec matches :: "string \<Rightarrow> cmd_test \<Rightarrow> bool" where
  "matches cmd (Ncmp s n) \<longleftrightarrow> os_strncmp cmd s n = 0"
| "matches cmd (Ncase s n) \<longleftrightarrow> os_strncasecmp cmd s n = 0"
| "matches cmd (Case_Eq s) \<longleftrightarrow> os_strcasecmp cmd s = 0"

text \<open>The chain in the order of the source, each test with the macro it is compiled under.\<close>

definition cmd_table :: "config \<Rightarrow> (bool \<times> cmd_test \<times> drv_cmd) list" where
  "cmd_table cfg =
     [(True, Ncase ''POWERMODE '' 10, POWERMODE),
      (True, Ncase ''GET_STA_STATISTICS '' 19, GET_STA_STATISTICS),
      (CONFIG_MTK_POOR_LINK_DETECT cfg, Ncase ''GET_STA_LINK_DETECT'' 19, GET_STA_LINK_DETECT),
      (True, Ncmp ''MACADDR'' 7, MACADDR),
      (True, Ncase ''COUNTRY'' 7, COUNTRY),
      (True, Case_Eq ''start'', START),
      (True, Case_Eq ''stop'', STOP),
      (True, Ncase ''getpower'' 8, GETPOWER),
      (True, Ncase ''get-rts-threshold'' 17, GET_RTS_THRESHOLD),
      (True, Ncase ''set-rts-threshold'' 17, SET_RTS_THRESHOLD),
      (True, Ncase ''rxfilter-add'' 12, RXFILTER_ADD),
      (True, Ncase ''rxfilter-remove'' 15, RXFILTER_REMOVE),
      (True, Ncase ''rxfilter-stop'' 13, RXFILTER_STOP),
      (True, Ncase ''rxfilter-start'' 14, RXFILTER_START),
      (True, Case_Eq ''btcoexscan-start'', BTCOEXSCAN_START),
      (True, Case_Eq ''btcoexscan-stop'', BTCOEXSCAN_STOP),
      (True, Ncase ''btcoexmode'' 10, BTCOEXMODE),
      (True, Ncase ''smt-rate'' 8, SMT_RATE),
      (True, Ncase ''smt-test-on'' 11, SMT_TEST_ON),
      (True, Ncase ''smt-test-off'' 12, SMT_TEST_OFF),
      (CONFIG_HOTSPOT_MGR_SUPPORT cfg, Ncmp ''STA-BLOCK '' 10, STA_BLOCK),
      (CONFIG_HOTSPOT_MGR_SUPPORT cfg, Ncmp ''STA-UNBLOCK '' 12, STA_UNBLOCK),
      (CONFIG_WAPI_SUPPORT cfg, Ncase ''set-wapi-key'' 12, SET_WAPI_KEY),
      (CONFIG_WAPI_SUPPORT cfg, Ncase ''wapi-msg-send'' 13, WAPI_MSG_SEND),
      (CONFIG_MTK_WFD_SINK cfg, Ncmp ''p2p_get_cap '' 12, P2P_GET_CAP),
      (CONFIG_MTK_WFD_SINK cfg, Ncmp ''p2p_set_cap '' 12, P2P_SET_CAP),
      (CONFIG_MTK_WFD_SINK cfg, Ncmp ''MIRACAST '' 9, MIRACAST),
      (CONFIG_MTK_SCC_MCC cfg, Ncase ''p2p_use_mcc='' 12, P2P_USE_MCC),
      (CONFIG_MTK_P2P_SIGMA cfg, Ncase ''mcc'' 3, MCC),
      (CONFIG_MTK_P2P_SIGMA cfg, Ncmp ''p2p_set_opps '' 13, P2P_SET_OPPS),
      (CONFIG_MTK_P2P_SIGMA cfg, Ncmp ''p2p_set_power_save '' 19, P2P_SET_POWER_SAVE),
      (CONFIG_MTK_P2P_SIGMA cfg, Ncmp ''p2p_set_sleep '' 14, P2P_SET_SLEEP_ARG),
      (CONFIG_MTK_P2P_SIGMA cfg, Ncmp ''p2p_set_sleep'' 13, P2P_SET_SLEEP),
      (CONFIG_MTK_P2P_SIGMA cfg, Ncmp ''set_p2p_scan_cache '' 19, SET_P2P_SCAN_CACHE),
      (CONFIG_MTK_P2P cfg, Ncmp ''wfd_data_update'' 15, WFD_DATA_UPDATE),
      (CONFIG_MEDIATEK_WIFI_BEAM cfg, Ncmp ''get_beamplus_go_ready'' 21, GET_BEAMPLUS_GO_READY),
      (CONFIG_MEDIATEK_WIFI_BEAM cfg, Ncmp ''set_beamplus'' 12, SET_BEAMPLUS),
      (CONFIG_MTK_STAGE_SCAN cfg, Ncase ''set_band_dual'' 13, SET_BAND_DUAL),
      (CONFIG_MTK_STAGE_SCAN cfg, Ncase ''set_band_2g4'' 12, SET_BAND_2G4),
      (CONFIG_MTK_STAGE_SCAN cfg, Ncase ''set_band_5g'' 11, SET_BAND_5G),
      (CONFIG_MTK_STAGE_SCAN cfg, Ncase ''set_scan_loading'' 16, SET_SCAN_LOADING),
      (True, Ncase ''SETSUSPENDMODE '' 15, SETSUSPENDMODE)]"

fun first_match :: "string \<Rightarrow> (bool \<times> cmd_test \<times> drv_cmd) list \<Rightarrow> drv_cmd" where
  "first_match cmd [] = UNSUPPORTED"
| "first_match cmd ((on, t, c) # rest) = (if on \<and> matches cmd t then c else first_match cmd rest)"

definition classify :: "config \<Rightarrow> string \<Rightarrow> drv_cmd" where
  "classify cfg cmd = first_match cmd (cmd_table cfg)"

section \<open>The commands\<close>

definition run_miracast :: "config \<Rightarrow> drv_env \<Rightarrow> drv_run \<Rightarrow> drv_run outcome" where
  "run_miracast cfg env r =
     (let miracast = word_of_int (atoi (long_bits cfg) (drop 9 (ru_cmd r))) :: u8;
          shared = word_of_int (de_shared_freq env) :: u32;
          r0 = r\<lparr>ru_handled := False\<rparr>;
          follow = on_state r0 (if shared \<noteq> 0 then config_scc cfg env True shared (ru_st r)
                                else config_scc cfg env False 0 (ru_st r)) Done
      in if miracast = 0 \<or> miracast = 1 then follow
         else if miracast = 2 then
           (case os_strstr (ru_cmd r) '' freq='' of
              Some pos \<Rightarrow>
                on_state r0 (config_scc cfg env True (word_of_int (atoi (long_bits cfg) (drop 6 pos))) (ru_st r))
                  (\<lambda>r1. Done (r1\<lparr>ru_cmd := ''MIRACAST 2''\<rparr>))
            | None \<Rightarrow> follow)
         else Done r0)"

definition run_use_mcc :: "config \<Rightarrow> drv_env \<Rightarrow> drv_run \<Rightarrow> drv_run outcome" where
  "run_use_mcc cfg env r =
     (case st_p2p (ru_st r) of
        None \<Rightarrow> Undef Null_Deref
      | Some p2p \<Rightarrow>
          let use_mcc = word_of_int (atoi (long_bits cfg) (drop 12 (ru_cmd r))) :: u8;
              st = (ru_st r)\<lparr>st_p2p := Some (p2p\<lparr>p2_use_mcc := use_mcc\<rparr>)\<rparr>
          in on_state r
               (if use_mcc = 0 \<and> 0 < de_shared_freq env
                then config_scc cfg env True (word_of_int (de_shared_freq env)) st
                else config_scc cfg env False 0 st) Done)"

definition run_mcc :: "config \<Rightarrow> drv_env \<Rightarrow> drv_run \<Rightarrow> drv_run outcome" where
  "run_mcc cfg env r =
     (if \<not> de_drv_priv_ok env then Done r
      else case os_strchr (ru_cmd r) CHR '' '' of
        None \<Rightarrow> Done r
      | Some v \<Rightarrow>
          let mcc = atoi (long_bits cfg) (tl v) \<noteq> 0;
              st = ru_st r;
              flag = de_p2p_concurrent env;
              ifaces = map (\<lambda>i. \<lparr>wi_num_multichan_concurrent = (if mcc then 2 else 0),
                                 wi_drv_flags = (if mcc then wi_drv_flags i OR flag else wi_drv_flags i AND NOT flag)\<rparr>)
                         (st_ifaces st);
              p2p = (if st_ifaces st = [] then st_p2p st
                     else map_option (\<lambda>p. p\<lparr>p2_cfg := map_option (\<lambda>c. c\<lparr>cf_concurrent_operations := (if mcc then 1 else 0)\<rparr>) (p2_cfg p)\<rparr>)
                            (st_p2p st))
          in Done (r\<lparr>ru_ret := 0, ru_cmd := takeWhile (\<lambda>c. c \<noteq> CHR '' '') (ru_cmd r),
                     ru_st := st\<lparr>st_ifaces := ifaces, st_p2p := p2p\<rparr>\<rparr>))"

definition run_scan_cache :: "config \<Rightarrow> drv_env \<Rightarrow> drv_run \<Rightarrow> drv_run outcome" where
  "run_scan_cache cfg env r =
     (let st = ru_st r; r0 = r\<lparr>ru_ret := 0\<rparr> in
      if atoi (long_bits cfg) (drop 19 (ru_cmd r)) \<noteq> 0 then
        (if de_open_ok env
         then with_wpa_s env (Done (r0\<lparr>ru_st := st\<lparr>st_cache_file := True, st_p2p_scan_res_cache := 1\<rparr>\<rparr>))
         else Done r0)
      else
        with_wpa_s env (Done (r0\<lparr>ru_st :=
          st\<lparr>st_cache_file := st_cache_file st \<and> \<not> de_remove_ok env, st_p2p_scan_res_cache := 0\<rparr>\<rparr>)))"

definition run_get_beamplus :: "config \<Rightarrow> drv_env \<Rightarrow> drv_run \<Rightarrow> drv_run outcome" where
  "run_get_beamplus cfg env r =
     bindC (wpas_driver_get_beamplus_go_ready cfg (de_tm env)) (\<lambda>(v, e).
       if length (ru_buf r) < 4 then Undef Out_Of_Bounds
       else Done (r\<lparr>ru_buf := write_at (ru_buf r) 0 (map byte_char (le_bytes 4 (unat v))), ru_eff := ru_eff r @ [Nl e]\<rparr>))"

definition run_set_beamplus :: "config \<Rightarrow> drv_env \<Rightarrow> drv_run \<Rightarrow> drv_run outcome" where
  "run_set_beamplus cfg env r =
     (if length (ru_buf r) < 4 then Undef Out_Of_Bounds
      else bindC (wpas_driver_set_beamplus cfg (de_tm env) (word_of_nat (le_val (map char_byte (take 4 (ru_buf r))))))
             (\<lambda>(ret, e). Done (r\<lparr>ru_eff := ru_eff r @ [Nl e]\<rparr>)))"

definition run_scan_loading :: "config \<Rightarrow> drv_env \<Rightarrow> drv_run \<Rightarrow> drv_run outcome" where
  "run_scan_loading cfg env r =
     bindC (sw_cmd cfg env r 0xFFFF1253 0) (\<lambda>r1. Done (r1\<lparr>ru_st := (ru_st r1)\<lparr>st_scan_timers := [10]\<rparr>\<rparr>))"

definition run_suspend :: "config \<Rightarrow> drv_env \<Rightarrow> drv_run \<Rightarrow> drv_run outcome" where
  "run_suspend cfg env r =
     (let c = (case drop 15 (ru_cmd r) of [] \<Rightarrow> 0 | c # _ \<Rightarrow> char_val c);
          params = \<lparr>sp_hdr = mk_hdr NL80211_TESTMODE_SUSPEND (sizeof cfg T_suspendmode), sp_suspend = word_of_int (c - 48)\<rparr>
      in bindC (de_tm env (Suspendmode params (de_pad env)) No_Obj)
           (\<lambda>(ret, d, ob, e). Done (r\<lparr>ru_handled := False, ru_eff := ru_eff r @ [Nl e]\<rparr>)))"

definition run_macaddr :: "drv_env \<Rightarrow> drv_run \<Rightarrow> drv_run outcome" where
  "run_macaddr env r =
     (case snprintf (ru_buf r) 0 (length (ru_buf r)) (''Macaddr = '' @ MACSTR (de_own_addr env) @ [CHR 0x0A]) of
        (b, ret) \<Rightarrow> Done (r\<lparr>ru_ret := ret, ru_buf := b\<rparr>))"

definition run_country :: "config \<Rightarrow> drv_env \<Rightarrow> drv_run \<Rightarrow> drv_run outcome" where
  "run_country cfg env r =
     (if length (ru_cmd r) < 8 then Undef Out_Of_Bounds
      else bindC (wpa_driver_mediatek_set_country cfg env (drop 8 (ru_cmd r)))
             (\<lambda>(ret, e). Done (r\<lparr>ru_ret := ret, ru_eff := ru_eff r @ e\<rparr>)))"

definition run_start :: "drv_env \<Rightarrow> drv_run \<Rightarrow> drv_run outcome" where
  "run_start env r =
     (let ret = de_set_flags env (de_first_ifname env) True
      in Done (r\<lparr>ru_ret := ret, ru_eff := ru_eff r @ Set_Flags (de_first_ifname env) True #
             (if ret \<noteq> 0 then [] else [Wpa_Msg ''CTRL-EVENT-DRIVER-STATE STARTED''])\<rparr>))"

definition run_stop :: "drv_env \<Rightarrow> drv_run \<Rightarrow> drv_run outcome" where
  "run_stop env r =
     bindC (if de_associated env then with_wpa_s env (Done [Deauthenticate]) else Done []) (\<lambda>e.
       let ret = de_set_flags env (de_first_ifname env) False
       in Done (r\<lparr>ru_ret := ret, ru_eff := ru_eff r @ e @ Set_Flags (de_first_ifname env) False #
             (if ret \<noteq> 0 then [] else [Wpa_Msg ''CTRL-EVENT-DRIVER-STATE STOPPED''])\<rparr>))"

definition reporting :: "drv_run \<Rightarrow> (int \<times> string \<times> nl_eff list) outcome \<Rightarrow> drv_run outcome" where
  "reporting r m = bindC m (\<lambda>(ret, b, e). Done (r\<lparr>ru_ret := ret, ru_buf := b, ru_eff := ru_eff r @ [Nl e]\<rparr>))"

definition ok_or_minus_1 :: "(int \<times> nl_eff list) outcome \<Rightarrow> (int \<times> nl_eff list) outcome" where
  "ok_or_minus_1 m = bindC m (\<lambda>(ret, e). Done (if ret \<noteq> 0 then - 1 else 0, e))"

definition run_get_cap :: "drv_run \<Rightarrow> drv_run outcome" where
  "run_get_cap r =
     (case st_p2p (ru_st r) of
        None \<Rightarrow> Done r
      | Some p2p \<Rightarrow> (case p2p_get_capability p2p (drop 12 (ru_cmd r)) (ru_buf r) of
          (ret, b) \<Rightarrow> Done (r\<lparr>ru_ret := ret, ru_buf := b\<rparr>)))"

definition run_set_cap :: "config \<Rightarrow> drv_run \<Rightarrow> drv_run outcome" where
  "run_set_cap cfg r =
     (case st_p2p (ru_st r) of
        None \<Rightarrow> Done r
      | Some p2p \<Rightarrow> (case p2p_set_capability (long_bits cfg) p2p (drop 12 (ru_cmd r)) of
          (ret, p2p') \<Rightarrow> Done (r\<lparr>ru_ret := ret, ru_st := (ru_st r)\<lparr>st_p2p := Some p2p'\<rparr>\<rparr>)))"

text \<open>The structure a WAPI command points to is read from the caller's buffer.\<close>

definition run_set_wapi_key :: "config \<Rightarrow> drv_env \<Rightarrow> drv_run \<Rightarrow> drv_run outcome" where [simp]:
  "run_set_wapi_key cfg env r = returning r (wpa_driver_nl80211_set_wapi_key cfg (de_tm env) (de_wapi env (ru_buf r)))"

definition run_wapi_msg_send :: "drv_env \<Rightarrow> drv_run \<Rightarrow> drv_run outcome" where [simp]:
  "run_wapi_msg_send env r = Done (r\<lparr>ru_ret := wpa_driver_nl80211_send_msg (de_wapi_msg_len env (ru_buf r))\<rparr>)"

definition run_set_opps :: "config \<Rightarrow> drv_env \<Rightarrow> drv_run \<Rightarrow> drv_run outcome" where [simp]:
  "run_set_opps cfg env r =
     returning r (p2p_ctrl_iface_set_opps cfg (de_tm env) (de_hwaddr_aton env) (drop 13 (ru_cmd r)))"

definition run_set_power_save :: "config \<Rightarrow> drv_env \<Rightarrow> drv_run \<Rightarrow> drv_run outcome" where [simp]:
  "run_set_power_save cfg env r = returning r (p2p_ctrl_iface_set_power_save cfg (de_tm env) (drop 19 (ru_cmd r)))"

definition run_set_sleep_arg :: "config \<Rightarrow> drv_env \<Rightarrow> drv_run \<Rightarrow> drv_run outcome" where [simp]:
  "run_set_sleep_arg cfg env r =
     returning r (p2p_ctrl_iface_set_sleep cfg (de_tm env) (de_hwaddr_aton env) (drop 14 (ru_cmd r)))"

definition run_set_sleep :: "config \<Rightarrow> drv_env \<Rightarrow> drv_run \<Rightarrow> drv_run outcome" where [simp]:
  "run_set_sleep cfg env r =
     returning r (p2p_ctrl_iface_set_sleep cfg (de_tm env) (de_hwaddr_aton env) (''ff:ff:ff:ff:ff:ff '' @ [CHR 0x22, CHR 0x22]))"

definition run_wfd_data_update :: "config \<Rightarrow> drv_env \<Rightarrow> drv_run \<Rightarrow> drv_run outcome" where [simp]:
  "run_wfd_data_update cfg env r =
     returning r (wpas_wfd_data_update cfg (de_tm env) (de_sizeof_wfd env) (de_wfd env (ru_buf r)))"

definition run_set_band_dual :: "config \<Rightarrow> drv_env \<Rightarrow> drv_run \<Rightarrow> drv_run outcome" where [simp]:
  "run_set_band_dual cfg env r = sw_cmd cfg env r 0xFFFF1250 0"

definition run_set_band_2g4 :: "config \<Rightarrow> drv_env \<Rightarrow> drv_run \<Rightarrow> drv_run outcome" where [simp]:
  "run_set_band_2g4 cfg env r = sw_cmd cfg env r 0xFFFF1251 0"

definition run_set_band_5g :: "config \<Rightarrow> drv_env \<Rightarrow> drv_run \<Rightarrow> drv_run outcome" where [simp]:
  "run_set_band_5g cfg env r = sw_cmd cfg env r 0xFFFF1252 0"

text \<open>
  The body of each branch. \<open>getpower\<close> and \<open>get-rts-threshold\<close> print only when \<open>ret\<close> is 0, which it never is:
  the calls that would set it are commented out.
\<close>

primrec run_command :: "config \<Rightarrow> drv_env \<Rightarrow> drv_run \<Rightarrow> drv_cmd \<Rightarrow> drv_run outcome" where
  "run_command cfg env r POWERMODE = Done r"
| "run_command cfg env r GET_STA_STATISTICS = with_wpa_s env (reporting r
     (wpa_driver_get_sta_statistics cfg (de_tm env) (de_hwaddr_aton env) (de_past env) (de_sp env) (de_stats_stack env)
        (drop 19 (ru_cmd r)) (ru_buf r)))"
| "run_command cfg env r GET_STA_LINK_DETECT = with_wpa_s env (reporting r
     (wpa_driver_get_sta_link_detect cfg (de_tm env) (de_sp env) (de_link_stack env) (ru_buf r)))"
| "run_command cfg env r MACADDR = with_wpa_s env (run_macaddr env r)"
| "run_command cfg env r COUNTRY = run_country cfg env r"
| "run_command cfg env r START = run_start env r"
| "run_command cfg env r STOP = run_stop env r"
| "run_command cfg env r GETPOWER = (if ru_ret r = 0 then Undef Uninitialised else Done r)"
| "run_command cfg env r GET_RTS_THRESHOLD = (if ru_ret r = 0 then Undef Uninitialised else Done r)"
| "run_command cfg env r SET_RTS_THRESHOLD = Done r"
| "run_command cfg env r RXFILTER_ADD = sw_cmd_arg cfg env r 12 0x9F000000 0x00900200"
| "run_command cfg env r RXFILTER_REMOVE = sw_cmd_arg cfg env r 15 0x9F000000 0x00900300"
| "run_command cfg env r RXFILTER_STOP = sw_cmd cfg env r 0x9F000000 0x00900000"
| "run_command cfg env r RXFILTER_START = sw_cmd cfg env r 0x9F000000 0x00900100"
| "run_command cfg env r BTCOEXSCAN_START = Done (r\<lparr>ru_ret := 0\<rparr>)"
| "run_command cfg env r BTCOEXSCAN_STOP = Done (r\<lparr>ru_ret := 0\<rparr>)"
| "run_command cfg env r BTCOEXMODE = Done (r\<lparr>ru_ret := 0\<rparr>)"
| "run_command cfg env r SMT_RATE = sw_cmd_arg cfg env r 8 0xFFFF0123 0"
| "run_command cfg env r SMT_TEST_ON = sw_cmd cfg env r 0xFFFF1234 0"
| "run_command cfg env r SMT_TEST_OFF = sw_cmd cfg env r 0xFFFF1235 0"
| "run_command cfg env r STA_BLOCK =
     returning r (ok_or_minus_1 (wpa_driver_sta_block cfg (de_tm env) (de_hwaddr_aton env) (drop 10 (ru_cmd r))))"
| "run_command cfg env r STA_UNBLOCK =
     returning r (ok_or_minus_1 (wpa_driver_sta_unblock cfg (de_tm env) (de_hwaddr_aton env) (drop 12 (ru_cmd r))))"
| "run_command cfg env r SET_WAPI_KEY = run_set_wapi_key cfg env r"
| "run_command cfg env r WAPI_MSG_SEND = run_wapi_msg_send env r"
| "run_command cfg env r P2P_GET_CAP = with_wpa_s env (run_get_cap r)"
| "run_command cfg env r P2P_SET_CAP = with_wpa_s env (run_set_cap cfg r)"
| "run_command cfg env r MIRACAST = with_wpa_s env (run_miracast cfg env r)"
| "run_command cfg env r P2P_USE_MCC = with_wpa_s env (run_use_mcc cfg env r)"
| "run_command cfg env r MCC = with_wpa_s env (run_mcc cfg env r)"
| "run_command cfg env r P2P_SET_OPPS = with_wpa_s env (run_set_opps cfg env r)"
| "run_command cfg env r P2P_SET_POWER_SAVE = with_wpa_s env (run_set_power_save cfg env r)"
| "run_command cfg env r P2P_SET_SLEEP_ARG = with_wpa_s env (run_set_sleep_arg cfg env r)"
| "run_command cfg env r P2P_SET_SLEEP = with_wpa_s env (run_set_sleep cfg env r)"
| "run_command cfg env r SET_P2P_SCAN_CACHE = run_scan_cache cfg env r"
| "run_command cfg env r WFD_DATA_UPDATE = with_wpa_s env (run_wfd_data_update cfg env r)"
| "run_command cfg env r GET_BEAMPLUS_GO_READY = with_wpa_s env (run_get_beamplus cfg env r)"
| "run_command cfg env r SET_BEAMPLUS = with_wpa_s env (run_set_beamplus cfg env r)"
| "run_command cfg env r SET_BAND_DUAL = run_set_band_dual cfg env r"
| "run_command cfg env r SET_BAND_2G4 = run_set_band_2g4 cfg env r"
| "run_command cfg env r SET_BAND_5G = run_set_band_5g cfg env r"
| "run_command cfg env r SET_SCAN_LOADING = run_scan_loading cfg env r"
| "run_command cfg env r SETSUSPENDMODE = run_suspend cfg env r"
| "run_command cfg env r UNSUPPORTED = Done (r\<lparr>ru_handled := False\<rparr>)"

text \<open>\<open>strlen\<close> of a buffer runs off its end when there is no NUL in it.\<close>

definition strlen_buf :: "string \<Rightarrow> nat outcome" where
  "strlen_buf b =
     (if CHR 0x00 \<in> set b then Done (length (takeWhile (\<lambda>c. c \<noteq> CHR 0x00) b)) else Undef Out_Of_Bounds)"

definition private_command :: "drv_env \<Rightarrow> drv_run \<Rightarrow> drv_run outcome" where
  "private_command env r =
     (if length (ru_buf r) < length (ru_cmd r) + 1 then Undef Out_Of_Bounds
      else
        let buf = write_at (ru_buf r) 0 (ru_cmd r @ [CHR 0x00]);
            ifname = take IFNAMSIZ (de_ifname env);
            eff = ru_eff r @ [Private_Ioctl ifname buf]
        in case de_ioctl env ifname buf of
             (ret, buf', used_len) \<Rightarrow>
               if ret < 0 then
                 Done (r\<lparr>ru_ret := ret, ru_buf := buf', ru_eff := eff, ru_st := (ru_st r)\<lparr>st_drv_errors :=
                   wpa_driver_send_hang_msg (de_max_errors env) (st_drv_errors (ru_st r))\<rparr>\<rparr>)
               else
                 bindC (if os_strncasecmp (ru_cmd r) ''WLS_BATCHING'' 12 = 0
                        then bindC (strlen_buf buf') (\<lambda>n. Done (int n)) else Done used_len)
                   (\<lambda>ret'. Done (r\<lparr>ru_ret := ret', ru_buf := buf', ru_eff := eff,
                      ru_st := (ru_st r)\<lparr>st_drv_errors := 0\<rparr>\<rparr>)))"

definition wpa_driver_nl80211_driver_cmd ::
  "config \<Rightarrow> drv_env \<Rightarrow> drv_state \<Rightarrow> string \<Rightarrow> string \<Rightarrow> drv_run outcome" where
  "wpa_driver_nl80211_driver_cmd cfg env st cmd buf =
     (let r0 = \<lparr>ru_ret = - 1, ru_handled = True, ru_cmd = cmd, ru_buf = buf, ru_st = st, ru_eff = []\<rparr> in
      if \<not> de_drv_ok env then Done r0
      else if \<not> de_ctx_ok env then Done r0
      else if os_strcmp (de_ifname env) ''ap0'' \<noteq> 0 \<and> \<not> de_conf_ok env then Done r0
      else bindC (run_command cfg env r0 (classify cfg cmd))
             (\<lambda>r. if \<not> ru_handled r then private_command env r else Done r))"

section \<open>Operations the driver refuses\<close>

definition wpa_driver_set_p2p_noa :: "u8 \<Rightarrow> int \<Rightarrow> int \<Rightarrow> int" where
  "wpa_driver_set_p2p_noa count start duration = - 1"

definition wpa_driver_get_p2p_noa :: "u8 list \<Rightarrow> int \<times> u8 list" where
  "wpa_driver_get_p2p_noa buf = (- 1, buf)"

definition wpa_driver_set_p2p_ps :: "int \<Rightarrow> int \<Rightarrow> int \<Rightarrow> int" where
  "wpa_driver_set_p2p_ps legacy_ps opp_ps ctwindow = - 1"

definition wpa_driver_set_ap_wps_p2p_ie :: "u8 list \<Rightarrow> u8 list \<Rightarrow> u8 list \<Rightarrow> int" where
  "wpa_driver_set_ap_wps_p2p_ie beacon proberesp assocresp = 0"

end
