(* ===== verification/Driver_Proofs.thy ===== *)
theory Driver_Proofs
  imports Driver_Cmd
begin

text \<open>
  Properties of the command interpreter: which command a text runs, what reaches the driver and the kernel, how the
  state evolves over any sequence of commands and timeouts, and where the code leaves the safe ground.
\<close>

section \<open>Recognising commands\<close>

primrec keyword :: "cmd_test \<Rightarrow> string" where
  "keyword (Ncmp s n) = s"
| "keyword (Ncase s n) = s"
| "keyword (Case_Eq s) = s"

text \<open>No test of a table accepts the keyword of a later one.\<close>

fun unshadowed :: "(bool \<times> cmd_test \<times> drv_cmd) list \<Rightarrow> bool" where
  "unshadowed [] = True"
| "unshadowed ((on, t, c) # rest) \<longleftrightarrow>
     matches (keyword t) t \<and> list_all (\<lambda>(on', t', c'). \<not> matches (keyword t') t) rest \<and> unshadowed rest"

lemma unshadowed_first_match:
  "unshadowed tbl \<Longrightarrow> (True, t, c) \<in> set tbl \<Longrightarrow> first_match (keyword t) tbl = c"
  by (induction tbl rule: unshadowed.induct) (auto simp: list_all_iff)

lemmas cmp_simps = os_strncmp_def os_strncasecmp_def os_strcasecmp_def tolower_val_def char_val_def

lemma cmd_table_unshadowed: "unshadowed (cmd_table cfg)"
  by (simp add: cmd_table_def cmp_simps)

text \<open>C24. Every command the library is compiled with can be reached: its own keyword is recognised as that command,
  whatever options the build has, so no test in the chain hides a later one.\<close>

theorem classify_keywords:
  "list_all (\<lambda>(on, t, c). classify cfg (keyword t) = c) (filter fst (cmd_table cfg))"
  using unshadowed_first_match [OF cmd_table_unshadowed [of cfg]] by (auto simp: list_all_iff classify_def)

section \<open>State over commands and timeouts\<close>

definition keeps :: "drv_run \<Rightarrow> drv_run outcome \<Rightarrow> bool" where
  "keeps r m \<longleftrightarrow> (\<forall>r'. m = Done r' \<longrightarrow> st_drv_errors (ru_st r') = st_drv_errors (ru_st r) \<and>
     st_scan_timers (ru_st r') \<in> {st_scan_timers (ru_st r), [10]})"

lemma keeps_same: "ru_st r' = ru_st r \<Longrightarrow> keeps r (Done r')"
  by (simp add: keeps_def)

lemma keeps_with_wpa_s: "keeps r m \<Longrightarrow> keeps r (with_wpa_s env m)"
  by (simp add: keeps_def with_wpa_s_def)

lemma keeps_returning: "keeps r (returning r m)"
  by (auto simp: keeps_def returning_def bindC_Done_iff)

lemma keeps_reporting: "keeps r (reporting r m)"
  by (auto simp: keeps_def reporting_def bindC_Done_iff)

lemma keeps_config_scc:
  "st_drv_errors st = st_drv_errors (ru_st r) \<Longrightarrow> st_scan_timers st = st_scan_timers (ru_st r) \<Longrightarrow>
    (\<And>r1. ru_st (g r1) = ru_st r1) \<Longrightarrow>
    keeps r (on_state r0 (config_scc cfg env b f st) (\<lambda>r1. Done (g r1)))"
  by (auto simp: keeps_def on_state_def config_scc_def bindC_Done_iff)

lemmas keeps_on_scc = keeps_config_scc [where g = "\<lambda>r. r"]

lemma keeps_sw: "keeps r (sw_cmd cfg env r a d)" "keeps r (sw_cmd_arg cfg env r n a d)"
  by (auto simp: sw_cmd_def sw_cmd_arg_def keeps_returning keeps_same split: option.split)

lemma keeps_miracast: "keeps r (run_miracast cfg env r)"
  by (auto simp: run_miracast_def Let_def keeps_same split: option.split intro!: keeps_config_scc keeps_on_scc)

lemma keeps_use_mcc: "keeps r (run_use_mcc cfg env r)"
  by (auto simp: run_use_mcc_def Let_def split: option.split intro!: keeps_on_scc) (simp add: keeps_def)

lemma keeps_run_rest:
  "keeps r (run_mcc cfg env r)" "keeps r (run_scan_cache cfg env r)" "keeps r (run_get_beamplus cfg env r)"
  "keeps r (run_set_beamplus cfg env r)" "keeps r (run_scan_loading cfg env r)" "keeps r (run_suspend cfg env r)"
  "keeps r (run_macaddr env r)" "keeps r (run_country cfg env r)" "keeps r (run_start env r)" "keeps r (run_stop env r)"
  "keeps r (run_get_cap r)" "keeps r (run_set_cap cfg r)"
  by (auto simp: keeps_def run_mcc_def run_scan_cache_def run_get_beamplus_def run_set_beamplus_def run_scan_loading_def
      sw_cmd_def returning_def run_suspend_def run_macaddr_def run_country_def run_start_def run_stop_def run_get_cap_def
      run_set_cap_def with_wpa_s_def Let_def bindC_Done_iff split: if_splits option.splits prod.splits)

lemma keeps_run_command: "keeps r (run_command cfg env r c)"
  by (cases c) (simp_all add: keeps_same keeps_with_wpa_s keeps_returning keeps_reporting keeps_sw keeps_miracast
      keeps_use_mcc keeps_run_rest, simp_all add: keeps_def)

text \<open>A step of the library: a command under some environment, or the expiry of a pending timeout.\<close>

inductive drv_step :: "config \<Rightarrow> int \<Rightarrow> drv_state \<Rightarrow> drv_state \<Rightarrow> bool" for cfg max_errors where
  command: "de_max_errors env = max_errors \<Longrightarrow> wpa_driver_nl80211_driver_cmd cfg env st cmd buf = Done r \<Longrightarrow>
    drv_step cfg max_errors st (ru_st r)"
| timeout: "st_scan_timers st \<noteq> [] \<Longrightarrow>
    drv_step cfg max_errors st (fst (wpa_driver_nl80211_scan_loading_timeout st))"

inductive_cases drv_stepE: "drv_step cfg max_errors st st'"

definition drv_inv :: "int \<Rightarrow> drv_state \<Rightarrow> bool" where
  "drv_inv max_errors st \<longleftrightarrow> 0 \<le> st_drv_errors st \<and> st_drv_errors st \<le> max_errors \<and> st_scan_timers st \<in> {[], [10]}"

lemma private_command_st:
  "private_command env r = Done r' \<Longrightarrow>
    ru_st r' = (ru_st r)\<lparr>st_drv_errors := 0\<rparr> \<or>
    ru_st r' = (ru_st r)\<lparr>st_drv_errors := wpa_driver_send_hang_msg (de_max_errors env) (st_drv_errors (ru_st r))\<rparr>"
  by (auto simp: private_command_def Let_def bindC_Done_iff split: if_splits prod.splits)

lemma hang_msg_bounds:
  "0 \<le> m \<Longrightarrow> 0 \<le> e \<Longrightarrow> e \<le> m \<Longrightarrow> 0 \<le> wpa_driver_send_hang_msg m e \<and> wpa_driver_send_hang_msg m e \<le> m"
  by (simp add: wpa_driver_send_hang_msg_def Let_def)

lemma driver_cmd_inv:
  assumes "wpa_driver_nl80211_driver_cmd cfg env st cmd buf = Done r" "drv_inv (de_max_errors env) st"
  shows "drv_inv (de_max_errors env) (ru_st r)"
proof -
  let ?r0 = "\<lparr>ru_ret = - 1, ru_handled = True, ru_cmd = cmd, ru_buf = buf, ru_st = st, ru_eff = []\<rparr>"
  have "ru_st r = st \<or> (\<exists>r1. run_command cfg env ?r0 (classify cfg cmd) = Done r1 \<and> (r = r1 \<or> private_command env r1 = Done r))"
    using assms(1) by (auto simp: wpa_driver_nl80211_driver_cmd_def Let_def bindC_Done_iff split: if_splits)
  then show ?thesis
  proof
    assume "\<exists>r1. run_command cfg env ?r0 (classify cfg cmd) = Done r1 \<and> (r = r1 \<or> private_command env r1 = Done r)"
    then obtain r1 where r1: "run_command cfg env ?r0 (classify cfg cmd) = Done r1" "r = r1 \<or> private_command env r1 = Done r"
      by blast
    have "drv_inv (de_max_errors env) (ru_st r1)"
      using keeps_run_command [of ?r0 cfg env "classify cfg cmd"] r1(1) assms(2) by (auto simp: keeps_def drv_inv_def)
    then show ?thesis
      using r1(2) private_command_st [of env r1 r] hang_msg_bounds [of "de_max_errors env" "st_drv_errors (ru_st r1)"]
      by (auto simp: drv_inv_def)
  qed (use assms(2) in simp)
qed


section \<open>Examples to run on\<close>

definition sample_drv_env :: drv_env where
  "sample_drv_env = \<lparr>de_drv_ok = True, de_ctx_ok = True, de_conf_ok = True, de_drv_priv_ok = True,
     de_ifname = ''wlan0'', de_first_ifname = ''wlan0'',
     de_tm = wpa_driver_nl80211_testmode sample_config (sample_env []), de_hwaddr_aton = (\<lambda>s. None),
     de_past = Done 0, de_sp = 0, de_stats_stack = sta_statistics_zero, de_link_stack = sta_link_detect_zero,
     de_pad = [0, 0, 0], de_own_addr = replicate 6 0, de_socket = 5, de_siwpriv = (\<lambda>i c. 0), de_country_buf = 0xBEF0,
     de_set_flags = (\<lambda>i u. 0), de_associated = False, de_shared_freq = 0, de_random = 0,
     de_conf = \<lparr>wc_p2p_oper_reg_class = 0, wc_p2p_oper_channel = 0\<rparr>, de_open_ok = True, de_remove_ok = True,
     de_wapi = (\<lambda>b. \<lparr>wp_addr = None, wp_key_idx = 0, wp_set_tx = 0, wp_seq = None, wp_seq_len = 0, wp_key = None, wp_key_len = 0\<rparr>),
     de_wapi_msg_len = (\<lambda>b. 0), de_wfd = (\<lambda>b. wfd_zero), de_sizeof_wfd = 464,
     de_ioctl = (\<lambda>i b. (- 1, b, 0)), de_max_errors = 4, de_p2p_concurrent = 0x200\<rparr>"

definition sample_state :: drv_state where
  "sample_state = \<lparr>st_drv_errors = 0, st_p2p = Some sample_p2p,
     st_ifaces = [\<lparr>wi_num_multichan_concurrent = 0, wi_drv_flags = 1\<rparr>],
     st_p2p_scan_res_cache = 0, st_cache_file = False, st_scan_timers = []\<rparr>"

lemma sample_drv_env_sel [simp]:
  "de_drv_ok sample_drv_env" "de_ctx_ok sample_drv_env" "de_conf_ok sample_drv_env" "de_drv_priv_ok sample_drv_env"
  "de_ifname sample_drv_env = ''wlan0''" "de_first_ifname sample_drv_env = ''wlan0''"
  "de_tm sample_drv_env = wpa_driver_nl80211_testmode sample_config (sample_env [])"
  "de_ioctl sample_drv_env i b = (- 1, b, 0)" "de_max_errors sample_drv_env = 4" "de_socket sample_drv_env = 5"
  "de_siwpriv sample_drv_env q b = 0" "de_country_buf sample_drv_env = 0xBEF0" "de_shared_freq sample_drv_env = 0" "de_p2p_concurrent sample_drv_env = 0x200"
  by (simp_all add: sample_drv_env_def)

lemmas classify_simps = classify_def cmd_table_def cmp_simps

lemma sample_unsupported: "classify cfg ''foo'' = UNSUPPORTED"
  by (simp add: classify_simps)

section \<open>Commands for the kernel driver\<close>

text \<open>A call on an interface other than \<open>ap0\<close>, with the driver set up.\<close>

definition station :: "drv_env \<Rightarrow> bool" where
  "station env \<longleftrightarrow> de_drv_ok env \<and> de_ctx_ok env \<and> de_conf_ok env \<and> os_strcmp (de_ifname env) ''ap0'' \<noteq> 0"

abbreviation (input) start_run :: "drv_state \<Rightarrow> string \<Rightarrow> string \<Rightarrow> drv_run" where
  "start_run st cmd buf \<equiv> \<lparr>ru_ret = - 1, ru_handled = True, ru_cmd = cmd, ru_buf = buf, ru_st = st, ru_eff = []\<rparr>"

lemma station_run:
  "station env \<Longrightarrow> wpa_driver_nl80211_driver_cmd cfg env st cmd buf =
    bindC (run_command cfg env (start_run st cmd buf) (classify cfg cmd))
      (\<lambda>r. if \<not> ru_handled r then private_command env r else Done r)"
  by (simp add: wpa_driver_nl80211_driver_cmd_def station_def Let_def)

lemma station_wpa_s: "station env \<Longrightarrow> with_wpa_s env m = m"
  by (simp add: station_def with_wpa_s_def)

lemma sample_station: "station sample_drv_env"
  by (simp add: station_def sample_drv_env_def os_strcmp_def char_val_def)


lemma private_command_eq:
  assumes "os_strncasecmp (ru_cmd r) ''WLS_BATCHING'' 12 \<noteq> 0" "length (ru_cmd r) < length (ru_buf r)"
    and "de_ioctl env (take IFNAMSIZ (de_ifname env)) (ru_cmd r @ CHR 0x00 # drop (Suc (length (ru_cmd r))) (ru_buf r)) = (ret, buf', used)"
  shows "private_command env r = Done (r\<lparr>ru_ret := (if ret < 0 then ret else used), ru_buf := buf',
    ru_eff := ru_eff r @ [Private_Ioctl (take IFNAMSIZ (de_ifname env)) (ru_cmd r @ CHR 0x00 # drop (Suc (length (ru_cmd r))) (ru_buf r))],
    ru_st := (ru_st r)\<lparr>st_drv_errors :=
      (if ret < 0 then wpa_driver_send_hang_msg (de_max_errors env) (st_drv_errors (ru_st r)) else 0)\<rparr>\<rparr>)"
  using assms by (simp add: private_command_def write_at_def Let_def)



text \<open>The copy of an unknown command into the caller's buffer is not checked against the buffer's length: with a
  buffer no longer than the command the call is undefined, whatever the kernel would answer.\<close>

theorem unknown_command_overflow:
  assumes "station env" "classify cfg cmd = UNSUPPORTED" "length buf \<le> length cmd"
  shows "wpa_driver_nl80211_driver_cmd cfg env st cmd buf = Undef Out_Of_Bounds"
  using assms by (simp add: station_run private_command_def)

theorem unknown_command_overflow_witness:
  "wpa_driver_nl80211_driver_cmd sample_config sample_drv_env sample_state ''foo'' ''abc'' = Undef Out_Of_Bounds"
  by (rule unknown_command_overflow [OF sample_station sample_unsupported]) simp

end
