(* ===== verification/Driver_Effects.thy ===== *)
theory Driver_Effects
  imports Driver_Proofs
begin

text \<open>
  What single commands of \<open>wpa_driver_nl80211_driver_cmd\<close> do, from the text of the command to the frame the driver
  gets, the reply in the caller's buffer and the state of the supplicant.
\<close>

section \<open>Numbers in commands\<close>

lemma digit_char_zero: "d < 16 \<Longrightarrow> digit_char up d = CHR ''0'' \<longleftrightarrow> d = 0"
proof
  assume d: "d < 16" "digit_char up d = CHR ''0''"
  have "digit_val CHR ''0'' = Some 0" by code_simp
  then show "d = 0" using digit_val_digit_char [OF d(1), of up] d(2) by simp
qed (simp add: digit_char_def)

lemma num_str_hd_nonzero: "0 < n \<Longrightarrow> num_str 10 up n = c # s \<Longrightarrow> c \<noteq> CHR ''0''"
proof (induction n arbitrary: c s rule: less_induct)
  case (less n)
  show ?case
  proof (cases "n < 10")
    case True
    then show ?thesis using less.prems digit_char_zero [of n up] by (simp add: num_str.simps [of 10 up n])
  next
    case False
    obtain c' s' where hd: "num_str 10 up (n div 10) = c' # s'" using num_str_hd_digit [of 10 up "n div 10"] by auto
    then have "c = c'" using less.prems(2) False by (simp add: num_str.simps [of 10 up n])
    then show ?thesis using less.IH [OF _ _ hd] False by simp
  qed
qed

lemma skip_space_num: "skip_space (CHR '' '' # num_str 10 up n) = num_str 10 up n"
proof -
  obtain c s where cs: "num_str 10 up n = c # s" "is_digit_in 10 c" using num_str_hd_digit [of 10 up n] by auto
  have "isspace CHR '' ''" by code_simp
  then show ?thesis using cs digit_not_blank_or_sign [OF cs(2)] by simp
qed

text \<open>Base 0 reads an unsigned decimal as such.\<close>

lemma strtol_base_0:
  assumes "n < 2 ^ 31" "32 \<le> bits"
  shows "strtol bits 0 (CHR '' '' # fmt_u n) = (int n, [])"
proof -
  obtain c s where cs: "num_str 10 False n = c # s" "is_digit_in 10 c" using num_str_hd_digit [of 10 False n] by auto
  have clamp: "clamp_long bits (int n) = int n" using clamp_long_id [of 32 bits "int n"] assms by simp
  have sign: "scan_sign (num_str 10 False n) = (False, num_str 10 False n)"
    using cs digit_not_blank_or_sign [OF cs(2)] by simp
  show ?thesis
  proof (cases "n = 0")
    case True
    have "strtol bits 0 '' 0'' = (clamp_long bits 0, [])" by (simp add: strtol_def isspace_def char_val_def is_digit_in_def digit_val_def)
    moreover have "fmt_u 0 = ''0''" by code_simp
    ultimately show ?thesis using True clamp by simp
  next
    case False
    then have "c \<noteq> CHR ''0''" using num_str_hd_nonzero cs(1) by simp
    then have base: "scan_base 0 (num_str 10 False n) = (10, num_str 10 False n)" using cs by simp
    have "scan_digits 10 0 (num_str 10 False n) = (n, [])"
      using scan_digits_num_str [of 10 0 False n "[]"] by simp
    then show ?thesis
      using cs clamp skip_space_num [of False n] sign base
      by (simp add: strtol_def fmt_u_def del: skip_space.simps scan_base.simps scan_sign.simps)
  qed
qed

lemma strtol_arg_num:
  assumes "n < 2 ^ 31" "32 \<le> long_bits cfg"
  shows "strtol_arg cfg (CHR '' '' # fmt_u n) = Some (word_of_nat n)"
  using strtol_base_0 [OF assms] by (simp add: strtol_arg_def)

lemma abi_long: "abi_ok cfg \<Longrightarrow> 32 \<le> long_bits cfg"
  by (auto simp: abi_ok_def)

section \<open>Filters\<close>

lemma classify_rxfilter:
  "classify cfg (''rxfilter-add'' @ s) = RXFILTER_ADD" "classify cfg (''rxfilter-remove'' @ s) = RXFILTER_REMOVE"
  by (simp_all add: classify_simps)

lemma unat_sum: "n < 2 ^ 31 \<Longrightarrow> k < 2 ^ 31 \<Longrightarrow> unat (word_of_nat n + word_of_nat k :: u32) = n + k"
  by (simp add: unat_of_nat of_nat_add [symmetric] del: of_nat_add)

text \<open>The exchange for a software command that sets the given address to the given data.\<close>

definition sw_frame :: "tm_env \<Rightarrow> nat \<Rightarrow> nat \<Rightarrow> nl_eff list" where
  "sw_frame tenv adr dat = [Msg_Alloc, Cb_Clone, Msg_Send (te_ifindex tenv)
     (le_bytes 4 0x1000001 @ le_bytes 4 20 @ [1, 0, 0, 0] @ le_bytes 4 adr @ le_bytes 4 dat), Cb_Put, Msg_Free]"

text \<open>C21. The packet filter commands reach the driver as one software command frame at address 0x9F000000 whose data
  word is the filter number of the text plus 0x00900200 to add it and 0x00900300 to remove it; the call
  returns 0 and changes neither the buffer nor the state.\<close>

theorem rxfilter_frames:
  assumes "station env" "abi_ok cfg" "CONFIG_MTK_TURNKEY_WLAN cfg" "n < 2 ^ 31"
    and "de_tm env = wpa_driver_nl80211_testmode cfg tenv" "replies tenv [] fin"
  shows "(\<exists>r. wpa_driver_nl80211_driver_cmd cfg env st (''rxfilter-add '' @ fmt_u n) buf = Done r \<and>
      ru_ret r = 0 \<and> ru_buf r = buf \<and> ru_st r = st \<and> ru_eff r = [Nl (sw_frame tenv 0x9F000000 (n + 0x900200))]) \<and>
    (\<exists>r. wpa_driver_nl80211_driver_cmd cfg env st (''rxfilter-remove '' @ fmt_u n) buf = Done r \<and>
      ru_ret r = 0 \<and> ru_buf r = buf \<and> ru_st r = st \<and> ru_eff r = [Nl (sw_frame tenv 0x9F000000 (n + 0x900300))])"
proof -
  note sw = sw_cmd_result [OF assms(2,3,6)]
  have arg: "strtol_arg cfg (CHR '' '' # fmt_u n) = Some (word_of_nat n)"
    using strtol_arg_num [OF assms(4) abi_long [OF assms(2)]] .
  show ?thesis
    using assms(1,5) unat_sum [of n "0x900200"] unat_sum [of n "0x900300"] assms(4)
      classify_rxfilter [of cfg "CHR '' '' # fmt_u n"]
    by (simp add: station_run sw_cmd_arg_def sw_cmd_def returning_def arg sw sw_frame_def)
qed

theorem rxfilter_frames_witness:
  "\<exists>r. wpa_driver_nl80211_driver_cmd sample_config sample_drv_env sample_state (''rxfilter-add '' @ fmt_u 3) ''x'' = Done r \<and>
    ru_ret r = 0 \<and> ru_st r = sample_state"
  using rxfilter_frames [OF sample_station sample_abi_ok _ _ _ sample_replies [of "[]"], of 3 sample_state "''x''"]
  by (auto simp: sample_config_def)

section \<open>Country code\<close>

lemma classify_country: "classify cfg (''COUNTRY'' @ s) = COUNTRY"
  by (simp add: classify_simps)

text \<open>The interface a country code is set on.\<close>

definition country_ifname :: "config \<Rightarrow> drv_env \<Rightarrow> string" where
  "country_ifname cfg env =
     (if MTK_TC1_FEATURE cfg \<and> os_strncmp (de_first_ifname env) ''p2p0'' 4 = 0 then ''wlan0'' else de_first_ifname env)"

lemma country_cases:
  assumes "station env" "0 \<le> de_socket env"
  shows "wpa_driver_nl80211_driver_cmd cfg env st (''COUNTRY '' @ cc) buf =
    (let text = ''COUNTRY '' @ cc; iwr = country_iwreq (de_country_buf env) (country_ifname cfg env) text
     in if length cc \<le> 2
        then Done ((start_run st text buf)\<lparr>ru_ret := min 0 (de_siwpriv env iwr text),
               ru_eff := [Socket_Open, Siwpriv iwr text, Socket_Close]\<rparr>)
        else Undef Out_Of_Bounds)"
  using assms classify_country [of cfg "CHR '' '' # cc"]
  by (simp add: station_run run_country_def wpa_driver_mediatek_set_country_def country_ifname_def Let_def min_def)

text \<open>C34. Setting the country of a two letter code issues one private ioctl with the text of the command on the first
  interface, or on \<open>wlan0\<close> in its place when the build asks for it and that interface is a \<open>p2p0\<close>, between
  opening and closing a socket, and returns the kernel's error or 0; a longer code overflows the eleven bytes
  of the text, and the bare keyword is read past its end.\<close>

theorem set_country_effect:
  assumes "station env" "0 \<le> de_socket env"
    and "iwr = country_iwreq (de_country_buf env) (country_ifname cfg env) (''COUNTRY '' @ cc)"
  shows "wpa_driver_nl80211_driver_cmd cfg env st ''COUNTRY'' buf = Undef Out_Of_Bounds \<and>
    (if length cc \<le> 2
     then \<exists>r. wpa_driver_nl80211_driver_cmd cfg env st (''COUNTRY '' @ cc) buf = Done r \<and>
       ru_ret r = min 0 (de_siwpriv env iwr (''COUNTRY '' @ cc)) \<and> ru_buf r = buf \<and> ru_st r = st \<and>
       ru_eff r = [Socket_Open, Siwpriv iwr (''COUNTRY '' @ cc), Socket_Close]
     else wpa_driver_nl80211_driver_cmd cfg env st (''COUNTRY '' @ cc) buf = Undef Out_Of_Bounds)"
proof -
  have "wpa_driver_nl80211_driver_cmd cfg env st ''COUNTRY'' buf = Undef Out_Of_Bounds"
    using assms(1) classify_country [of cfg "[]"] by (simp add: station_run run_country_def)
  then show ?thesis
    using country_cases [OF assms(1,2), of cfg st cc buf] assms(3) by (simp add: Let_def)
qed

theorem set_country_effect_witness:
  "\<exists>r iwr. wpa_driver_nl80211_driver_cmd sample_config sample_drv_env sample_state ''COUNTRY US'' ''x'' = Done r \<and>
    ru_ret r = 0 \<and> ru_eff r = [Socket_Open, Siwpriv iwr ''COUNTRY US'', Socket_Close]"
  using set_country_effect [OF sample_station _ refl, where cfg = sample_config and cc = "''US''" and st = sample_state and buf = "''x''"]
  by (auto split: if_splits)

lemma byte_char_byte: "byte_char (char_byte c) = c"
  by (simp add: byte_char_def char_byte_def unat_of_nat)

lemma char_byte_0_iff: "char_byte c = 0 \<longleftrightarrow> c = CHR 0x00"
proof -
  have "char_byte (CHR 0x00) = 0" by (simp add: char_byte_def)
  then show ?thesis using byte_char_byte [of c] byte_char_byte [of "CHR 0x00"] by metis
qed

text \<open>The name field of a request, up to its NUL, is the interface.\<close>

lemma country_name:
  assumes "cstr ifname" "length ifname < 16"
  shows "length (ifr_name (country_iwreq a ifname t)) = 16"
    and "map byte_char (takeWhile (\<lambda>b. b \<noteq> 0) (ifr_name (country_iwreq a ifname t) @ r)) = ifname"
proof -
  have n: "ifr_name (country_iwreq a ifname t) = map char_byte ifname @ replicate (16 - length ifname) 0"
    using assms(2) by (simp add: country_iwreq_def)
  then show "length (ifr_name (country_iwreq a ifname t)) = 16" using assms(2) by simp
  have "x \<in> set (map char_byte ifname) \<Longrightarrow> x \<noteq> 0" for x using assms(1) by (auto simp: cstr_def char_byte_0_iff)
  moreover have "replicate (16 - length ifname) (0 :: u8) = 0 # replicate (15 - length ifname) 0"
    using assms(2) by (cases "16 - length ifname") auto
  ultimately have "takeWhile (\<lambda>b. b \<noteq> 0) (ifr_name (country_iwreq a ifname t) @ r) = map char_byte ifname"
    unfolding n by (subst append_assoc, subst takeWhile_append2) simp_all
  then show "map byte_char (takeWhile (\<lambda>b. b \<noteq> 0) (ifr_name (country_iwreq a ifname t) @ r)) = ifname"
    by (simp add: comp_def byte_char_byte)
qed

text \<open>Address and length of the text stand behind the name.\<close>

lemma iw_data_bytes:
  assumes "ptr_bytes cfg = 4 \<or> ptr_bytes cfg = 8"
  shows "\<exists>r. iwreq_bytes cfg \<lparr>ifr_name = n, iw_u = Iw_Data d\<rparr> =
    n @ le_bytes (ptr_bytes cfg) (ip_pointer d) @ le_bytes 2 (unat (ip_length d)) @ r"
  using assms by (elim disjE) (simp_all add: iwreq_bytes_def iw_point_val_def V_def Let_def round_up_def)

text \<open>C33. The request that sets a country is 32 bytes of \<open>struct iwreq\<close> on both widths of a pointer, and the kernel reads back
  from it what the library put in: the name of the interface up to its NUL in the first sixteen bytes, the address of
  the text behind them, and behind that the length of the text.\<close>

theorem country_request_roundtrip:
  assumes "station env" "0 \<le> de_socket env" "abi_ok cfg" "length cc \<le> 2"
    and "cstr (country_ifname cfg env)" "length (country_ifname cfg env) < 16" "de_country_buf env < 256 ^ ptr_bytes cfg"
  shows "\<exists>r iwr. wpa_driver_nl80211_driver_cmd cfg env st (''COUNTRY '' @ cc) buf = Done r \<and>
    ru_eff r = [Socket_Open, Siwpriv iwr (''COUNTRY '' @ cc), Socket_Close] \<and>
    (let bs = iwreq_bytes cfg iwr; p = ptr_bytes cfg
     in length bs = 32 \<and> csize p T_iwreq = 32 \<and> map byte_char (takeWhile (\<lambda>b. b \<noteq> 0) bs) = country_ifname cfg env \<and>
        le_val (take p (drop 16 bs)) = de_country_buf env \<and> le_val (take 2 (drop (16 + p) bs)) = 8 + length cc)"
proof -
  let ?t = "''COUNTRY '' @ cc"
  let ?q = "country_iwreq (de_country_buf env) (country_ifname cfg env) ?t"
  have p: "ptr_bytes cfg = 4 \<or> ptr_bytes cfg = 8" using assms(3) by (auto simp: abi_ok_def)
  note name = country_name [OF assms(5,6), of "de_country_buf env" ?t]
  have "unat (word_of_nat (length ?t) :: u16) = 8 + length cc" unfolding unat_of_nat using assms(4) by simp
  then obtain n d where q: "?q = \<lparr>ifr_name = n, iw_u = Iw_Data d\<rparr>" "ip_pointer d = de_country_buf env" "unat (ip_length d) = 8 + length cc"
    unfolding country_iwreq_def Let_def by force
  obtain r where bs: "iwreq_bytes cfg ?q = n @ le_bytes (ptr_bytes cfg) (de_country_buf env) @ le_bytes 2 (8 + length cc) @ r"
    using iw_data_bytes [OF p, of n d] q by auto
  have len: "length (iwreq_bytes cfg ?q) = 32"
    using iwreq_bytes_size [OF _ p, of ?q] iwreq_layout(3) [OF p] name(1) q(1) by (simp add: iwreq_wf_def)
  have "length n = 16" "map byte_char (takeWhile (\<lambda>b. b \<noteq> 0) (iwreq_bytes cfg ?q)) = country_ifname cfg env"
    using name q(1) bs by auto
  then show ?thesis
    using country_cases [OF assms(1,2), of cfg st cc buf] assms(4,7) len iwreq_layout(3) [OF p] bs
    by (simp add: Let_def le_val_le_bytes)
qed

theorem country_request_roundtrip_witness:
  "\<exists>r iwr. wpa_driver_nl80211_driver_cmd sample_config sample_drv_env sample_state ''COUNTRY US'' ''x'' = Done r \<and>
    Siwpriv iwr ''COUNTRY US'' \<in> set (ru_eff r) \<and> length (iwreq_bytes sample_config iwr) = 32 \<and>
    map byte_char (takeWhile (\<lambda>b. b \<noteq> 0) (iwreq_bytes sample_config iwr)) = ''wlan0''"
proof -
  have n: "country_ifname sample_config sample_drv_env = ''wlan0''" by (simp add: country_ifname_def)
  have b: "de_country_buf sample_drv_env < 256 ^ ptr_bytes sample_config" by (simp add: sample_config_def)
  show ?thesis
    using country_request_roundtrip [OF sample_station _ sample_abi_ok, of "''US''" sample_state "''x''"] b
    unfolding n by (auto simp: cstr_def Let_def)
qed

section \<open>Commands without effect\<close>

text \<open>The power mode and RTS threshold commands, which the library recognises, always report failure and do nothing:
  no request is sent and buffer and state stay as they are.\<close>

theorem inert_commands:
  assumes "station env" "classify cfg cmd \<in> {POWERMODE, GETPOWER, GET_RTS_THRESHOLD, SET_RTS_THRESHOLD}"
  shows "wpa_driver_nl80211_driver_cmd cfg env st cmd buf = Done (start_run st cmd buf)"
  using assms by (auto simp: station_run)

theorem inert_commands_witness:
  "wpa_driver_nl80211_driver_cmd sample_config sample_drv_env sample_state ''getpower'' ''x'' =
     Done \<lparr>ru_ret = - 1, ru_handled = True, ru_cmd = ''getpower'', ru_buf = ''x'', ru_st = sample_state, ru_eff = []\<rparr>"
  by (rule inert_commands [OF sample_station]) (simp add: classify_simps)

section \<open>Screen mirroring\<close>

lemma classify_miracast: "CONFIG_MTK_WFD_SINK cfg \<Longrightarrow> classify cfg (''MIRACAST '' @ s) = MIRACAST"
  by (simp add: classify_simps)

lemma atoi_two: "32 \<le> bits \<Longrightarrow> atoi bits (''2 '' @ s) = 2"
proof -
  assume "32 \<le> bits"
  moreover have "fmt_d 2 = ''2''" by code_simp
  moreover have "no_digit_first 10 ('' '' @ s)"
    by (simp add: no_digit_first_def is_digit_in_def digit_val_def char_val_def)
  ultimately show ?thesis using atoi_fmt_d [of 2 bits "'' '' @ s"] by simp
qed

lemma strstr_freq: "os_strstr (''MIRACAST 2 freq='' @ s) '' freq='' = Some ('' freq='' @ s)"
  by simp

text \<open>C12. \<open>MIRACAST 2 freq=f\<close> with a known frequency makes the channel of that frequency the only one the device offers and
  operates on, and passes the command on to the kernel driver with the frequency taken off.\<close>

theorem miracast_freq_effect:
  assumes "station env" "CONFIG_MTK_WFD_SINK cfg" "abi_ok cfg" "0 < f" "f < 2 ^ 31"
    and "priv_p2p_freq_to_channel cfg f = Some (cls, ch)" "st_p2p st = Some p2p"
    and "pc_reg_class (p2_channels p2p) \<noteq> []" "rc_channel (hd (pc_reg_class (p2_channels p2p))) \<noteq> []"
    and "10 < length buf" "de_ioctl env (take 16 (de_ifname env)) (''MIRACAST 2'' @ CHR 0x00 # drop 11 buf) = (ret, buf', used)"
  shows "\<exists>r p2p'. wpa_driver_nl80211_driver_cmd cfg env st (''MIRACAST 2 freq='' @ fmt_u f) buf = Done r \<and>
    st_p2p (ru_st r) = Some p2p' \<and> offered (p2_channels p2p') = [(cls, ch)] \<and>
    (p2_op_reg_class p2p', p2_op_channel p2p') = (cls, ch) \<and>
    ru_eff r = [Private_Ioctl (take 16 (de_ifname env)) (''MIRACAST 2'' @ CHR 0x00 # drop 11 buf)] \<and>
    ru_ret r = (if ret < 0 then ret else used)"
proof -
  let ?w = "word_of_nat f :: u32"
  have uw: "unat ?w = f" "?w \<noteq> 0" using assms(4,5) by (auto simp: unat_of_nat word_of_nat_eq_0_iff)
  have "atoi (long_bits cfg) (fmt_d (int f)) = int f"
    using atoi_fmt_d [of "int f" "long_bits cfg" "[]"] assms(5) abi_long [OF assms(3)] by (simp add: no_digit_first_def)
  then have num: "word_of_int (atoi (long_bits cfg) (fmt_u f)) = ?w" by (simp add: fmt_d_def fmt_u_def)
  have "safe (\<lambda>_. True) (p2p_wfd_sink_config_scc cfg (de_conf env) (de_random env) (Some p2p) True ?w)"
    using assms(6,8,9) uw by (auto simp: p2p_wfd_sink_config_scc_def set_only_channel_def split: list.splits)
  then obtain q where q: "p2p_wfd_sink_config_scc cfg (de_conf env) (de_random env) (Some p2p) True ?w = Done (Some q)"
    using assms(6) uw by (auto simp: p2p_wfd_sink_config_scc_def set_only_channel_def split: list.splits)
  note res = config_scc_result [OF uw(2) _ q, unfolded uw(1), OF assms(6)]
  let ?cmd = "''MIRACAST 2 freq='' @ fmt_u f"
  have two: "atoi (long_bits cfg) (drop 9 ?cmd) = 2"
    using atoi_two [OF abi_long [OF assms(3)], of "''freq='' @ fmt_u f"] by simp
  have cls: "classify cfg ?cmd = MIRACAST" using classify_miracast [OF assms(2), of "''2 freq='' @ fmt_u f"] by simp
  have run: "run_command cfg env (start_run st ?cmd buf) MIRACAST =
      Done ((start_run st ''MIRACAST 2'' buf)\<lparr>ru_handled := False, ru_st := st\<lparr>st_p2p := Some q\<rparr>\<rparr>)"
    using strstr_freq [of "fmt_u f"] two num
    by (simp add: station_wpa_s [OF assms(1)] run_miracast_def Let_def on_state_def config_scc_def assms(7) q del: os_strstr.simps)
  have wls: "os_strncasecmp ''MIRACAST 2'' ''WLS_BATCHING'' 12 \<noteq> 0" by (simp add: cmp_simps)
  have k: "Suc (length ''MIRACAST 2'') = 11" by simp
  let ?r = "(start_run st ''MIRACAST 2'' buf)\<lparr>ru_handled := False, ru_st := st\<lparr>st_p2p := Some q\<rparr>\<rparr>"
  have sel: "ru_cmd ?r = ''MIRACAST 2''" "ru_buf ?r = buf" "ru_eff ?r = []" by simp_all
  have pc: "\<exists>r. private_command env ?r = Done r \<and> ru_ret r = (if ret < 0 then ret else used) \<and> st_p2p (ru_st r) = Some q \<and>
      ru_eff r = [Private_Ioctl (take 16 (de_ifname env)) (''MIRACAST 2'' @ CHR 0x00 # drop 11 buf)]"
    using private_command_eq [of ?r env ret buf' used, unfolded sel k] wls assms(10,11) by auto
  have "wpa_driver_nl80211_driver_cmd cfg env st ?cmd buf = private_command env ?r"
    unfolding station_run [OF assms(1)] cls run by simp
  then show ?thesis using res pc by metis
qed

theorem miracast_freq_effect_witness:
  "\<exists>r p2p'. wpa_driver_nl80211_driver_cmd sample_config sample_drv_env sample_state (''MIRACAST 2 freq='' @ fmt_u 2437) ''0123456789ab'' =
      Done r \<and> st_p2p (ru_st r) = Some p2p' \<and> offered (p2_channels p2p') = [(81, 6)]"
  using miracast_freq_effect [OF sample_station _ sample_abi_ok, of 2437 81 6 sample_state sample_p2p "''0123456789ab''" "- 1"
      "''MIRACAST 2'' @ [CHR 0x00, CHR ''b'']" 0]
  by (auto simp: priv_p2p_freq_to_channel_def sample_config_def sample_state_def sample_p2p_def sample_channels_def)

section \<open>Multi channel concurrency\<close>

lemma classify_mcc: "CONFIG_MTK_P2P_SIGMA cfg \<Longrightarrow> classify cfg (''mcc '' @ s) = MCC"
  by (simp add: classify_simps)

text \<open>C35. \<open>mcc v\<close> sets the concurrency flag on every interface and two concurrent channels when the number is not zero,
  and clears both when it is zero; every other driver flag of every interface stays as it is.\<close>

theorem mcc_effect:
  assumes "station env" "CONFIG_MTK_P2P_SIGMA cfg" "abi_ok cfg" "de_drv_priv_ok env" "- (2 ^ 31) \<le> v" "v < 2 ^ 31"
  shows "\<exists>r. wpa_driver_nl80211_driver_cmd cfg env st (''mcc '' @ fmt_d v) buf = Done r \<and> ru_ret r = 0 \<and>
    list_all2 (\<lambda>i i'. wi_num_multichan_concurrent i' = (if v \<noteq> 0 then 2 else 0) \<and>
        wi_drv_flags i' AND de_p2p_concurrent env = (if v \<noteq> 0 then de_p2p_concurrent env else 0) \<and>
        wi_drv_flags i' AND NOT (de_p2p_concurrent env) = wi_drv_flags i AND NOT (de_p2p_concurrent env))
      (st_ifaces st) (st_ifaces (ru_st r))"
proof -
  have num: "atoi (long_bits cfg) (fmt_d v) = v"
    using atoi_fmt_d [of v "long_bits cfg" "[]"] assms(5,6) abi_long [OF assms(3)] by (simp add: no_digit_first_def)
  have cls: "classify cfg (''mcc '' @ fmt_d v) = MCC" by (rule classify_mcc [OF assms(2)])
  have "(x OR f) AND f = f" "(x AND NOT f) AND f = 0" "(x OR f) AND NOT f = x AND NOT f" for x f :: u64
    by (rule bit_word_eqI, auto simp: bit_simps)+
  then show ?thesis
    using num assms(4) cls
    by (simp add: station_run [OF assms(1)] station_wpa_s [OF assms(1)] run_mcc_def os_strchr_def Let_def list_all2_map2
        list_all2_same)
qed

theorem mcc_effect_witness:
  "\<exists>r. wpa_driver_nl80211_driver_cmd sample_config sample_drv_env sample_state (''mcc '' @ fmt_d 1) ''x'' = Done r \<and> ru_ret r = 0 \<and>
    list_all2 (\<lambda>i i'. wi_num_multichan_concurrent i' = 2 \<and> wi_drv_flags i' AND 0x200 = 0x200) (st_ifaces sample_state) (st_ifaces (ru_st r))"
  using mcc_effect [OF sample_station _ sample_abi_ok, of 1 sample_state "''x''"]
  by (auto simp: sample_config_def elim!: list_all2_mono)

section \<open>Beam+\<close>

lemma char_byte_byte_char: "char_byte (byte_char b) = b"
proof -
  have "unat b < 256" using unsigned_less [of b, where 'a = nat] by simp
  then show ?thesis by (simp add: char_byte_def byte_char_def)
qed

text \<open>Polling the Beam+ group owner stores the value of the kernel's reply in the first four bytes of the buffer,
  little-endian, and leaves the rest; the call nevertheless returns -1, its code for failure.\<close>

theorem beamplus_poll_effect:
  assumes "station env" "CONFIG_MEDIATEK_WIFI_BEAM cfg" "CONFIG_MTK_TURNKEY_WLAN cfg" "4 \<le> length buf"
    and "de_tm env = wpa_driver_nl80211_testmode cfg tenv" "replies tenv [m] fin"
    and "parse_testdata (te_libnl tenv) (te_go_ready_attr tenv) [te_go_ready_attr tenv \<mapsto> NLA_U32] m = Some sinfo"
    and "sinfo (te_go_ready_attr tenv) = Some p"
  shows "\<exists>r. wpa_driver_nl80211_driver_cmd cfg env st ''get_beamplus_go_ready'' buf = Done r \<and> ru_ret r = - 1 \<and>
    le_val (map char_byte (take 4 (ru_buf r))) = unat (nla_get_u32 (te_libnl tenv) p) \<and> drop 4 (ru_buf r) = drop 4 buf"
proof -
  have cls: "classify cfg ''get_beamplus_go_ready'' = GET_BEAMPLUS_GO_READY" using assms(2) by (simp add: classify_simps)
  have "\<exists>e. wpas_driver_get_beamplus_go_ready cfg (de_tm env) = Done (nla_get_u32 (te_libnl tenv) p, e)"
    using assms replies_ok [OF assms(6)]
    by (simp add: wpas_driver_get_beamplus_go_ready_def wpa_driver_nl80211_testmode_def mk_hdr_index BITS_def BIT_def
        Let_def replies_run [OF assms(6)] testmode_beamplus_go_ready_handler_def)
  then obtain e where q: "wpas_driver_get_beamplus_go_ready cfg (de_tm env) = Done (nla_get_u32 (te_libnl tenv) p, e)" ..
  show ?thesis
    using assms(4) unsigned_less [of "nla_get_u32 (te_libnl tenv) p", where 'a = nat]
    by (simp add: station_run [OF assms(1)] cls station_wpa_s [OF assms(1)] run_get_beamplus_def q write_at_def
        comp_def char_byte_byte_char le_val_le_bytes)
qed

theorem beamplus_poll_effect_witness:
  "\<exists>r. wpa_driver_nl80211_driver_cmd sample_config
      (sample_drv_env\<lparr>de_tm := wpa_driver_nl80211_testmode sample_config (sample_env [[69, 3, 1, 1, 5]])\<rparr>) sample_state
      ''get_beamplus_go_ready'' ''abcdef'' = Done r \<and> ru_ret r = - 1 \<and> le_val (map char_byte (take 4 (ru_buf r))) = 5 \<and>
    drop 4 (ru_buf r) = ''ef''"
proof -
  have "station (sample_drv_env\<lparr>de_tm := t\<rparr>)" for t using sample_station by (simp add: station_def)
  moreover have "parse_testdata tlv_libnl 1 [1 \<mapsto> NLA_U32] [69, 3, 1, 1, 5] = Some [1 \<mapsto> [5]]"
    by (simp add: parse_testdata_def tlv_libnl_def)
  moreover have "unat (nla_get_u32 tlv_libnl [5]) = 5" by (simp add: tlv_libnl_def)
  ultimately show ?thesis
    using beamplus_poll_effect [OF _ _ _ _ _ sample_replies [of "[[69, 3, 1, 1, 5]]"],
        of "sample_drv_env\<lparr>de_tm := wpa_driver_nl80211_testmode sample_config (sample_env [[69, 3, 1, 1, 5]])\<rparr>"
        sample_config "''abcdef''" "[1 \<mapsto> [5]]" "[5]" sample_state]
    by (simp add: sample_env_def) (simp add: sample_config_def)
qed

end
