(* ===== verification/Driver_Safety.thy ===== *)
theory Driver_Safety
  imports Driver_Effects
begin

text \<open>
  When the command interpreter is free of undefined behaviour: one condition per command, shown to be exactly right over
  any transport that keeps the contract of \<open>testmode_transport\<close> and returns.
\<close>

section \<open>Conditions\<close>

text \<open>Configuring concurrency; following the frequency the station shares; handing a command to the kernel driver.\<close>

definition scc_ok :: "config \<Rightarrow> drv_state \<Rightarrow> bool \<Rightarrow> u32 \<Rightarrow> bool" where
  "scc_ok cfg st scc freq \<longleftrightarrow>
     (case st_p2p st of
        None \<Rightarrow> True
      | Some p \<Rightarrow>
          if scc \<and> freq \<noteq> 0
          then priv_p2p_freq_to_channel cfg (unat freq) \<noteq> None \<and> pc_reg_class (p2_channels p) \<noteq> [] \<and>
            rc_channel (hd (pc_reg_class (p2_channels p))) \<noteq> []
          else p2_cfg p \<noteq> None)"

definition kernel_ok :: "drv_env \<Rightarrow> string \<Rightarrow> string \<Rightarrow> bool" where
  "kernel_ok env cmd buf \<longleftrightarrow> length cmd < length buf \<and>
     (case de_ioctl env (take IFNAMSIZ (de_ifname env)) (cmd @ CHR 0x00 # drop (Suc (length cmd)) buf) of
        (ret, buf', used) \<Rightarrow> 0 \<le> ret \<and> os_strncasecmp cmd ''WLS_BATCHING'' 12 = 0 \<longrightarrow> CHR 0x00 \<in> set buf')"

definition miracast_ok :: "config \<Rightarrow> drv_env \<Rightarrow> drv_state \<Rightarrow> string \<Rightarrow> string \<Rightarrow> bool" where
  "miracast_ok cfg env st cmd buf \<longleftrightarrow>
     (let miracast = word_of_int (atoi (long_bits cfg) (drop 9 cmd)) :: u8;
          shared = word_of_int (de_shared_freq env) :: u32;
          follow = scc_ok cfg st (shared \<noteq> 0) shared \<and> kernel_ok env cmd buf
      in if miracast = 0 \<or> miracast = 1 then follow
         else if miracast = 2 then
           (case os_strstr cmd '' freq='' of
              Some pos \<Rightarrow> scc_ok cfg st True (word_of_int (atoi (long_bits cfg) (drop 6 pos))) \<and> kernel_ok env ''MIRACAST 2'' buf
            | None \<Rightarrow> follow)
         else kernel_ok env cmd buf)"

definition use_mcc_ok :: "config \<Rightarrow> drv_env \<Rightarrow> drv_state \<Rightarrow> string \<Rightarrow> bool" where
  "use_mcc_ok cfg env st cmd \<longleftrightarrow> st_p2p st \<noteq> None \<and>
     (if (word_of_int (atoi (long_bits cfg) (drop 12 cmd)) :: u8) = 0 \<and> 0 < de_shared_freq env
      then scc_ok cfg st True (word_of_int (de_shared_freq env)) else scc_ok cfg st False 0)"

text \<open>A blank, and behind it, unless no hardware address follows, another one.\<close>

definition opps_ok :: "drv_env \<Rightarrow> string \<Rightarrow> bool" where
  "opps_ok env arg \<longleftrightarrow>
     (case os_strchr arg CHR '' '' of
        None \<Rightarrow> False
      | Some r \<Rightarrow> de_hwaddr_aton env (tl r) \<noteq> None \<longrightarrow> os_strchr (tl r) CHR '' '' \<noteq> None)"

definition wapi_ok :: "wapi_key_param \<Rightarrow> bool" where
  "wapi_ok k \<longleftrightarrow> wp_seq_len k \<le> 16 \<longrightarrow> wapi_key_fits k \<and> wapi_seq_fits k"

definition command_ok :: "config \<Rightarrow> drv_env \<Rightarrow> drv_state \<Rightarrow> string \<Rightarrow> string \<Rightarrow> bool" where
  "command_ok cfg env st cmd buf \<longleftrightarrow>
     (case classify cfg cmd of
        COUNTRY \<Rightarrow> 8 \<le> length cmd \<and> (0 \<le> de_socket env \<longrightarrow> length cmd \<le> 10)
      | SET_WAPI_KEY \<Rightarrow> wapi_ok (de_wapi env buf)
      | MIRACAST \<Rightarrow> miracast_ok cfg env st cmd buf
      | P2P_USE_MCC \<Rightarrow> use_mcc_ok cfg env st cmd
      | P2P_SET_OPPS \<Rightarrow> opps_ok env (drop 13 cmd)
      | P2P_SET_SLEEP_ARG \<Rightarrow> de_hwaddr_aton env (drop 14 cmd) \<noteq> None \<longrightarrow> os_strchr (drop 14 cmd) CHR '' '' \<noteq> None
      | WFD_DATA_UPDATE \<Rightarrow> unat (WfdSessionInformationIELen (de_wfd env buf)) \<le> 192
      | GET_BEAMPLUS_GO_READY \<Rightarrow> 4 \<le> length buf
      | SET_BEAMPLUS \<Rightarrow> 4 \<le> length buf
      | SETSUSPENDMODE \<Rightarrow> kernel_ok env cmd buf
      | UNSUPPORTED \<Rightarrow> kernel_ok env cmd buf
      | _ \<Rightarrow> True)"

text \<open>
  On the interface \<open>ap0\<close> the supplicant's pointer is not set: what uses it there has no defined behaviour. \<open>STOP\<close> uses it
  to leave a network, and the scan cache command unless it fails to open the cache file.
\<close>

definition wpa_s_commands :: "drv_cmd list" where
  "wpa_s_commands = [GET_STA_STATISTICS, GET_STA_LINK_DETECT, MACADDR, P2P_GET_CAP, P2P_SET_CAP, MIRACAST, P2P_USE_MCC,
     MCC, P2P_SET_OPPS, P2P_SET_POWER_SAVE, P2P_SET_SLEEP_ARG, P2P_SET_SLEEP, WFD_DATA_UPDATE, GET_BEAMPLUS_GO_READY,
     SET_BEAMPLUS]"

definition uses_wpa_s :: "config \<Rightarrow> drv_env \<Rightarrow> string \<Rightarrow> bool" where
  "uses_wpa_s cfg env cmd \<longleftrightarrow>
     (case classify cfg cmd of
        STOP \<Rightarrow> de_associated env
      | SET_P2P_SCAN_CACHE \<Rightarrow> atoi (long_bits cfg) (drop 19 cmd) \<noteq> 0 \<longrightarrow> de_open_ok env
      | c \<Rightarrow> c \<in> set wpa_s_commands)"

definition on_ap0 :: "drv_env \<Rightarrow> bool" where
  "on_ap0 env \<longleftrightarrow> os_strcmp (de_ifname env) ''ap0'' = 0"

text \<open>The call gets past the checks of the driver, its context and, except on \<open>ap0\<close>, its configuration.\<close>

definition entered :: "drv_env \<Rightarrow> bool" where
  "entered env \<longleftrightarrow> de_drv_ok env \<and> de_ctx_ok env \<and> (on_ap0 env \<or> de_conf_ok env)"

definition call_ok :: "config \<Rightarrow> drv_env \<Rightarrow> drv_state \<Rightarrow> string \<Rightarrow> string \<Rightarrow> bool" where
  "call_ok cfg env st cmd buf \<longleftrightarrow>
     (entered env \<longrightarrow> \<not> (on_ap0 env \<and> uses_wpa_s cfg env cmd) \<and> command_ok cfg env st cmd buf)"

section \<open>Plumbing\<close>

abbreviation (input) ok :: "'a outcome \<Rightarrow> bool" where "ok m \<equiv> safe (\<lambda>_. True) m"

definition finish :: "drv_env \<Rightarrow> drv_run \<Rightarrow> drv_run outcome" where
  "finish env r = (if \<not> ru_handled r then private_command env r else Done r)"

lemma ok_bind: "ok (bindC m f) \<longleftrightarrow> safe (\<lambda>x. ok (f x)) m"
  by (cases m) simp_all

lemma bindC_assoc: "bindC (bindC m f) g = bindC m (\<lambda>x. bindC (f x) g)"
  by (cases m) simp_all

lemma entered_finish:
  "entered env \<Longrightarrow> wpa_driver_nl80211_driver_cmd cfg env st cmd buf =
    bindC (run_command cfg env (start_run st cmd buf) (classify cfg cmd)) (finish env)"
  by (auto simp: wpa_driver_nl80211_driver_cmd_def entered_def on_ap0_def Let_def finish_def [abs_def])

lemma not_entered:
  "\<not> entered env \<Longrightarrow> wpa_driver_nl80211_driver_cmd cfg env st cmd buf = Done (start_run st cmd buf)"
  by (auto simp: wpa_driver_nl80211_driver_cmd_def entered_def on_ap0_def Let_def)

lemma with_wpa_s_eq: "with_wpa_s env m = (if on_ap0 env then Undef Uninitialised else m)"
  by (simp add: with_wpa_s_def on_ap0_def)

lemma uses_wpa_s_undefined:
  "on_ap0 env \<Longrightarrow> uses_wpa_s cfg env cmd \<Longrightarrow>
    run_command cfg env (start_run st cmd buf) (classify cfg cmd) = Undef Uninitialised"
  by (cases "classify cfg cmd")
    (auto simp: uses_wpa_s_def wpa_s_commands_def with_wpa_s_eq run_stop_def run_scan_cache_def Let_def)

lemma finish_Done: "ru_handled r \<Longrightarrow> finish env r = Done r"
  by (simp add: finish_def)

lemma finish_returning: "ru_handled r \<Longrightarrow> ok (bindC (returning r m) (finish env)) \<longleftrightarrow> ok m"
  by (cases m) (auto simp: returning_def finish_def split: prod.splits)

lemma finish_reporting: "ru_handled r \<Longrightarrow> ok (bindC (reporting r m) (finish env)) \<longleftrightarrow> ok m"
  by (cases m) (auto simp: reporting_def finish_def split: prod.splits)

lemma ok_ok_or_minus_1: "ok (ok_or_minus_1 m) \<longleftrightarrow> ok m"
  by (cases m) (auto simp: ok_or_minus_1_def)

lemma ok_private: "ok (private_command env r) \<longleftrightarrow> kernel_ok env (ru_cmd r) (ru_buf r)"
proof (cases "length (ru_cmd r) < length (ru_buf r)")
  case True
  then show ?thesis
    by (auto simp: private_command_def kernel_ok_def write_at_def strlen_buf_def Let_def split: prod.splits)
qed (simp add: private_command_def kernel_ok_def)

lemma ok_config_scc: "ok (config_scc cfg env scc freq st) \<longleftrightarrow> scc_ok cfg st scc freq"
  by (auto simp: config_scc_def p2p_wfd_sink_config_scc_def scc_ok_def set_only_channel_def Let_def
      split: option.splits list.splits)

lemma ok_on_scc: "ok (bindC (on_state r (config_scc cfg env scc freq st) (\<lambda>r1. Done (g r1))) f) \<longleftrightarrow>
    (\<forall>st'. config_scc cfg env scc freq st = Done st' \<longrightarrow> ok (f (g (r\<lparr>ru_st := st'\<rparr>)))) \<and> scc_ok cfg st scc freq"
  using ok_config_scc [of cfg env scc freq st]
  by (cases "config_scc cfg env scc freq st") (auto simp: on_state_def)

lemma config_scc_not_Blocked: "config_scc cfg env scc freq st \<noteq> Blocked"
  by (auto simp: config_scc_def p2p_wfd_sink_config_scc_def set_only_channel_def Let_def split: option.splits list.splits)

lemma scc_then_kernel:
  assumes "\<And>st. \<not> ru_handled (g (r\<lparr>ru_st := st\<rparr>)) \<and> ru_cmd (g (r\<lparr>ru_st := st\<rparr>)) = c \<and> ru_buf (g (r\<lparr>ru_st := st\<rparr>)) = b"
  shows "ok (bindC (on_state r (config_scc cfg env scc freq st) (\<lambda>r1. Done (g r1))) (finish env)) \<longleftrightarrow>
    scc_ok cfg st scc freq \<and> kernel_ok env c b"
proof -
  have "\<exists>st'. config_scc cfg env scc freq st = Done st'" if "scc_ok cfg st scc freq"
    using that config_scc_not_Blocked [of cfg env scc freq st] unfolding ok_config_scc [of cfg env scc freq st, symmetric]
    by (cases "config_scc cfg env scc freq st") auto
  then show ?thesis
    using assms by (auto simp: ok_on_scc finish_def ok_private)
qed

lemma ok_miracast:
  "ok (bindC (run_miracast cfg env (start_run st cmd buf)) (finish env)) \<longleftrightarrow> miracast_ok cfg env st cmd buf"
proof -
  let ?r0 = "(start_run st cmd buf)\<lparr>ru_handled := False\<rparr>"
  have follow: "ok (bindC (on_state ?r0 (config_scc cfg env scc f st) Done) (finish env)) \<longleftrightarrow> scc_ok cfg st scc f \<and> kernel_ok env cmd buf" for scc f
    using scc_then_kernel [of "\<lambda>r. r" ?r0 cmd buf] by simp
  have rebuilt: "ok (bindC (on_state ?r0 (config_scc cfg env scc f st) (\<lambda>r1. Done (r1\<lparr>ru_cmd := ''MIRACAST 2''\<rparr>))) (finish env)) \<longleftrightarrow>
      scc_ok cfg st scc f \<and> kernel_ok env ''MIRACAST 2'' buf" for scc f
    using scc_then_kernel [of "\<lambda>r. r\<lparr>ru_cmd := ''MIRACAST 2''\<rparr>" ?r0 "''MIRACAST 2''" buf] by simp
  have plain: "ok (finish env ?r0) \<longleftrightarrow> kernel_ok env cmd buf" by (simp add: finish_def ok_private)
  show ?thesis
    using rebuilt plain follow
    by (simp add: run_miracast_def miracast_ok_def Let_def split: option.split)
qed

lemma ok_use_mcc:
  "ok (bindC (run_use_mcc cfg env (start_run st cmd buf)) (finish env)) \<longleftrightarrow> use_mcc_ok cfg env st cmd"
proof (cases "st_p2p st")
  case (Some p2p)
  have same: "scc_ok cfg (st\<lparr>st_p2p := Some (p2p\<lparr>p2_use_mcc := v\<rparr>)\<rparr>) scc f = scc_ok cfg st scc f" for v scc f
    by (simp add: scc_ok_def Some)
  show ?thesis
    by (simp add: run_use_mcc_def use_mcc_ok_def Some Let_def ok_on_scc [where g = "\<lambda>r. r"] finish_def same)
qed (simp add: run_use_mcc_def use_mcc_ok_def)

lemma ok_country:
  "ok (bindC (run_country cfg env (start_run st cmd buf)) (finish env)) \<longleftrightarrow> 8 \<le> length cmd \<and> (0 \<le> de_socket env \<longrightarrow> length cmd \<le> 10)"
  by (auto simp: run_country_def wpa_driver_mediatek_set_country_def Let_def finish_def)

lemma ok_get_cap: "ok (bindC (run_get_cap (start_run st cmd buf)) (finish env))"
  by (auto simp: run_get_cap_def finish_def split: option.split prod.split)

lemma ok_set_cap: "ok (bindC (run_set_cap cfg (start_run st cmd buf)) (finish env))"
  by (auto simp: run_set_cap_def finish_def split: option.split prod.split)

lemma ok_mcc: "ok (bindC (run_mcc cfg env (start_run st cmd buf)) (finish env))"
  by (auto simp: run_mcc_def finish_def Let_def split: option.split)

lemma ok_plain:
  "ok (bindC (run_macaddr env (start_run st cmd buf)) (finish env))"
  "ok (bindC (run_start env (start_run st cmd buf)) (finish env))"
  by (auto simp: run_macaddr_def run_start_def finish_def Let_def split: prod.split)

lemma ok_stop: "on_ap0 env \<longrightarrow> \<not> de_associated env \<Longrightarrow> ok (bindC (run_stop env (start_run st cmd buf)) (finish env))"
  by (auto simp: run_stop_def with_wpa_s_eq finish_def Let_def)

lemma ok_scan_cache:
  "on_ap0 env \<longrightarrow> atoi (long_bits cfg) (drop 19 cmd) \<noteq> 0 \<and> \<not> de_open_ok env \<Longrightarrow>
    ok (bindC (run_scan_cache cfg env (start_run st cmd buf)) (finish env))"
  by (auto simp: run_scan_cache_def with_wpa_s_eq finish_def Let_def)

lemma cut_at_blank_strchr: "cut_at_blank s = (case os_strchr s CHR '' '' of None \<Rightarrow> Undef Null_Deref | Some r \<Rightarrow> Done (tl r))"
  by (rule cut_at_blank_def)

section \<open>Over any transport\<close>

context testmode_transport
begin

lemma ok_sw_cmd: "ok (wpa_driver_nl80211_driver_sw_cmd cfg tm s a v)"
  using sw_cmd_safe by (rule safe_mono) simp

lemma ok_sigma: "ok (bindC (wpas_p2p_sigma_test_mode cfg tm i v) (\<lambda>(r, e). Done (0 :: int, e)))"
  by (rule safe_bindI [OF sigma_safe]) auto

lemma ok_opps: "ok (p2p_ctrl_iface_set_opps cfg tm (de_hwaddr_aton env) arg) \<longleftrightarrow> opps_ok env arg"
  using ok_sigma by (auto simp: p2p_ctrl_iface_set_opps_def opps_ok_def cut_at_blank_strchr Let_def split: option.splits)

lemma ok_sleep:
  "ok (p2p_ctrl_iface_set_sleep cfg tm aton arg) \<longleftrightarrow> (aton arg \<noteq> None \<longrightarrow> os_strchr arg CHR '' '' \<noteq> None)"
  using ok_sigma by (auto simp: p2p_ctrl_iface_set_sleep_def cut_at_blank_strchr split: option.splits)

lemma ok_power_save: "ok (p2p_ctrl_iface_set_power_save cfg tm arg)"
  using ok_sigma by (simp add: p2p_ctrl_iface_set_power_save_def)

lemma ok_wapi: "ok (wpa_driver_nl80211_set_wapi_key cfg tm k) \<longleftrightarrow> wapi_ok k"
proof (cases "wp_seq_len k \<le> 16")
  case True
  show ?thesis
  proof (cases "wapi_key_fits k \<and> wapi_seq_fits k")
    case True
    then show ?thesis using safe_mono [OF wapi_key_safe [of k cfg], of "\<lambda>_. True"] by (simp add: wapi_ok_def)
  next
    case False
    then show ?thesis using wapi_key_unsafe [OF True False, of cfg] True by (auto simp: wapi_ok_def)
  qed
next
  case False
  then show ?thesis by (simp add: wapi_ok_def wpa_driver_nl80211_set_wapi_key_def IW_ENCODE_SEQ_MAX_SIZE_def)
qed

lemma ok_wfd:
  assumes "wfd_src_wf w"
  shows "ok (wpas_wfd_data_update cfg tm n w) \<longleftrightarrow> unat (WfdSessionInformationIELen w) \<le> 192"
proof -
  have "cast_ok (Wfd_Data (wfd_params n w)) No_Obj" by (rule cast_ok_builders) (simp add: wfd_params_def)
  then have "ok (bindC (tm (Wfd_Data (wfd_params n w)) No_Obj) (\<lambda>(ret, d, ob, e). Done (ret, e)))"
    by (rule tm_bind) auto
  then show ?thesis by (simp add: wfd_update_eq [OF assms])
qed

lemma ok_statistics: "ok (wpa_driver_get_sta_statistics cfg tm aton (Done b) sp stack addr buf)"
proof (cases "aton addr")
  case (Some a)
  have "ok (bindC (print_sta_statistics (Done b) st buf) (\<lambda>(len, b). Done (len, b, e)))" for st and e :: "nl_eff list"
    by (simp add: print_sta_statistics_report split: prod.split)
  then show ?thesis
    unfolding wpa_driver_get_sta_statistics_def Some option.case by (intro safe_bindI [OF statistics_safe]) auto
qed (simp add: wpa_driver_get_sta_statistics_def)

lemma ok_link: "ok (wpa_driver_get_sta_link_detect cfg tm sp stack buf)"
  unfolding wpa_driver_get_sta_link_detect_def
  by (rule safe_bindI [OF link_detect_safe]) (auto split: prod.split)

text \<open>The commands that need the transport to return before they go on.\<close>

lemma ok_beamplus:
  assumes "\<And>d ob. tm d ob \<noteq> Blocked" "de_tm env = tm"
  shows "ok (bindC (run_get_beamplus cfg env (start_run st cmd buf)) (finish env)) \<longleftrightarrow> 4 \<le> length buf"
    "ok (bindC (run_set_beamplus cfg env (start_run st cmd buf)) (finish env)) \<longleftrightarrow> 4 \<le> length buf"
proof -
  have "wpas_driver_get_beamplus_go_ready cfg tm \<noteq> Blocked"
    using assms(1) by (auto simp: wpas_driver_get_beamplus_go_ready_def bindC_def split: outcome.splits testmode_data.splits)
  then obtain v e where "wpas_driver_get_beamplus_go_ready cfg tm = Done (v, e)"
    using get_beamplus_safe [of cfg] by (cases "wpas_driver_get_beamplus_go_ready cfg tm") auto
  then show "ok (bindC (run_get_beamplus cfg env (start_run st cmd buf)) (finish env)) \<longleftrightarrow> 4 \<le> length buf"
    by (simp add: run_get_beamplus_def assms(2) finish_def)
  show "ok (bindC (run_set_beamplus cfg env (start_run st cmd buf)) (finish env)) \<longleftrightarrow> 4 \<le> length buf"
  proof (cases "length buf < 4")
    case False
    then show ?thesis
      by (simp add: run_set_beamplus_def assms(2) bindC_assoc) (rule safe_bindI [OF set_beamplus_safe], auto simp: finish_def)
  qed (simp add: run_set_beamplus_def)
qed

lemma ok_suspend:
  assumes "\<And>d ob. tm d ob \<noteq> Blocked" "de_tm env = tm"
  shows "ok (bindC (run_suspend cfg env (start_run st cmd buf)) (finish env)) \<longleftrightarrow> kernel_ok env cmd buf"
proof -
  define p where "p = \<lparr>sp_hdr = mk_hdr NL80211_TESTMODE_SUSPEND (csize (ptr_bytes cfg) T_suspendmode),
    sp_suspend = word_of_int ((case drop 15 cmd of [] \<Rightarrow> 0 | c # _ \<Rightarrow> char_val c) - 48)\<rparr>"
  have "cast_ok (Suspendmode p (de_pad env)) No_Obj" by (rule cast_ok_builders) (simp add: p_def)
  then obtain ret d ob e where "tm (Suspendmode p (de_pad env)) No_Obj = Done (ret, d, ob, e)"
    using tm_safe [of "Suspendmode p (de_pad env)" No_Obj] assms(1) by (cases "tm (Suspendmode p (de_pad env)) No_Obj") auto
  then show ?thesis
    by (simp add: run_suspend_def Let_def p_def assms(2) finish_def ok_private)
qed

lemma ok_sw:
  assumes "de_tm env = tm"
  shows "ok (bindC (sw_cmd cfg env (start_run st cmd buf) a d) (finish env))"
    "ok (bindC (sw_cmd_arg cfg env (start_run st cmd buf) n a d) (finish env))"
    "ok (bindC (run_scan_loading cfg env (start_run st cmd buf)) (finish env))"
proof -
  show sw: "ok (bindC (sw_cmd cfg env (start_run st cmd buf) a d) (finish env))" for a d
    by (simp add: sw_cmd_def finish_returning assms ok_sw_cmd)
  show "ok (bindC (sw_cmd_arg cfg env (start_run st cmd buf) n a d) (finish env))"
    using sw by (auto simp: sw_cmd_arg_def finish_def split: option.split)
  show "ok (bindC (run_scan_loading cfg env (start_run st cmd buf)) (finish env))"
    by (simp add: run_scan_loading_def sw_cmd_def returning_def assms bindC_assoc)
      (rule safe_bindI [OF ok_sw_cmd], auto simp: finish_def)
qed

lemma entered_ok:
  assumes "entered env" "\<not> (on_ap0 env \<and> uses_wpa_s cfg env cmd)" "de_tm env = tm" "\<And>d ob. tm d ob \<noteq> Blocked"
    and "de_past env = Done b" "wfd_src_wf (de_wfd env buf)"
  shows "ok (wpa_driver_nl80211_driver_cmd cfg env st cmd buf) \<longleftrightarrow> command_ok cfg env st cmd buf"
proof -
  note trans = ok_sw [OF assms(3)] ok_beamplus [OF assms(4,3)] ok_suspend [OF assms(4,3)]
  note lib = ok_opps ok_sleep ok_power_save ok_wapi ok_wfd [OF assms(6)] ok_statistics ok_link block_safe
  note here = ok_miracast ok_use_mcc ok_country ok_get_cap ok_set_cap ok_mcc ok_plain ok_stop ok_scan_cache
  note wpa_s = with_wpa_s_eq uses_wpa_s_def wpa_s_commands_def
  show ?thesis
    using assms(2) unfolding entered_finish [OF assms(1)] command_ok_def
    by (cases "classify cfg cmd")
      (simp_all add: wpa_s finish_returning finish_reporting trans lib here assms(3,5) ok_ok_or_minus_1,
       simp_all add: finish_def ok_private os_strchr_def)
qed

lemma driver_cmd_ok:
  assumes "de_tm env = tm" "\<And>d ob. tm d ob \<noteq> Blocked" "de_past env = Done b" "wfd_src_wf (de_wfd env buf)"
  shows "ok (wpa_driver_nl80211_driver_cmd cfg env st cmd buf) \<longleftrightarrow> call_ok cfg env st cmd buf"
proof (cases "entered env \<and> \<not> (on_ap0 env \<and> uses_wpa_s cfg env cmd)")
  case True
  then show ?thesis using entered_ok [OF _ _ assms] by (auto simp: call_ok_def)
next
  case False
  then show ?thesis
    by (cases "entered env") (simp_all add: call_ok_def not_entered entered_finish uses_wpa_s_undefined)
qed

end

section \<open>Returning\<close>

lemma bindC_Blocked: "bindC m f = Blocked \<longleftrightarrow> m = Blocked \<or> (\<exists>x. m = Done x \<and> f x = Blocked)"
  by (cases m) simp_all

definition returns_always :: "testmode_fn \<Rightarrow> bool" where
  "returns_always tm \<longleftrightarrow> (\<forall>d ob. tm d ob \<noteq> Blocked)"

lemma replies_return: "replies tenv ms fin \<Longrightarrow> returns_always (wpa_driver_nl80211_testmode cfg tenv)"
  unfolding returns_always_def wpa_driver_nl80211_testmode_def
  by (auto simp: replies_run Let_def split: testmode_data.split out_obj.split)

lemma request_returns:
  assumes "returns_always tm"
  shows "wpa_driver_nl80211_driver_sw_cmd cfg tm s a v \<noteq> Blocked" "wpa_driver_hotspot_block_list_update cfg tm b n \<noteq> Blocked"
    "wpas_driver_get_beamplus_go_ready cfg tm \<noteq> Blocked" "wpas_driver_set_beamplus cfg tm w \<noteq> Blocked"
    "wpas_get_sta_statistics cfg tm x sp st \<noteq> Blocked" "wpas_get_sta_link_detect cfg tm sp ld \<noteq> Blocked"
    "wpas_p2p_sigma_test_mode cfg tm i j \<noteq> Blocked"
  using assms
  by (auto simp: returns_always_def bindC_Blocked Let_def wpa_driver_nl80211_driver_sw_cmd_def
      wpa_driver_hotspot_block_list_update_def wpas_driver_get_beamplus_go_ready_def wpas_driver_set_beamplus_def
      wpas_get_sta_statistics_def wpas_get_sta_link_detect_def wpas_p2p_sigma_test_mode_def
      split: testmode_data.splits out_obj.splits)

lemma memcpy_returns: "memcpy_arr a b n \<noteq> Blocked"
  by (simp add: memcpy_arr_def)

lemma builder_returns:
  assumes "returns_always tm"
  shows "wpa_driver_sta_block cfg tm aton c \<noteq> Blocked" "wpa_driver_sta_unblock cfg tm aton c \<noteq> Blocked"
    "wpa_driver_nl80211_set_wapi_key cfg tm k \<noteq> Blocked" "wpas_wfd_data_update cfg tm n w \<noteq> Blocked"
    "p2p_ctrl_iface_set_opps cfg tm aton c \<noteq> Blocked" "p2p_ctrl_iface_set_power_save cfg tm c \<noteq> Blocked"
    "p2p_ctrl_iface_set_sleep cfg tm aton c \<noteq> Blocked"
proof -
  have tm: "tm d ob \<noteq> Blocked" for d ob using assms by (simp add: returns_always_def)
  show "wpa_driver_nl80211_set_wapi_key cfg tm k \<noteq> Blocked"
    by (auto simp: wpa_driver_nl80211_set_wapi_key_def wapi_key_bytes_cases wapi_seq_bytes_cases bindC_Blocked Let_def tm
        split: if_splits option.splits)
  show "wpas_wfd_data_update cfg tm n w \<noteq> Blocked"
    unfolding wpas_wfd_data_update_def Let_def by (auto simp: bindC_Blocked memcpy_returns tm)
qed (use request_returns [OF assms] in \<open>auto simp: wpa_driver_sta_block_def wpa_driver_sta_unblock_def p2p_ctrl_iface_set_opps_def
    p2p_ctrl_iface_set_power_save_def p2p_ctrl_iface_set_sleep_def cut_at_blank_def Let_def bindC_Blocked split: option.splits\<close>)

lemma query_returns:
  assumes "returns_always tm"
  shows "wpa_driver_get_sta_statistics cfg tm aton (Done b) sp st a buf \<noteq> Blocked"
    "wpa_driver_get_sta_link_detect cfg tm sp ld buf \<noteq> Blocked"
  using request_returns [OF assms]
  by (auto simp: wpa_driver_get_sta_statistics_def wpa_driver_get_sta_link_detect_def print_sta_statistics_report bindC_Blocked
      split: option.splits if_splits prod.splits)

lemma run_returns:
  assumes "returns_always (de_tm env)"
  shows "sw_cmd cfg env r a v \<noteq> Blocked" "sw_cmd_arg cfg env r n a v \<noteq> Blocked" "run_miracast cfg env r \<noteq> Blocked"
    "run_use_mcc cfg env r \<noteq> Blocked" "run_mcc cfg env r \<noteq> Blocked" "run_scan_cache cfg env r \<noteq> Blocked"
    "run_get_beamplus cfg env r \<noteq> Blocked" "run_set_beamplus cfg env r \<noteq> Blocked" "run_scan_loading cfg env r \<noteq> Blocked"
    "run_suspend cfg env r \<noteq> Blocked" "run_macaddr env r \<noteq> Blocked" "run_country cfg env r \<noteq> Blocked"
    "run_start env r \<noteq> Blocked" "run_stop env r \<noteq> Blocked" "run_get_cap r \<noteq> Blocked" "run_set_cap cfg r \<noteq> Blocked"
    "private_command env r \<noteq> Blocked"
proof -
  have tm: "de_tm env d ob \<noteq> Blocked" for d ob using assms by (simp add: returns_always_def)
  note r = request_returns [OF assms]
  show sw: "sw_cmd cfg env r a v \<noteq> Blocked" for a v using r by (auto simp: sw_cmd_def returning_def bindC_Blocked)
  show "sw_cmd_arg cfg env r n a v \<noteq> Blocked" using sw by (auto simp: sw_cmd_arg_def split: option.split)
  show "run_scan_loading cfg env r \<noteq> Blocked" using sw by (auto simp: run_scan_loading_def bindC_Blocked)
  show "run_miracast cfg env r \<noteq> Blocked" "run_use_mcc cfg env r \<noteq> Blocked"
    by (auto simp: run_miracast_def run_use_mcc_def on_state_def bindC_Blocked config_scc_not_Blocked Let_def
        split: option.splits if_splits)
  show "run_suspend cfg env r \<noteq> Blocked" by (auto simp: run_suspend_def Let_def bindC_Blocked tm)
qed (use request_returns [OF assms] in \<open>auto simp: run_mcc_def run_scan_cache_def run_get_beamplus_def run_set_beamplus_def
    run_macaddr_def run_country_def run_start_def run_stop_def run_get_cap_def run_set_cap_def private_command_def
    wpa_driver_mediatek_set_country_def strlen_buf_def with_wpa_s_def Let_def bindC_Blocked
    split: option.splits if_splits prod.splits\<close>)

lemma wrapper_returns:
  "m \<noteq> Blocked \<Longrightarrow> returning r m \<noteq> Blocked" "m' \<noteq> Blocked \<Longrightarrow> reporting r m' \<noteq> Blocked"
  "m \<noteq> Blocked \<Longrightarrow> ok_or_minus_1 m \<noteq> Blocked" "m'' \<noteq> Blocked \<Longrightarrow> with_wpa_s env m'' \<noteq> Blocked"
  by (auto simp: returning_def reporting_def ok_or_minus_1_def with_wpa_s_def bindC_Blocked)

lemma driver_cmd_returns:
  assumes "returns_always (de_tm env)" "de_past env = Done b"
  shows "wpa_driver_nl80211_driver_cmd cfg env st cmd buf \<noteq> Blocked"
proof -
  note all = run_returns [OF assms(1)] builder_returns [OF assms(1)] query_returns [OF assms(1)] wrapper_returns
  have "run_command cfg env r c \<noteq> Blocked" for r c
    by (cases c) (simp_all add: all assms(2))
  then show ?thesis
    using run_returns(17) [OF assms(1)] by (auto simp: wpa_driver_nl80211_driver_cmd_def Let_def bindC_Blocked)
qed

end
