(* ===== verification/Driver_Paths.thy ===== *)
theory Driver_Paths
  imports Driver_Proofs
begin

text \<open>
  Infinite runs of the command interpreter: a run is a sequence of states in which each follows from the one before by a
  command or by the expiry of a timeout (\<open>drv_step\<close>). What a single step does to the counter of consecutive failures
  decides what happens to it in the long run.
\<close>

section \<open>The failure counter in one step\<close>

text \<open>A command for the kernel driver that the kernel refuses.\<close>

inductive failing_step :: "config \<Rightarrow> int \<Rightarrow> drv_state \<Rightarrow> drv_state \<Rightarrow> bool" for cfg max_errors where
  refused: "station env \<Longrightarrow> de_max_errors env = max_errors \<Longrightarrow> classify cfg cmd = UNSUPPORTED \<Longrightarrow>
    fst (de_ioctl env (take IFNAMSIZ (de_ifname env)) (cmd @ CHR 0x00 # drop (Suc (length cmd)) buf)) < 0 \<Longrightarrow>
    wpa_driver_nl80211_driver_cmd cfg env st cmd buf = Done r \<Longrightarrow> failing_step cfg max_errors st (ru_st r)"

lemma refused_counts:
  assumes "private_command env r = Done r'"
    and "fst (de_ioctl env (take IFNAMSIZ (de_ifname env)) (ru_cmd r @ CHR 0x00 # drop (Suc (length (ru_cmd r))) (ru_buf r))) < 0"
  shows "ru_st r' = (ru_st r)\<lparr>st_drv_errors := wpa_driver_send_hang_msg (de_max_errors env) (st_drv_errors (ru_st r))\<rparr>"
  using assms by (auto simp: private_command_def write_at_def Let_def split: if_splits prod.splits)

lemma failing_step_counts:
  "failing_step cfg m st st' \<Longrightarrow> st_drv_errors st' = wpa_driver_send_hang_msg m (st_drv_errors st)"
  by (cases rule: failing_step.cases, assumption) (auto simp: station_run dest!: refused_counts)

lemma driver_cmd_counts:
  assumes "wpa_driver_nl80211_driver_cmd cfg env st cmd buf = Done r"
  shows "st_drv_errors (ru_st r) \<in> {st_drv_errors st, 0, wpa_driver_send_hang_msg (de_max_errors env) (st_drv_errors st)}"
proof -
  have run: "st_drv_errors (ru_st r1) = st_drv_errors st" if "run_command cfg env (start_run st cmd buf) (classify cfg cmd) = Done r1" for r1
    using keeps_run_command [of "start_run st cmd buf" cfg env "classify cfg cmd"] that by (simp add: keeps_def)
  show ?thesis
    using assms run private_command_st [of env]
    by (fastforce simp: wpa_driver_nl80211_driver_cmd_def Let_def bindC_Done_iff split: if_splits)
qed

lemma drv_step_counts:
  "drv_step cfg m st st' \<Longrightarrow> st_drv_errors st' \<in> {st_drv_errors st, 0, wpa_driver_send_hang_msg m (st_drv_errors st)}"
  by (cases rule: drv_stepE, assumption)
    (use driver_cmd_counts in \<open>blast, simp add: wpa_driver_nl80211_scan_loading_timeout_def\<close>)

lemma hang_msg_not_0: "wpa_driver_send_hang_msg m e \<noteq> 0 \<Longrightarrow> wpa_driver_send_hang_msg m e = e + 1 \<and> e < m"
  by (auto simp: wpa_driver_send_hang_msg_def Let_def split: if_splits)

section \<open>The failure counter in the long run\<close>

text \<open>A run in which the counter is not reset from a point on: it never falls there, and a refused command raises it.\<close>

definition unreset_run :: "config \<Rightarrow> int \<Rightarrow> (nat \<Rightarrow> drv_state) \<Rightarrow> nat \<Rightarrow> bool" where
  "unreset_run cfg m p n \<longleftrightarrow> (\<forall>i. drv_step cfg m (p i) (p (Suc i))) \<and> (\<forall>i\<ge>n. st_drv_errors (p i) \<noteq> 0)"

lemma counter_mono:
  assumes "unreset_run cfg m p n" "n \<le> i" "i \<le> j"
  shows "st_drv_errors (p i) \<le> st_drv_errors (p j)"
  using assms(3)
proof (induction j rule: dec_induct)
  case (step j)
  have "drv_step cfg m (p j) (p (Suc j))" "st_drv_errors (p (Suc j)) \<noteq> 0"
    using assms(1,2) step(1) by (simp_all add: unreset_run_def)
  then show ?case
    using drv_step_counts [of cfg m "p j"] hang_msg_not_0 [of m "st_drv_errors (p j)"] step(3) by fastforce
qed simp

lemma counter_rises:
  assumes "unreset_run cfg m p n" "n \<le> i" "failing_step cfg m (p i) (p (Suc i))"
  shows "st_drv_errors (p (Suc i)) = st_drv_errors (p i) + 1 \<and> st_drv_errors (p i) < m"
proof -
  have "st_drv_errors (p (Suc i)) \<noteq> 0" using assms(1,2) by (simp add: unreset_run_def)
  then show ?thesis
    using failing_step_counts [OF assms(3)] hang_msg_not_0 [of m "st_drv_errors (p i)"] by simp
qed

lemma counter_unbounded:
  assumes run: "unreset_run cfg m p n" and fail: "\<forall>i. \<exists>j\<ge>i. failing_step cfg m (p j) (p (Suc j))"
  shows "\<exists>j\<ge>n. st_drv_errors (p n) + int k \<le> st_drv_errors (p j)"
proof (induction k)
  case (Suc k)
  then obtain j where j: "n \<le> j" "st_drv_errors (p n) + int k \<le> st_drv_errors (p j)" by blast
  obtain i where i: "j \<le> i" "failing_step cfg m (p i) (p (Suc i))" using fail by blast
  then have "st_drv_errors (p j) < st_drv_errors (p (Suc i))"
    using counter_mono [OF run j(1) i(1)] counter_rises [OF run _ i(2)] j(1) by auto
  then show ?case using i(1) j by (intro exI [of _ "Suc i"]) auto
qed auto

text \<open>C5. The failure counter does not get stuck: in every infinite run of commands and timeouts in which the kernel
  refuses infinitely many commands, whatever else happens in between, the counter is 0 infinitely often, so each burst
  of failures that the library would report as a hang comes to its end.\<close>

theorem failure_counter_recurs:
  assumes "\<forall>i. drv_step cfg max_errors (p i) (p (Suc i))"
    and "\<forall>i. \<exists>j\<ge>i. failing_step cfg max_errors (p j) (p (Suc j))"
  shows "\<forall>i. \<exists>j\<ge>i. st_drv_errors (p j) = 0"
proof (rule ccontr)
  assume "\<not> ?thesis"
  then obtain n where run: "unreset_run cfg max_errors p n" using assms(1) unfolding unreset_run_def by blast
  have "max_errors \<le> st_drv_errors (p n) + int (nat (max_errors - st_drv_errors (p n)))" by simp
  then obtain j where j: "n \<le> j" "max_errors \<le> st_drv_errors (p j)"
    using counter_unbounded [OF run assms(2), of "nat (max_errors - st_drv_errors (p n))"] order_trans by blast
  obtain i where i: "j \<le> i" "failing_step cfg max_errors (p i) (p (Suc i))" using assms(2) by blast
  then show False
    using counter_mono [OF run j(1) i(1)] counter_rises [OF run _ i(2)] j by auto
qed

text \<open>The run in which every command is refused: with a limit of four the counter goes round through five values.\<close>

definition refused_run :: "nat \<Rightarrow> drv_state" where
  "refused_run i = sample_state\<lparr>st_drv_errors := int (i mod 5)\<rparr>"

lemma refused_run_step:
  "\<exists>r. wpa_driver_nl80211_driver_cmd sample_config sample_drv_env (refused_run i) ''foo'' ''01234567'' = Done r \<and>
    ru_st r = refused_run (Suc i)"
proof -
  have "(if 4 < int (i mod 5) + 1 then 0 else int (i mod 5) + 1) = int (Suc i mod 5)"
    by (auto simp: mod_Suc)
  then show ?thesis
    by (simp add: station_run [OF sample_station] sample_unsupported private_command_def wpa_driver_send_hang_msg_def Let_def
        refused_run_def)
qed

theorem failure_counter_recurs_witness: "\<forall>i. \<exists>j\<ge>i. st_drv_errors (refused_run j) = 0"
proof (rule failure_counter_recurs [where cfg = sample_config and max_errors = 4])
  have step: "drv_step sample_config 4 (refused_run i) (refused_run (Suc i)) \<and>
      failing_step sample_config 4 (refused_run i) (refused_run (Suc i))" for i
  proof -
    obtain r where r: "wpa_driver_nl80211_driver_cmd sample_config sample_drv_env (refused_run i) ''foo'' ''01234567'' = Done r"
      "ru_st r = refused_run (Suc i)"
      using refused_run_step by blast
    show ?thesis
      using drv_step.command [OF _ r(1), of 4] failing_step.refused [OF sample_station _ sample_unsupported _ r(1), of 4] r(2)
      by simp
  qed
  show "\<forall>i. drv_step sample_config 4 (refused_run i) (refused_run (Suc i))" using step by blast
  show "\<forall>i. \<exists>j\<ge>i. failing_step sample_config 4 (refused_run j) (refused_run (Suc j))" using step by blast
qed

end
