(* ===== verification/Mrdump.thy ===== *)
theory Mrdump
  imports C_Prelude
begin

text \<open>
  The RAM dump status library and its command line tool (\<open>mrdump/mrdump_status.c\<close>, \<open>mrdump_user.h\<close> and
  \<open>mrdump_tool.c\<close>): a control block near the end of the \<open>expdb\<close> partition holds a signature, a status text and a log.
  Block devices are byte arrays; what the kernel may refuse is part of the device.
\<close>

abbreviation (input) NUL :: char where "NUL \<equiv> CHR 0x00"

section \<open>Devices\<close>

text \<open>
  A device that can be opened: its bytes, the answers of \<open>BLKGETSIZE64\<close> and \<open>BLKSSZGET\<close>, and how many bytes a
  \<open>read\<close> or \<open>write\<close> transfers at most (fewer than asked for is an I/O error in the middle).
\<close>

record blkdev =
  bd_data :: string
  bd_size64 :: "u64 option"
  bd_ssz :: "u32 option"
  bd_read_cap :: nat
  bd_write_cap :: nat

type_synonym mr_world = "string \<rightharpoonup> blkdev"

datatype mr_eff = Opened string | Closed string

definition lseek64 :: "u64 \<Rightarrow> nat option" where
  "lseek64 off = (if sint off < 0 then None else Some (unat off))"

definition dev_read :: "blkdev \<Rightarrow> nat \<Rightarrow> nat \<Rightarrow> string" where
  "dev_read d pos n = take (min n (bd_read_cap d)) (drop pos (bd_data d))"

definition dev_write :: "blkdev \<Rightarrow> nat \<Rightarrow> string \<Rightarrow> nat \<times> blkdev" where
  "dev_write d pos bs =
     (let n = min (length bs) (min (bd_write_cap d) (length (bd_data d) - pos))
      in (n, if n = 0 then d else d\<lparr>bd_data := write_at (bd_data d) pos (take n bs)\<rparr>))"

section \<open>Library\<close>

definition expdb_devs :: "string list" where
  "expdb_devs = [''/dev/block/platform/mtk-msdc.0/11230000.msdc0/by-name/expdb'',
                 ''/dev/block/platform/mtk-msdc.0/11230000.MSDC0/by-name/expdb'']"

definition MRDUMP_OFFSET :: u64 where "MRDUMP_OFFSET = 3145728"
definition MRDUMP_SIG :: string where "MRDUMP_SIG = ''MRDUMP04''"

record mrdump_cblock =
  cb_sig :: string
  cb_status :: string
  cb_log_buf :: string

abbreviation (input) CBLOCK_SIZE :: nat where "CBLOCK_SIZE \<equiv> 2185"

definition cblock_of_bytes :: "string \<Rightarrow> mrdump_cblock" where
  "cblock_of_bytes b = \<lparr>cb_sig = take 9 b, cb_status = take 128 (drop 9 b), cb_log_buf = take 2048 (drop 137 b)\<rparr>"

definition bytes_of_cblock :: "mrdump_cblock \<Rightarrow> string" where
  "bytes_of_cblock c = cb_sig c @ cb_status c @ cb_log_buf c"

text \<open>The descriptor is named by the path it was opened with.\<close>

record partinfo =
  pi_fd :: string
  pi_size :: u64
  pi_blksize :: u32

text \<open>The loop of \<open>expdb_open\<close>: only a failed \<open>open\<close> tries the next path.\<close>

fun expdb_open_loop :: "mr_world \<Rightarrow> string list \<Rightarrow> partinfo option \<times> mr_eff list" where
  "expdb_open_loop w [] = (None, [])"
| "expdb_open_loop w (dev # devs) =
     (case w dev of
        None \<Rightarrow> expdb_open_loop w devs
      | Some d \<Rightarrow>
          (case (bd_size64 d, bd_ssz d) of
             (Some part_size, Some part_blksize) \<Rightarrow>
               (Some \<lparr>pi_fd = dev, pi_size = part_size, pi_blksize = part_blksize\<rparr>, [Opened dev])
           | _ \<Rightarrow> (None, [Opened dev, Closed dev])))"

definition expdb_open :: "mr_world \<Rightarrow> partinfo option \<times> mr_eff list" where
  "expdb_open w = expdb_open_loop w expdb_devs"

text \<open>The version file, if it can be opened; \<open>fgets\<close> fails only at the end of the file.\<close>

definition mrdump_is_supported :: "string option \<Rightarrow> int" where
  "mrdump_is_supported version = (case version of None \<Rightarrow> 0 | Some text \<Rightarrow> if text \<noteq> [] then 1 else 0)"

definition status_clear_text :: string where
  "status_clear_text = ''CLEAR'' @ replicate 123 NUL"

definition mrdump_status_clear :: "mr_world \<Rightarrow> bool \<times> mr_world \<times> mr_eff list" where
  "mrdump_status_clear w =
     (case expdb_open w of
        (None, e) \<Rightarrow> (False, w, e)
      | (Some p, e) \<Rightarrow>
          let fd = pi_fd p; e' = e @ [Closed fd] in
          (case (w fd, lseek64 (pi_size p - MRDUMP_OFFSET)) of
             (Some d, Some pos) \<Rightarrow>
               let blk = dev_read d pos CBLOCK_SIZE in
               if length blk \<noteq> CBLOCK_SIZE then (False, w, e')
               else
                 let c = (cblock_of_bytes blk)\<lparr>cb_status := status_clear_text\<rparr> in
                 (case dev_write d pos (bytes_of_cblock c) of
                    (n, d') \<Rightarrow> (n = CBLOCK_SIZE, w(fd \<mapsto> d'), e'))
           | _ \<Rightarrow> (False, w, e')))"

subsection \<open>Reading the status\<close>

datatype mrdump_status = MRDUMP_STATUS_NONE | MRDUMP_STATUS_FAILED | MRDUMP_STATUS_OK

datatype mrdump_output =
    MRDUMP_OUTPUT_NULL | MRDUMP_OUTPUT_USB | MRDUMP_OUTPUT_EXT4_DATA | MRDUMP_OUTPUT_VFAT_INT_STORAGE

text \<open>The character arrays of the result are kept as the strings in them.\<close>

record mrdump_status_result =
  mr_struct_size :: u32
  mr_status :: mrdump_status
  mr_output :: mrdump_output
  mr_mode :: string
  mr_status_line :: string
  mr_log_buf :: string

definition result_init :: mrdump_status_result where
  "result_init = \<lparr>mr_struct_size = 2220, mr_status = MRDUMP_STATUS_NONE, mr_output = MRDUMP_OUTPUT_NULL, mr_mode = [],
     mr_status_line = [], mr_log_buf = []\<rparr>"

text \<open>The string at the front of an array.\<close>

definition arr_str :: "string \<Rightarrow> string" where
  "arr_str a = takeWhile (\<lambda>c. c \<noteq> NUL) a"

text \<open>
  \<open>strlcpy\<close> from memory: at most \<open>n - 1\<close> characters are kept, but the source is read up to its NUL, which has to
  be there.
\<close>

definition strlcpy_mem :: "string \<Rightarrow> nat \<Rightarrow> string outcome" where
  "strlcpy_mem mem n = (if NUL \<in> set mem then Done (take (n - 1) (arr_str mem)) else Undef Out_Of_Bounds)"

text \<open>\<open>strtok_r\<close> with one delimiter: the next token and what \<open>saveptr\<close> points at.\<close>

definition strtok_r :: "char \<Rightarrow> string \<Rightarrow> (string \<times> string) option" where
  "strtok_r d s =
     (case dropWhile (\<lambda>c. c = d) s of
        [] \<Rightarrow> None
      | t \<Rightarrow> Some (takeWhile (\<lambda>c. c \<noteq> d) t, drop 1 (dropWhile (\<lambda>c. c \<noteq> d) t)))"

lemma strtok_r_shorter: "strtok_r d s = Some (t, r) \<Longrightarrow> length r < length s"
proof -
  assume "strtok_r d s = Some (t, r)"
  then obtain x xs where x: "dropWhile (\<lambda>c. c = d) s = x # xs" "r = drop 1 (dropWhile (\<lambda>c. c \<noteq> d) (x # xs))"
    by (auto simp: strtok_r_def split: list.splits)
  have "length r \<le> length xs"
    using x(2) length_dropWhile_le [of "\<lambda>c. c \<noteq> d" "x # xs"] by simp
  moreover have "length (x # xs) \<le> length s" using length_dropWhile_le [of "\<lambda>c. c = d" s] x(1) by simp
  ultimately show ?thesis by simp
qed

text \<open>One line of a status that begins with \<open>OK\<close>; \<^const>\<open>None\<close> is the return of false.\<close>

definition status_ok_line :: "string \<Rightarrow> mrdump_status_result \<Rightarrow> mrdump_status_result option" where
  "status_ok_line strval result =
     (if os_strncmp strval ''OUTPUT:'' 7 = 0 then
        (if os_strcmp (drop 7 strval) ''EXT4_DATA'' = 0 then Some (result\<lparr>mr_output := MRDUMP_OUTPUT_EXT4_DATA\<rparr>)
         else if os_strcmp (drop 7 strval) ''VFAT_INT_STORAGE'' = 0
           then Some (result\<lparr>mr_output := MRDUMP_OUTPUT_VFAT_INT_STORAGE\<rparr>)
         else None)
      else if os_strncmp strval ''MODE:'' 5 = 0 then Some (result\<lparr>mr_mode := take 31 (drop 5 strval)\<rparr>)
      else Some result)"

text \<open>The loop over the lines that follow; the flag says whether it ran to the end.\<close>

function status_ok_lines :: "string \<Rightarrow> mrdump_status_result \<Rightarrow> bool \<times> mrdump_status_result" where
  "status_ok_lines saveptr result =
     (case strtok_r NL saveptr of
        None \<Rightarrow> (True, result)
      | Some (strval, saveptr') \<Rightarrow>
          (case status_ok_line strval result of
             None \<Rightarrow> (False, result)
           | Some result' \<Rightarrow> status_ok_lines saveptr' result'))"
  by pat_completeness auto
termination
  by (relation "measure (length \<circ> fst)") (auto dest: strtok_r_shorter)

declare status_ok_lines.simps [simp del]

definition parse_status :: "string \<Rightarrow> mrdump_status_result \<Rightarrow> bool \<times> mrdump_status_result" where
  "parse_status status result =
     (case strtok_r NL status of
        None \<Rightarrow> (False, result)
      | Some (strval, saveptr) \<Rightarrow>
          if os_strcmp strval ''OK'' = 0 then
            status_ok_lines saveptr (result\<lparr>mr_status := MRDUMP_STATUS_OK, mr_output := MRDUMP_OUTPUT_NULL\<rparr>)
          else if os_strcmp strval ''NONE'' = 0 then (True, result\<lparr>mr_status := MRDUMP_STATUS_NONE\<rparr>)
          else if os_strcmp strval ''CLEAR'' = 0 then (True, result\<lparr>mr_status := MRDUMP_STATUS_NONE\<rparr>)
          else (True, result\<lparr>mr_status := MRDUMP_STATUS_FAILED\<rparr>))"

text \<open>
  What \<open>mrdump_status_get\<close> does with the block. The status array is followed by the log in the same packed
  structure, so a status without NUL is read on into the log.
\<close>

definition cblock_result :: "mrdump_cblock \<Rightarrow> (bool \<times> mrdump_status_result) outcome" where
  "cblock_result c =
     (if os_strcmp (arr_str (cb_sig c)) MRDUMP_SIG \<noteq> 0 then Done (False, result_init)
      else
        bindC (strlcpy_mem (cb_status c @ cb_log_buf c) 128) (\<lambda>line.
          case parse_status (arr_str ((cb_status c)[127 := NUL])) (result_init\<lparr>mr_status_line := line\<rparr>) of
            (ok, result) \<Rightarrow>
              if \<not> ok then Done (False, result)
              else bindC (strlcpy_mem (cb_log_buf c) 2048) (\<lambda>log. Done (True, result\<lparr>mr_log_buf := log\<rparr>))))"

definition mrdump_status_get :: "mr_world \<Rightarrow> (bool \<times> mrdump_status_result \<times> mr_eff list) outcome" where
  "mrdump_status_get w =
     (case expdb_open w of
        (None, e) \<Rightarrow> Done (False, result_init, e)
      | (Some p, e) \<Rightarrow>
          let fd = pi_fd p; e' = e @ [Closed fd] in
          (case (w fd, lseek64 (pi_size p - MRDUMP_OFFSET)) of
             (Some d, Some pos) \<Rightarrow>
               let blk = dev_read d pos CBLOCK_SIZE in
               if length blk \<noteq> CBLOCK_SIZE then Done (False, result_init, e')
               else bindC (cblock_result (cblock_of_bytes blk)) (\<lambda>(ok, result). Done (ok, result, e'))
           | _ \<Rightarrow> Done (False, result_init, e')))"

section \<open>Tool\<close>

definition usage :: "string \<Rightarrow> string" where
  "usage prog = ''Usage'' @ [NL] @ concat (map (\<lambda>c. [CHR 0x09] @ prog @ '' '' @ c @ [NL])
     [''is-supported'', ''status-get'', ''status-log'', ''status-clear''])"

definition output_text :: "mrdump_output \<Rightarrow> string" where
  "output_text out = (case out of
       MRDUMP_OUTPUT_NULL \<Rightarrow> ''null''
     | MRDUMP_OUTPUT_USB \<Rightarrow> ''usb''
     | MRDUMP_OUTPUT_EXT4_DATA \<Rightarrow> ''ext4/data partition''
     | MRDUMP_OUTPUT_VFAT_INT_STORAGE \<Rightarrow> ''vfat/internal partition'')"

definition dump_status_ok :: "mrdump_status_result \<Rightarrow> string" where
  "dump_status_ok result =
     ''Ok'' @ [NL] @ [CHR 0x09] @ ''Mode: '' @ mr_mode result @ [NL, CHR 0x09] @ ''Output: '' @ output_text (mr_output result) @ [NL]"

definition status_get_text :: "bool \<Rightarrow> mrdump_status_result \<Rightarrow> string" where
  "status_get_text ok result =
     (if ok then
        ''MT-RAMDUMP'' @ [NL, CHR 0x09] @ ''Status:'' @
          (case mr_status result of
             MRDUMP_STATUS_NONE \<Rightarrow> ''None'' @ [NL]
           | MRDUMP_STATUS_FAILED \<Rightarrow> ''Failed'' @ [NL]
           | MRDUMP_STATUS_OK \<Rightarrow> dump_status_ok result)
      else ''MT-RAMDUMP get status failed'' @ [NL])"

definition status_log_text :: "bool \<Rightarrow> mrdump_status_result \<Rightarrow> string" where
  "status_log_text ok result =
     (if ok then ''status line:'' @ [NL] @ mr_status_line result @ [NL] @ ''log:'' @ [NL] @ mr_log_buf result @ [NL]
      else ''MT-RAMDUMP get status failed'' @ [NL])"

text \<open>\<open>main\<close>: the exit status, what is printed, the devices and the descriptors used.\<close>

definition mrdump_tool_main ::
  "string option \<Rightarrow> mr_world \<Rightarrow> string list \<Rightarrow> (int \<times> string \<times> mr_world \<times> mr_eff list) outcome" where
  "mrdump_tool_main version w argv =
     (if length argv = 2 then
        let arg = argv ! 1 in
        if os_strcmp arg ''is-supported'' = 0 then
          Done (0, (if mrdump_is_supported version \<noteq> 0 then ''MT-RAMDUMP support ok'' else ''MT-RAMDUMP not support'') @ [NL], w, [])
        else if os_strcmp arg ''status-get'' = 0 then
          bindC (mrdump_status_get w) (\<lambda>(ok, result, e). Done (0, status_get_text ok result, w, e))
        else if os_strcmp arg ''status-log'' = 0 then
          bindC (mrdump_status_get w) (\<lambda>(ok, result, e). Done (0, status_log_text ok result, w, e))
        else if os_strcmp arg ''status-clear'' = 0 then
          (case mrdump_status_clear w of
             (ok, w', e) \<Rightarrow> Done (0, (if \<not> ok then ''MT-RAMDUMP Status clear failed'' @ [NL] else []), w', e))
        else Done (0, usage (hd argv), w, [])
      else case argv of [] \<Rightarrow> Undef Null_Deref | prog # _ \<Rightarrow> Done (0, usage prog, w, []))"

end
