(* ===== verification/Mrdump_Proofs.thy ===== *)
theory Mrdump_Proofs
  imports Mrdump
begin

text \<open>
  The status library keeps one control block: what clearing does to it and to the rest of the device, what reading
  reports, when either fails, and that no descriptor is left open. The tool is a client of the library's interface.
\<close>

section \<open>The control block as abstract state\<close>

definition cblock_wf :: "mrdump_cblock \<Rightarrow> bool" where
  "cblock_wf c \<longleftrightarrow> length (cb_sig c) = 9 \<and> length (cb_status c) = 128 \<and> length (cb_log_buf c) = 2048"

lemma cblock_of_bytes_wf: "length b = CBLOCK_SIZE \<Longrightarrow> cblock_wf (cblock_of_bytes b)"
  by (simp add: cblock_wf_def cblock_of_bytes_def)

lemma bytes_of_cblock_inverse: "cblock_wf c \<Longrightarrow> cblock_of_bytes (bytes_of_cblock c) = c"
  by (simp add: cblock_wf_def cblock_of_bytes_def bytes_of_cblock_def)

lemma length_bytes_of_cblock: "cblock_wf c \<Longrightarrow> length (bytes_of_cblock c) = CBLOCK_SIZE"
  by (simp add: cblock_wf_def bytes_of_cblock_def)

lemma length_status_clear_text [simp]: "length status_clear_text = 128"
  by (simp add: status_clear_text_def)

text \<open>Where the block is: the device opened, its content and the offset; and the block itself.\<close>

definition locate :: "mr_world \<Rightarrow> (string \<times> blkdev \<times> nat) option" where
  "locate w = (case fst (expdb_open w) of
       None \<Rightarrow> None
     | Some p \<Rightarrow> (case (w (pi_fd p), lseek64 (pi_size p - MRDUMP_OFFSET)) of
         (Some d, Some pos) \<Rightarrow> if length (dev_read d pos CBLOCK_SIZE) = CBLOCK_SIZE then Some (pi_fd p, d, pos) else None
       | _ \<Rightarrow> None))"

definition load_cblock :: "mr_world \<Rightarrow> mrdump_cblock option" where
  "load_cblock w = map_option (\<lambda>(fd, d, pos). cblock_of_bytes (dev_read d pos CBLOCK_SIZE)) (locate w)"

definition exit_effects :: "mr_world \<Rightarrow> mr_eff list" where
  "exit_effects w = (case expdb_open w of (None, e) \<Rightarrow> e | (Some p, e) \<Rightarrow> e @ [Closed (pi_fd p)])"

lemma status_clear_locate:
  "mrdump_status_clear w =
     (case locate w of
        None \<Rightarrow> (False, w, exit_effects w)
      | Some (fd, d, pos) \<Rightarrow>
          (case dev_write d pos (bytes_of_cblock ((cblock_of_bytes (dev_read d pos CBLOCK_SIZE))\<lparr>cb_status := status_clear_text\<rparr>)) of
             (n, d') \<Rightarrow> (n = CBLOCK_SIZE, w(fd \<mapsto> d'), exit_effects w)))"
  by (auto simp: mrdump_status_clear_def locate_def exit_effects_def Let_def split: prod.splits option.splits)

lemma status_get_load:
  "mrdump_status_get w =
     (case load_cblock w of
        None \<Rightarrow> Done (False, result_init, exit_effects w)
      | Some c \<Rightarrow> bindC (cblock_result c) (\<lambda>(ok, result). Done (ok, result, exit_effects w)))"
  by (auto simp: mrdump_status_get_def load_cblock_def locate_def exit_effects_def Let_def split: prod.splits option.splits)

lemma expdb_open_loop_dev:
  "expdb_open_loop w devs = (Some p, e) \<Longrightarrow>
    \<exists>d. w (pi_fd p) = Some d \<and> bd_size64 d = Some (pi_size p) \<and> bd_ssz d = Some (pi_blksize p) \<and> e = [Opened (pi_fd p)]"
  by (induction devs) (auto split: option.splits)

text \<open>Writing to the device found, without changing its answers, finds it again.\<close>

lemma expdb_open_loop_update:
  "expdb_open_loop w devs = (Some p, e) \<Longrightarrow> w (pi_fd p) = Some d \<Longrightarrow> bd_size64 d' = bd_size64 d \<Longrightarrow> bd_ssz d' = bd_ssz d \<Longrightarrow>
    expdb_open_loop (w(pi_fd p \<mapsto> d')) devs = (Some p, e)"
  by (induction devs) (auto split: option.splits)

lemma locateE:
  assumes "locate w = Some (fd, d, pos)"
  obtains p e where "expdb_open_loop w expdb_devs = (Some p, e)" "fd = pi_fd p" "w fd = Some d"
    "lseek64 (pi_size p - MRDUMP_OFFSET) = Some pos" "length (dev_read d pos CBLOCK_SIZE) = CBLOCK_SIZE"
proof (cases "expdb_open_loop w expdb_devs")
  case (Pair a e)
  then show thesis
    using assms that by (auto simp: locate_def expdb_open_def split: option.splits if_splits)
qed

lemma dev_write_keeps: "dev_write d pos bs = (n, d') \<Longrightarrow>
    bd_size64 d' = bd_size64 d \<and> bd_ssz d' = bd_ssz d \<and> bd_read_cap d' = bd_read_cap d"
  by (auto simp: dev_write_def Let_def split: if_splits)

lemma dev_write_read:
  assumes "dev_write d pos bs = (length bs, d')" "bs \<noteq> []" "length bs \<le> bd_read_cap d"
  shows "dev_read d' pos (length bs) = bs" "length (bd_data d') = length (bd_data d)"
    "take pos (bd_data d') = take pos (bd_data d)" "drop (pos + length bs) (bd_data d') = drop (pos + length bs) (bd_data d)"
proof -
  have room: "length bs \<le> length (bd_data d) - pos"
    using assms(1) by (auto simp: dev_write_def Let_def split: if_splits)
  then have "pos + length bs \<le> length (bd_data d)" using assms(2) by (cases bs) auto
  moreover have "d' = d\<lparr>bd_data := write_at (bd_data d) pos bs\<rparr>"
    using assms(1,2) by (auto simp: dev_write_def Let_def split: if_splits)
  ultimately show "dev_read d' pos (length bs) = bs" "length (bd_data d') = length (bd_data d)"
    "take pos (bd_data d') = take pos (bd_data d)" "drop (pos + length bs) (bd_data d') = drop (pos + length bs) (bd_data d)"
    using assms(3) by (simp_all add: dev_read_def write_at_def)
qed

lemma clear_block_bytes:
  "length b = CBLOCK_SIZE \<Longrightarrow> bytes_of_cblock ((cblock_of_bytes b)\<lparr>cb_status := status_clear_text\<rparr>) =
     take 9 b @ status_clear_text @ drop 137 b"
  by (simp add: bytes_of_cblock_def cblock_of_bytes_def)

lemma status_clear_success:
  assumes "mrdump_status_clear w = (True, w', e)"
  obtains fd d d' pos where "locate w = Some (fd, d, pos)" "w' = w(fd \<mapsto> d')" "locate w' = Some (fd, d', pos)"
    "bd_data d' = take (pos + 9) (bd_data d) @ status_clear_text @ drop (pos + 137) (bd_data d)"
    "dev_read d' pos CBLOCK_SIZE = take 9 (dev_read d pos CBLOCK_SIZE) @ status_clear_text @ drop 137 (dev_read d pos CBLOCK_SIZE)"
    "d' = d\<lparr>bd_data := bd_data d'\<rparr>"
proof -
  obtain fd d pos where loc: "locate w = Some (fd, d, pos)"
    using assms by (auto simp: status_clear_locate split: option.splits)
  define blk where "blk = dev_read d pos CBLOCK_SIZE"
  define bs where "bs = take 9 blk @ status_clear_text @ drop 137 blk"
  obtain p e where p: "expdb_open_loop w expdb_devs = (Some p, e)" "fd = pi_fd p" "w fd = Some d"
    "lseek64 (pi_size p - MRDUMP_OFFSET) = Some pos" "length blk = CBLOCK_SIZE"
    using locateE [OF loc] unfolding blk_def by metis
  note len = p(5)
  have lbs: "length bs = CBLOCK_SIZE" using len by (simp add: bs_def)
  obtain d' where wr: "dev_write d pos bs = (CBLOCK_SIZE, d')" "w' = w(fd \<mapsto> d')"
    using assms clear_block_bytes [OF len] by (auto simp: status_clear_locate loc blk_def [symmetric] bs_def split: prod.splits)
  have cap: "CBLOCK_SIZE \<le> bd_read_cap d" using len by (simp add: blk_def dev_read_def)
  have ne: "bs \<noteq> []" using lbs by auto
  note rd = dev_write_read [OF _ ne, of d pos d', unfolded lbs, OF wr(1) cap]
  have all: "expdb_open_loop w' expdb_devs = (Some p, e)"
    using expdb_open_loop_update [OF p(1)] p(2,3) dev_write_keeps [OF wr(1)] wr(2) by simp
  have data: "bd_data d = take pos (bd_data d) @ blk @ drop (pos + CBLOCK_SIZE) (bd_data d)"
    using len by (simp add: blk_def dev_read_def min_def split: if_splits)
      (metis append_take_drop_id drop_drop add.commute)
  have data': "bd_data d' = take pos (bd_data d) @ bs @ drop (pos + CBLOCK_SIZE) (bd_data d)"
    using wr(1) lbs ne by (auto simp: dev_write_def write_at_def Let_def split: if_splits)
  have lpos: "length (take pos (bd_data d)) = pos" using len by (simp add: blk_def dev_read_def)
  have cut: "take (pos + 9) (bd_data d) = take pos (bd_data d) @ take 9 blk"
    "drop (pos + 137) (bd_data d) = drop 137 blk @ drop (pos + CBLOCK_SIZE) (bd_data d)"
    using len lpos by (subst data, simp)+
  show thesis
  proof (rule that [of fd d pos d'])
    show "locate w' = Some (fd, d', pos)"
      using all p wr(2) rd(1) lbs by (simp add: locate_def expdb_open_def)
    show "d' = d\<lparr>bd_data := bd_data d'\<rparr>"
      using wr(1) by (auto simp: dev_write_def Let_def split: if_splits)
    show "bd_data d' = take (pos + 9) (bd_data d) @ status_clear_text @ drop (pos + 137) (bd_data d)"
      by (simp add: data' bs_def cut)
  qed (use loc wr rd in \<open>simp_all add: bs_def blk_def\<close>)
qed

lemma status_clear_load:
  assumes "mrdump_status_clear w = (True, w', e)"
  obtains c where "load_cblock w = Some c" "load_cblock w' = Some (c\<lparr>cb_status := status_clear_text\<rparr>)"
proof -
  obtain fd d d' pos where l: "locate w = Some (fd, d, pos)" "locate w' = Some (fd, d', pos)"
    "dev_read d' pos CBLOCK_SIZE = take 9 (dev_read d pos CBLOCK_SIZE) @ status_clear_text @ drop 137 (dev_read d pos CBLOCK_SIZE)"
    using status_clear_success [OF assms] by metis
  have "length (dev_read d pos CBLOCK_SIZE) = CBLOCK_SIZE" using locateE [OF l(1)] by metis
  then show thesis
    using that l by (simp add: load_cblock_def cblock_of_bytes_def)
qed

section \<open>Reading the status\<close>

lemmas strcmp_lits = os_strcmp_def os_strncmp_def char_val_def

lemma strtok_r_line:
  assumes "l \<noteq> []" "NL \<notin> set l"
  shows "strtok_r NL (l @ NL # r) = Some (l, r)" "strtok_r NL l = Some (l, [])"
proof -
  have no: "\<And>x. x \<in> set l \<Longrightarrow> x \<noteq> NL" using assms(2) by auto
  obtain x xs where l: "l = x # xs" "x \<noteq> NL" using assms no by (cases l) auto
  have "takeWhile (\<lambda>c. c \<noteq> NL) (l @ NL # r) = l" "dropWhile (\<lambda>c. c \<noteq> NL) (l @ NL # r) = NL # r"
    using no by (simp_all add: takeWhile_append2 dropWhile_append2)
  then show "strtok_r NL (l @ NL # r) = Some (l, r)" using l by (simp add: strtok_r_def)
  have "takeWhile (\<lambda>c. c \<noteq> NL) l = l" "dropWhile (\<lambda>c. c \<noteq> NL) l = []"
    using no by (simp_all only: takeWhile_eq_all_conv dropWhile_eq_Nil_conv) blast+
  then show "strtok_r NL l = Some (l, [])" using l by (simp add: strtok_r_def del: dropWhile_eq_Nil_conv)
qed

lemma strtok_r_end: "strtok_r NL [] = None"
  by (simp add: strtok_r_def)

lemma arr_str_clear: "arr_str (status_clear_text @ r) = ''CLEAR''" "arr_str (status_clear_text[127 := NUL]) = ''CLEAR''"
proof -
  have "replicate (Suc 122) NUL = NUL # replicate 122 NUL" by (rule replicate_Suc)
  moreover have "Suc 122 = 123" by simp
  ultimately have rep: "replicate 123 NUL = NUL # replicate 122 NUL" by metis
  show c: "arr_str (status_clear_text @ r) = ''CLEAR''" for r
    by (simp add: arr_str_def status_clear_text_def rep)
  have "status_clear_text ! 127 = NUL" by (simp add: status_clear_text_def nth_append)
  then have "status_clear_text[127 := NUL] = status_clear_text" by (metis list_update_id)
  then show "arr_str (status_clear_text[127 := NUL]) = ''CLEAR''" using c [of "[]"] by simp
qed

lemma parse_clear: "parse_status ''CLEAR'' r = (True, r\<lparr>mr_status := MRDUMP_STATUS_NONE\<rparr>)"
  by (simp add: parse_status_def strtok_r_line strcmp_lits)

lemma cblock_result_clear:
  assumes "cblock_result c = Done (True, r)"
  shows "cblock_result (c\<lparr>cb_status := status_clear_text\<rparr>) =
    Done (True, result_init\<lparr>mr_status := MRDUMP_STATUS_NONE, mr_status_line := ''CLEAR'', mr_log_buf := mr_log_buf r\<rparr>)"
proof -
  have nul: "NUL \<in> set status_clear_text" by (simp add: status_clear_text_def)
  obtain log where "os_strcmp (arr_str (cb_sig c)) MRDUMP_SIG = 0" "strlcpy_mem (cb_log_buf c) 2048 = Done log" "mr_log_buf r = log"
    using assms
    by (cases "parse_status (arr_str ((cb_status c)[127 := NUL])) (result_init\<lparr>mr_status_line := take 127 (arr_str (cb_status c @ cb_log_buf c))\<rparr>)")
      (auto simp: cblock_result_def strlcpy_mem_def split: if_splits)
  then show ?thesis
    by (simp add: cblock_result_def strlcpy_mem_def nul arr_str_clear parse_clear)
qed

section \<open>The library as an interface\<close>

text \<open>
  What the tool relies on: a control block that can be loaded, clearing that replaces its status text, and a query
  that reports what the block says.
\<close>

locale ramdump_status =
  fixes load :: "'w \<Rightarrow> mrdump_cblock option"
    and clear :: "'w \<Rightarrow> bool \<times> 'w \<times> mr_eff list"
    and get :: "'w \<Rightarrow> (bool \<times> mrdump_status_result \<times> mr_eff list) outcome"
  assumes clear_loads: "clear w = (True, w', e) \<Longrightarrow>
      \<exists>c. load w = Some c \<and> load w' = Some (c\<lparr>cb_status := status_clear_text\<rparr>)"
    and get_loads: "\<exists>e. get w = (case load w of None \<Rightarrow> Done (False, result_init, e)
      | Some c \<Rightarrow> bindC (cblock_result c) (\<lambda>(ok, r). Done (ok, r, e)))"
begin

lemma get_success:
  assumes "get w = Done (True, r, e)"
  shows "\<exists>c. load w = Some c \<and> cblock_result c = Done (True, r)"
proof -
  obtain e' where "(case load w of None \<Rightarrow> Done (False, result_init, e')
      | Some c \<Rightarrow> bindC (cblock_result c) (\<lambda>(ok, r). Done (ok, r, e'))) = Done (True, r, e)"
    using get_loads [of w] assms by metis
  then show ?thesis by (auto simp: bindC_Done_iff split: option.splits)
qed

lemma clear_then_get:
  assumes "clear w = (True, w', e)" "get w = Done (True, r, e1)"
  shows "\<exists>e2. get w' = Done (True, result_init\<lparr>mr_status := MRDUMP_STATUS_NONE, mr_status_line := ''CLEAR'',
    mr_log_buf := mr_log_buf r\<rparr>, e2)"
proof -
  obtain c where c: "load w = Some c" "load w' = Some (c\<lparr>cb_status := status_clear_text\<rparr>)" using clear_loads [OF assms(1)] by blast
  have "cblock_result c = Done (True, r)" using get_success [OF assms(2)] c(1) by simp
  then show ?thesis using get_loads [of w'] c(2) cblock_result_clear by auto
qed

end

interpretation mr: ramdump_status load_cblock mrdump_status_clear mrdump_status_get
proof
  show "\<exists>c. load_cblock w = Some c \<and> load_cblock w' = Some (c\<lparr>cb_status := status_clear_text\<rparr>)"
    if "mrdump_status_clear w = (True, w', e)" for w w' e
    using status_clear_load [OF that] by metis
  show "\<exists>e. mrdump_status_get w = (case load_cblock w of None \<Rightarrow> Done (False, result_init, e)
      | Some c \<Rightarrow> bindC (cblock_result c) (\<lambda>(ok, r). Done (ok, r, e)))" for w
    using status_get_load by blast
qed

section \<open>The lines of a status\<close>

text \<open>What \<open>strtok_r\<close> delivers one after the other: the lines that are not empty.\<close>

definition tokens :: "string \<Rightarrow> string list" where
  "tokens s = filter (\<lambda>l. l \<noteq> []) (lines_of s)"

lemma lines_of_last: "NL \<notin> set l \<Longrightarrow> lines_of l = (if l = [] then [] else [l])"
  by (induction l) auto

lemma strtok_r_tokens: "case tokens s of [] \<Rightarrow> strtok_r NL s = None | t # ts \<Rightarrow> \<exists>r. strtok_r NL s = Some (t, r) \<and> tokens r = ts"
proof (induction s)
  case (Cons c cs)
  show ?case
  proof (cases "c = NL")
    case True
    then have "tokens (c # cs) = tokens cs" "strtok_r NL (c # cs) = strtok_r NL cs"
      by (simp_all add: tokens_def strtok_r_def)
    then show ?thesis using Cons by (simp split: list.splits)
  next
    case False
    define l where "l = takeWhile (\<lambda>x. x \<noteq> NL) (c # cs)"
    have l: "l \<noteq> []" "NL \<notin> set l" using False by (auto simp: l_def dest: set_takeWhileD)
    have split: "c # cs = l @ dropWhile (\<lambda>x. x \<noteq> NL) (c # cs)" by (simp only: l_def takeWhile_dropWhile_id)
    show ?thesis
    proof (cases "dropWhile (\<lambda>x. x \<noteq> NL) (c # cs)")
      case Nil
      then have "c # cs = l" using split by simp
      then show ?thesis
        using strtok_r_line(2) [OF l] lines_of_last [OF l(2)] l(1) by (simp only: tokens_def) simp
    next
      case (Cons x r)
      then have "x = NL" using hd_dropWhile [of "\<lambda>x. x \<noteq> NL" "c # cs"] by (metis list.sel(1) list.distinct(1))
      then have "c # cs = l @ NL # r" using split Cons by simp
      then show ?thesis
        using strtok_r_line(1) [OF l, of r] lines_of_line [OF l(2), of r] l(1) by (simp only: tokens_def) simp
    qed
  qed
qed (simp add: tokens_def strtok_r_def)

text \<open>What a line means, and whether it stops the reading.\<close>

definition output_of :: "string \<Rightarrow> mrdump_output option" where
  "output_of l = (if l = ''OUTPUT:EXT4_DATA'' then Some MRDUMP_OUTPUT_EXT4_DATA
     else if l = ''OUTPUT:VFAT_INT_STORAGE'' then Some MRDUMP_OUTPUT_VFAT_INT_STORAGE else None)"

definition mode_of :: "string \<Rightarrow> string option" where
  "mode_of l = (if take 5 l = ''MODE:'' then Some (take 31 (drop 5 l)) else None)"

definition known :: "string \<Rightarrow> bool" where
  "known l \<longleftrightarrow> take 7 l = ''OUTPUT:'' \<longrightarrow> output_of l \<noteq> None"

lemma status_ok_line_spec:
  assumes "cstr l"
  shows "status_ok_line l r = (if known l then Some (r\<lparr>mr_output := (case output_of l of None \<Rightarrow> mr_output r | Some out \<Rightarrow> out),
    mr_mode := (case mode_of l of None \<Rightarrow> mr_mode r | Some mode \<Rightarrow> mode)\<rparr>) else None)"
proof -
  have d: "cstr (drop 7 l)" using assms by (auto simp: cstr_def dest: in_set_dropD)
  have cmp: "os_strncmp l ''OUTPUT:'' 7 = 0 \<longleftrightarrow> take 7 l = ''OUTPUT:''" "os_strncmp l ''MODE:'' 5 = 0 \<longleftrightarrow> take 5 l = ''MODE:''"
    "os_strcmp (drop 7 l) ''EXT4_DATA'' = 0 \<longleftrightarrow> drop 7 l = ''EXT4_DATA''"
    "os_strcmp (drop 7 l) ''VFAT_INT_STORAGE'' = 0 \<longleftrightarrow> drop 7 l = ''VFAT_INT_STORAGE''"
    using assms d by (simp_all add: os_strncmp_0_iff os_strcmp_0_iff cstr_def)
  have "l = ''OUTPUT:'' @ v \<longleftrightarrow> take 7 l = ''OUTPUT:'' \<and> drop 7 l = v" for v
  proof
    assume "take 7 l = ''OUTPUT:'' \<and> drop 7 l = v"
    then show "l = ''OUTPUT:'' @ v" by (metis append_take_drop_id)
  qed simp
  from this [of "''EXT4_DATA''"] this [of "''VFAT_INT_STORAGE''"]
  have whole: "l = ''OUTPUT:EXT4_DATA'' \<longleftrightarrow> take 7 l = ''OUTPUT:'' \<and> drop 7 l = ''EXT4_DATA''"
    "l = ''OUTPUT:VFAT_INT_STORAGE'' \<longleftrightarrow> take 7 l = ''OUTPUT:'' \<and> drop 7 l = ''VFAT_INT_STORAGE''"
    by simp_all
  have "take 5 l = ''OUTPU''" if "take 7 l = ''OUTPUT:''"
    using take_take [of 5 7 l] that by simp
  then have excl: "take 7 l = ''OUTPUT:'' \<Longrightarrow> (take 5 l = ''MODE:'') = False" by simp
  show ?thesis
    unfolding status_ok_line_def cmp known_def output_of_def mode_of_def whole
    by (cases "take 7 l = ''OUTPUT:''"; cases "drop 7 l = ''EXT4_DATA''"; cases "drop 7 l = ''VFAT_INT_STORAGE''") (simp_all add: excl)
qed

lemma cstr_tokens: "cstr s \<Longrightarrow> list_all cstr (tokens s)"
proof -
  have "list_all cstr (lines_of s)" if "cstr s" for s
    using that by (induction s) (auto simp: cstr_def split: list.splits)
  then show "cstr s \<Longrightarrow> list_all cstr (tokens s)" by (auto simp: tokens_def list_all_iff)
qed

text \<open>The values in force after the lines read: the last ones given.\<close>

definition after_lines :: "string list \<Rightarrow> mrdump_status_result \<Rightarrow> mrdump_status_result" where
  "after_lines ls r = r\<lparr>mr_output := last (mr_output r # List.map_filter output_of ls),
     mr_mode := last (mr_mode r # List.map_filter mode_of ls)\<rparr>"

lemma after_lines_simps:
  "after_lines [] r = r"
  "after_lines (l # ls) r = after_lines ls (r\<lparr>mr_output := (case output_of l of None \<Rightarrow> mr_output r | Some out \<Rightarrow> out),
     mr_mode := (case mode_of l of None \<Rightarrow> mr_mode r | Some mode \<Rightarrow> mode)\<rparr>)"
  by (simp_all add: after_lines_def map_filter_simps split: option.splits)

lemma status_ok_lines_spec:
  "list_all cstr (tokens s) \<Longrightarrow> status_ok_lines s r = (list_all known (tokens s), after_lines (takeWhile known (tokens s)) r)"
proof (induction s r rule: status_ok_lines.induct)
  case (1 s r)
  show ?case
  proof (cases "tokens s")
    case Nil
    then show ?thesis using strtok_r_tokens [of s] by (simp add: status_ok_lines.simps [of s] after_lines_simps)
  next
    case (Cons t ts)
    then obtain s' where s': "strtok_r NL s = Some (t, s')" "tokens s' = ts" using strtok_r_tokens [of s] by auto
    have cs: "cstr t" "list_all cstr ts" using 1(2) Cons by simp_all
    note line = status_ok_line_spec [OF cs(1), of r]
    show ?thesis
    proof (cases "known t")
      case True
      note rest = 1(1) [OF s'(1) refl line [unfolded if_P [OF True]], unfolded s'(2), OF cs(2)]
      show ?thesis
        unfolding status_ok_lines.simps [of s] s'(1) Cons option.case prod.case line if_P [OF True]
        using True by (simp add: rest after_lines_simps)
    next
      case False
      then show ?thesis
        using s' line Cons by (simp add: status_ok_lines.simps [of s] after_lines_simps)
    qed
  qed
qed

lemma parse_status_spec:
  assumes "cstr s"
  shows "parse_status s r =
     (case tokens s of
        [] \<Rightarrow> (False, r)
      | t # ts \<Rightarrow>
          if t = ''OK'' then
            (list_all known ts, after_lines (takeWhile known ts) (r\<lparr>mr_status := MRDUMP_STATUS_OK, mr_output := MRDUMP_OUTPUT_NULL\<rparr>))
          else (True, r\<lparr>mr_status := (if t = ''NONE'' \<or> t = ''CLEAR'' then MRDUMP_STATUS_NONE else MRDUMP_STATUS_FAILED)\<rparr>))"
proof (cases "tokens s")
  case Nil
  then show ?thesis using strtok_r_tokens [of s] by (simp add: parse_status_def)
next
  case (Cons t ts)
  then obtain s' where s': "strtok_r NL s = Some (t, s')" "tokens s' = ts" using strtok_r_tokens [of s] by auto
  have cs: "cstr t" "list_all cstr ts" using cstr_tokens [OF assms] Cons by simp_all
  then have "os_strcmp t ''OK'' = 0 \<longleftrightarrow> t = ''OK''" "os_strcmp t ''NONE'' = 0 \<longleftrightarrow> t = ''NONE''"
    "os_strcmp t ''CLEAR'' = 0 \<longleftrightarrow> t = ''CLEAR''"
    by (simp_all add: os_strcmp_0_iff cstr_def)
  then show ?thesis
    using Cons s' cs status_ok_lines_spec [of s'] by (simp add: parse_status_def)
qed

lemma cstr_arr_str: "cstr (arr_str a)"
  by (auto simp: cstr_def arr_str_def dest: set_takeWhileD)

section \<open>Properties\<close>

subsection \<open>A sample partition\<close>

text \<open>A partition that is just large enough, with a control block that holds the given status text.\<close>

definition sample_cblock :: "string \<Rightarrow> mrdump_cblock" where
  "sample_cblock st = \<lparr>cb_sig = MRDUMP_SIG @ [NUL], cb_status = st @ replicate (128 - length st) NUL,
     cb_log_buf = ''saved'' @ replicate 2043 NUL\<rparr>"

definition part_of :: "mrdump_cblock \<Rightarrow> blkdev" where
  "part_of c = \<lparr>bd_data = bytes_of_cblock c, bd_size64 = Some MRDUMP_OFFSET, bd_ssz = Some 512,
     bd_read_cap = 4096, bd_write_cap = 4096\<rparr>"

definition expdb_of :: "mrdump_cblock \<Rightarrow> mr_world" where
  "expdb_of c = [hd expdb_devs \<mapsto> part_of c]"

abbreviation (input) sample_part :: "string \<Rightarrow> blkdev" where
  "sample_part st \<equiv> part_of (sample_cblock st)"

abbreviation (input) sample_expdb :: "string \<Rightarrow> mr_world" where
  "sample_expdb st \<equiv> expdb_of (sample_cblock st)"

lemma sample_cblock_wf: "length st \<le> 128 \<Longrightarrow> cblock_wf (sample_cblock st)"
  by (simp add: cblock_wf_def sample_cblock_def MRDUMP_SIG_def)

lemma expdb_of_locate:
  assumes "cblock_wf c"
  shows "locate (expdb_of c) = Some (hd expdb_devs, part_of c, 0)" "load_cblock (expdb_of c) = Some c"
proof -
  have read: "dev_read (part_of c) 0 CBLOCK_SIZE = bytes_of_cblock c"
    using length_bytes_of_cblock [OF assms] by (simp add: dev_read_def part_of_def)
  then show "locate (expdb_of c) = Some (hd expdb_devs, part_of c, 0)"
    using length_bytes_of_cblock [OF assms]
    by (simp add: locate_def expdb_open_def expdb_of_def expdb_devs_def part_of_def lseek64_def)
  then show "load_cblock (expdb_of c) = Some c"
    using bytes_of_cblock_inverse [OF assms] read by (simp add: load_cblock_def)
qed

lemmas sample_locate = expdb_of_locate [OF sample_cblock_wf]

lemma sample_clear:
  assumes "length st \<le> 128"
  shows "fst (mrdump_status_clear (sample_expdb st))"
proof -
  have "cblock_wf ((sample_cblock st)\<lparr>cb_status := status_clear_text\<rparr>)"
    using sample_cblock_wf [OF assms] by (simp add: cblock_wf_def)
  moreover have "cblock_of_bytes (dev_read (sample_part st) 0 CBLOCK_SIZE) = sample_cblock st"
    using sample_locate [OF assms] by (simp add: load_cblock_def)
  ultimately show ?thesis
    using length_bytes_of_cblock [OF sample_cblock_wf [OF assms]]
    by (simp add: status_clear_locate sample_locate(1) [OF assms] dev_write_def Let_def length_bytes_of_cblock)
      (simp add: part_of_def)
qed

subsection \<open>Clearing\<close>

lemma expdb_open_in: "expdb_open_loop w devs = (Some p, e) \<Longrightarrow> pi_fd p \<in> set devs"
  by (induction devs) (auto split: option.splits)

text \<open>C6. Clearing the RAM dump status implements, on the bytes of the partition, the replacement of the status text of
  the control block by \<open>CLEAR\<close>: when it reports success exactly the 128 bytes of the status changed, on the one
  device found, and reading the block back gives the old block with the new text. When no control block can be read it
  reports failure and nothing changes; in any case only the two \<open>expdb\<close> paths can be affected.\<close>

theorem status_clear_refines:
  assumes "mrdump_status_clear w = (ok, w', e)"
  shows "(ok \<longrightarrow> (\<exists>fd d pos c. locate w = Some (fd, d, pos) \<and> load_cblock w = Some c \<and>
        w' = w(fd \<mapsto> d\<lparr>bd_data := take (pos + 9) (bd_data d) @ status_clear_text @ drop (pos + 137) (bd_data d)\<rparr>) \<and>
        load_cblock w' = Some (c\<lparr>cb_status := status_clear_text\<rparr>))) \<and>
    (load_cblock w = None \<longrightarrow> \<not> ok \<and> w' = w) \<and> (\<forall>f. f \<notin> set expdb_devs \<longrightarrow> w' f = w f)"
proof (intro conjI impI allI)
  assume ok: ok
  obtain fd d d' pos where s: "locate w = Some (fd, d, pos)" "w' = w(fd \<mapsto> d')" "d' = d\<lparr>bd_data := bd_data d'\<rparr>"
    "bd_data d' = take (pos + 9) (bd_data d) @ status_clear_text @ drop (pos + 137) (bd_data d)"
    using status_clear_success assms ok by metis
  then have "w' = w(fd \<mapsto> d\<lparr>bd_data := take (pos + 9) (bd_data d) @ status_clear_text @ drop (pos + 137) (bd_data d)\<rparr>)"
    by metis
  moreover obtain c where "load_cblock w = Some c" "load_cblock w' = Some (c\<lparr>cb_status := status_clear_text\<rparr>)"
    using status_clear_load assms ok by metis
  ultimately show "\<exists>fd d pos c. locate w = Some (fd, d, pos) \<and> load_cblock w = Some c \<and>
        w' = w(fd \<mapsto> d\<lparr>bd_data := take (pos + 9) (bd_data d) @ status_clear_text @ drop (pos + 137) (bd_data d)\<rparr>) \<and>
        load_cblock w' = Some (c\<lparr>cb_status := status_clear_text\<rparr>)"
    using s(1) by blast
next
  assume "load_cblock w = None"
  then have "locate w = None" by (simp add: load_cblock_def)
  then show "\<not> ok" "w' = w" using assms by (simp_all add: status_clear_locate)
next
  fix f assume f: "f \<notin> set expdb_devs"
  show "w' f = w f"
  proof (cases "locate w")
    case None
    then show ?thesis using assms by (simp add: status_clear_locate)
  next
    case (Some l)
    then obtain fd d pos where l: "locate w = Some (fd, d, pos)" by (cases l) auto
    then have "fd \<in> set expdb_devs" using locateE expdb_open_in by metis
    then show ?thesis using assms f by (auto simp: status_clear_locate l split: prod.splits)
  qed
qed

theorem status_clear_refines_witness:
  "\<exists>w' e. mrdump_status_clear (sample_expdb ''OK'') = (True, w', e) \<and>
     load_cblock w' = Some ((sample_cblock ''OK'')\<lparr>cb_status := status_clear_text\<rparr>)"
proof -
  obtain w' e where c: "mrdump_status_clear (sample_expdb ''OK'') = (True, w', e)"
    using sample_clear [of "''OK''"] by (cases "mrdump_status_clear (sample_expdb ''OK'')") auto
  then show ?thesis using status_clear_refines [OF c] sample_locate(2) [of "''OK''"] by simp blast
qed

end
