(* ===== verification/Mrdump_Tool.thy ===== *)
theory Mrdump_Tool
  imports Mrdump_Proofs
begin

text \<open>
  What a user of the RAM dump library and of its command line tool can rely on: what a status query answers, when it
  is defined at all, that a cleared status reads as cleared, which partitions are refused, and that every descriptor
  opened is closed.
\<close>

section \<open>Reading\<close>

lemma sig_cmp: "os_strcmp (arr_str a) MRDUMP_SIG = 0 \<longleftrightarrow> arr_str a = MRDUMP_SIG"
  using cstr_arr_str [of a] by (simp add: os_strcmp_0_iff cstr_def MRDUMP_SIG_def)

definition line_of :: "mrdump_cblock \<Rightarrow> string" where
  "line_of c = take 127 (arr_str (cb_status c @ cb_log_buf c))"

definition log_of :: "mrdump_cblock \<Rightarrow> string" where
  "log_of c = take 2047 (arr_str (cb_log_buf c))"

lemma cblock_result_log:
  assumes "arr_str (cb_sig c) = MRDUMP_SIG" "NUL \<in> set (cb_log_buf c)"
  shows "cblock_result c =
    (case parse_status (arr_str ((cb_status c)[127 := NUL])) (result_init\<lparr>mr_status_line := line_of c\<rparr>) of
       (ok, r) \<Rightarrow> Done (ok, if ok then r\<lparr>mr_log_buf := log_of c\<rparr> else r))"
  using assms sig_cmp [of "cb_sig c"] by (simp add: cblock_result_def strlcpy_mem_def line_of_def log_of_def split: prod.splits)

text \<open>C11. A status query on a partition with a signed control block and a terminated log answers what the status text
  says: the first non-empty line decides; after \<open>OK\<close> the last \<open>OUTPUT:\<close> and \<open>MODE:\<close> lines count, the mode
  cut to 31 characters, other lines are passed over, and an \<open>OUTPUT:\<close> line with another value fails the query;
  \<open>NONE\<close> and \<open>CLEAR\<close> read as no dump and any other text as a failed one. An empty status fails the query.\<close>

theorem status_get_reports:
  assumes "load_cblock w = Some c" "arr_str (cb_sig c) = MRDUMP_SIG" "NUL \<in> set (cb_log_buf c)"
  shows "\<exists>e. mrdump_status_get w = Done
    (case tokens (arr_str ((cb_status c)[127 := NUL])) of
       [] \<Rightarrow> (False, result_init\<lparr>mr_status_line := line_of c\<rparr>, e)
     | t # ts \<Rightarrow>
         if t = ''OK'' then
           if \<forall>l\<in>set ts. take 7 l = ''OUTPUT:'' \<longrightarrow> output_of l \<noteq> None
           then (True, result_init\<lparr>mr_status := MRDUMP_STATUS_OK, mr_status_line := line_of c, mr_log_buf := log_of c,
                   mr_output := last (MRDUMP_OUTPUT_NULL # List.map_filter output_of ts),
                   mr_mode := last ([] # List.map_filter mode_of ts)\<rparr>, e)
           else (False, after_lines (takeWhile known ts) (result_init\<lparr>mr_status := MRDUMP_STATUS_OK, mr_status_line := line_of c\<rparr>), e)
         else (True, result_init\<lparr>mr_status := (if t = ''NONE'' \<or> t = ''CLEAR'' then MRDUMP_STATUS_NONE else MRDUMP_STATUS_FAILED),
                 mr_status_line := line_of c, mr_log_buf := log_of c\<rparr>, e))"
proof -
  have all: "(\<forall>l\<in>set ts. take 7 l = ''OUTPUT:'' \<longrightarrow> output_of l \<noteq> None) \<longleftrightarrow> list_all known ts" for ts
    by (simp add: list_all_iff known_def)
  have whole: "list_all known ts \<Longrightarrow> takeWhile known ts = ts" for ts
    by (simp add: list_all_iff)
  show ?thesis
    unfolding status_get_load all
    by (rule exI [of _ "exit_effects w"])
      (simp add: assms(1) cblock_result_log [OF assms(2,3)] parse_status_spec [OF cstr_arr_str] whole after_lines_def
        result_init_def line_of_def log_of_def split: list.splits)
qed

lemma sample_log: "arr_str (cb_sig (sample_cblock st)) = MRDUMP_SIG" "NUL \<in> set (cb_log_buf (sample_cblock st))"
  by (simp_all add: sample_cblock_def arr_str_def MRDUMP_SIG_def)

text \<open>The status text inside a control block, when it leaves room for its NUL.\<close>

lemma arr_str_padded:
  assumes "cstr st" "length st \<le> 127"
  shows "arr_str ((cb_status (sample_cblock st))[127 := NUL]) = st"
    "arr_str (cb_status (sample_cblock st) @ r) = st"
proof -
  obtain k where k: "128 - length st = Suc k" using assms(2) by (cases "128 - length st") auto
  have c: "\<And>x. x \<in> set st \<Longrightarrow> x \<noteq> NUL" using assms(1) by (auto simp: cstr_def)
  show r: "arr_str (cb_status (sample_cblock st) @ r) = st" for r
    using c by (simp add: arr_str_def sample_cblock_def k takeWhile_append2)
  have "cb_status (sample_cblock st) ! 127 = NUL" using assms(2) by (simp add: sample_cblock_def nth_append)
  then have "(cb_status (sample_cblock st))[127 := NUL] = cb_status (sample_cblock st)" by (metis list_update_id)
  then show "arr_str ((cb_status (sample_cblock st))[127 := NUL]) = st" using r [of "[]"] by simp
qed

theorem status_get_reports_witness:
  "\<exists>e r. mrdump_status_get (sample_expdb ''NONE'') = Done (True, r, e) \<and> mr_status r = MRDUMP_STATUS_NONE"
  using status_get_reports [OF sample_locate(2) sample_log, of "''NONE''"] arr_str_padded(1) [of "''NONE''"]
  by (auto simp: cstr_def tokens_def)

text \<open>C28. A status query has defined behaviour except in one case: the control block is signed, its log holds no NUL, and
  either its status text has none either or the text could be read. Then \<open>strlcpy\<close> reads past the block.\<close>

theorem status_get_defined_iff:
  "mrdump_status_get w = Undef u \<longleftrightarrow>
    u = Out_Of_Bounds \<and> (\<exists>c. load_cblock w = Some c \<and> arr_str (cb_sig c) = MRDUMP_SIG \<and> NUL \<notin> set (cb_log_buf c) \<and>
      (NUL \<in> set (cb_status c) \<longrightarrow> fst (parse_status (arr_str ((cb_status c)[127 := NUL])) (result_init\<lparr>mr_status_line := line_of c\<rparr>))))"
proof (cases "load_cblock w")
  case (Some c)
  show ?thesis
  proof (cases "arr_str (cb_sig c) = MRDUMP_SIG")
    case True
    obtain ok r where "parse_status (arr_str ((cb_status c)[127 := NUL])) (result_init\<lparr>mr_status_line := line_of c\<rparr>) = (ok, r)"
      by fastforce
    then show ?thesis
      using sig_cmp [of "cb_sig c"] True Some
      by (auto simp: status_get_load cblock_result_def strlcpy_mem_def line_of_def)
  next
    case False
    then show ?thesis using sig_cmp [of "cb_sig c"] Some by (simp add: status_get_load cblock_result_def)
  qed
qed (simp add: status_get_load)

theorem status_get_defined_iff_witness:
  "mrdump_status_get (expdb_of ((sample_cblock ''FAIL'')\<lparr>cb_log_buf := replicate 2048 CHR ''x''\<rparr>)) = Undef Out_Of_Bounds"
proof -
  define c where "c = (sample_cblock ''FAIL'')\<lparr>cb_log_buf := replicate 2048 CHR ''x''\<rparr>"
  have "cblock_wf c" using sample_cblock_wf [of "''FAIL''"] by (simp add: c_def cblock_wf_def)
  moreover have "arr_str ((cb_status c)[127 := NUL]) = ''FAIL''"
    using arr_str_padded(1) [of "''FAIL''"] by (simp add: c_def cstr_def)
  moreover have "fst (parse_status ''FAIL'' r)" for r by (simp add: parse_status_def strtok_r_line strcmp_lits)
  ultimately have "mrdump_status_get (expdb_of c) = Undef Out_Of_Bounds"
    using sample_log(1) [of "''FAIL''"] expdb_of_locate(2) [of c]
    by (subst status_get_defined_iff) (simp add: c_def)
  then show ?thesis by (simp add: c_def)
qed

section \<open>Descriptors\<close>

text \<open>The descriptors open after a run; closing one that is not open is an error.\<close>

fun run_fds :: "string list \<Rightarrow> mr_eff list \<Rightarrow> string list option" where
  "run_fds fds [] = Some fds"
| "run_fds fds (Opened f # es) = run_fds (f # fds) es"
| "run_fds fds (Closed f # es) = (if f \<in> set fds then run_fds (remove1 f fds) es else None)"

lemma expdb_open_loop_none: "expdb_open_loop w devs = (None, e) \<Longrightarrow> e = [] \<or> (\<exists>f. e = [Opened f, Closed f])"
  by (induction devs) (auto split: option.splits)

lemma exit_effects_closed: "run_fds [] (exit_effects w) = Some []"
proof (cases "expdb_open_loop w expdb_devs")
  case (Pair p e)
  then show ?thesis
    using expdb_open_loop_none [of w expdb_devs e] expdb_open_loop_dev [of w expdb_devs]
    by (cases p) (auto simp: exit_effects_def expdb_open_def)
qed

lemma status_effects:
  "mrdump_status_clear w = (ok, w', e) \<Longrightarrow> run_fds [] e = Some []"
  "mrdump_status_get w = Done (ok, r, e) \<Longrightarrow> run_fds [] e = Some []"
  by (auto simp: status_clear_locate status_get_load bindC_Done_iff exit_effects_closed split: option.splits prod.splits)



section \<open>The tool\<close>

text \<open>C25. After a successful \<open>status-clear\<close> on a partition whose status could be read, \<open>status-get\<close> prints that
  there is no dump, and \<open>status-log\<close> prints the status line \<open>CLEAR\<close> and the log as it was.\<close>

theorem tool_clear_then_status:
  assumes "mrdump_status_get w = Done (True, r, e)"
    and "mrdump_tool_main version w [prog, ''status-clear''] = Done (0, [], w', e')"
  shows "(\<exists>e. mrdump_tool_main version w' [prog, ''status-get''] = Done (0, ''MT-RAMDUMP'' @ [NL, CHR 0x09] @ ''Status:None'' @ [NL], w', e)) \<and>
    (\<exists>e. mrdump_tool_main version w' [prog, ''status-log''] =
      Done (0, ''status line:'' @ [NL] @ ''CLEAR'' @ [NL] @ ''log:'' @ [NL] @ mr_log_buf r @ [NL], w', e))"
proof -
  have "mrdump_status_clear w = (True, w', e')"
    using assms(2) by (auto simp: mrdump_tool_main_def strcmp_lits split: prod.splits if_splits)
  from mr.clear_then_get [OF this assms(1)] obtain e2 where
    "mrdump_status_get w' = Done (True, result_init\<lparr>mr_status := MRDUMP_STATUS_NONE, mr_status_line := ''CLEAR'',
      mr_log_buf := mr_log_buf r\<rparr>, e2)" by blast
  then show ?thesis
    by (simp add: mrdump_tool_main_def strcmp_lits status_get_text_def status_log_text_def)
qed

lemma sample_get:
  assumes "cstr st" "length st \<le> 127" "tokens st \<noteq> []" "hd (tokens st) \<noteq> ''OK''"
  shows "\<exists>r e. mrdump_status_get (sample_expdb st) = Done (True, r, e) \<and> mr_log_buf r = ''saved''"
proof -
  have "arr_str (''saved'' @ replicate 2043 NUL) = ''saved''"
    using replicate_Suc [of 2042 NUL] by (simp add: arr_str_def)
  then have "log_of (sample_cblock st) = ''saved''" by (simp add: log_of_def sample_cblock_def)
  moreover obtain t ts where "tokens st = t # ts" using assms(3) by (cases "tokens st") auto
  ultimately show ?thesis
    using assms sample_locate(2) [of st] arr_str_padded(1) [OF assms(1,2)]
    by (simp add: parse_status_spec [OF assms(1)] status_get_load cblock_result_log [OF sample_log])
qed

theorem tool_clear_then_status_witness:
  "\<exists>w' e. mrdump_tool_main None w' [''mrdump_tool'', ''status-log''] =
     Done (0, ''status line:'' @ [NL] @ ''CLEAR'' @ [NL] @ ''log:'' @ [NL] @ ''saved'' @ [NL], w', e)"
proof -
  obtain w' e where c: "mrdump_status_clear (sample_expdb ''FAIL'') = (True, w', e)"
    using sample_clear [of "''FAIL''"] by (cases "mrdump_status_clear (sample_expdb ''FAIL'')") auto
  then have m: "mrdump_tool_main None (sample_expdb ''FAIL'') [''mrdump_tool'', ''status-clear''] = Done (0, [], w', e)"
    by (simp add: mrdump_tool_main_def strcmp_lits)
  obtain r e0 where g: "mrdump_status_get (sample_expdb ''FAIL'') = Done (True, r, e0)" "mr_log_buf r = ''saved''"
    using sample_get [of "''FAIL''"] by (auto simp: cstr_def tokens_def)
  show ?thesis using tool_clear_then_status [OF g(1) m] g(2) by auto
qed

section \<open>Partitions that are too small\<close>

lemma small_offset:
  assumes "sz < MRDUMP_OFFSET"
  shows "lseek64 (sz - MRDUMP_OFFSET) = None"
proof -
  have u: "unat sz < 3145728" using assms by (simp add: MRDUMP_OFFSET_def word_less_nat_alt)
  have "unat (sz - MRDUMP_OFFSET) = 2 ^ 64 + unat sz - 3145728"
    using u by (simp add: MRDUMP_OFFSET_def unat_sub_if_size word_size word_le_nat_alt)
  then have "2 ^ 63 \<le> unat (sz - MRDUMP_OFFSET)" using u by simp
  from of_nat_mono [OF this, where 'a = int] have "2 ^ 63 \<le> uint (sz - MRDUMP_OFFSET)"
    by (simp only: uint_nat of_nat_power of_nat_numeral)
  then have "uint (sz - MRDUMP_OFFSET) div 2 ^ 63 = 1"
    using uint_lt2p [of "sz - MRDUMP_OFFSET"] by (intro int_div_pos_eq [where r = "uint (sz - MRDUMP_OFFSET) - 2 ^ 63"]) simp_all
  then have "bit (uint (sz - MRDUMP_OFFSET)) 63" by (simp add: bit_iff_odd)
  moreover have "sint x < 0" if "bit (uint x) 63" for x :: u64
    using that take_bit_int_less_exp [of 64 "uint x"] by (simp add: sint_uint signed_take_bit_eq_take_bit_minus)
  ultimately show ?thesis by (simp add: lseek64_def)
qed

text \<open>C32. A partition smaller than the offset of the control block is refused: the subtraction wraps, the offset is negative
  for \<open>lseek64\<close>, and both clearing and querying fail without touching a byte, with the descriptor closed.\<close>

theorem small_partition_refused:
  assumes "w (hd expdb_devs) = Some d" "bd_size64 d = Some sz" "bd_ssz d = Some ssz" "sz < MRDUMP_OFFSET"
  shows "mrdump_status_clear w = (False, w, [Opened (hd expdb_devs), Closed (hd expdb_devs)]) \<and>
    mrdump_status_get w = Done (False, result_init, [Opened (hd expdb_devs), Closed (hd expdb_devs)])"
  using assms small_offset [OF assms(4)]
  by (simp add: mrdump_status_clear_def mrdump_status_get_def expdb_open_def expdb_devs_def Let_def)

theorem small_partition_refused_witness:
  "\<exists>w. mrdump_status_clear w = (False, w, [Opened (hd expdb_devs), Closed (hd expdb_devs)])"
  using small_partition_refused [of "[hd expdb_devs \<mapsto> (sample_part [])\<lparr>bd_size64 := Some 1048576\<rparr>]" _ 1048576 512]
  by (intro exI) (auto simp: part_of_def MRDUMP_OFFSET_def)

section \<open>A status written and read\<close>

definition output_name :: "mrdump_output \<Rightarrow> string" where
  "output_name out = (if out = MRDUMP_OUTPUT_EXT4_DATA then ''EXT4_DATA'' else ''VFAT_INT_STORAGE'')"

definition status_text :: "string \<Rightarrow> mrdump_output \<Rightarrow> string" where
  "status_text mode out = concat (map (\<lambda>l. l @ [NL]) [''OK'', ''MODE:'' @ mode, ''OUTPUT:'' @ output_name out])"

lemma status_text_tokens:
  assumes "NL \<notin> set mode"
  shows "tokens (status_text mode out) = [''OK'', ''MODE:'' @ mode, ''OUTPUT:'' @ output_name out]"
proof -
  have "NL \<notin> set (output_name out)" by (simp add: output_name_def)
  then have "list_all (\<lambda>l. NL \<notin> set l) [''OK'', ''MODE:'' @ mode, ''OUTPUT:'' @ output_name out]" using assms by simp
  from concat_lines [OF this] show ?thesis unfolding tokens_def status_text_def by simp
qed

lemma status_lines_meaning:
  "output_of (''MODE:'' @ mode) = None" "mode_of (''MODE:'' @ mode) = Some (take 31 mode)"
  "out \<in> {MRDUMP_OUTPUT_EXT4_DATA, MRDUMP_OUTPUT_VFAT_INT_STORAGE} \<Longrightarrow> output_of (''OUTPUT:'' @ output_name out) = Some out"
  "mode_of (''OUTPUT:'' @ output_name out) = None" "known (''MODE:'' @ mode)"
  by (auto simp: output_of_def mode_of_def known_def output_name_def)

lemma status_text_read:
  assumes "cstr mode" "NL \<notin> set mode" "out \<in> {MRDUMP_OUTPUT_EXT4_DATA, MRDUMP_OUTPUT_VFAT_INT_STORAGE}"
  shows "parse_status (status_text mode out) r =
    (True, r\<lparr>mr_status := MRDUMP_STATUS_OK, mr_output := out, mr_mode := take 31 mode\<rparr>)"
proof -
  have c: "cstr (status_text mode out)" using assms(1) by (auto simp: cstr_def status_text_def output_name_def)
  let ?ls = "[''MODE:'' @ mode, ''OUTPUT:'' @ output_name out]"
  have "known (''OUTPUT:'' @ output_name out)" unfolding known_def status_lines_meaning(3) [OF assms(3)] by blast
  then have k: "takeWhile known ?ls = ?ls" "list_all known ?ls"
    using status_lines_meaning(5) [of mode] by (simp_all only: takeWhile.simps list.pred_inject if_True simp_thms)
  have al: "after_lines ?ls r' = r'\<lparr>mr_output := out, mr_mode := take 31 mode\<rparr>" for r'
    unfolding after_lines_simps status_lines_meaning(1,2,4) status_lines_meaning(3) [OF assms(3)] option.case by simp
  show ?thesis
    unfolding parse_status_spec [OF c] status_text_tokens [OF assms(2)] list.case k(1) al using k(2) by simp
qed

text \<open>C20. A dump that is recorded in the control block as \<open>OK\<close> with a mode and one of the two outputs the library
  knows, on lines of their own, is shown again by \<open>status-get\<close>: the mode, cut to the 31 characters the result
  holds, and the name of the output.\<close>

theorem status_text_shown:
  assumes "load_cblock w = Some c" "arr_str (cb_sig c) = MRDUMP_SIG" "NUL \<in> set (cb_log_buf c)"
    and "arr_str ((cb_status c)[127 := NUL]) = status_text mode out" "cstr mode" "NL \<notin> set mode"
    and "out \<in> {MRDUMP_OUTPUT_EXT4_DATA, MRDUMP_OUTPUT_VFAT_INT_STORAGE}"
  shows "\<exists>e. mrdump_tool_main version w [prog, ''status-get''] =
    Done (0, ''MT-RAMDUMP'' @ [NL, CHR 0x09] @ ''Status:Ok'' @ [NL, CHR 0x09] @ ''Mode: '' @ take 31 mode @ [NL, CHR 0x09] @
      ''Output: '' @ (if out = MRDUMP_OUTPUT_EXT4_DATA then ''ext4/data partition'' else ''vfat/internal partition'') @ [NL], w, e)"
proof -
  have "cblock_result c = Done (True, result_init\<lparr>mr_status_line := line_of c, mr_status := MRDUMP_STATUS_OK, mr_output := out,
      mr_mode := take 31 mode, mr_log_buf := log_of c\<rparr>)"
    by (simp add: cblock_result_log [OF assms(2,3)] assms(4) status_text_read [OF assms(5-7)])
  then have "mrdump_status_get w = Done (True, result_init\<lparr>mr_status_line := line_of c, mr_status := MRDUMP_STATUS_OK,
      mr_output := out, mr_mode := take 31 mode, mr_log_buf := log_of c\<rparr>, exit_effects w)"
    by (simp add: status_get_load assms(1))
  then show ?thesis
    using assms(7) by (auto simp: mrdump_tool_main_def strcmp_lits status_get_text_def dump_status_ok_def output_text_def)
qed

theorem status_text_shown_witness:
  "\<exists>w e. mrdump_tool_main None w [''mrdump_tool'', ''status-get''] =
    Done (0, ''MT-RAMDUMP'' @ [NL, CHR 0x09] @ ''Status:Ok'' @ [NL, CHR 0x09] @ ''Mode: FULL'' @ [NL, CHR 0x09] @
      ''Output: ext4/data partition'' @ [NL], w, e)"
proof -
  let ?st = "status_text ''FULL'' MRDUMP_OUTPUT_EXT4_DATA"
  have st: "cstr ?st" "length ?st \<le> 127" by (simp_all add: status_text_def output_name_def cstr_def)
  then have "length ?st \<le> 128" by simp
  from status_text_shown [OF sample_locate(2) [OF this] sample_log arr_str_padded(1) [OF st], of None "''mrdump_tool''"]
  show ?thesis by (intro exI [of _ "sample_expdb ?st"]) (simp add: cstr_def)
qed

end
