(* ===== verification/Power_Hal.thy ===== *)
theory Power_Hal
  imports C_Prelude
begin

text \<open>
  The two programs that talk to the kernel through single sysfs and procfs nodes: the power HAL module
  (\<open>power/power.c\<close>) and the proximity sensor calibration helper (\<open>meizupshelper/lib.c\<close>, \<open>helper.c\<close>). A node is its
  value and the answer its driver gives to a write.
\<close>

section \<open>Nodes\<close>

record sysfs_node =
  sn_value :: string
  sn_answer :: "string \<Rightarrow> int"

type_synonym sysfs = "string \<rightharpoonup> sysfs_node"

datatype fs_eff = Fs_Open string | Fs_Write string string | Fs_Close string

text \<open>\<open>write\<close> on an open node: its result, and the node with as many characters stored as were taken.\<close>

definition node_write :: "sysfs_node \<Rightarrow> string \<Rightarrow> int \<times> sysfs_node" where
  "node_write d s = (let n = sn_answer d s in (n, if n \<le> 0 then d else d\<lparr>sn_value := take (nat n) s\<rparr>))"

section \<open>Power HAL\<close>

definition MT_RUSH_BOOST_PATH :: string where "MT_RUSH_BOOST_PATH = ''/proc/hps/rush_boost_enabled''"
definition MT_FPS_UPPER_BOUND_PATH :: string where "MT_FPS_UPPER_BOUND_PATH = ''/d/ged/hal/fps_upper_bound''"

text \<open>The hints and features the module names; every other value falls into a default.\<close>

datatype power_hint_t =
    POWER_HINT_LOW_POWER | POWER_HINT_VSYNC | POWER_HINT_INTERACTION | POWER_HINT_CPU_BOOST | POWER_HINT_LAUNCH_BOOST
  | POWER_HINT_AUDIO | POWER_HINT_SET_PROFILE | POWER_HINT_VIDEO_ENCODE | POWER_HINT_VIDEO_DECODE | OTHER_HINT u32

datatype feature_t = POWER_FEATURE_DOUBLE_TAP_TO_WAKE | OTHER_FEATURE u32

definition power_init :: "sysfs \<Rightarrow> sysfs" where
  "power_init w = w"

definition power_set_interactive :: "sysfs \<Rightarrow> int \<Rightarrow> sysfs" where
  "power_set_interactive w on = w"

definition power_fwrite :: "sysfs \<Rightarrow> string \<Rightarrow> string \<Rightarrow> sysfs \<times> fs_eff list" where
  "power_fwrite w path s =
     (case w path of
        None \<Rightarrow> (w, [])
      | Some d \<Rightarrow> (case node_write d s of
          (len, d') \<Rightarrow> (w(path \<mapsto> d'), [Fs_Open path, Fs_Write path s, Fs_Close path])))"

text \<open>\<open>data\<close> is what the pointer points at, \<^const>\<open>None\<close> for a null pointer.\<close>

definition power_hint :: "sysfs \<Rightarrow> power_hint_t \<Rightarrow> u32 option \<Rightarrow> (sysfs \<times> fs_eff list) outcome" where
  "power_hint w hint data =
     (case hint of
        POWER_HINT_LOW_POWER \<Rightarrow>
          (case data of
             None \<Rightarrow> Undef Null_Deref
           | Some dataint \<Rightarrow>
               let (fps, rush) = (if dataint \<noteq> 0 then (''30'', ''0'') else (''60'', ''1''));
                   (w1, e1) = power_fwrite w MT_FPS_UPPER_BOUND_PATH fps;
                   (w2, e2) = power_fwrite w1 MT_RUSH_BOOST_PATH rush
               in Done (w2, e1 @ e2))
      | _ \<Rightarrow> Done (w, []))"

text \<open>\<open>TAP_TO_WAKE_NODE\<close> is a macro of the build; \<open>snprintf\<close> keeps 63 characters.\<close>

definition set_feature :: "string option \<Rightarrow> sysfs \<Rightarrow> feature_t \<Rightarrow> int \<Rightarrow> sysfs \<times> fs_eff list" where
  "set_feature tap_to_wake_node w feature state =
     (case tap_to_wake_node of
        None \<Rightarrow> (w, [])
      | Some node \<Rightarrow>
          if feature = POWER_FEATURE_DOUBLE_TAP_TO_WAKE then power_fwrite w node (take 63 (fmt_d state)) else (w, []))"

text \<open>The entries of the module's method table, as calls.\<close>

datatype hal_call =
    Init | Set_Interactive int | Power_Hint power_hint_t "u32 option" | Set_Feature feature_t int

definition hal_module :: "string option \<Rightarrow> sysfs \<Rightarrow> hal_call \<Rightarrow> (sysfs \<times> fs_eff list) outcome" where
  "hal_module tap w c =
     (case c of
        Init \<Rightarrow> Done (power_init w, [])
      | Set_Interactive on \<Rightarrow> Done (power_set_interactive w on, [])
      | Power_Hint hint data \<Rightarrow> power_hint w hint data
      | Set_Feature feature state \<Rightarrow> Done (set_feature tap w feature state))"

fun hal_run :: "string option \<Rightarrow> sysfs \<Rightarrow> hal_call list \<Rightarrow> (sysfs \<times> fs_eff list) outcome" where
  "hal_run tap w [] = Done (w, [])"
| "hal_run tap w (c # cs) =
     bindC (hal_module tap w c) (\<lambda>(w1, e1). bindC (hal_run tap w1 cs) (\<lambda>(w2, e2). Done (w2, e1 @ e2)))"

section \<open>Proximity sensor calibration\<close>

definition MEIZU_PS_CALIBRATION_TRIGGER_PATH :: string where
  "MEIZU_PS_CALIBRATION_TRIGGER_PATH = ''/sys/class/meizu/ps/ps_calibration''"

definition meizu_psh_run_calibration :: "sysfs \<Rightarrow> int \<times> sysfs \<times> fs_eff list" where
  "meizu_psh_run_calibration w =
     (let path = MEIZU_PS_CALIBRATION_TRIGGER_PATH in
      case w path of
        None \<Rightarrow> (1, w, [])
      | Some d \<Rightarrow> (case node_write d ''1'' of
          (ret, d') \<Rightarrow> (if ret < 0 then 1 else 0, w(path \<mapsto> d'), [Fs_Open path, Fs_Write path ''1'', Fs_Close path])))"

definition do_calibrate :: "sysfs \<Rightarrow> int \<times> sysfs \<times> fs_eff list" where
  "do_calibrate w = meizu_psh_run_calibration w"

text \<open>What is printed goes to the standard error stream.\<close>

definition do_usage :: "string \<Rightarrow> int \<times> string" where
  "do_usage progname =
     (127, ''usage: '' @ progname @ '' <c>'' @ [NL, NL] @ ''       c -- run proximity sensor calibration'' @ [NL])"

definition helper_main :: "sysfs \<Rightarrow> string list \<Rightarrow> (int \<times> string \<times> sysfs \<times> fs_eff list) outcome" where
  "helper_main w argv =
     (case argv of
        [] \<Rightarrow> Undef Null_Deref
      | prog # args \<Rightarrow>
          let show_usage = (case do_usage prog of (ret, err) \<Rightarrow> Done (ret, err, w, [])) in
          if length argv \<noteq> 2 then show_usage
          else if os_strcasecmp (hd args) ''c'' = 0 then (case do_calibrate w of (ret, w', e) \<Rightarrow> Done (ret, [], w', e))
          else show_usage)"

section \<open>Writers of nodes\<close>

definition node_value :: "sysfs \<Rightarrow> string \<Rightarrow> string option" where
  "node_value w p = map_option sn_value (w p)"

text \<open>A node that takes every write whole.\<close>

definition willing :: "sysfs \<Rightarrow> string \<Rightarrow> bool" where
  "willing w p \<longleftrightarrow> (\<exists>d. w p = Some d \<and> (\<forall>s. sn_answer d s = int (length s)))"

text \<open>The nodes left open by a run; writing to or closing one that is not open is an error.\<close>

fun open_nodes :: "string list \<Rightarrow> fs_eff list \<Rightarrow> string list option" where
  "open_nodes ps [] = Some ps"
| "open_nodes ps (Fs_Open p # es) = open_nodes (p # ps) es"
| "open_nodes ps (Fs_Write p s # es) = (if p \<in> set ps then open_nodes ps es else None)"
| "open_nodes ps (Fs_Close p # es) = (if p \<in> set ps then open_nodes (remove1 p ps) es else None)"

lemma open_nodes_append: "open_nodes ps e1 = Some qs \<Longrightarrow> open_nodes ps (e1 @ e2) = open_nodes qs e2"
  by (induction ps e1 rule: open_nodes.induct) (auto split: if_splits)

text \<open>A node whose driver takes at least one character of some write.\<close>

definition takes_writes :: "sysfs \<Rightarrow> string \<Rightarrow> bool" where
  "takes_writes w p \<longleftrightarrow> (\<exists>d s. w p = Some d \<and> 0 < sn_answer d s)"

text \<open>What holds of a write whatever the driver behind the node answers.\<close>

locale node_frame =
  fixes put :: "sysfs \<Rightarrow> string \<Rightarrow> string \<Rightarrow> sysfs \<times> fs_eff list"
  assumes put_other: "q \<noteq> p \<Longrightarrow> fst (put w p s) q = w q"
    and put_refused: "\<not> takes_writes w p \<Longrightarrow> fst (put w p s) p = w p"
    and put_answers: "map_option sn_answer (fst (put w p s) q) = map_option sn_answer (w q)"
    and put_closed: "open_nodes [] (snd (put w p s)) = Some []"
begin

lemma put_willing: "willing w q \<Longrightarrow> willing (fst (put w p s)) q"
  using put_answers [of w p s q] by (auto simp: willing_def)

lemma put_changes: "fst (put w p s) q \<noteq> w q \<Longrightarrow> q = p \<and> takes_writes w q"
  using put_other put_refused by metis

end

text \<open>What the module relies on besides when the driver takes every write whole.\<close>

locale node_writer = node_frame +
  assumes put_value: "willing w p \<Longrightarrow> s \<noteq> [] \<Longrightarrow> node_value (fst (put w p s)) p = Some s"
begin

lemma put_put:
  assumes "p \<noteq> q" "willing w p" "willing w q" "s \<noteq> []" "t \<noteq> []"
  defines "w' \<equiv> fst (put (fst (put w p s)) q t)"
  shows "node_value w' p = Some s" "node_value w' q = Some t" "willing w' r = willing w r"
    "r \<noteq> p \<Longrightarrow> r \<noteq> q \<Longrightarrow> w' r = w r"
proof -
  show "node_value w' p = Some s"
    using put_value [OF assms(2,4)] put_other [OF assms(1), of "fst (put w p s)" t] by (simp add: w'_def node_value_def)
  show "node_value w' q = Some t" using put_value [OF put_willing [OF assms(3)] assms(5)] by (simp add: w'_def)
  have "map_option sn_answer (w' r) = map_option sn_answer (w r)" by (simp add: w'_def put_answers)
  then show "willing w' r = willing w r"
    by (cases "w r"; cases "w' r") (auto simp: willing_def)
  show "r \<noteq> p \<Longrightarrow> r \<noteq> q \<Longrightarrow> w' r = w r" by (simp add: w'_def put_other)
qed

end

lemma node_write_answer: "node_write d s = (n, d') \<Longrightarrow> sn_answer d' = sn_answer d"
  by (auto simp: node_write_def Let_def split: if_splits)

interpretation pw: node_writer power_fwrite
proof
  show "fst (power_fwrite w p s) q = w q" if "q \<noteq> p" for q p w s
    using that by (auto simp: power_fwrite_def split: option.splits prod.splits)
  show "fst (power_fwrite w p s) p = w p" if "\<not> takes_writes w p" for w p s
    using that by (auto simp: power_fwrite_def takes_writes_def node_write_def Let_def not_less split: option.splits)
  show "map_option sn_answer (fst (power_fwrite w p s) q) = map_option sn_answer (w q)" for w p s q
    by (cases "w p") (auto simp: power_fwrite_def node_write_answer split: prod.splits)
  show "open_nodes [] (snd (power_fwrite w p s)) = Some []" for w p s
    by (auto simp: power_fwrite_def split: option.splits prod.splits)
  show "node_value (fst (power_fwrite w p s)) p = Some s" if "willing w p" "s \<noteq> []" for w p s
    using that by (auto simp: power_fwrite_def willing_def node_value_def node_write_def)
qed

section \<open>On any nodes\<close>

text \<open>What a run may have done to the nodes: change those it may write whose drivers took something.\<close>

definition touched_only :: "string set \<Rightarrow> sysfs \<Rightarrow> sysfs \<Rightarrow> bool" where
  "touched_only ps w0 w \<longleftrightarrow> (\<forall>p. map_option sn_answer (w p) = map_option sn_answer (w0 p) \<and>
     (w p \<noteq> w0 p \<longrightarrow> p \<in> ps \<and> takes_writes w0 p))"

lemma takes_writes_cong: "map_option sn_answer (w p) = map_option sn_answer (w' p) \<Longrightarrow> takes_writes w p = takes_writes w' p"
  by (cases "w p"; cases "w' p") (auto simp: takes_writes_def)

lemma touched_only_frame:
  assumes "touched_only ps w0 w"
  shows "dom w = dom w0" "\<forall>p. p \<notin> ps \<or> \<not> takes_writes w0 p \<longrightarrow> w p = w0 p"
proof -
  have "map_option sn_answer (w p) = map_option sn_answer (w0 p)" for p using assms by (simp add: touched_only_def)
  then have "w p = None \<longleftrightarrow> w0 p = None" for p by (metis option.map_disc_iff)
  then show "dom w = dom w0" by (simp add: set_eq_iff domIff del: not_None_eq)
qed (use assms in \<open>auto simp: touched_only_def\<close>)

lemma touched_only_put:
  "touched_only ps w0 w \<Longrightarrow> p \<in> ps \<Longrightarrow> touched_only ps w0 (fst (power_fwrite w p s))"
  unfolding touched_only_def pw.put_answers using pw.put_changes [of w p s] takes_writes_cong [of w _ w0] by metis

definition hal_paths :: "string option \<Rightarrow> string set" where
  "hal_paths tap = {MT_FPS_UPPER_BOUND_PATH, MT_RUSH_BOOST_PATH} \<union> set_option tap"

definition has_data :: "hal_call \<Rightarrow> bool" where
  "has_data c \<longleftrightarrow> c \<noteq> Power_Hint POWER_HINT_LOW_POWER None"

lemma low_hint_any:
  assumes "touched_only (hal_paths tap) w0 w"
  shows "\<exists>w' e. power_hint w POWER_HINT_LOW_POWER (Some d) = Done (w', e) \<and> touched_only (hal_paths tap) w0 w' \<and> open_nodes [] e = Some []"
proof -
  obtain w1 e1 where p1: "power_fwrite w MT_FPS_UPPER_BOUND_PATH (if d \<noteq> 0 then ''30'' else ''60'') = (w1, e1)" by fastforce
  obtain w2 e2 where p2: "power_fwrite w1 MT_RUSH_BOOST_PATH (if d \<noteq> 0 then ''0'' else ''1'') = (w2, e2)" by fastforce
  have "touched_only (hal_paths tap) w0 w1"
    using touched_only_put [OF assms, of MT_FPS_UPPER_BOUND_PATH "if d \<noteq> 0 then ''30'' else ''60''"] p1 by (simp add: hal_paths_def)
  then have "touched_only (hal_paths tap) w0 w2"
    using touched_only_put [of "hal_paths tap" w0 w1 MT_RUSH_BOOST_PATH "if d \<noteq> 0 then ''0'' else ''1''"] p2
    by (simp add: hal_paths_def)
  moreover have "open_nodes [] (e1 @ e2) = Some []"
    using pw.put_closed [of w MT_FPS_UPPER_BOUND_PATH] pw.put_closed [of w1 MT_RUSH_BOOST_PATH] p1 p2 open_nodes_append
    by (metis snd_conv)
  moreover have "power_hint w POWER_HINT_LOW_POWER (Some d) = Done (w2, e1 @ e2)"
    using p1 p2 by (auto simp: power_hint_def split: if_splits)
  ultimately show ?thesis by blast
qed

lemma feature_any:
  "touched_only (hal_paths tap) w0 w \<Longrightarrow>
    touched_only (hal_paths tap) w0 (fst (set_feature tap w f v)) \<and> open_nodes [] (snd (set_feature tap w f v)) = Some []"
  by (cases tap) (simp_all add: set_feature_def touched_only_put pw.put_closed hal_paths_def)

lemma hal_module_any:
  assumes "touched_only (hal_paths tap) w0 w"
  shows "if has_data c
    then \<exists>w' e. hal_module tap w c = Done (w', e) \<and> touched_only (hal_paths tap) w0 w' \<and> open_nodes [] e = Some []
    else hal_module tap w c = Undef Null_Deref"
proof (cases c)
  case (Power_Hint h data)
  then show ?thesis
    using low_hint_any [OF assms] assms by (cases h; cases data) (simp_all add: hal_module_def has_data_def power_hint_def)
next
  case (Set_Feature f v)
  then show ?thesis
    using feature_any [OF assms, of f v] by (cases "set_feature tap w f v") (simp add: hal_module_def has_data_def)
qed (use assms in \<open>simp_all add: hal_module_def has_data_def power_init_def power_set_interactive_def\<close>)

lemma hal_run_any:
  "touched_only (hal_paths tap) w0 w \<Longrightarrow>
    if list_all has_data cs
    then \<exists>w' e. hal_run tap w cs = Done (w', e) \<and> touched_only (hal_paths tap) w0 w' \<and> open_nodes [] e = Some []
    else hal_run tap w cs = Undef Null_Deref"
proof (induction cs arbitrary: w)
  case (Cons c cs)
  show ?case
  proof (cases "has_data c")
    case True
    then obtain w1 e1 where s1: "hal_module tap w c = Done (w1, e1)" "touched_only (hal_paths tap) w0 w1" "open_nodes [] e1 = Some []"
      using hal_module_any [OF Cons.prems, of c] by auto
    show ?thesis
      using Cons.IH [OF s1(2)] s1 True open_nodes_append [of "[]" e1 "[]"] by (auto split: if_splits)
  qed (use hal_module_any [OF Cons.prems, of c] in simp)
qed simp

text \<open>C14. Whatever the nodes answer, present or missing, refusing or taking a part, a sequence of calls of the power HAL
  returns exactly when every low power hint carries its data, and dereferences a null pointer otherwise. When it returns it
  has closed every node it opened, created and removed none, and changed only the two nodes of the hint and the wake-up
  node, and those only where the driver takes writes.\<close>

theorem hal_run_any_nodes:
  "(hal_run tap w0 cs = Undef Null_Deref \<longleftrightarrow> \<not> list_all has_data cs) \<and>
   (list_all has_data cs \<longleftrightarrow> (\<exists>w e. hal_run tap w0 cs = Done (w, e) \<and> open_nodes [] e = Some [] \<and> dom w = dom w0 \<and>
      (\<forall>p. p \<notin> hal_paths tap \<or> \<not> takes_writes w0 p \<longrightarrow> w p = w0 p)))"
proof -
  have "touched_only (hal_paths tap) w0 w0" by (simp add: touched_only_def)
  note run = hal_run_any [OF this, of cs]
  show ?thesis
  proof (cases "list_all has_data cs")
    case True
    then obtain w e where w: "hal_run tap w0 cs = Done (w, e)" "touched_only (hal_paths tap) w0 w" "open_nodes [] e = Some []"
      using run by auto
    show ?thesis using True touched_only_frame [OF w(2)] w(3) by (simp add: w(1))
  qed (use run in simp)
qed

section \<open>What the module promises\<close>

text \<open>The mode last asked for, and the wake-up setting last made.\<close>

record power_spec =
  ps_low :: "bool option"
  ps_tap :: "int option"

fun spec_step :: "hal_call \<Rightarrow> power_spec \<Rightarrow> power_spec" where
  "spec_step (Power_Hint POWER_HINT_LOW_POWER (Some d)) s = s\<lparr>ps_low := Some (d \<noteq> 0)\<rparr>"
| "spec_step (Set_Feature POWER_FEATURE_DOUBLE_TAP_TO_WAKE v) s = s\<lparr>ps_tap := Some v\<rparr>"
| "spec_step c s = s"

definition implements :: "string \<Rightarrow> sysfs \<Rightarrow> power_spec \<Rightarrow> sysfs \<Rightarrow> bool" where
  "implements tap w0 s w \<longleftrightarrow>
     node_value w MT_FPS_UPPER_BOUND_PATH =
       (case ps_low s of None \<Rightarrow> node_value w0 MT_FPS_UPPER_BOUND_PATH | Some low \<Rightarrow> Some (if low then ''30'' else ''60'')) \<and>
     node_value w MT_RUSH_BOOST_PATH =
       (case ps_low s of None \<Rightarrow> node_value w0 MT_RUSH_BOOST_PATH | Some low \<Rightarrow> Some (if low then ''0'' else ''1'')) \<and>
     node_value w tap = (case ps_tap s of None \<Rightarrow> node_value w0 tap | Some v \<Rightarrow> Some (fmt_d v)) \<and>
     (\<forall>p. p \<notin> {MT_FPS_UPPER_BOUND_PATH, MT_RUSH_BOOST_PATH, tap} \<longrightarrow> w p = w0 p)"

text \<open>A call a caller may make: a low power hint carries its data, and a state is an \<open>int\<close>.\<close>

fun hal_call_ok :: "hal_call \<Rightarrow> bool" where
  "hal_call_ok (Power_Hint POWER_HINT_LOW_POWER data) \<longleftrightarrow> data \<noteq> None"
| "hal_call_ok (Set_Feature f v) \<longleftrightarrow> - (2 ^ 31) \<le> v \<and> v < 2 ^ 31"
| "hal_call_ok c \<longleftrightarrow> True"

definition nodes_ok :: "string \<Rightarrow> sysfs \<Rightarrow> bool" where
  "nodes_ok tap w \<longleftrightarrow> willing w MT_FPS_UPPER_BOUND_PATH \<and> willing w MT_RUSH_BOOST_PATH \<and> willing w tap \<and>
     tap \<noteq> MT_FPS_UPPER_BOUND_PATH \<and> tap \<noteq> MT_RUSH_BOOST_PATH"

lemma paths_differ: "MT_FPS_UPPER_BOUND_PATH \<noteq> MT_RUSH_BOOST_PATH"
  by (simp add: MT_FPS_UPPER_BOUND_PATH_def MT_RUSH_BOOST_PATH_def)

lemma implements_low:
  assumes "implements tap w0 s w" "nodes_ok tap w"
  shows "\<exists>w' e. power_hint w POWER_HINT_LOW_POWER (Some d) = Done (w', e) \<and> implements tap w0 (s\<lparr>ps_low := Some (d \<noteq> 0)\<rparr>) w' \<and>
    nodes_ok tap w' \<and> open_nodes [] e = Some []"
proof -
  define fps where "fps = (if d \<noteq> 0 then ''30'' else ''60'')"
  define rush where "rush = (if d \<noteq> 0 then ''0'' else ''1'')"
  obtain w1 e1 where p1: "power_fwrite w MT_FPS_UPPER_BOUND_PATH fps = (w1, e1)" by fastforce
  obtain w2 e2 where p2: "power_fwrite w1 MT_RUSH_BOOST_PATH rush = (w2, e2)" by fastforce
  have run: "power_hint w POWER_HINT_LOW_POWER (Some d) = Done (w2, e1 @ e2)"
    using p1 p2 by (auto simp: power_hint_def fps_def rush_def)
  have ok: "willing w MT_FPS_UPPER_BOUND_PATH" "willing w MT_RUSH_BOOST_PATH" "fps \<noteq> []" "rush \<noteq> []"
    using assms(2) by (auto simp: nodes_ok_def fps_def rush_def)
  note pp = pw.put_put [OF paths_differ ok, unfolded p1 p2 fst_conv]
  have "open_nodes [] e1 = Some []" "open_nodes [] e2 = Some []"
    using pw.put_closed [of w MT_FPS_UPPER_BOUND_PATH fps] pw.put_closed [of w1 MT_RUSH_BOOST_PATH rush] p1 p2 by simp_all
  then have "open_nodes [] (e1 @ e2) = Some []" using open_nodes_append by simp
  moreover have "nodes_ok tap w2" using assms(2) pp by (simp add: nodes_ok_def p1 p2)
  moreover have "implements tap w0 (s\<lparr>ps_low := Some (d \<noteq> 0)\<rparr>) w2"
    using assms pp by (auto simp: implements_def nodes_ok_def node_value_def p1 p2 fps_def rush_def)
  ultimately show ?thesis using run by blast
qed

lemma implements_tap:
  assumes "implements tap w0 s w" "nodes_ok tap w" "- (2 ^ 31) \<le> v" "v < 2 ^ 31"
  shows "\<exists>w' e. set_feature (Some tap) w POWER_FEATURE_DOUBLE_TAP_TO_WAKE v = (w', e) \<and> implements tap w0 (s\<lparr>ps_tap := Some v\<rparr>) w' \<and>
    nodes_ok tap w' \<and> open_nodes [] e = Some []"
proof -
  have "length (fmt_d v) \<le> 63" using length_fmt_d [of 10 v] assms(3,4) by (auto split: if_splits)
  then have cut: "take 63 (fmt_d v) = fmt_d v" by simp
  obtain w1 e1 where p1: "power_fwrite w tap (fmt_d v) = (w1, e1)" by fastforce
  have run: "set_feature (Some tap) w POWER_FEATURE_DOUBLE_TAP_TO_WAKE v = (w1, e1)"
    by (simp add: set_feature_def cut p1)
  have v: "node_value w1 tap = Some (fmt_d v)"
    using pw.put_value [of w tap "fmt_d v"] assms(2) fmt_d_ne p1 by (simp add: nodes_ok_def)
  have o: "p \<noteq> tap \<Longrightarrow> w1 p = w p" for p using pw.put_other [of p tap w "fmt_d v"] p1 by simp
  have "nodes_ok tap w1" using assms(2) pw.put_willing [of w _ tap "fmt_d v"] p1 by (simp add: nodes_ok_def)
  moreover have "open_nodes [] e1 = Some []" using pw.put_closed [of w tap "fmt_d v"] p1 by simp
  moreover have "implements tap w0 (s\<lparr>ps_tap := Some v\<rparr>) w1"
    using assms(1,2) v o by (auto simp: implements_def nodes_ok_def node_value_def)
  ultimately show ?thesis using run by blast
qed

lemma hal_module_step:
  assumes "implements tap w0 s w" "nodes_ok tap w" "hal_call_ok c"
  shows "\<exists>w' e. hal_module (Some tap) w c = Done (w', e) \<and> implements tap w0 (spec_step c s) w' \<and> nodes_ok tap w' \<and> open_nodes [] e = Some []"
proof (cases c)
  case (Power_Hint h data)
  show ?thesis
  proof (cases "h = POWER_HINT_LOW_POWER")
    case True
    then obtain d where "data = Some d" using assms(3) Power_Hint by auto
    then show ?thesis using implements_low [OF assms(1,2), of d] Power_Hint True by (simp add: hal_module_def)
  next
    case False
    then show ?thesis using assms Power_Hint by (cases h) (simp_all add: hal_module_def power_hint_def)
  qed
next
  case (Set_Feature f v)
  show ?thesis
  proof (cases f)
    case POWER_FEATURE_DOUBLE_TAP_TO_WAKE
    then show ?thesis using implements_tap [OF assms(1,2), of v] assms(3) Set_Feature by (auto simp: hal_module_def)
  qed (use assms Set_Feature in \<open>simp add: hal_module_def set_feature_def\<close>)
qed (use assms in \<open>simp_all add: hal_module_def power_init_def power_set_interactive_def\<close>)

lemma hal_run_steps:
  "implements tap w0 s w \<Longrightarrow> nodes_ok tap w \<Longrightarrow> list_all hal_call_ok cs \<Longrightarrow>
    \<exists>w' e. hal_run (Some tap) w cs = Done (w', e) \<and> implements tap w0 (fold spec_step cs s) w' \<and> open_nodes [] e = Some []"
proof (induction cs arbitrary: s w)
  case (Cons c cs)
  obtain w1 e1 where s1: "hal_module (Some tap) w c = Done (w1, e1)" "implements tap w0 (spec_step c s) w1" "nodes_ok tap w1"
    "open_nodes [] e1 = Some []"
    using hal_module_step [OF Cons.prems(1,2), of c] Cons.prems(3) by auto
  from Cons.IH [OF s1(2,3)] Cons.prems(3) obtain w2 e2 where
    "hal_run (Some tap) w1 cs = Done (w2, e2)" "implements tap w0 (fold spec_step cs (spec_step c s)) w2" "open_nodes [] e2 = Some []"
    by auto
  then show ?case using s1 open_nodes_append [of "[]" e1 "[]" e2] by simp
qed simp

text \<open>C13. The power HAL implements a record of two settings: after any sequence of calls, on nodes that take writes, the frame
  rate bound and the rush boost switch say what the last low power hint asked for (30 and 0, or 60 and 1), the
  wake-up node holds in decimal the last state set, nodes never asked about keep their values, no other node changes,
  and every node opened has been closed.\<close>

theorem hal_run_refines:
  assumes "nodes_ok tap w0" "list_all hal_call_ok cs"
  shows "\<exists>w e. hal_run (Some tap) w0 cs = Done (w, e) \<and> open_nodes [] e = Some [] \<and>
    implements tap w0 (fold spec_step cs \<lparr>ps_low = None, ps_tap = None\<rparr>) w"
  using hal_run_steps [OF _ assms, of w0 "\<lparr>ps_low = None, ps_tap = None\<rparr>"] by (auto simp: implements_def)

definition sample_nodes :: sysfs where
  "sample_nodes = (\<lambda>p. Some \<lparr>sn_value = ''60'', sn_answer = (\<lambda>s. int (length s))\<rparr>)"

theorem hal_run_any_nodes_witness:
  "hal_run None sample_nodes [Power_Hint POWER_HINT_LOW_POWER None] = Undef Null_Deref \<and>
   (\<exists>w e. hal_run None (\<lambda>p. None) [Power_Hint POWER_HINT_LOW_POWER (Some 1)] = Done (w, e) \<and> w MT_RUSH_BOOST_PATH = None)"
  using hal_run_any_nodes [of None sample_nodes "[Power_Hint POWER_HINT_LOW_POWER None]"]
    hal_run_any_nodes [of None "\<lambda>p. None" "[Power_Hint POWER_HINT_LOW_POWER (Some 1)]"]
  by (auto simp: has_data_def takes_writes_def)

theorem hal_run_refines_witness:
  "\<exists>w e. hal_run (Some ''/sys/devices/mx_tsp/gesture_control'') sample_nodes
      [Init, Power_Hint POWER_HINT_LOW_POWER (Some 1), Set_Feature POWER_FEATURE_DOUBLE_TAP_TO_WAKE 1, Power_Hint POWER_HINT_VSYNC None] = Done (w, e) \<and>
    node_value w MT_FPS_UPPER_BOUND_PATH = Some ''30'' \<and> node_value w MT_RUSH_BOOST_PATH = Some ''0''"
proof -
  have "nodes_ok ''/sys/devices/mx_tsp/gesture_control'' sample_nodes"
    by (simp add: nodes_ok_def willing_def sample_nodes_def MT_FPS_UPPER_BOUND_PATH_def MT_RUSH_BOOST_PATH_def)
  from hal_run_refines [OF this, of "[Init, Power_Hint POWER_HINT_LOW_POWER (Some 1), Set_Feature POWER_FEATURE_DOUBLE_TAP_TO_WAKE 1,
      Power_Hint POWER_HINT_VSYNC None]"]
  show ?thesis by (auto simp: implements_def)
qed

lemma strcasecmp_c: "cstr x \<Longrightarrow> os_strcasecmp x ''c'' = 0 \<longleftrightarrow> x = ''c'' \<or> x = ''C''"
proof -
  assume "cstr x"
  then have "os_strcasecmp x ''c'' = 0 \<longleftrightarrow> map tolower_val x = map tolower_val ''c''"
    using strn_diff_0_iff [of tolower_val x "''c''" "max (length x) 1", OF tolower_val_0_iff]
    by (simp add: os_strcasecmp_def cstr_def)
  moreover have "tolower_val c = tolower_val (CHR ''c'') \<longleftrightarrow> c = CHR ''c'' \<or> c = CHR ''C''" for c
    by (cases c) (auto simp: tolower_val_def char_val_def)
  ultimately show ?thesis by (auto simp: map_eq_Cons_conv)
qed

text \<open>C39. The calibration helper exits with 0 exactly when it was called with the one argument \<open>c\<close>, in either case, the
  trigger node could be opened and the write of \<open>1\<close> to it was not refused; a node that takes writes then holds \<open>1\<close>.
  A refused calibration exits with 1, any other call prints the usage, exits with 127 and touches nothing.\<close>

theorem calibration_helper_status:
  "list_all cstr argv \<Longrightarrow> argv \<noteq> [] \<Longrightarrow>
    \<exists>ret err w' e. helper_main w argv = Done (ret, err, w', e) \<and> ret \<in> {0, 1, 127} \<and> open_nodes [] e = Some [] \<and>
      (ret = 0 \<longleftrightarrow> tl argv \<in> {[''c''], [''C'']} \<and> (\<exists>d. w MEIZU_PS_CALIBRATION_TRIGGER_PATH = Some d \<and> 0 \<le> sn_answer d ''1'')) \<and>
      (ret = 127 \<longleftrightarrow> tl argv \<notin> {[''c''], [''C'']}) \<and> (ret = 127 \<longrightarrow> w' = w \<and> e = [] \<and> err \<noteq> []) \<and>
      (ret = 0 \<and> willing w MEIZU_PS_CALIBRATION_TRIGGER_PATH \<longrightarrow> node_value w' MEIZU_PS_CALIBRATION_TRIGGER_PATH = Some ''1'') \<and>
      (\<forall>p. p \<noteq> MEIZU_PS_CALIBRATION_TRIGGER_PATH \<longrightarrow> w' p = w p)"
proof -
  assume a: "list_all cstr argv" "argv \<noteq> []"
  have cmp: "os_strcasecmp x ''c'' = 0 \<longleftrightarrow> x = ''c'' \<or> x = ''C''" if "cstr x" for x
    using that by (rule strcasecmp_c)
  consider (usage) "tl argv \<notin> {[''c''], [''C'']}" | (run) "tl argv = [''c''] \<or> tl argv = [''C'']" by auto
  then show ?thesis
  proof cases
    case usage
    obtain prog args where argv: "argv = prog # args" using a(2) by (cases argv) auto
    have "length argv = 2 \<Longrightarrow> os_strcasecmp (hd args) ''c'' \<noteq> 0"
      using usage argv a(1) cmp by (cases args) auto
    then have "helper_main w argv = Done (127, snd (do_usage prog), w, [])"
      by (auto simp: helper_main_def argv do_usage_def Let_def)
    then show ?thesis using usage by (simp add: do_usage_def)
  next
    case run
    then obtain prog where argv: "argv = [prog, ''c''] \<or> argv = [prog, ''C'']" by (cases argv) auto
    have run_eq: "helper_main w argv = (case meizu_psh_run_calibration w of (ret, w', e) \<Rightarrow> Done (ret, [], w', e))"
      using argv by (auto simp: helper_main_def do_calibrate_def strcasecmp_c cstr_def split: prod.splits)
    show ?thesis
    proof (cases "w MEIZU_PS_CALIBRATION_TRIGGER_PATH")
      case None
      then show ?thesis using run by (auto simp: run_eq meizu_psh_run_calibration_def Let_def willing_def)
    next
      case (Some d)
      then show ?thesis
        using run by (auto simp: run_eq meizu_psh_run_calibration_def Let_def node_write_def willing_def node_value_def)
    qed
  qed
qed

theorem calibration_helper_status_witness:
  "\<exists>w' e. helper_main sample_nodes [''meizupshelper'', ''c''] = Done (0, [], w', e) \<and>
     node_value w' MEIZU_PS_CALIBRATION_TRIGGER_PATH = Some ''1''"
proof -
  have "list_all cstr [''meizupshelper'', ''c'']" by (simp add: cstr_def)
  from calibration_helper_status [OF this, of sample_nodes] show ?thesis
    by (auto simp: sample_nodes_def willing_def helper_main_def strcasecmp_c cstr_def do_calibrate_def
      meizu_psh_run_calibration_def node_write_def node_value_def Let_def)
qed

end
