(* ===== verification/Perf_Service.thy ===== *)
theory Perf_Service
  imports C_Prelude
begin

text \<open>
  The client of MediaTek's performance service (\<open>mtk/perfservicenative/PerfServiceNative.cpp\<close>). Every exported
  function begins with a \<open>return\<close>; the code that follows it is translated too, as the argument that
  \<open>early\<close> drops.
\<close>

unbundle bit_operations_syntax

section \<open>State and environment\<close>

datatype perf_transaction =
    TRANSACTION_boostEnable | TRANSACTION_boostDisable | TRANSACTION_boostEnableTimeout |
    TRANSACTION_boostEnableTimeoutMs | TRANSACTION_notifyAppState | TRANSACTION_userReg |
    TRANSACTION_userRegBigLittle | TRANSACTION_userUnreg | TRANSACTION_userGetCapability | TRANSACTION_userRegScn |
    TRANSACTION_userRegScnConfig | TRANSACTION_userUnregScn | TRANSACTION_userEnable | TRANSACTION_userEnableTimeout |
    TRANSACTION_userEnableTimeoutMs | TRANSACTION_userDisable | TRANSACTION_userResetAll |
    TRANSACTION_userDisableAll | TRANSACTION_userRestoreAll | TRANSACTION_dumpAll | TRANSACTION_setFavorPid |
    TRANSACTION_notifyFrameUpdate | TRANSACTION_notifyDisplayType | TRANSACTION_notifyUserStatus

text \<open>
  The constants of the interface, with their numbers: boost scenarios, states of an application, types of display and of
  notification, screen states, the capabilities a caller may ask for and the commands of a scenario's configuration.
\<close>

datatype perf_scenario =
    SCN_NONE | SCN_APP_SWITCH | SCN_APP_ROTATE | SCN_SW_CODEC | SCN_SW_CODEC_BOOST | SCN_APP_TOUCH
  | SCN_DONT_USE1 | SCN_SW_FRAME_UPDATE

datatype perf_app_state =
    STATE_PAUSED | STATE_RESUMED | STATE_DESTROYED | STATE_DEAD | STATE_STOPPED

datatype perf_display_type =
    DISPLAY_TYPE_GAME | DISPLAY_TYPE_OTHERS

datatype perf_notify_user_type =
    NOTIFY_USER_TYPE_PID | NOTIFY_USER_TYPE_FRAME_UPDATE | NOTIFY_USER_TYPE_DISPLAY_TYPE

datatype perf_screen_off =
    SCREEN_OFF_DISABLE | SCREEN_OFF_ENABLE | SCREEN_OFF_WAIT_RESTORE

datatype perf_capability =
    CMD_GET_CPU_FREQ_LEVEL_COUNT | CMD_GET_CPU_FREQ_LITTLE_LEVEL_COUNT | CMD_GET_CPU_FREQ_BIG_LEVEL_COUNT
  | CMD_GET_GPU_FREQ_LEVEL_COUNT | CMD_GET_MEM_FREQ_LEVEL_COUNT

datatype perf_config_cmd =
    CMD_SET_CPU_CORE_MIN | CMD_SET_CPU_CORE_MAX | CMD_SET_CPU_CORE_BIG_LITTLE_MIN
  | CMD_SET_CPU_CORE_BIG_LITTLE_MAX | CMD_SET_CPU_FREQ_MIN | CMD_SET_CPU_FREQ_MAX
  | CMD_SET_CPU_FREQ_BIG_LITTLE_MIN | CMD_SET_CPU_FREQ_BIG_LITTLE_MAX | CMD_SET_GPU_FREQ_MIN
  | CMD_SET_GPU_FREQ_MAX | CMD_SET_MEM_FREQ_MIN | CMD_SET_MEM_FREQ_MAX | CMD_SET_SCREEN_OFF_STATE

primrec perf_scenario_id :: "perf_scenario \<Rightarrow> int" where
  "perf_scenario_id SCN_NONE = 0"
| "perf_scenario_id SCN_APP_SWITCH = 1"
| "perf_scenario_id SCN_APP_ROTATE = 2"
| "perf_scenario_id SCN_SW_CODEC = 3"
| "perf_scenario_id SCN_SW_CODEC_BOOST = 4"
| "perf_scenario_id SCN_APP_TOUCH = 5"
| "perf_scenario_id SCN_DONT_USE1 = 6"
| "perf_scenario_id SCN_SW_FRAME_UPDATE = 7"

primrec perf_app_state_id :: "perf_app_state \<Rightarrow> int" where
  "perf_app_state_id STATE_PAUSED = 0"
| "perf_app_state_id STATE_RESUMED = 1"
| "perf_app_state_id STATE_DESTROYED = 2"
| "perf_app_state_id STATE_DEAD = 3"
| "perf_app_state_id STATE_STOPPED = 4"

primrec perf_display_type_id :: "perf_display_type \<Rightarrow> int" where
  "perf_display_type_id DISPLAY_TYPE_GAME = 0"
| "perf_display_type_id DISPLAY_TYPE_OTHERS = 1"

primrec perf_notify_user_type_id :: "perf_notify_user_type \<Rightarrow> int" where
  "perf_notify_user_type_id NOTIFY_USER_TYPE_PID = 0"
| "perf_notify_user_type_id NOTIFY_USER_TYPE_FRAME_UPDATE = 1"
| "perf_notify_user_type_id NOTIFY_USER_TYPE_DISPLAY_TYPE = 2"

primrec perf_screen_off_id :: "perf_screen_off \<Rightarrow> int" where
  "perf_screen_off_id SCREEN_OFF_DISABLE = 0"
| "perf_screen_off_id SCREEN_OFF_ENABLE = 1"
| "perf_screen_off_id SCREEN_OFF_WAIT_RESTORE = 2"

primrec perf_capability_id :: "perf_capability \<Rightarrow> int" where
  "perf_capability_id CMD_GET_CPU_FREQ_LEVEL_COUNT = 0"
| "perf_capability_id CMD_GET_CPU_FREQ_LITTLE_LEVEL_COUNT = 1"
| "perf_capability_id CMD_GET_CPU_FREQ_BIG_LEVEL_COUNT = 2"
| "perf_capability_id CMD_GET_GPU_FREQ_LEVEL_COUNT = 3"
| "perf_capability_id CMD_GET_MEM_FREQ_LEVEL_COUNT = 4"

primrec perf_config_cmd_id :: "perf_config_cmd \<Rightarrow> int" where
  "perf_config_cmd_id CMD_SET_CPU_CORE_MIN = 0"
| "perf_config_cmd_id CMD_SET_CPU_CORE_MAX = 1"
| "perf_config_cmd_id CMD_SET_CPU_CORE_BIG_LITTLE_MIN = 2"
| "perf_config_cmd_id CMD_SET_CPU_CORE_BIG_LITTLE_MAX = 3"
| "perf_config_cmd_id CMD_SET_CPU_FREQ_MIN = 4"
| "perf_config_cmd_id CMD_SET_CPU_FREQ_MAX = 5"
| "perf_config_cmd_id CMD_SET_CPU_FREQ_BIG_LITTLE_MIN = 6"
| "perf_config_cmd_id CMD_SET_CPU_FREQ_BIG_LITTLE_MAX = 7"
| "perf_config_cmd_id CMD_SET_GPU_FREQ_MIN = 8"
| "perf_config_cmd_id CMD_SET_GPU_FREQ_MAX = 9"
| "perf_config_cmd_id CMD_SET_MEM_FREQ_MIN = 10"
| "perf_config_cmd_id CMD_SET_MEM_FREQ_MAX = 11"
| "perf_config_cmd_id CMD_SET_SCREEN_OFF_STATE = 12"

text \<open>A transaction on the service: its number, the integers in the parcel behind the interface token, and whether it is one way.\<close>

record perf_parcel =
  pp_code :: perf_transaction
  pp_token :: string
  pp_ints :: "int list"
  pp_oneway :: bool

text \<open>The static variables of the file and of \<open>notifyFrameUpdate\<close>, and what was sent.\<close>

record perf_state =
  pf_inited :: int
  pf_binder :: bool
  pf_previous_time :: int
  pf_set_tid :: int
  pf_sent :: "perf_parcel list"

text \<open>
  The boot mode file, if it can be opened: the bytes a \<open>read\<close> delivers, or \<^const>\<open>None\<close> for an error; whether
  the service is registered; process and thread; the clock; and the integer in the service's reply.
\<close>

record perf_env =
  pe_boot :: "string option option"
  pe_service :: bool
  pe_pid :: int
  pe_tid :: int
  pe_now :: int
  pe_reply :: "perf_parcel \<Rightarrow> int"

type_synonym 'a perf = "perf_state \<Rightarrow> ('a \<times> perf_state) outcome"

definition bindP :: "'a perf \<Rightarrow> ('a \<Rightarrow> 'b perf) \<Rightarrow> 'b perf" where
  "bindP m f s = bindC (m s) (\<lambda>(x, s'). f x s')"

text \<open>\<open>return v;\<close> in front of the rest of a body.\<close>

definition early :: "'a \<Rightarrow> 'a perf \<Rightarrow> 'a perf" where
  "early v rest s = Done (v, s)"

section \<open>Initialisation\<close>

definition RENDER_THREAD_UPDATE_DURATION :: int where "RENDER_THREAD_UPDATE_DURATION = 400000000"
definition RENDER_BIT :: int where "RENDER_BIT = 0x800000"

text \<open>A failed \<open>read\<close> is not told from a successful one, and leaves the buffer as it was.\<close>

definition check_meta_mode :: "string option option \<Rightarrow> int outcome" where
  "check_meta_mode boot =
     (case boot of
        None \<Rightarrow> Done 0
      | Some None \<Rightarrow> Undef Uninitialised
      | Some (Some bytes) \<Rightarrow>
          (case take 4 bytes of
             [] \<Rightarrow> Done 0
           | c # _ \<Rightarrow> if c = CHR 0x31 then Done 1 else Done 0))"

definition init :: "perf_env \<Rightarrow> unit perf" where
  "init env = early () (\<lambda>s.
     if pf_inited s = 0 then
       bindC (check_meta_mode (pe_boot env)) (\<lambda>meta.
         if meta \<noteq> 0 then Done ((), s)
         else Done ((), s\<lparr>pf_binder := pe_service env, pf_inited := (if pe_service env then 1 else pf_inited s)\<rparr>))
     else Done ((), s))"

definition after_init :: "perf_env \<Rightarrow> 'a perf \<Rightarrow> 'a perf" where
  "after_init env rest = bindP (init env) (\<lambda>_. rest)"

section \<open>Transactions\<close>

definition parcel :: "perf_transaction \<Rightarrow> int list \<Rightarrow> bool \<Rightarrow> perf_parcel" where
  "parcel code ints oneway =
     \<lparr>pp_code = code, pp_token = ''com.mediatek.perfservice.IPerfService'', pp_ints = ints, pp_oneway = oneway\<rparr>"

definition transact :: "perf_transaction \<Rightarrow> int list \<Rightarrow> bool \<Rightarrow> int option perf" where
  "transact code ints oneway s =
     Done (None, if pf_binder s then s\<lparr>pf_sent := pf_sent s @ [parcel code ints oneway]\<rparr> else s)"

definition transact_reply :: "perf_env \<Rightarrow> perf_transaction \<Rightarrow> int list \<Rightarrow> int option perf" where
  "transact_reply env code ints s =
     (if pf_binder s
      then Done (Some (pe_reply env (parcel code ints False)), s\<lparr>pf_sent := pf_sent s @ [parcel code ints False]\<rparr>)
      else Done (Some (- 1), s))"

section \<open>Exported functions\<close>

definition PerfServiceNative_boostEnable :: "perf_env \<Rightarrow> int \<Rightarrow> int option perf" where
  "PerfServiceNative_boostEnable env scenario = early None (after_init env (transact TRANSACTION_boostEnable [scenario] False))"

definition PerfServiceNative_boostDisable :: "perf_env \<Rightarrow> int \<Rightarrow> int option perf" where
  "PerfServiceNative_boostDisable env scenario = early None (after_init env (transact TRANSACTION_boostDisable [scenario] False))"

definition PerfServiceNative_boostEnableTimeout :: "perf_env \<Rightarrow> int \<Rightarrow> int \<Rightarrow> int option perf" where
  "PerfServiceNative_boostEnableTimeout env scenario timeout = early None (after_init env (transact TRANSACTION_boostEnableTimeout [scenario, timeout] False))"

definition PerfServiceNative_boostEnableTimeoutMs :: "perf_env \<Rightarrow> int \<Rightarrow> int \<Rightarrow> int option perf" where
  "PerfServiceNative_boostEnableTimeoutMs env scenario timeout_ms = early None (after_init env (transact TRANSACTION_boostEnableTimeoutMs [scenario, timeout_ms] False))"

definition PerfServiceNative_boostEnableAsync :: "perf_env \<Rightarrow> int \<Rightarrow> int option perf" where
  "PerfServiceNative_boostEnableAsync env scenario = early None (after_init env (transact TRANSACTION_boostEnable [scenario] True))"

definition PerfServiceNative_boostDisableAsync :: "perf_env \<Rightarrow> int \<Rightarrow> int option perf" where
  "PerfServiceNative_boostDisableAsync env scenario = early None (after_init env (transact TRANSACTION_boostDisable [scenario] True))"

definition PerfServiceNative_boostEnableTimeoutAsync :: "perf_env \<Rightarrow> int \<Rightarrow> int \<Rightarrow> int option perf" where
  "PerfServiceNative_boostEnableTimeoutAsync env scenario timeout = early None (after_init env (transact TRANSACTION_boostEnableTimeout [scenario, timeout] True))"

definition PerfServiceNative_boostEnableTimeoutMsAsync :: "perf_env \<Rightarrow> int \<Rightarrow> int \<Rightarrow> int option perf" where
  "PerfServiceNative_boostEnableTimeoutMsAsync env scenario timeout_ms = early None (after_init env (transact TRANSACTION_boostEnableTimeoutMs [scenario, timeout_ms] True))"

definition PerfServiceNative_userReg :: "perf_env \<Rightarrow> int \<Rightarrow> int \<Rightarrow> int option perf" where
  "PerfServiceNative_userReg env scn_core scn_freq = early (Some (- 1)) (after_init env (transact_reply env TRANSACTION_userReg [scn_core, scn_freq, pe_pid env, pe_tid env]))"

definition PerfServiceNative_userRegBigLittle :: "perf_env \<Rightarrow> int \<Rightarrow> int \<Rightarrow> int \<Rightarrow> int \<Rightarrow> int option perf" where
  "PerfServiceNative_userRegBigLittle env scn_core_big scn_freq_big scn_core_little scn_freq_little = early (Some (- 1)) (after_init env (transact_reply env TRANSACTION_userRegBigLittle [scn_core_big, scn_freq_big, scn_core_little, scn_freq_little, pe_pid env, pe_tid env]))"

definition PerfServiceNative_userUnreg :: "perf_env \<Rightarrow> int \<Rightarrow> int option perf" where
  "PerfServiceNative_userUnreg env handle = early None (after_init env (transact TRANSACTION_userUnreg [handle] False))"

definition PerfServiceNative_userGetCapability :: "perf_env \<Rightarrow> int \<Rightarrow> int option perf" where
  "PerfServiceNative_userGetCapability env cmd = early (Some (- 1)) (after_init env (transact_reply env TRANSACTION_userGetCapability [cmd]))"

definition PerfServiceNative_userRegScn :: "perf_env \<Rightarrow> int option perf" where
  "PerfServiceNative_userRegScn env = early (Some (- 1)) (after_init env (transact_reply env TRANSACTION_userRegScn [pe_pid env, pe_tid env]))"

definition PerfServiceNative_userRegScnConfig :: "perf_env \<Rightarrow> int \<Rightarrow> int \<Rightarrow> int \<Rightarrow> int \<Rightarrow> int \<Rightarrow> int \<Rightarrow> int option perf" where
  "PerfServiceNative_userRegScnConfig env handle cmd param_1 param_2 param_3 param_4 = early None (after_init env (transact TRANSACTION_userRegScnConfig [handle, cmd, param_1, param_2, param_3, param_4] False))"

definition PerfServiceNative_userUnregScn :: "perf_env \<Rightarrow> int \<Rightarrow> int option perf" where
  "PerfServiceNative_userUnregScn env handle = early None (after_init env (transact TRANSACTION_userUnregScn [handle] False))"

definition PerfServiceNative_userEnable :: "perf_env \<Rightarrow> int \<Rightarrow> int option perf" where
  "PerfServiceNative_userEnable env handle = early None (after_init env (transact TRANSACTION_userEnable [handle] False))"

definition PerfServiceNative_userDisable :: "perf_env \<Rightarrow> int \<Rightarrow> int option perf" where
  "PerfServiceNative_userDisable env handle = early None (after_init env (transact TRANSACTION_userDisable [handle] False))"

definition PerfServiceNative_userEnableTimeout :: "perf_env \<Rightarrow> int \<Rightarrow> int \<Rightarrow> int option perf" where
  "PerfServiceNative_userEnableTimeout env handle timeout = early None (after_init env (transact TRANSACTION_userEnableTimeout [handle, timeout] False))"

definition PerfServiceNative_userEnableTimeoutMs :: "perf_env \<Rightarrow> int \<Rightarrow> int \<Rightarrow> int option perf" where
  "PerfServiceNative_userEnableTimeoutMs env handle timeout_ms = early None (after_init env (transact TRANSACTION_userEnableTimeoutMs [handle, timeout_ms] False))"

definition PerfServiceNative_userResetAll :: "perf_env \<Rightarrow> int option perf" where
  "PerfServiceNative_userResetAll env = early None (after_init env (transact TRANSACTION_userResetAll [] False))"

definition PerfServiceNative_userDisableAll :: "perf_env \<Rightarrow> int option perf" where
  "PerfServiceNative_userDisableAll env = early None (after_init env (transact TRANSACTION_userDisableAll [] False))"

definition PerfServiceNative_dumpAll :: "perf_env \<Rightarrow> int option perf" where
  "PerfServiceNative_dumpAll env = early None (after_init env (transact TRANSACTION_dumpAll [] False))"

definition PerfServiceNative_setFavorPid :: "perf_env \<Rightarrow> int \<Rightarrow> int option perf" where
  "PerfServiceNative_setFavorPid env pid = early None (after_init env (transact TRANSACTION_setFavorPid [pid] True))"

definition PerfServiceNative_setBoostThread :: "perf_env \<Rightarrow> int option perf" where
  "PerfServiceNative_setBoostThread env = early None (after_init env (transact TRANSACTION_setFavorPid [pe_tid env OR RENDER_BIT] True))"

definition PerfServiceNative_notifyFrameUpdate :: "perf_env \<Rightarrow> int \<Rightarrow> int option perf" where
  "PerfServiceNative_notifyFrameUpdate env level =
     early None (after_init env (\<lambda>st.
       let now = pe_now env;
           level' = (if pf_set_tid st = 0 then pe_tid env else level);
           st1 = st\<lparr>pf_set_tid := 1\<rparr>
       in if pf_previous_time st = 0 \<or> RENDER_THREAD_UPDATE_DURATION < now - pf_previous_time st
          then bindP (transact TRANSACTION_notifyFrameUpdate [level'] True)
                 (\<lambda>_ st2. Done (None, st2\<lparr>pf_previous_time := now\<rparr>)) st1
          else Done (None, st1)))"

definition PerfServiceNative_notifyDisplayType :: "perf_env \<Rightarrow> int \<Rightarrow> int option perf" where
  "PerfServiceNative_notifyDisplayType env type = early None (after_init env (transact TRANSACTION_notifyDisplayType [type] True))"

definition PerfServiceNative_notifyUserStatus :: "perf_env \<Rightarrow> int \<Rightarrow> int \<Rightarrow> int option perf" where
  "PerfServiceNative_notifyUserStatus env type status = early None (after_init env (transact TRANSACTION_notifyUserStatus [type, status] True))"


section \<open>Calls\<close>

datatype perf_fn =
    Call_boostEnable int
  | Call_boostDisable int
  | Call_boostEnableTimeout int int
  | Call_boostEnableTimeoutMs int int
  | Call_boostEnableAsync int
  | Call_boostDisableAsync int
  | Call_boostEnableTimeoutAsync int int
  | Call_boostEnableTimeoutMsAsync int int
  | Call_userReg int int
  | Call_userRegBigLittle int int int int
  | Call_userUnreg int
  | Call_userGetCapability int
  | Call_userRegScn
  | Call_userRegScnConfig int int int int int int
  | Call_userUnregScn int
  | Call_userEnable int
  | Call_userDisable int
  | Call_userEnableTimeout int int
  | Call_userEnableTimeoutMs int int
  | Call_userResetAll
  | Call_userDisableAll
  | Call_dumpAll
  | Call_setFavorPid int
  | Call_setBoostThread
  | Call_notifyFrameUpdate int
  | Call_notifyDisplayType int
  | Call_notifyUserStatus int int

primrec perf_call :: "perf_env \<Rightarrow> perf_fn \<Rightarrow> int option perf" where
  "perf_call env (Call_boostEnable scenario) = PerfServiceNative_boostEnable env scenario"
| "perf_call env (Call_boostDisable scenario) = PerfServiceNative_boostDisable env scenario"
| "perf_call env (Call_boostEnableTimeout scenario timeout) = PerfServiceNative_boostEnableTimeout env scenario timeout"
| "perf_call env (Call_boostEnableTimeoutMs scenario timeout_ms) = PerfServiceNative_boostEnableTimeoutMs env scenario timeout_ms"
| "perf_call env (Call_boostEnableAsync scenario) = PerfServiceNative_boostEnableAsync env scenario"
| "perf_call env (Call_boostDisableAsync scenario) = PerfServiceNative_boostDisableAsync env scenario"
| "perf_call env (Call_boostEnableTimeoutAsync scenario timeout) = PerfServiceNative_boostEnableTimeoutAsync env scenario timeout"
| "perf_call env (Call_boostEnableTimeoutMsAsync scenario timeout_ms) = PerfServiceNative_boostEnableTimeoutMsAsync env scenario timeout_ms"
| "perf_call env (Call_userReg scn_core scn_freq) = PerfServiceNative_userReg env scn_core scn_freq"
| "perf_call env (Call_userRegBigLittle scn_core_big scn_freq_big scn_core_little scn_freq_little) = PerfServiceNative_userRegBigLittle env scn_core_big scn_freq_big scn_core_little scn_freq_little"
| "perf_call env (Call_userUnreg handle) = PerfServiceNative_userUnreg env handle"
| "perf_call env (Call_userGetCapability cmd) = PerfServiceNative_userGetCapability env cmd"
| "perf_call env (Call_userRegScn) = PerfServiceNative_userRegScn env"
| "perf_call env (Call_userRegScnConfig handle cmd param_1 param_2 param_3 param_4) = PerfServiceNative_userRegScnConfig env handle cmd param_1 param_2 param_3 param_4"
| "perf_call env (Call_userUnregScn handle) = PerfServiceNative_userUnregScn env handle"
| "perf_call env (Call_userEnable handle) = PerfServiceNative_userEnable env handle"
| "perf_call env (Call_userDisable handle) = PerfServiceNative_userDisable env handle"
| "perf_call env (Call_userEnableTimeout handle timeout) = PerfServiceNative_userEnableTimeout env handle timeout"
| "perf_call env (Call_userEnableTimeoutMs handle timeout_ms) = PerfServiceNative_userEnableTimeoutMs env handle timeout_ms"
| "perf_call env (Call_userResetAll) = PerfServiceNative_userResetAll env"
| "perf_call env (Call_userDisableAll) = PerfServiceNative_userDisableAll env"
| "perf_call env (Call_dumpAll) = PerfServiceNative_dumpAll env"
| "perf_call env (Call_setFavorPid pid) = PerfServiceNative_setFavorPid env pid"
| "perf_call env (Call_setBoostThread) = PerfServiceNative_setBoostThread env"
| "perf_call env (Call_notifyFrameUpdate level) = PerfServiceNative_notifyFrameUpdate env level"
| "perf_call env (Call_notifyDisplayType type) = PerfServiceNative_notifyDisplayType env type"
| "perf_call env (Call_notifyUserStatus type status) = PerfServiceNative_notifyUserStatus env type status"

fun perf_calls :: "(perf_env \<times> perf_fn) list \<Rightarrow> int option list perf" where
  "perf_calls [] s = Done ([], s)"
| "perf_calls ((env, c) # cs) s =
     bindC (perf_call env c s) (\<lambda>(r, s1). bindC (perf_calls cs s1) (\<lambda>(rs, s2). Done (r # rs, s2)))"

definition perf_start :: perf_state where
  "perf_start = \<lparr>pf_inited = 0, pf_binder = False, pf_previous_time = 0, pf_set_tid = 0, pf_sent = []\<rparr>"

section \<open>Properties\<close>

text \<open>The functions that return a value: a handle or a capability.\<close>

primrec perf_returns_value :: "perf_fn \<Rightarrow> bool" where
  "perf_returns_value (Call_boostEnable scenario) \<longleftrightarrow> False"
| "perf_returns_value (Call_boostDisable scenario) \<longleftrightarrow> False"
| "perf_returns_value (Call_boostEnableTimeout scenario timeout) \<longleftrightarrow> False"
| "perf_returns_value (Call_boostEnableTimeoutMs scenario timeout_ms) \<longleftrightarrow> False"
| "perf_returns_value (Call_boostEnableAsync scenario) \<longleftrightarrow> False"
| "perf_returns_value (Call_boostDisableAsync scenario) \<longleftrightarrow> False"
| "perf_returns_value (Call_boostEnableTimeoutAsync scenario timeout) \<longleftrightarrow> False"
| "perf_returns_value (Call_boostEnableTimeoutMsAsync scenario timeout_ms) \<longleftrightarrow> False"
| "perf_returns_value (Call_userReg scn_core scn_freq) \<longleftrightarrow> True"
| "perf_returns_value (Call_userRegBigLittle scn_core_big scn_freq_big scn_core_little scn_freq_little) \<longleftrightarrow> True"
| "perf_returns_value (Call_userUnreg handle) \<longleftrightarrow> False"
| "perf_returns_value (Call_userGetCapability cmd) \<longleftrightarrow> True"
| "perf_returns_value (Call_userRegScn) \<longleftrightarrow> True"
| "perf_returns_value (Call_userRegScnConfig handle cmd param_1 param_2 param_3 param_4) \<longleftrightarrow> False"
| "perf_returns_value (Call_userUnregScn handle) \<longleftrightarrow> False"
| "perf_returns_value (Call_userEnable handle) \<longleftrightarrow> False"
| "perf_returns_value (Call_userDisable handle) \<longleftrightarrow> False"
| "perf_returns_value (Call_userEnableTimeout handle timeout) \<longleftrightarrow> False"
| "perf_returns_value (Call_userEnableTimeoutMs handle timeout_ms) \<longleftrightarrow> False"
| "perf_returns_value (Call_userResetAll) \<longleftrightarrow> False"
| "perf_returns_value (Call_userDisableAll) \<longleftrightarrow> False"
| "perf_returns_value (Call_dumpAll) \<longleftrightarrow> False"
| "perf_returns_value (Call_setFavorPid pid) \<longleftrightarrow> False"
| "perf_returns_value (Call_setBoostThread) \<longleftrightarrow> False"
| "perf_returns_value (Call_notifyFrameUpdate level) \<longleftrightarrow> False"
| "perf_returns_value (Call_notifyDisplayType type) \<longleftrightarrow> False"
| "perf_returns_value (Call_notifyUserStatus type status) \<longleftrightarrow> False"

lemmas perf_functions =
  PerfServiceNative_boostEnable_def PerfServiceNative_boostDisable_def PerfServiceNative_boostEnableTimeout_def
  PerfServiceNative_boostEnableTimeoutMs_def PerfServiceNative_boostEnableAsync_def
  PerfServiceNative_boostDisableAsync_def PerfServiceNative_boostEnableTimeoutAsync_def
  PerfServiceNative_boostEnableTimeoutMsAsync_def PerfServiceNative_userReg_def
  PerfServiceNative_userRegBigLittle_def PerfServiceNative_userUnreg_def PerfServiceNative_userGetCapability_def
  PerfServiceNative_userRegScn_def PerfServiceNative_userRegScnConfig_def PerfServiceNative_userUnregScn_def
  PerfServiceNative_userEnable_def PerfServiceNative_userDisable_def PerfServiceNative_userEnableTimeout_def
  PerfServiceNative_userEnableTimeoutMs_def PerfServiceNative_userResetAll_def
  PerfServiceNative_userDisableAll_def PerfServiceNative_dumpAll_def PerfServiceNative_setFavorPid_def
  PerfServiceNative_setBoostThread_def PerfServiceNative_notifyFrameUpdate_def
  PerfServiceNative_notifyDisplayType_def PerfServiceNative_notifyUserStatus_def

lemma perf_call_inert: "perf_call env c s = Done (if perf_returns_value c then Some (- 1) else None, s)"
  by (cases c) (simp_all add: perf_functions early_def)


text \<open>The test for the meta boot mode answers 1 exactly when the boot mode file can be read and its first character is
  \<open>1\<close>, and 0 when the file is missing or empty; after a failed read it tests a byte that was never set.\<close>

theorem check_meta_mode_spec:
  "(check_meta_mode boot = Done 1 \<longleftrightarrow> (\<exists>rest. boot = Some (Some (CHR ''1'' # rest)))) \<and>
   (check_meta_mode boot = Undef Uninitialised \<longleftrightarrow> boot = Some None) \<and>
   check_meta_mode boot \<in> {Done 0, Done 1, Undef Uninitialised}"
  by (cases boot; cases "the boot"; cases "the (the boot)") (auto simp: check_meta_mode_def split: option.splits list.splits)

end
