(* ===== verification/Shims.thy ===== *)
theory Shims
  imports C_Prelude
begin

text \<open>
  The shared libraries of small functions that let MediaTek's binaries run on a newer system: \<open>libmtk_symbols\<close>,
  \<open>libshims\<close> and \<open>mtk/libxlog\<close>. Most of them export an old symbol and call the function that has replaced it, in a
  library outside the tree; a few are stubs. The other libraries are a parameter: what a call of a symbol does to
  the state of the process, whether \<open>dlsym\<close> finds a symbol further on, the log, and the width of \<open>size_t\<close>.

  A definition carries the symbol's name without the leading underscores.
\<close>

section \<open>Calls\<close>

text \<open>An argument as its C type has it; pointers are addresses, a \<open>std::string\<close> is passed as an object.\<close>

datatype arg = Int32 int | UInt32 u32 | ULong u64 | Bool8 u8 | Ptr nat | Size nat | Str string

text \<open>
  A function called by its symbol gives its result, if it is not \<open>void\<close>, and the new state. \<open>lib_next\<close> is
  \<open>dlsym(RTLD_NEXT, ...)\<close>, 0 when there is no such symbol.
\<close>

record 'w libs =
  lib_call :: "string \<Rightarrow> arg list \<Rightarrow> 'w \<Rightarrow> (arg option \<times> 'w) outcome"
  lib_next :: "string \<Rightarrow> nat"
  lib_log :: "int \<Rightarrow> string \<Rightarrow> string \<Rightarrow> arg list \<Rightarrow> 'w \<Rightarrow> 'w"
  lib_size_bits :: nat

type_synonym 'w shim = "'w \<Rightarrow> (arg option \<times> 'w) outcome"

text \<open>The call of a function for its effect.\<close>

definition call_void :: "'w libs \<Rightarrow> string \<Rightarrow> arg list \<Rightarrow> 'w shim" where
  "call_void L f args w = bindC (lib_call L f args w) (\<lambda>(v, w'). Done (None, w'))"

text \<open>The conversions of a format that has no \<open>%%\<close> in it; a log call with fewer arguments than conversions is undefined.\<close>

definition conversions :: "string \<Rightarrow> nat" where
  "conversions fmt = length (filter (\<lambda>c. c = CHR ''%'') fmt)"

definition ANDROID_LOG_DEBUG :: int where "ANDROID_LOG_DEBUG = 3"
definition ANDROID_LOG_INFO :: int where "ANDROID_LOG_INFO = 4"

definition alog :: "'w libs \<Rightarrow> int \<Rightarrow> string \<Rightarrow> string \<Rightarrow> arg list \<Rightarrow> 'w \<Rightarrow> 'w outcome" where
  "alog L prio tag fmt args w =
     (if length args < conversions fmt then Undef Uninitialised else Done (lib_log L prio tag fmt args w))"

section \<open>libmtk\_symbols: user interface, strings, parcels\<close>

definition ZN7android14SurfaceControl8setLayerEi :: "'w libs \<Rightarrow> int \<Rightarrow> 'w shim" where
  "ZN7android14SurfaceControl8setLayerEi L layer =
     call_void L ''_ZN7android14SurfaceControl8setLayerEj'' [UInt32 (word_of_int layer)]"

text \<open>The assignment goes to the parameter, not to what it points at.\<close>

definition ZN7android13AwesomePlayer24mtk_omx_get_current_timeEPx :: "'w libs \<Rightarrow> nat \<Rightarrow> 'w shim" where
  "ZN7android13AwesomePlayer24mtk_omx_get_current_timeEPx L time w = (let time = 2 ^ lib_size_bits L - 1 in Done (None, w))"

definition ZN7android6Parcel13writeString16EPKtm :: "'w libs \<Rightarrow> nat \<Rightarrow> u64 \<Rightarrow> 'w shim" where
  "ZN7android6Parcel13writeString16EPKtm L str len =
     call_void L ''_ZN7android6Parcel13writeString16EPKDsm'' [Ptr str, ULong len]"

definition ZN7android8String165setToEPKtj :: "'w libs \<Rightarrow> nat \<Rightarrow> u32 \<Rightarrow> 'w shim" where
  "ZN7android8String165setToEPKtj L str len = call_void L ''_ZN7android8String165setToEPKDsj'' [Ptr str, UInt32 len]"

definition ZN7android8String16C1EPKtj :: "'w libs \<Rightarrow> nat \<Rightarrow> u32 \<Rightarrow> 'w shim" where
  "ZN7android8String16C1EPKtj L o' len = call_void L ''_ZN7android8String16C1EPKDsj'' [Ptr o', UInt32 len]"

definition ZN7android19GraphicBufferMapper9lockYCbCr :: "'w libs \<Rightarrow> nat \<Rightarrow> int \<Rightarrow> nat \<Rightarrow> nat \<Rightarrow> 'w shim" where
  "ZN7android19GraphicBufferMapper9lockYCbCr L handle usage bounds ycbcr =
     call_void L ''_ZN7android19GraphicBufferMapper9lockYCbCrEPK13native_handlejRKNS_4RectEP13android_ycbcr''
       [Ptr handle, UInt32 (word_of_int usage), Ptr bounds, Ptr ycbcr]"

definition ZN7android19GraphicBufferMapper4lock :: "'w libs \<Rightarrow> nat \<Rightarrow> int \<Rightarrow> nat \<Rightarrow> nat \<Rightarrow> 'w shim" where
  "ZN7android19GraphicBufferMapper4lock L handle usage bounds vaddr =
     call_void L ''_ZN7android19GraphicBufferMapper4lockEPK13native_handlejRKNS_4RectEPPv''
       [Ptr handle, UInt32 (word_of_int usage), Ptr bounds, Ptr vaddr]"

definition GraphicBufferC1_string :: string where
  "GraphicBufferC1_string =
     ''_ZN7android13GraphicBufferC1EjjijNSt3__112basic_stringIcNS1_11char_traitsIcEENS1_9allocatorIcEEEE''"

definition GraphicBufferC1Ev :: string where "GraphicBufferC1Ev = ''_ZN7android13GraphicBufferC1Ev''"

definition DECKER_SHIM :: string where "DECKER_SHIM = ''DECKER_SHIM''"

text \<open>Both symbols are looked up, the one used is called without a test.\<close>

definition ZN7android13GraphicBufferC1Ejjij :: "'w libs \<Rightarrow> nat \<Rightarrow> u32 \<Rightarrow> u32 \<Rightarrow> int \<Rightarrow> u32 \<Rightarrow> 'w shim" where
  "ZN7android13GraphicBufferC1Ejjij L inst inWidth inHeight inFormat inUsage w =
     (let say = alog L ANDROID_LOG_INFO DECKER_SHIM;
          func = lib_next L GraphicBufferC1_string;
          func2 = lib_next L GraphicBufferC1Ev
      in bindC (say (''_ZN7android13GraphicBufferC1Ejjij: begin ...'' @ [NL]) [] w) (\<lambda>w.
         bindC (say (''_ZN7android13GraphicBufferC1Ejjij(instance = %08X, inWidth = %d, inHeight = %d, inFormat = %d, inUsage = %08X)'' @ [NL])
           [Ptr inst, UInt32 inWidth, UInt32 inHeight, UInt32 (word_of_int inFormat), UInt32 inUsage] w) (\<lambda>w.
         bindC (say (GraphicBufferC1_string @ '' [0x%08X]'' @ [NL]) [Ptr func] w) (\<lambda>w.
         bindC (say (GraphicBufferC1Ev @ '' [0x%08X]'' @ [NL]) [Ptr func2] w) (\<lambda>w.
         if func = 0 then Undef Null_Deref
         else bindC (lib_call L GraphicBufferC1_string
                [Ptr inst, UInt32 inWidth, UInt32 inHeight, Int32 inFormat, UInt32 inUsage, Str ''<Unknown>''] w) (\<lambda>(v, w).
              bindC (say (''_ZN7android13GraphicBufferC1Ejjij: end ...'' @ [NL]) [] w) (\<lambda>w. Done (None, w))))))))"

definition ZN7android5Fence4waitEj :: "'w libs \<Rightarrow> u32 \<Rightarrow> 'w shim" where
  "ZN7android5Fence4waitEj L timeout = call_void L ''_ZN7android5Fence4waitEi'' [Int32 (sint timeout)]"

section \<open>libmtk\_symbols: converters of ICU 53 and 55\<close>

definition ucnv_open_53 :: "'w libs \<Rightarrow> nat \<Rightarrow> nat \<Rightarrow> 'w shim" where
  "ucnv_open_53 L converterName err = lib_call L ''ucnv_open'' [Ptr converterName, Ptr err]"

definition ucnv_close_53 :: "'w libs \<Rightarrow> nat \<Rightarrow> 'w shim" where
  "ucnv_close_53 L converter = call_void L ''ucnv_close'' [Ptr converter]"

definition UCNV_TO_U_CALLBACK_STOP_53 :: "'w libs \<Rightarrow> nat \<Rightarrow> nat \<Rightarrow> nat \<Rightarrow> int \<Rightarrow> int \<Rightarrow> nat \<Rightarrow> 'w shim" where
  "UCNV_TO_U_CALLBACK_STOP_53 L ctx toUArgs codeUnits len reason err =
     call_void L ''UCNV_TO_U_CALLBACK_STOP'' [Ptr ctx, Ptr toUArgs, Ptr codeUnits, Int32 len, Int32 reason, Ptr err]"

definition UCNV_FROM_U_CALLBACK_STOP_53 :: "'w libs \<Rightarrow> nat \<Rightarrow> nat \<Rightarrow> nat \<Rightarrow> int \<Rightarrow> int \<Rightarrow> int \<Rightarrow> nat \<Rightarrow> 'w shim" where
  "UCNV_FROM_U_CALLBACK_STOP_53 L ctx fromUArgs codeUnits len codePoint reason err =
     call_void L ''UCNV_FROM_U_CALLBACK_STOP''
       [Ptr ctx, Ptr fromUArgs, Ptr codeUnits, Int32 len, Int32 codePoint, Int32 reason, Ptr err]"

definition ucnv_setToUCallBack_53 :: "'w libs \<Rightarrow> nat \<Rightarrow> nat \<Rightarrow> nat \<Rightarrow> nat \<Rightarrow> nat \<Rightarrow> nat \<Rightarrow> 'w shim" where
  "ucnv_setToUCallBack_53 L converter newAction newContext oldAction oldContext err =
     call_void L ''ucnv_setToUCallBack''
       [Ptr converter, Ptr newAction, Ptr newContext, Ptr oldAction, Ptr oldContext, Ptr err]"

definition ucnv_setFromUCallBack_53 :: "'w libs \<Rightarrow> nat \<Rightarrow> nat \<Rightarrow> nat \<Rightarrow> nat \<Rightarrow> nat \<Rightarrow> nat \<Rightarrow> 'w shim" where
  "ucnv_setFromUCallBack_53 L converter newAction newContext oldAction oldContext err =
     call_void L ''ucnv_setFromUCallBack''
       [Ptr converter, Ptr newAction, Ptr newContext, Ptr oldAction, Ptr oldContext, Ptr err]"

definition ucnv_convertEx_53 ::
  "'w libs \<Rightarrow> nat \<Rightarrow> nat \<Rightarrow> nat \<Rightarrow> nat \<Rightarrow> nat \<Rightarrow> nat \<Rightarrow> nat \<Rightarrow> nat \<Rightarrow> nat \<Rightarrow> nat \<Rightarrow> u8 \<Rightarrow> u8 \<Rightarrow> nat \<Rightarrow> 'w shim" where
  "ucnv_convertEx_53 L targetCnv sourceCnv target targetLimit source sourceLimit pivotStart pivotSource pivotTarget
     pivotLimit reset flush pErrorCode =
     call_void L ''ucnv_convertEx''
       [Ptr targetCnv, Ptr sourceCnv, Ptr target, Ptr targetLimit, Ptr source, Ptr sourceLimit,
        Ptr pivotStart, Ptr pivotSource, Ptr pivotTarget, Ptr pivotLimit, Bool8 reset, Bool8 flush,
        Ptr pErrorCode]"

definition ucnv_open_55 :: "'w libs \<Rightarrow> nat \<Rightarrow> nat \<Rightarrow> 'w shim" where
  "ucnv_open_55 L converterName err = lib_call L ''ucnv_open'' [Ptr converterName, Ptr err]"

definition ucnv_close_55 :: "'w libs \<Rightarrow> nat \<Rightarrow> 'w shim" where
  "ucnv_close_55 L converter = call_void L ''ucnv_close'' [Ptr converter]"

definition UCNV_TO_U_CALLBACK_STOP_55 :: "'w libs \<Rightarrow> nat \<Rightarrow> nat \<Rightarrow> nat \<Rightarrow> int \<Rightarrow> int \<Rightarrow> nat \<Rightarrow> 'w shim" where
  "UCNV_TO_U_CALLBACK_STOP_55 L ctx toUArgs codeUnits len reason err =
     call_void L ''UCNV_TO_U_CALLBACK_STOP'' [Ptr ctx, Ptr toUArgs, Ptr codeUnits, Int32 len, Int32 reason, Ptr err]"

definition UCNV_FROM_U_CALLBACK_STOP_55 :: "'w libs \<Rightarrow> nat \<Rightarrow> nat \<Rightarrow> nat \<Rightarrow> int \<Rightarrow> int \<Rightarrow> int \<Rightarrow> nat \<Rightarrow> 'w shim" where
  "UCNV_FROM_U_CALLBACK_STOP_55 L ctx fromUArgs codeUnits len codePoint reason err =
     call_void L ''UCNV_FROM_U_CALLBACK_STOP''
       [Ptr ctx, Ptr fromUArgs, Ptr codeUnits, Int32 len, Int32 codePoint, Int32 reason, Ptr err]"

definition ucnv_setToUCallBack_55 :: "'w libs \<Rightarrow> nat \<Rightarrow> nat \<Rightarrow> nat \<Rightarrow> nat \<Rightarrow> nat \<Rightarrow> nat \<Rightarrow> 'w shim" where
  "ucnv_setToUCallBack_55 L converter newAction newContext oldAction oldContext err =
     call_void L ''ucnv_setToUCallBack''
       [Ptr converter, Ptr newAction, Ptr newContext, Ptr oldAction, Ptr oldContext, Ptr err]"

definition ucnv_setFromUCallBack_55 :: "'w libs \<Rightarrow> nat \<Rightarrow> nat \<Rightarrow> nat \<Rightarrow> nat \<Rightarrow> nat \<Rightarrow> nat \<Rightarrow> 'w shim" where
  "ucnv_setFromUCallBack_55 L converter newAction newContext oldAction oldContext err =
     call_void L ''ucnv_setFromUCallBack''
       [Ptr converter, Ptr newAction, Ptr newContext, Ptr oldAction, Ptr oldContext, Ptr err]"

definition ucnv_convertEx_55 ::
  "'w libs \<Rightarrow> nat \<Rightarrow> nat \<Rightarrow> nat \<Rightarrow> nat \<Rightarrow> nat \<Rightarrow> nat \<Rightarrow> nat \<Rightarrow> nat \<Rightarrow> nat \<Rightarrow> nat \<Rightarrow> u8 \<Rightarrow> u8 \<Rightarrow> nat \<Rightarrow> 'w shim" where
  "ucnv_convertEx_55 L targetCnv sourceCnv target targetLimit source sourceLimit pivotStart pivotSource pivotTarget
     pivotLimit reset flush pErrorCode =
     call_void L ''ucnv_convertEx''
       [Ptr targetCnv, Ptr sourceCnv, Ptr target, Ptr targetLimit, Ptr source, Ptr sourceLimit,
        Ptr pivotStart, Ptr pivotSource, Ptr pivotTarget, Ptr pivotLimit, Bool8 reset, Bool8 flush,
        Ptr pErrorCode]"

section \<open>libmtk\_symbols: OpenSSL stubs\<close>

definition SSL_ctrl_stub :: string where "SSL_ctrl_stub = ''SSL_ctrl_stub''"

definition SSL_ctrl :: "'w libs \<Rightarrow> nat \<Rightarrow> int \<Rightarrow> int \<Rightarrow> nat \<Rightarrow> 'w \<Rightarrow> (int \<times> 'w) outcome" where
  "SSL_ctrl L ssl cmd larg parg w =
     bindC (alog L ANDROID_LOG_DEBUG SSL_ctrl_stub ''SSL_ctrl: ssl=%p cmd=%d larg=%ld parg=%p''
       [Ptr ssl, Int32 cmd, ULong (word_of_int larg), Ptr parg] w) (\<lambda>w. Done (- 1, w))"

definition SSL_CTX_ctrl :: "'w libs \<Rightarrow> nat \<Rightarrow> int \<Rightarrow> int \<Rightarrow> nat \<Rightarrow> 'w \<Rightarrow> (int \<times> 'w) outcome" where
  "SSL_CTX_ctrl L ctx cmd larg parg w =
     bindC (alog L ANDROID_LOG_DEBUG SSL_ctrl_stub ''SSL_CTX_ctrl: ctx=%p cmd=%d larg=%ld parg=%p''
       [Ptr ctx, Int32 cmd, ULong (word_of_int larg), Ptr parg] w) (\<lambda>w. Done (- 1, w))"

definition CRYPTO_free :: "'w libs \<Rightarrow> nat \<Rightarrow> 'w shim" where
  "CRYPTO_free L str = call_void L ''free'' [Ptr str]"

text \<open>The \<open>int\<close> becomes a \<open>size_t\<close> in the call of \<open>malloc\<close>.\<close>

definition CRYPTO_malloc :: "'w libs \<Rightarrow> int \<Rightarrow> nat \<Rightarrow> int \<Rightarrow> 'w shim" where
  "CRYPTO_malloc L num file line w =
     bindC (alog L ANDROID_LOG_DEBUG SSL_ctrl_stub ''CRYPTO_malloc: num=%d file=%s line=%d''
       [Int32 num, Ptr file, Int32 line] w)
     (\<lambda>w. lib_call L ''malloc'' [Size (nat (num mod 2 ^ lib_size_bits L))] w)"

definition CRYPTO_lock :: "'w libs \<Rightarrow> int \<Rightarrow> int \<Rightarrow> nat \<Rightarrow> int \<Rightarrow> 'w shim" where
  "CRYPTO_lock L mode type file line w =
     bindC (alog L ANDROID_LOG_DEBUG SSL_ctrl_stub ''CRYPTO_lock: mode=%d type=%d file=%s line=%d''
       [Int32 mode, Int32 type, Ptr file, Int32 line] w) (\<lambda>w. Done (None, w))"

section \<open>The extended log\<close>

record xlog_record =
  tag_str :: string
  fmt_str :: string
  prio :: int

text \<open>\<open>rec\<close> may be a null pointer; the buffer number is not used.\<close>

definition xlog_buf_printf :: "'w libs \<Rightarrow> int \<Rightarrow> xlog_record option \<Rightarrow> arg list \<Rightarrow> 'w \<Rightarrow> (int \<times> 'w) outcome" where
  "xlog_buf_printf L bufid rec args w =
     (case rec of
        None \<Rightarrow> Undef Null_Deref
      | Some r \<Rightarrow> bindC (alog L (prio r) (tag_str r) (fmt_str r) args w) (\<lambda>w. Done (0, w)))"

definition dl_unregister_notify_function :: "'w shim" where
  "dl_unregister_notify_function w = Done (None, w)"

definition dl_register_notify_function :: "nat \<Rightarrow> nat \<Rightarrow> 'w shim" where
  "dl_register_notify_function load_notify_function unload_notify_function w = Done (None, w)"

section \<open>libshims\<close>

definition ZN7android16MediaBufferGroupC1Ev :: "'w libs \<Rightarrow> 'w shim" where
  "ZN7android16MediaBufferGroupC1Ev L = lib_call L ''_ZN7android16MediaBufferGroupC1Ej'' [UInt32 0]"

text \<open>\<open>camera.cpp\<close>, whose two functions call each other; the first has five conversions and four arguments.\<close>

definition camera_GraphicBufferC1_string :: "'w libs \<Rightarrow> u32 \<Rightarrow> u32 \<Rightarrow> int \<Rightarrow> u32 \<Rightarrow> string \<Rightarrow> 'w shim" where
  "camera_GraphicBufferC1_string L inWidth inHeight inFormat inUsage requestorName w =
     bindC (alog L ANDROID_LOG_DEBUG DECKER_SHIM (GraphicBufferC1_string @ ''(%d,%d,%d,%d,%s)'' @ [NL])
       [UInt32 inWidth, UInt32 inHeight, UInt32 (word_of_int inFormat), Str requestorName] w) (\<lambda>w. Done (None, w))"

definition camera_GraphicBufferC1Ejjij :: "'w libs \<Rightarrow> u32 \<Rightarrow> u32 \<Rightarrow> int \<Rightarrow> u32 \<Rightarrow> 'w shim" where
  "camera_GraphicBufferC1Ejjij L inWidth inHeight inFormat inUsage w =
     (let say = alog L ANDROID_LOG_DEBUG DECKER_SHIM in
      bindC (say (''_ZN7android13GraphicBufferC1Ejjij: begin ...'' @ [NL]) [] w) (\<lambda>w.
      bindC (camera_GraphicBufferC1_string L inWidth inHeight inFormat inUsage ''<Unknown>'' w) (\<lambda>(v, w).
      bindC (say (''_ZN7android13GraphicBufferC1Ejjij: end ...'' @ [NL]) [] w) (\<lambda>w. Done (None, w)))))"

section \<open>Entry points by symbol\<close>

text \<open>The types of parameters, and the conversion of an argument to the type of the parameter it is passed to.\<close>

datatype param = TInt | TUInt | TULong | TBool | TPtr | TSize | TStr

primrec param_of :: "arg \<Rightarrow> param" where
  "param_of (Int32 v) = TInt"
| "param_of (UInt32 v) = TUInt"
| "param_of (ULong v) = TULong"
| "param_of (Bool8 v) = TBool"
| "param_of (Ptr a) = TPtr"
| "param_of (Size n) = TSize"
| "param_of (Str s) = TStr"

fun as_param :: "param \<Rightarrow> arg \<Rightarrow> arg" where
  "as_param TUInt (Int32 v) = UInt32 (word_of_int v)"
| "as_param TInt (UInt32 v) = Int32 (sint v)"
| "as_param p x = x"

text \<open>What an argument is in a register; an object has no such value.\<close>

primrec arg_bits :: "arg \<Rightarrow> nat option" where
  "arg_bits (Int32 v) = Some (nat (v mod 2 ^ 32))"
| "arg_bits (UInt32 v) = Some (unat v)"
| "arg_bits (ULong v) = Some (unat v)"
| "arg_bits (Bool8 v) = Some (unat v)"
| "arg_bits (Ptr a) = Some a"
| "arg_bits (Size n) = Some n"
| "arg_bits (Str s) = None"

lemma sint_bits: "nat (sint v mod 2 ^ 32) = unat (v :: u32)"
proof -
  have "uint v = sint v mod 2 ^ 32" using uint_sint [of v] unfolding take_bit_eq_mod by simp
  then show ?thesis by (simp only: unat_eq_nat_uint)
qed

lemma as_param_bits: "arg_bits (as_param p x) = arg_bits x"
  by (cases "(p, x)" rule: as_param.cases) (use sint_bits in \<open>simp_all add: unsigned_of_int take_bit_eq_mod\<close>)

definition int_arg :: "arg list \<Rightarrow> nat \<Rightarrow> int" where
  "int_arg a i = (case a ! i of Int32 v \<Rightarrow> v | _ \<Rightarrow> 0)"
definition uint_arg :: "arg list \<Rightarrow> nat \<Rightarrow> u32" where
  "uint_arg a i = (case a ! i of UInt32 v \<Rightarrow> v | _ \<Rightarrow> 0)"
definition ulong_arg :: "arg list \<Rightarrow> nat \<Rightarrow> u64" where
  "ulong_arg a i = (case a ! i of ULong v \<Rightarrow> v | _ \<Rightarrow> 0)"
definition bool_arg :: "arg list \<Rightarrow> nat \<Rightarrow> u8" where
  "bool_arg a i = (case a ! i of Bool8 v \<Rightarrow> v | _ \<Rightarrow> 0)"
definition ptr_arg :: "arg list \<Rightarrow> nat \<Rightarrow> nat" where
  "ptr_arg a i = (case a ! i of Ptr v \<Rightarrow> v | _ \<Rightarrow> 0)"

text \<open>
  The functions that only stand in for another one: the symbol a binary asks for with the parameters it passes, the symbol
  that serves it with its parameters, whether there is a result, and the code.
\<close>

definition forwarders ::
  "'w libs \<Rightarrow> (string \<times> param list \<times> string \<times> param list \<times> bool \<times> (arg list \<Rightarrow> 'w shim)) list" where
  "forwarders L =
     [
      (''_ZN7android14SurfaceControl8setLayerEi'', [TInt], ''_ZN7android14SurfaceControl8setLayerEj'', [TUInt], False,
        \<lambda>a. ZN7android14SurfaceControl8setLayerEi L (int_arg a 0)),
      (''_ZN7android6Parcel13writeString16EPKtm'', [TPtr, TULong], ''_ZN7android6Parcel13writeString16EPKDsm'', [TPtr, TULong], False,
        \<lambda>a. ZN7android6Parcel13writeString16EPKtm L (ptr_arg a 0) (ulong_arg a 1)),
      (''_ZN7android8String165setToEPKtj'', [TPtr, TUInt], ''_ZN7android8String165setToEPKDsj'', [TPtr, TUInt], False,
        \<lambda>a. ZN7android8String165setToEPKtj L (ptr_arg a 0) (uint_arg a 1)),
      (''_ZN7android8String16C1EPKtj'', [TPtr, TUInt], ''_ZN7android8String16C1EPKDsj'', [TPtr, TUInt], False,
        \<lambda>a. ZN7android8String16C1EPKtj L (ptr_arg a 0) (uint_arg a 1)),
      (''_ZN7android19GraphicBufferMapper9lockYCbCrEPK13native_handleiRKNS_4RectEP13android_ycbcr'', [TPtr, TInt, TPtr, TPtr], ''_ZN7android19GraphicBufferMapper9lockYCbCrEPK13native_handlejRKNS_4RectEP13android_ycbcr'', [TPtr, TUInt, TPtr, TPtr], False,
        \<lambda>a. ZN7android19GraphicBufferMapper9lockYCbCr L (ptr_arg a 0) (int_arg a 1) (ptr_arg a 2) (ptr_arg a 3)),
      (''_ZN7android19GraphicBufferMapper4lockEPK13native_handleiRKNS_4RectEPPv'', [TPtr, TInt, TPtr, TPtr], ''_ZN7android19GraphicBufferMapper4lockEPK13native_handlejRKNS_4RectEPPv'', [TPtr, TUInt, TPtr, TPtr], False,
        \<lambda>a. ZN7android19GraphicBufferMapper4lock L (ptr_arg a 0) (int_arg a 1) (ptr_arg a 2) (ptr_arg a 3)),
      (''_ZN7android5Fence4waitEj'', [TUInt], ''_ZN7android5Fence4waitEi'', [TInt], False,
        \<lambda>a. ZN7android5Fence4waitEj L (uint_arg a 0)),
      (''ucnv_open_53'', [TPtr, TPtr], ''ucnv_open'', [TPtr, TPtr], True,
        \<lambda>a. ucnv_open_53 L (ptr_arg a 0) (ptr_arg a 1)),
      (''ucnv_close_53'', [TPtr], ''ucnv_close'', [TPtr], False,
        \<lambda>a. ucnv_close_53 L (ptr_arg a 0)),
      (''UCNV_TO_U_CALLBACK_STOP_53'', [TPtr, TPtr, TPtr, TInt, TInt, TPtr], ''UCNV_TO_U_CALLBACK_STOP'', [TPtr, TPtr, TPtr, TInt, TInt, TPtr], False,
        \<lambda>a. UCNV_TO_U_CALLBACK_STOP_53 L (ptr_arg a 0) (ptr_arg a 1) (ptr_arg a 2) (int_arg a 3) (int_arg a 4) (ptr_arg a 5)),
      (''UCNV_FROM_U_CALLBACK_STOP_53'', [TPtr, TPtr, TPtr, TInt, TInt, TInt, TPtr], ''UCNV_FROM_U_CALLBACK_STOP'', [TPtr, TPtr, TPtr, TInt, TInt, TInt, TPtr], False,
        \<lambda>a. UCNV_FROM_U_CALLBACK_STOP_53 L (ptr_arg a 0) (ptr_arg a 1) (ptr_arg a 2) (int_arg a 3) (int_arg a 4) (int_arg a 5) (ptr_arg a 6)),
      (''ucnv_setToUCallBack_53'', [TPtr, TPtr, TPtr, TPtr, TPtr, TPtr], ''ucnv_setToUCallBack'', [TPtr, TPtr, TPtr, TPtr, TPtr, TPtr], False,
        \<lambda>a. ucnv_setToUCallBack_53 L (ptr_arg a 0) (ptr_arg a 1) (ptr_arg a 2) (ptr_arg a 3) (ptr_arg a 4) (ptr_arg a 5)),
      (''ucnv_setFromUCallBack_53'', [TPtr, TPtr, TPtr, TPtr, TPtr, TPtr], ''ucnv_setFromUCallBack'', [TPtr, TPtr, TPtr, TPtr, TPtr, TPtr], False,
        \<lambda>a. ucnv_setFromUCallBack_53 L (ptr_arg a 0) (ptr_arg a 1) (ptr_arg a 2) (ptr_arg a 3) (ptr_arg a 4) (ptr_arg a 5)),
      (''ucnv_convertEx_53'', [TPtr, TPtr, TPtr, TPtr, TPtr, TPtr, TPtr, TPtr, TPtr, TPtr, TBool, TBool, TPtr], ''ucnv_convertEx'', [TPtr, TPtr, TPtr, TPtr, TPtr, TPtr, TPtr, TPtr, TPtr, TPtr, TBool, TBool, TPtr], False,
        \<lambda>a. ucnv_convertEx_53 L (ptr_arg a 0) (ptr_arg a 1) (ptr_arg a 2) (ptr_arg a 3) (ptr_arg a 4) (ptr_arg a 5) (ptr_arg a 6) (ptr_arg a 7) (ptr_arg a 8) (ptr_arg a 9) (bool_arg a 10) (bool_arg a 11) (ptr_arg a 12)),
      (''ucnv_open_55'', [TPtr, TPtr], ''ucnv_open'', [TPtr, TPtr], True,
        \<lambda>a. ucnv_open_55 L (ptr_arg a 0) (ptr_arg a 1)),
      (''ucnv_close_55'', [TPtr], ''ucnv_close'', [TPtr], False,
        \<lambda>a. ucnv_close_55 L (ptr_arg a 0)),
      (''UCNV_TO_U_CALLBACK_STOP_55'', [TPtr, TPtr, TPtr, TInt, TInt, TPtr], ''UCNV_TO_U_CALLBACK_STOP'', [TPtr, TPtr, TPtr, TInt, TInt, TPtr], False,
        \<lambda>a. UCNV_TO_U_CALLBACK_STOP_55 L (ptr_arg a 0) (ptr_arg a 1) (ptr_arg a 2) (int_arg a 3) (int_arg a 4) (ptr_arg a 5)),
      (''UCNV_FROM_U_CALLBACK_STOP_55'', [TPtr, TPtr, TPtr, TInt, TInt, TInt, TPtr], ''UCNV_FROM_U_CALLBACK_STOP'', [TPtr, TPtr, TPtr, TInt, TInt, TInt, TPtr], False,
        \<lambda>a. UCNV_FROM_U_CALLBACK_STOP_55 L (ptr_arg a 0) (ptr_arg a 1) (ptr_arg a 2) (int_arg a 3) (int_arg a 4) (int_arg a 5) (ptr_arg a 6)),
      (''ucnv_setToUCallBack_55'', [TPtr, TPtr, TPtr, TPtr, TPtr, TPtr], ''ucnv_setToUCallBack'', [TPtr, TPtr, TPtr, TPtr, TPtr, TPtr], False,
        \<lambda>a. ucnv_setToUCallBack_55 L (ptr_arg a 0) (ptr_arg a 1) (ptr_arg a 2) (ptr_arg a 3) (ptr_arg a 4) (ptr_arg a 5)),
      (''ucnv_setFromUCallBack_55'', [TPtr, TPtr, TPtr, TPtr, TPtr, TPtr], ''ucnv_setFromUCallBack'', [TPtr, TPtr, TPtr, TPtr, TPtr, TPtr], False,
        \<lambda>a. ucnv_setFromUCallBack_55 L (ptr_arg a 0) (ptr_arg a 1) (ptr_arg a 2) (ptr_arg a 3) (ptr_arg a 4) (ptr_arg a 5)),
      (''ucnv_convertEx_55'', [TPtr, TPtr, TPtr, TPtr, TPtr, TPtr, TPtr, TPtr, TPtr, TPtr, TBool, TBool, TPtr], ''ucnv_convertEx'', [TPtr, TPtr, TPtr, TPtr, TPtr, TPtr, TPtr, TPtr, TPtr, TPtr, TBool, TBool, TPtr], False,
        \<lambda>a. ucnv_convertEx_55 L (ptr_arg a 0) (ptr_arg a 1) (ptr_arg a 2) (ptr_arg a 3) (ptr_arg a 4) (ptr_arg a 5) (ptr_arg a 6) (ptr_arg a 7) (ptr_arg a 8) (ptr_arg a 9) (bool_arg a 10) (bool_arg a 11) (ptr_arg a 12)),
      (''CRYPTO_free'', [TPtr], ''free'', [TPtr], False,
        \<lambda>a. CRYPTO_free L (ptr_arg a 0))]"

definition stands_for :: "'w libs \<Rightarrow> string \<times> param list \<times> string \<times> param list \<times> bool \<times> (arg list \<Rightarrow> 'w shim) \<Rightarrow> bool" where
  "stands_for L = (\<lambda>(sym, ps, target, pt, ret, run).
     \<forall>args w. map param_of args = ps \<longrightarrow>
       run args w = bindC (lib_call L target (map2 as_param pt args) w) (\<lambda>(v, w'). Done (if ret then v else None, w')))"

lemma param_of_iff:
  "param_of x = TInt \<longleftrightarrow> (\<exists>v. x = Int32 v)" "param_of x = TUInt \<longleftrightarrow> (\<exists>v. x = UInt32 v)"
  "param_of x = TULong \<longleftrightarrow> (\<exists>v. x = ULong v)" "param_of x = TBool \<longleftrightarrow> (\<exists>v. x = Bool8 v)"
  "param_of x = TPtr \<longleftrightarrow> (\<exists>v. x = Ptr v)"
  by (cases x; simp)+

lemma bindC_Done: "bindC m Done = m"
  by (cases m) simp_all

lemmas mtk_shims =
  ZN7android14SurfaceControl8setLayerEi_def ZN7android6Parcel13writeString16EPKtm_def ZN7android8String165setToEPKtj_def
  ZN7android8String16C1EPKtj_def ZN7android19GraphicBufferMapper9lockYCbCr_def ZN7android19GraphicBufferMapper4lock_def
  ZN7android5Fence4waitEj_def CRYPTO_free_def

lemmas icu_shims =
  ucnv_open_53_def ucnv_close_53_def UCNV_TO_U_CALLBACK_STOP_53_def UCNV_FROM_U_CALLBACK_STOP_53_def
  ucnv_setToUCallBack_53_def ucnv_setFromUCallBack_53_def ucnv_convertEx_53_def
  ucnv_open_55_def ucnv_close_55_def UCNV_TO_U_CALLBACK_STOP_55_def UCNV_FROM_U_CALLBACK_STOP_55_def
  ucnv_setToUCallBack_55_def ucnv_setFromUCallBack_55_def ucnv_convertEx_55_def

lemmas arg_selectors = int_arg_def uint_arg_def ulong_arg_def bool_arg_def ptr_arg_def

lemma forwarders_stand_for: "list_all (stands_for L) (forwarders L)"
  unfolding forwarders_def stands_for_def
  by (auto simp: map_eq_Cons_conv param_of_iff mtk_shims icu_shims call_void_def arg_selectors bindC_Done)


text \<open>On libraries that write down the calls they get.\<close>

definition recorder :: "(string \<times> arg list) list libs" where
  "recorder = \<lparr>lib_call = (\<lambda>f args w. Done (None, w @ [(f, args)])), lib_next = (\<lambda>f. 0), lib_log = (\<lambda>p t f args w. w), lib_size_bits = 32\<rparr>"


section \<open>The other functions\<close>

lemma alog_Done: "conversions fmt \<le> length args \<Longrightarrow> alog L p t fmt args w = Done (lib_log L p t fmt args w)"
  by (simp add: alog_def)

lemma graphic_buffer_conversions:
  "conversions (GraphicBufferC1_string @ s) = conversions s" "conversions (GraphicBufferC1Ev @ s) = conversions s"
  by (simp_all add: conversions_def GraphicBufferC1_string_def GraphicBufferC1Ev_def)

text \<open>
  The constructor of a graphic buffer needs the constructor with a name in one of the libraries loaded later: without it
  the call goes through a null pointer, with it there is exactly one call, on the object, with the requestor
  \<open><Unknown>\<close>. The constructor without parameters, looked up as well, does not matter.
\<close>

lemma graphic_buffer_constructor:
  "if lib_next L GraphicBufferC1_string = 0
   then ZN7android13GraphicBufferC1Ejjij L inst width height fmt usage w = Undef Null_Deref
   else \<exists>w1 f. ZN7android13GraphicBufferC1Ejjij L inst width height fmt usage w =
     bindC (lib_call L GraphicBufferC1_string
       [Ptr inst, UInt32 width, UInt32 height, Int32 fmt, UInt32 usage, Str ''<Unknown>''] w1) (\<lambda>(v, w). Done (None, f w))"
  by (simp add: ZN7android13GraphicBufferC1Ejjij_def alog_def graphic_buffer_conversions) (auto simp: conversions_def)

text \<open>The functions of \<open>camera.cpp\<close> are undefined whatever they are called with: the first logs with a missing argument, the
  second calls it.\<close>

lemma camera_shims_undefined:
  "camera_GraphicBufferC1_string L width height fmt usage name w = Undef Uninitialised"
  "camera_GraphicBufferC1Ejjij L width height fmt usage w = Undef Uninitialised"
proof -
  show one: "camera_GraphicBufferC1_string L width height fmt usage name w = Undef Uninitialised" for name w
    by (simp add: camera_GraphicBufferC1_string_def alog_def graphic_buffer_conversions) (simp add: conversions_def)
  show "camera_GraphicBufferC1Ejjij L width height fmt usage w = Undef Uninitialised"
    by (simp add: camera_GraphicBufferC1Ejjij_def one alog_def)
qed

text \<open>A negative size asks \<open>malloc\<close> for more than half of the address space; any other for what it says.\<close>

lemma crypto_malloc_request:
  assumes "- (2 ^ 31) \<le> num" "num < 2 ^ 31" "lib_size_bits L = 32 \<or> lib_size_bits L = 64"
  shows "\<exists>w1 n. CRYPTO_malloc L num file line w = lib_call L ''malloc'' [Size n] w1 \<and>
    (if 0 \<le> num then int n = num else 2 ^ (lib_size_bits L - 1) \<le> n)"
proof -
  have run: "\<exists>w1. CRYPTO_malloc L num file line w = lib_call L ''malloc'' [Size (nat (num mod 2 ^ lib_size_bits L))] w1"
    by (simp add: CRYPTO_malloc_def alog_def conversions_def) blast
  have "num mod 2 ^ lib_size_bits L = (if 0 \<le> num then num else num + 2 ^ lib_size_bits L)"
  proof (cases "0 \<le> num")
    case False
    have "num mod 2 ^ lib_size_bits L = (num + 2 ^ lib_size_bits L) mod 2 ^ lib_size_bits L" by simp
    also have "\<dots> = num + 2 ^ lib_size_bits L" using assms False by (intro mod_pos_pos_trivial) auto
    finally show ?thesis using False by simp
  qed (use assms in auto)
  then have "if 0 \<le> num then int (nat (num mod 2 ^ lib_size_bits L)) = num
      else 2 ^ (lib_size_bits L - 1) \<le> nat (num mod 2 ^ lib_size_bits L)"
    using assms by (auto simp: le_nat_iff)
  then show ?thesis using run by blast
qed

text \<open>The OpenSSL stubs refuse every request, and the extended log returns 0 and hands on priority, tag, format and arguments,
  wherever the format has its arguments.\<close>

lemma stub_results:
  "\<exists>w'. SSL_ctrl L ssl cmd larg parg w = Done (- 1, w')" "\<exists>w'. SSL_CTX_ctrl L ctx cmd larg parg w = Done (- 1, w')"
  "\<exists>w'. CRYPTO_lock L mode type file line w = Done (None, w')"
  by (simp_all add: SSL_ctrl_def SSL_CTX_ctrl_def CRYPTO_lock_def alog_def conversions_def)

lemma xlog_forwards:
  "conversions (fmt_str r) \<le> length args \<Longrightarrow>
    xlog_buf_printf L bufid (Some r) args w = Done (0, lib_log L (prio r) (tag_str r) (fmt_str r) args w)"
  by (simp add: xlog_buf_printf_def alog_Done)

end
